(* ===== verification/Prelude.thy ===== *)
theory Prelude
  imports Complex_Main
begin

text \<open>
  The vocabulary the component theories share: Python strings as sequences of code points, the
  string methods the sources call on them, UTF-8, decimal rendering, JSON values, and the lemmas
  about them that the component proofs use.

  A Python \<open>str\<close> is a sequence of Unicode code points, so it is modelled as a list of
  natural numbers, and \<open>len\<close>, slicing and indexing count code points, as in Python.
  The large tables of the Unicode database (lower-casing, the word-character class) are parameters
  of the definitions that use them; the small ones (white space, line breaks) are written out.
  A Python float is modelled by a rational number: the sources compare floats and round them, and
  never depend on a rounding error.
\<close>

section \<open>Strings\<close>

type_synonym pystr = "nat list"
type_synonym bytes = "nat list"

named_theorems py_eval \<open>definitions that evaluate string operations on a concrete string\<close>

text \<open>A literal of the source: the code points of an ASCII string.\<close>

definition lit :: "string \<Rightarrow> pystr" where
  "lit s = map of_char s"

lemma lit_inject [simp]: "(lit s = lit t) = (s = t)"
proof -
  have "inj (of_char :: char \<Rightarrow> nat)"
    by (rule injI) simp
  then show ?thesis by (simp add: lit_def)
qed

lemma lit_Nil [simp]: "lit [] = []"
  by (simp add: lit_def)

lemma lit_eq_Nil [simp]: "(lit s = []) = (s = [])" "([] = lit s) = (s = [])"
  by (simp_all add: lit_def)

lemma length_lit [simp]: "length (lit s) = length s"
  by (simp add: lit_def)

subsection \<open>White space, stripping, splitting, joining\<close>

text \<open>The code points for which \<open>str.isspace\<close> holds; \<open>\\s\<close> in a pattern is the same class.\<close>

definition py_space :: "nat \<Rightarrow> bool" where
  "py_space c \<longleftrightarrow> (9 \<le> c \<and> c \<le> 13) \<or> (28 \<le> c \<and> c \<le> 32) \<or> c = 133 \<or> c = 160 \<or> c = 5760
     \<or> (8192 \<le> c \<and> c \<le> 8202) \<or> c = 8232 \<or> c = 8233 \<or> c = 8239 \<or> c = 8287 \<or> c = 12288"

definition lstrip_by :: "(nat \<Rightarrow> bool) \<Rightarrow> pystr \<Rightarrow> pystr" where
  "lstrip_by P s = dropWhile P s"

definition rstrip_by :: "(nat \<Rightarrow> bool) \<Rightarrow> pystr \<Rightarrow> pystr" where
  "rstrip_by P s = rev (dropWhile P (rev s))"

definition strip_by :: "(nat \<Rightarrow> bool) \<Rightarrow> pystr \<Rightarrow> pystr" where
  "strip_by P s = rstrip_by P (lstrip_by P s)"

abbreviation py_strip :: "pystr \<Rightarrow> pystr" where
  "py_strip \<equiv> strip_by py_space"

abbreviation py_rstrip :: "pystr \<Rightarrow> pystr" where
  "py_rstrip \<equiv> rstrip_by py_space"

lemma rstrip_by_Nil [simp]: "rstrip_by P [] = []"
  by (simp add: rstrip_by_def)

lemma rstrip_by_prefix: "\<exists>t. s = rstrip_by P s @ t \<and> (\<forall>c\<in>set t. P c)"
proof (intro exI conjI)
  show "s = rstrip_by P s @ rev (takeWhile P (rev s))"
  proof -
    have "rev (rev s) = rev (takeWhile P (rev s) @ dropWhile P (rev s))"
      by (simp only: takeWhile_dropWhile_id)
    then show ?thesis by (simp only: rstrip_by_def rev_append rev_rev_ident)
  qed
  show "\<forall>c\<in>set (rev (takeWhile P (rev s))). P c"
    by (auto dest: set_takeWhileD)
qed

lemma rstrip_by_last: "rstrip_by P s \<noteq> [] \<Longrightarrow> \<not> P (last (rstrip_by P s))"
  by (simp add: rstrip_by_def last_rev hd_dropWhile)

lemma rstrip_by_idem [simp]: "rstrip_by P (rstrip_by P s) = rstrip_by P s"
proof (cases "rstrip_by P s = []")
  case True
  then show ?thesis by simp
next
  case False
  then have "\<not> P (hd (rev (rstrip_by P s)))"
    using rstrip_by_last[OF False] by (simp add: hd_rev)
  then have "dropWhile P (rev (rstrip_by P s)) = rev (rstrip_by P s)"
    by (simp add: dropWhile_eq_self_iff)
  then show ?thesis
    by (simp add: rstrip_by_def[of P "rstrip_by P s"])
qed

lemma strip_by_hd: "strip_by P s \<noteq> [] \<Longrightarrow> \<not> P (hd (strip_by P s))"
proof -
  assume ne: "strip_by P s \<noteq> []"
  obtain t where t: "lstrip_by P s = strip_by P s @ t"
    using rstrip_by_prefix[of "lstrip_by P s" P] by (auto simp: strip_by_def)
  with ne have "hd (strip_by P s) = hd (lstrip_by P s)" "lstrip_by P s \<noteq> []"
    by (auto simp: hd_append)
  then show "\<not> P (hd (strip_by P s))"
    by (simp add: lstrip_by_def hd_dropWhile)
qed

lemma strip_by_last: "strip_by P s \<noteq> [] \<Longrightarrow> \<not> P (last (strip_by P s))"
  by (simp add: strip_by_def rstrip_by_last)

lemma strip_by_idem [simp]: "strip_by P (strip_by P s) = strip_by P s"
proof (cases "strip_by P s = []")
  case True
  then show ?thesis by (simp add: strip_by_def lstrip_by_def)
next
  case False
  then have "lstrip_by P (strip_by P s) = strip_by P s"
    using strip_by_hd[OF False] by (simp add: lstrip_by_def dropWhile_eq_self_iff)
  then show ?thesis by (simp add: strip_by_def)
qed

lemma strip_by_ends:
  assumes "s \<noteq> []" "\<not> P (hd s)" "\<not> P (last s)" shows "strip_by P s = s"
proof -
  have "dropWhile P s = s" using assms by (cases s) auto
  moreover have "dropWhile P (rev s) = rev s" using assms by (cases s rule: rev_cases) auto
  ultimately show ?thesis by (simp add: strip_by_def lstrip_by_def rstrip_by_def)
qed

lemma strip_by_all: "\<forall>c\<in>set s. P c \<Longrightarrow> strip_by P s = []"
proof -
  assume "\<forall>c\<in>set s. P c"
  then have "lstrip_by P s = []" by (simp add: lstrip_by_def dropWhile_eq_Nil_conv)
  then show ?thesis by (simp add: strip_by_def)
qed

lemma strip_by_none: "\<forall>c\<in>set s. \<not> P c \<Longrightarrow> strip_by P s = s"
proof -
  assume none: "\<forall>c\<in>set s. \<not> P c"
  have "dropWhile P t = t" if "set t = set s" for t
    using none that by (cases t) auto
  then have "dropWhile P s = s" "dropWhile P (rev s) = rev s" by simp_all
  then show ?thesis by (simp add: strip_by_def lstrip_by_def rstrip_by_def)
qed

text \<open>\<open>str.split(sep)\<close> for a one-character separator and \<open>sep.join(parts)\<close>.\<close>

fun split_on :: "nat \<Rightarrow> pystr \<Rightarrow> pystr list" where
  "split_on sep [] = [[]]"
| "split_on sep (c # cs) =
     (if c = sep then [] # split_on sep cs
      else (case split_on sep cs of [] \<Rightarrow> [[c]] | p # ps \<Rightarrow> (c # p) # ps))"

fun py_join :: "pystr \<Rightarrow> pystr list \<Rightarrow> pystr" where
  "py_join sep [] = []"
| "py_join sep [p] = p"
| "py_join sep (p # q # ps) = p @ sep @ py_join sep (q # ps)"

lemma split_on_ne [simp]: "split_on sep s \<noteq> []"
  by (cases s) (auto split: list.splits)

lemma py_join_Cons: "ps \<noteq> [] \<Longrightarrow> py_join sep (p # ps) = p @ sep @ py_join sep ps"
  by (cases ps) auto

lemma join_split_on: "py_join [sep] (split_on sep s) = s"
proof (induction s)
  case Nil
  then show ?case by simp
next
  case (Cons c cs)
  obtain p ps where sp: "split_on sep cs = p # ps"
    by (cases "split_on sep cs") auto
  with Cons show ?case
    by (cases ps) (auto simp: py_join_Cons)
qed

lemma split_on_no_sep: "p \<in> set (split_on sep s) \<Longrightarrow> sep \<notin> set p"
  by (induction s arbitrary: p) (auto split: if_splits list.splits)

lemma split_on_id: "sep \<notin> set s \<Longrightarrow> split_on sep s = [s]"
  by (induction s) auto

lemma split_on_line: "sep \<notin> set s \<Longrightarrow> split_on sep (s @ sep # t) = s # split_on sep t"
  by (induction s) (auto split: list.splits)

lemma split_on_py_join: "ps \<noteq> [] \<Longrightarrow> \<forall>p\<in>set ps. sep \<notin> set p \<Longrightarrow> split_on sep (py_join [sep] ps) = ps"
  by (induction ps rule: induct_list012) (auto simp: split_on_id split_on_line)

subsection \<open>Substrings\<close>

text \<open>\<open>s.startswith(p)\<close> and \<open>sub in s\<close>.\<close>

definition py_startswith :: "pystr \<Rightarrow> pystr \<Rightarrow> bool" where
  "py_startswith s p \<longleftrightarrow> take (length p) s = p"

fun py_in :: "pystr \<Rightarrow> pystr \<Rightarrow> bool" where
  "py_in sub [] = (sub = [])"
| "py_in sub (c # cs) = (py_startswith (c # cs) sub \<or> py_in sub cs)"

lemma py_startswith_iff: "py_startswith s p \<longleftrightarrow> (\<exists>t. s = p @ t)"
  unfolding py_startswith_def by (metis append_eq_conv_conj append_take_drop_id)

lemma py_in_iff: "py_in sub s \<longleftrightarrow> (\<exists>a b. s = a @ sub @ b)"
proof (induction s)
  case Nil
  then show ?case by auto
next
  case (Cons c cs)
  show ?case
  proof
    assume "py_in sub (c # cs)"
    then consider "py_startswith (c # cs) sub" | "py_in sub cs" by auto
    then show "\<exists>a b. c # cs = a @ sub @ b"
    proof cases
      case 1
      then show ?thesis by (metis append_Nil py_startswith_iff)
    next
      case 2
      then show ?thesis using Cons by (metis append_Cons)
    qed
  next
    assume "\<exists>a b. c # cs = a @ sub @ b"
    then obtain a b where ab: "c # cs = a @ sub @ b" by blast
    show "py_in sub (c # cs)"
    proof (cases a)
      case Nil
      with ab have "py_startswith (c # cs) sub"
        unfolding py_startswith_iff by (metis append_Nil)
      then show ?thesis by simp
    next
      case (Cons x a')
      with ab have "cs = a' @ sub @ b" by simp
      then have "py_in sub cs" using Cons.IH by blast
      then show ?thesis by simp
    qed
  qed
qed

text \<open>\<open>str.splitlines()\<close>: the line boundaries of Python, with \<open>\\r\\n\<close> as one boundary.\<close>

definition py_linebreak :: "nat \<Rightarrow> bool" where
  "py_linebreak c \<longleftrightarrow> (10 \<le> c \<and> c \<le> 13) \<or> (28 \<le> c \<and> c \<le> 30) \<or> c = 133 \<or> c = 8232 \<or> c = 8233"

fun splitlines_from :: "pystr \<Rightarrow> pystr \<Rightarrow> pystr list" where
  "splitlines_from cur [] = (if cur = [] then [] else [cur])"
| "splitlines_from cur (c # cs) =
     (if c = 13 \<and> cs \<noteq> [] \<and> hd cs = 10 then cur # splitlines_from [] (tl cs)
      else if py_linebreak c then cur # splitlines_from [] cs
      else splitlines_from (cur @ [c]) cs)"

definition py_splitlines :: "pystr \<Rightarrow> pystr list" where
  "py_splitlines s = splitlines_from [] s"

lemma splitlines_no_break:
  "l \<in> set (splitlines_from cur s) \<Longrightarrow> \<forall>c\<in>set cur. \<not> py_linebreak c \<Longrightarrow>
   \<forall>c\<in>set l. \<not> py_linebreak c"
proof (induction cur s rule: splitlines_from.induct)
  case (1 cur)
  then show ?case by (simp split: if_splits)
next
  case (2 cur c cs)
  consider (crlf) "c = 13 \<and> cs \<noteq> [] \<and> hd cs = 10" | (brk) "\<not> (c = 13 \<and> cs \<noteq> [] \<and> hd cs = 10)" "py_linebreak c"
    | (plain) "\<not> (c = 13 \<and> cs \<noteq> [] \<and> hd cs = 10)" "\<not> py_linebreak c"
    by blast
  then show ?case
  proof cases
    case crlf
    then have "l = cur \<or> l \<in> set (splitlines_from [] (tl cs))"
      using "2.prems"(1) by simp
    then show ?thesis using "2.IH"(1)[OF crlf] "2.prems"(2) by auto
  next
    case brk
    then have "l = cur \<or> l \<in> set (splitlines_from [] cs)"
      using "2.prems"(1) by (simp only: splitlines_from.simps if_False if_True simp_thms list.set insert_iff)
    then show ?thesis using "2.IH"(2)[OF brk] "2.prems"(2) by auto
  next
    case plain
    then have "l \<in> set (splitlines_from (cur @ [c]) cs)"
      using "2.prems"(1) by (simp only: splitlines_from.simps if_False simp_thms)
    then show ?thesis using "2.IH"(3)[OF plain] "2.prems"(2) plain by auto
  qed
qed

section \<open>UTF-8\<close>

text \<open>\<open>s.encode('utf-8')\<close> raises on a lone surrogate; that is the value None.\<close>

definition is_surrogate :: "nat \<Rightarrow> bool" where
  "is_surrogate c \<longleftrightarrow> 55296 \<le> c \<and> c \<le> 57343"

definition utf8_cp :: "nat \<Rightarrow> bytes" where
  "utf8_cp c =
     (if c < 128 then [c]
      else if c < 2048 then [192 + c div 64, 128 + c mod 64]
      else if c < 65536 then [224 + c div 4096, 128 + (c div 64) mod 64, 128 + c mod 64]
      else [240 + c div 262144, 128 + (c div 4096) mod 64, 128 + (c div 64) mod 64, 128 + c mod 64])"

definition utf8 :: "pystr \<Rightarrow> bytes" where
  "utf8 s = concat (map utf8_cp s)"

definition py_encode :: "pystr \<Rightarrow> bytes option" where
  "py_encode s = (if \<exists>c\<in>set s. is_surrogate c then None else Some (utf8 s))"

lemma utf8_Nil [simp]: "utf8 [] = []"
  by (simp add: utf8_def)

lemma utf8_append [simp]: "utf8 (s @ t) = utf8 s @ utf8 t"
  by (simp add: utf8_def)

lemma utf8_Cons: "utf8 (c # s) = utf8_cp c @ utf8 s"
  by (simp add: utf8_def)

lemma utf8_cp_length: "1 \<le> length (utf8_cp c)" "length (utf8_cp c) \<le> 4"
  by (simp_all add: utf8_cp_def)

lemma utf8_length_ge: "length s \<le> length (utf8 s)"
proof (induction s)
  case (Cons c s)
  then show ?case using utf8_cp_length(1)[of c] by (simp add: utf8_Cons)
qed simp

lemma utf8_length_le: "length (utf8 s) \<le> 4 * length s"
proof (induction s)
  case (Cons c s)
  then show ?case using utf8_cp_length(2)[of c] by (simp add: utf8_Cons)
qed simp

lemma utf8_ascii: "\<forall>c\<in>set s. c < 128 \<Longrightarrow> utf8 s = s"
  by (induction s) (auto simp: utf8_Cons utf8_cp_def)

lemmas prelude_eval [py_eval] =
  lit_def py_space_def lstrip_by_def rstrip_by_def strip_by_def py_startswith_def py_linebreak_def
  py_splitlines_def is_surrogate_def utf8_cp_def utf8_def py_encode_def

section \<open>Numbers\<close>

text \<open>\<open>int(x)\<close> of a float truncates towards zero; \<open>str(n)\<close> of an int is its decimal numeral.\<close>

definition py_int :: "rat \<Rightarrow> int" where
  "py_int x = (if 0 \<le> x then \<lfloor>x\<rfloor> else \<lceil>x\<rceil>)"

lemma py_int_nonneg: "0 \<le> x \<Longrightarrow> 0 \<le> py_int x"
  by (simp add: py_int_def)

fun digits_of :: "nat \<Rightarrow> pystr" where
  "digits_of n = (if n < 10 then [48 + n] else digits_of (n div 10) @ [48 + n mod 10])"

declare digits_of.simps [simp del]

definition py_str_int :: "int \<Rightarrow> pystr" where
  "py_str_int i = (if i < 0 then 45 # digits_of (nat (- i)) else digits_of (nat i))"

lemma digits_of_range: "c \<in> set (digits_of n) \<Longrightarrow> 48 \<le> c \<and> c \<le> 57"
proof (induction n rule: digits_of.induct)
  case (1 n)
  show ?case
  proof (cases "n < 10")
    case True
    with "1.prems" show ?thesis by (simp add: digits_of.simps[of n])
  next
    case False
    with "1.prems" have "c \<in> set (digits_of (n div 10)) \<or> c = 48 + n mod 10"
      by (auto simp: digits_of.simps[of n])
    then show ?thesis
    proof
      assume "c \<in> set (digits_of (n div 10))"
      then show ?thesis by (rule "1.IH"[OF False])
    next
      assume "c = 48 + n mod 10"
      moreover have "n mod 10 < 10" by simp
      ultimately show ?thesis by linarith
    qed
  qed
qed

text \<open>Reading a decimal numeral back; the inverse of \<open>digits_of\<close>.\<close>

definition num_of_digits :: "pystr \<Rightarrow> nat" where
  "num_of_digits s = foldl (\<lambda>a d. a * 10 + (d - 48)) 0 s"

lemma num_of_digits_of [simp]: "num_of_digits (digits_of n) = n"
proof (induction n rule: digits_of.induct)
  case (1 n)
  show ?case
  proof (cases "n < 10")
    case True
    then show ?thesis by (simp add: digits_of.simps[of n] num_of_digits_def)
  next
    case False
    with 1 show ?thesis by (simp add: digits_of.simps[of n] num_of_digits_def)
  qed
qed

lemma digits_of_inject [simp]: "(digits_of m = digits_of n) = (m = n)"
  by (metis num_of_digits_of)

section \<open>JSON values\<close>

text \<open>The Python values a decoded JSON document holds; an object keeps its keys in order.\<close>

datatype pyval =
    PNone
  | PBool bool
  | PInt int
  | PFloat rat
  | PStr pystr
  | PList "pyval list"
  | PDict "(pystr \<times> pyval) list"

type_synonym payload = "(pystr \<times> pyval) list"

text \<open>\<open>d[k] = v\<close> on a dict: the key keeps its place when it is present.\<close>

fun dict_set :: "('k \<times> 'v) list \<Rightarrow> 'k \<Rightarrow> 'v \<Rightarrow> ('k \<times> 'v) list" where
  "dict_set [] k v = [(k, v)]"
| "dict_set ((k', v') # d) k v = (if k' = k then (k, v) # d else (k', v') # dict_set d k v)"

lemma map_of_dict_set [simp]: "map_of (dict_set d k v) = (map_of d)(k \<mapsto> v)"
  by (induction d k v rule: dict_set.induct) (auto simp: fun_eq_iff)

lemma dict_set_keys: "fst ` set (dict_set d k v) = insert k (fst ` set d)"
  by (induction d k v rule: dict_set.induct) auto

lemma dict_set_distinct: "distinct (map fst d) \<Longrightarrow> distinct (map fst (dict_set d k v))"
proof (induction d k v rule: dict_set.induct)
  case (1 k v)
  then show ?case by simp
next
  case (2 k' v' d k v)
  have "fst ` set (dict_set d k v) = insert k (fst ` set d)"
    by (rule dict_set_keys)
  with 2 show ?case by auto
qed

section \<open>Lists keyed by a field\<close>

lemma find_by_key: "distinct (map f xs) \<Longrightarrow> x \<in> set xs \<Longrightarrow> List.find (\<lambda>r. f r = f x) xs = Some x"
proof (induction xs)
  case (Cons y ys)
  then show ?case by (cases "x = y") (auto simp: image_iff)
qed simp

end
