(* ===== verification/Acl.thy ===== *)
theory Acl
  imports Prelude
begin

text \<open>
  The retrieved-chunk data model (\<open>workers/.../generate/models.py\<close>, class Chunk) and the
  post-retrieval access filter (\<open>workers/.../services/acl.py\<close>). Tiers are strings, as in the
  source: an unknown string is a possible value and the filter has to fail closed on it.
\<close>

section \<open>Chunks and tiers\<close>

record chunk =
  ch_source_path :: pystr
  ch_ord :: int
  ch_text :: pystr
  ch_score :: rat
  ch_access_tier :: pystr

definition ALLOWED_ACCESS_TIERS_BY_USER_TIER :: "pystr \<Rightarrow> pystr set option" where
  "ALLOWED_ACCESS_TIERS_BY_USER_TIER t =
     (if t = lit ''anonymous'' then Some {lit ''public''}
      else if t = lit ''members'' then Some {lit ''public'', lit ''members''}
      else if t = lit ''author_only'' then Some {lit ''public'', lit ''members'', lit ''author_only''}
      else None)"

text \<open>\<open>ALLOWED_ACCESS_TIERS_BY_USER_TIER.get(user_tier, frozenset())\<close>.\<close>

definition allowed_tiers :: "pystr \<Rightarrow> pystr set" where
  "allowed_tiers user_tier =
     (case ALLOWED_ACCESS_TIERS_BY_USER_TIER user_tier of None \<Rightarrow> {} | Some s \<Rightarrow> s)"

definition KNOWN_TIERS :: "pystr set" where
  "KNOWN_TIERS = {lit ''public'', lit ''members'', lit ''author_only''}"

section \<open>The filter\<close>

record filter_result =
  visible :: "chunk list"
  blocked_count :: int

fun filter_loop :: "pystr set \<Rightarrow> chunk list \<Rightarrow> chunk list \<Rightarrow> int \<Rightarrow> filter_result" where
  "filter_loop allowed [] vis blocked = \<lparr>visible = vis, blocked_count = blocked\<rparr>"
| "filter_loop allowed (c # cs) vis blocked =
     (if ch_access_tier c \<notin> KNOWN_TIERS then filter_loop allowed cs vis (blocked + 1)
      else if ch_access_tier c \<in> allowed then filter_loop allowed cs (vis @ [c]) blocked
      else filter_loop allowed cs vis (blocked + 1))"

definition filter_chunks_by_tier :: "chunk list \<Rightarrow> pystr \<Rightarrow> filter_result" where
  "filter_chunks_by_tier chunks user_tier = filter_loop (allowed_tiers user_tier) chunks [] 0"

text \<open>The specification the filter implements: may a user of this tier see this chunk?\<close>

definition may_see :: "pystr \<Rightarrow> chunk \<Rightarrow> bool" where
  "may_see user_tier c \<longleftrightarrow> ch_access_tier c \<in> allowed_tiers user_tier"

named_theorems tier_simps \<open>the tier tables\<close>

lemmas tier_defs [tier_simps] =
  ALLOWED_ACCESS_TIERS_BY_USER_TIER_def allowed_tiers_def KNOWN_TIERS_def may_see_def

lemma allowed_known: "allowed_tiers t \<subseteq> KNOWN_TIERS"
  by (auto simp: tier_simps split: if_splits)

lemma filter_loop_spec:
  "filter_loop (allowed_tiers t) cs vis b =
     \<lparr>visible = vis @ filter (may_see t) cs,
      blocked_count = b + int (length (filter (\<lambda>c. \<not> may_see t c) cs))\<rparr>"
proof (induction cs arbitrary: vis b)
  case Nil
  then show ?case by simp
next
  case (Cons c cs)
  have "ch_access_tier c \<notin> KNOWN_TIERS \<Longrightarrow> \<not> may_see t c"
    using allowed_known[of t] by (auto simp: may_see_def)
  with Cons show ?case by (simp add: may_see_def)
qed

lemma visible_filter: "visible (filter_chunks_by_tier cs t) = filter (may_see t) cs"
  by (simp add: filter_chunks_by_tier_def filter_loop_spec)

lemma blocked_filter:
  "blocked_count (filter_chunks_by_tier cs t) = int (length (filter (\<lambda>c. \<not> may_see t c) cs))"
  by (simp add: filter_chunks_by_tier_def filter_loop_spec)

lemma blocked_nonneg [simp]: "0 \<le> blocked_count (filter_chunks_by_tier cs t)"
  by (simp add: blocked_filter)

lemma nothing_visible_all_blocked:
  "visible (filter_chunks_by_tier cs t) = [] \<Longrightarrow>
   blocked_count (filter_chunks_by_tier cs t) = int (length cs)"
  by (simp add: visible_filter blocked_filter filter_empty_conv)

text \<open>Every chunk is either visible or counted as blocked, never both and never lost.\<close>

lemma visible_blocked_partition:
  "int (length (visible (filter_chunks_by_tier cs t))) + blocked_count (filter_chunks_by_tier cs t)
     = int (length cs)"
  using sum_length_filter_compl[of "may_see t" cs] by (simp add: visible_filter blocked_filter)

lemma may_see_monotone:
  "may_see (lit ''anonymous'') c \<Longrightarrow> may_see (lit ''members'') c"
  "may_see (lit ''members'') c \<Longrightarrow> may_see (lit ''author_only'') c"
  by (auto simp: tier_simps)

section \<open>Properties\<close>

text \<open>C1: The access filter returns, in retrieval order, exactly the chunks whose tier the table
  grants to the user's tier, and counts every other chunk as blocked. In particular it fails closed:
  a chunk of an unknown tier, or any chunk for an unknown user tier, is never visible.\<close>

theorem acl_filter_exact:
  "visible (filter_chunks_by_tier cs t) = filter (\<lambda>c. ch_access_tier c \<in> allowed_tiers t) cs
   \<and> int (length (visible (filter_chunks_by_tier cs t))) + blocked_count (filter_chunks_by_tier cs t)
       = int (length cs)
   \<and> (\<forall>c. c \<in> set (visible (filter_chunks_by_tier cs t)) \<longrightarrow> ch_access_tier c \<in> KNOWN_TIERS)
   \<and> (t \<notin> {lit ''anonymous'', lit ''members'', lit ''author_only''} \<longrightarrow>
        visible (filter_chunks_by_tier cs t) = [])"
proof (intro conjI allI impI)
  show "visible (filter_chunks_by_tier cs t) = filter (\<lambda>c. ch_access_tier c \<in> allowed_tiers t) cs"
    by (auto simp: visible_filter may_see_def intro: filter_cong)
  show "int (length (visible (filter_chunks_by_tier cs t)))
      + blocked_count (filter_chunks_by_tier cs t) = int (length cs)"
    by (rule visible_blocked_partition)
next
  fix c assume "c \<in> set (visible (filter_chunks_by_tier cs t))"
  then show "ch_access_tier c \<in> KNOWN_TIERS"
    using allowed_known[of t] by (auto simp: visible_filter may_see_def)
next
  assume "t \<notin> {lit ''anonymous'', lit ''members'', lit ''author_only''}"
  then have "allowed_tiers t = {}" by (simp add: tier_simps)
  then show "visible (filter_chunks_by_tier cs t) = []"
    by (simp add: visible_filter may_see_def)
qed

definition acl_sample :: "chunk list" where
  "acl_sample =
     [\<lparr>ch_source_path = lit ''a.md'', ch_ord = 0, ch_text = lit ''t'', ch_score = 1/2, ch_access_tier = lit ''public''\<rparr>,
      \<lparr>ch_source_path = lit ''b.md'', ch_ord = 0, ch_text = lit ''t'', ch_score = 1/2, ch_access_tier = lit ''secret''\<rparr>]"

theorem acl_filter_exact_witness:
  "length (visible (filter_chunks_by_tier acl_sample (lit ''members''))) = 1
   \<and> visible (filter_chunks_by_tier acl_sample (lit ''root'')) = []"
proof -
  have "lit ''root'' \<notin> {lit ''anonymous'', lit ''members'', lit ''author_only''}"
    by simp
  then have "visible (filter_chunks_by_tier acl_sample (lit ''root'')) = []"
    using acl_filter_exact[of acl_sample "lit ''root''"] by blast
  moreover have "length (visible (filter_chunks_by_tier acl_sample (lit ''members''))) = 1"
    using acl_filter_exact[of acl_sample "lit ''members''"] by (simp add: acl_sample_def tier_simps)
  ultimately show ?thesis by simp
qed

end
