(* ===== verification/Answer_Parser.thy ===== *)
theory Answer_Parser
  imports Acl
begin

text \<open>
  Post-processing of the LLM answer (\<open>workers/.../generate/parser.py\<close>): extraction of the
  \<open>[source_path]\<close> citations and of the follow-up block behind the SUIVI marker line. The regular
  expressions of the source are translated to the deterministic scanners they denote; each one only
  uses disjoint character classes, so the greedy match is the only match.
\<close>

section \<open>Citations\<close>

record citation =
  ct_source_path :: pystr
  ct_chunk_ords :: "int list"

text \<open>One attempt of \<open>\\[([^\\]\\s][^\\]]*)\\]\<close> right after an opening bracket: the group and the rest.\<close>

definition match_bracket :: "pystr \<Rightarrow> (pystr \<times> pystr) option" where
  "match_bracket s =
     (case s of
        [] \<Rightarrow> None
      | d # ds \<Rightarrow>
          if d = 93 \<or> py_space d then None
          else (case dropWhile (\<lambda>c. c \<noteq> 93) ds of
                  [] \<Rightarrow> None
                | _ # rest \<Rightarrow> Some (d # takeWhile (\<lambda>c. c \<noteq> 93) ds, rest)))"

lemma match_bracket_split: "match_bracket s = Some (g, rest) \<Longrightarrow> s = g @ 93 # rest"
proof -
  assume m: "match_bracket s = Some (g, rest)"
  then obtain d ds x where s: "s = d # ds" and dw: "dropWhile (\<lambda>c. c \<noteq> 93) ds = x # rest"
    and g: "g = d # takeWhile (\<lambda>c. c \<noteq> 93) ds"
    by (auto simp: match_bracket_def split: list.splits if_splits)
  have "x = 93" using hd_dropWhile[of "\<lambda>c. c \<noteq> 93" ds] dw by auto
  moreover have "ds = takeWhile (\<lambda>c. c \<noteq> 93) ds @ x # rest"
    using takeWhile_dropWhile_id[of "\<lambda>c. c \<noteq> 93" ds] dw by simp
  ultimately show ?thesis using s g by simp
qed

lemma match_bracket_length: "match_bracket s = Some (g, rest) \<Longrightarrow> length rest < length s"
  by (drule match_bracket_split) simp

text \<open>\<open>_CITATION_RE.findall(answer)\<close>: leftmost, non-overlapping.\<close>

function citation_groups :: "pystr \<Rightarrow> pystr list" where
  "citation_groups [] = []"
| "citation_groups (c # cs) =
     (if c = 91 then
        (case match_bracket cs of
           None \<Rightarrow> citation_groups cs
         | Some (g, rest) \<Rightarrow> g # citation_groups rest)
      else citation_groups cs)"
  by pat_completeness auto
termination
  by (relation "measure length") (auto dest: match_bracket_length)

text \<open>The loop that builds \<open>known\<close>: the ordinals of each path, in retrieval order.\<close>

fun known_add :: "(pystr \<times> int list) list \<Rightarrow> chunk \<Rightarrow> (pystr \<times> int list) list" where
  "known_add d c =
     (case map_of d (ch_source_path c) of
        None \<Rightarrow> dict_set d (ch_source_path c) [ch_ord c]
      | Some ords \<Rightarrow> dict_set d (ch_source_path c) (ords @ [ch_ord c]))"

definition build_known :: "chunk list \<Rightarrow> (pystr \<times> int list) list" where
  "build_known chunks = foldl known_add [] chunks"

text \<open>The body of the inner loop, on one comma-separated piece of one bracket.\<close>

definition cite_piece ::
  "(pystr \<times> int list) list \<Rightarrow> (pystr \<times> int list) list \<Rightarrow> pystr \<Rightarrow> (pystr \<times> int list) list" where
  "cite_piece known seen piece =
     (let candidate = py_strip piece
      in if candidate = [] then seen
         else case map_of known candidate of
                None \<Rightarrow> seen
              | Some ords \<Rightarrow>
                  if candidate \<in> fst ` set seen then seen else seen @ [(candidate, ords)])"

definition citation_pieces :: "pystr \<Rightarrow> pystr list" where
  "citation_pieces answer = concat (map (split_on 44) (citation_groups answer))"

definition extract_citations :: "pystr \<Rightarrow> chunk list \<Rightarrow> citation list" where
  "extract_citations answer chunks =
     (let known = build_known chunks;
          seen = foldl (cite_piece known) [] (citation_pieces answer)
      in map (\<lambda>(p, ords). \<lparr>ct_source_path = p, ct_chunk_ords = ords\<rparr>) seen)"

text \<open>What \<open>known\<close> maps a path to, without the loop.\<close>

definition ords_of_path :: "chunk list \<Rightarrow> pystr \<Rightarrow> int list" where
  "ords_of_path chunks p = map ch_ord (filter (\<lambda>c. ch_source_path c = p) chunks)"

lemma foldl_known_add:
  "map_of (foldl known_add d chunks) p =
     (if p \<in> ch_source_path ` set chunks
      then Some ((case map_of d p of None \<Rightarrow> [] | Some os \<Rightarrow> os) @ ords_of_path chunks p)
      else map_of d p)"
  by (induction chunks arbitrary: d)
     (auto simp: ords_of_path_def filter_empty_conv image_iff split: option.splits if_splits)

lemma map_of_build_known:
  "map_of (build_known chunks) p =
     (if p \<in> ch_source_path ` set chunks then Some (ords_of_path chunks p) else None)"
  by (simp add: build_known_def foldl_known_add)

lemma cite_piece_mono: "\<exists>ys. cite_piece known seen piece = seen @ ys"
  by (auto simp: cite_piece_def Let_def split: option.splits)

lemma foldl_cite_piece:
  "set (foldl (cite_piece known) seen pieces) =
     set seen \<union> {(p, ords). map_of known p = Some ords \<and> p \<notin> fst ` set seen \<and> p \<noteq> []
                     \<and> p \<in> py_strip ` set pieces}"
proof (induction pieces arbitrary: seen)
  case Nil
  then show ?case by simp
next
  case (Cons piece pieces)
  show ?case
    unfolding foldl_Cons Cons
    by (auto simp: cite_piece_def Let_def image_iff split: option.splits)
qed

lemma foldl_cite_piece_distinct:
  "distinct (map fst seen) \<Longrightarrow> distinct (map fst (foldl (cite_piece known) seen pieces))"
  by (induction pieces arbitrary: seen)
     (auto simp: cite_piece_def Let_def split: option.splits)

lemma set_extract_citations:
  "set (extract_citations answer chunks) =
     {\<lparr>ct_source_path = p, ct_chunk_ords = ords_of_path chunks p\<rparr> | p.
        p \<in> ch_source_path ` set chunks \<and> p \<noteq> [] \<and> p \<in> py_strip ` set (citation_pieces answer)}"
proof -
  let ?seen = "foldl (cite_piece (build_known chunks)) [] (citation_pieces answer)"
  have "set ?seen = {(p, ords). p \<in> ch_source_path ` set chunks \<and> ords = ords_of_path chunks p
      \<and> p \<noteq> [] \<and> p \<in> py_strip ` set (citation_pieces answer)}"
    by (intro set_eqI) (simp add: foldl_cite_piece map_of_build_known case_prod_beta eq_commute[of _ "ords_of_path chunks _"])
  then show ?thesis by (auto simp: extract_citations_def Let_def)
qed

lemma extract_citations_no_chunks [simp]: "extract_citations answer [] = []"
  using set_extract_citations[of answer "[]"] by simp

section \<open>Follow-up block\<close>

text \<open>Case-insensitive comparison with an ASCII letter, as \<open>re.IGNORECASE\<close> does it on str: besides
  the two ASCII cases, \<open>i\<close> also matches U+0130 and U+0131, \<open>k\<close> U+212A and \<open>s\<close> U+017F.\<close>

definition ascii_lower :: "nat \<Rightarrow> nat" where
  "ascii_lower c = (if 65 \<le> c \<and> c \<le> 90 then c + 32 else c)"

definition ci_match :: "nat \<Rightarrow> nat \<Rightarrow> bool" where
  "ci_match p c \<longleftrightarrow> ascii_lower p = ascii_lower c
     \<or> ascii_lower p = 105 \<and> (c = 304 \<or> c = 305)
     \<or> ascii_lower p = 107 \<and> c = 8490
     \<or> ascii_lower p = 115 \<and> c = 383"

text \<open>Match a literal at the start of a string; the value is what is left after it.\<close>

fun ci_prefix :: "pystr \<Rightarrow> pystr \<Rightarrow> pystr option" where
  "ci_prefix [] s = Some s"
| "ci_prefix (p # ps) [] = None"
| "ci_prefix (p # ps) (c # cs) = (if ci_match p c then ci_prefix ps cs else None)"

definition FOLLOWUP_MARKER :: pystr where
  "FOLLOWUP_MARKER = lit ''---SUIVI---''"

definition blank :: "nat \<Rightarrow> bool" where
  "blank c \<longleftrightarrow> c = 32 \<or> c = 9"

definition mark :: "nat \<Rightarrow> bool" where
  "mark c \<longleftrightarrow> c = 45 \<or> c = 42 \<or> c = 95"

definition skip_rule :: "pystr \<Rightarrow> pystr" where
  "skip_rule s = dropWhile blank (dropWhile mark (dropWhile blank s))"

text \<open>The pattern of \<open>_FOLLOWUP_MARKER_RE\<close> on one line of the answer.\<close>

definition marker_line :: "pystr \<Rightarrow> bool" where
  "marker_line l \<longleftrightarrow>
     (case ci_prefix (lit ''SUIVI'') (skip_rule l) of
        None \<Rightarrow> False
      | Some rest \<Rightarrow> skip_rule rest = [])"

text \<open>\<open>_FOLLOWUP_MARKER_RE.search(answer)\<close>: start and end offset of the first marker line.\<close>

fun find_marker :: "nat \<Rightarrow> pystr list \<Rightarrow> (nat \<times> nat) option" where
  "find_marker off [] = None"
| "find_marker off (l # ls) =
     (if marker_line l then Some (off, off + length l) else find_marker (off + length l + 1) ls)"

text \<open>\<open>_TRAILING_RULE_RE.sub('', body)\<close> on a body without trailing white space: the last line goes,
  with the newline before it, when it is blanks followed by at least three rule characters.\<close>

definition rule_line :: "pystr \<Rightarrow> bool" where
  "rule_line l \<longleftrightarrow>
     (let r = dropWhile blank l
      in 3 \<le> length (takeWhile mark r) \<and> dropWhile blank (dropWhile mark r) = [])"

definition drop_trailing_rule :: "pystr \<Rightarrow> pystr" where
  "drop_trailing_rule body =
     (let ls = split_on 10 body
      in if 2 \<le> length ls \<and> rule_line (last ls) then py_join [10] (butlast ls) else body)"

text \<open>\<open>_FOLLOWUP_BULLET_RE.sub('', line)\<close>.\<close>

definition bullet :: "nat \<Rightarrow> bool" where
  "bullet c \<longleftrightarrow> c = 45 \<or> c = 42 \<or> c = 8226"

definition drop_bullet :: "pystr \<Rightarrow> pystr" where
  "drop_bullet l =
     (if l \<noteq> [] \<and> bullet (hd l) then dropWhile blank (dropWhile bullet l) else l)"

definition followup_of_line :: "pystr \<Rightarrow> pystr" where
  "followup_of_line raw_line = py_strip (drop_bullet (py_strip raw_line))"

definition followups_of_block :: "pystr \<Rightarrow> pystr list" where
  "followups_of_block block = filter (\<lambda>l. l \<noteq> []) (map followup_of_line (py_splitlines block))"

definition extract_followups :: "pystr \<Rightarrow> pystr \<times> pystr list" where
  "extract_followups answer =
     (case find_marker 0 (split_on 10 answer) of
        None \<Rightarrow> (answer, [])
      | Some (start, stop) \<Rightarrow>
          let body = py_rstrip (take start answer);
              body = py_rstrip (drop_trailing_rule body)
          in (body, followups_of_block (drop stop answer)))"

lemmas parser_eval [py_eval] =
  match_bracket_def ascii_lower_def ci_match_def FOLLOWUP_MARKER_def blank_def mark_def skip_rule_def
  marker_line_def rule_line_def drop_trailing_rule_def bullet_def drop_bullet_def followup_of_line_def
  followups_of_block_def extract_followups_def

subsection \<open>The marker search\<close>

lemma find_marker_Some:
  "find_marker off ls = Some (a, b) \<Longrightarrow>
   \<exists>pre l post. ls = pre @ l # post \<and> marker_line l \<and> (\<forall>x\<in>set pre. \<not> marker_line x)
     \<and> a = off + length (concat (map (\<lambda>x. x @ [10]) pre)) \<and> b = a + length l"
proof (induction off ls rule: find_marker.induct)
  case (1 off)
  then show ?case by simp
next
  case (2 off l ls)
  show ?case
  proof (cases "marker_line l")
    case True
    with 2 show ?thesis by (intro exI[of _ "[]"] exI[of _ l] exI[of _ ls]) auto
  next
    case False
    with 2 obtain pre l' post where "ls = pre @ l' # post" "marker_line l'"
      "\<forall>x\<in>set pre. \<not> marker_line x"
      "a = off + length l + 1 + length (concat (map (\<lambda>x. x @ [10]) pre))" "b = a + length l'"
      by auto
    with False show ?thesis by (intro exI[of _ "l # pre"] exI[of _ l'] exI[of _ post]) auto
  qed
qed

lemma find_marker_None: "find_marker off ls = None \<longleftrightarrow> (\<forall>l\<in>set ls. \<not> marker_line l)"
  by (induction off ls rule: find_marker.induct) auto

lemma find_marker_first:
  "\<forall>x\<in>set pre. \<not> marker_line x \<Longrightarrow> marker_line l \<Longrightarrow>
   find_marker off (pre @ l # post) =
     Some (off + length (concat (map (\<lambda>x. x @ [10]) pre)),
           off + length (concat (map (\<lambda>x. x @ [10]) pre)) + length l)"
  by (induction pre arbitrary: off) auto

lemma split_on_append: "split_on sep (a @ sep # b) = split_on sep a @ split_on sep b"
proof (induction a)
  case Nil
  then show ?case by simp
next
  case (Cons c a)
  obtain p ps where "split_on sep a = p # ps" by (cases "split_on sep a") auto
  with Cons show ?case by auto
qed

lemma py_join_append:
  "ps \<noteq> [] \<Longrightarrow> py_join [sep] (pre @ ps) = concat (map (\<lambda>x. x @ [sep]) pre) @ py_join [sep] ps"
  by (induction pre) (auto simp: py_join_Cons)

lemma concat_lines: "concat (map (\<lambda>x. x @ [sep]) (split_on sep s)) = s @ [sep]"
proof -
  have "py_join [sep] (split_on sep s @ [[]]) = concat (map (\<lambda>x. x @ [sep]) (split_on sep s))"
    by (simp add: py_join_append)
  moreover have "split_on sep (s @ [sep]) = split_on sep s @ [[]]"
    using split_on_append[of sep s "[]"] by simp
  ultimately show ?thesis using join_split_on[of sep "s @ [sep]"] by simp
qed

lemma drop_trailing_rule_prefix: "\<exists>t. body = drop_trailing_rule body @ t"
proof (cases "2 \<le> length (split_on 10 body) \<and> rule_line (last (split_on 10 body))")
  case True
  let ?ls = "split_on 10 body"
  have "butlast ?ls \<noteq> []" using True by (cases ?ls) auto
  then obtain q qs where q: "butlast ?ls = qs @ [q]" by (metis rev_exhaust)
  have ls: "?ls = qs @ [q, last ?ls]"
    using q append_butlast_last_id[of ?ls] by simp
  have "body = py_join [10] (qs @ [q, last ?ls])"
    using ls join_split_on[of 10 body] by simp
  also have "\<dots> = py_join [10] (qs @ [q]) @ 10 # last ?ls"
    by (simp add: py_join_append)
  finally show ?thesis using True q by (auto simp: drop_trailing_rule_def Let_def)
next
  case False
  then show ?thesis by (auto simp: drop_trailing_rule_def Let_def)
qed

lemma extract_followups_prefix: "\<exists>t. answer = fst (extract_followups answer) @ t"
proof (cases "find_marker 0 (split_on 10 answer)")
  case None
  then show ?thesis by (simp add: extract_followups_def)
next
  case (Some r)
  obtain a b where r: "r = (a, b)" by force
  let ?b1 = "py_rstrip (take a answer)"
  obtain t1 where t1: "take a answer = ?b1 @ t1"
    using rstrip_by_prefix[of "take a answer" py_space] by blast
  obtain t2 where t2: "?b1 = drop_trailing_rule ?b1 @ t2"
    using drop_trailing_rule_prefix[of ?b1] by blast
  obtain t3 where t3: "drop_trailing_rule ?b1 = py_rstrip (drop_trailing_rule ?b1) @ t3"
    using rstrip_by_prefix[of "drop_trailing_rule ?b1" py_space] by blast
  have "answer = take a answer @ drop a answer" by simp
  also have "\<dots> = py_rstrip (drop_trailing_rule ?b1) @ t3 @ t2 @ t1 @ drop a answer"
    using t1 t2 t3 by (metis append.assoc)
  finally show ?thesis
    using Some r by (auto simp: extract_followups_def Let_def)
qed

lemma blank_space: "blank c \<Longrightarrow> py_space c"
  by (auto simp: blank_def py_space_def)

text \<open>Every follow-up is one trimmed, non-empty line.\<close>

lemma strip_by_set: "set (strip_by P s) \<subseteq> set s"
proof
  fix x assume "x \<in> set (strip_by P s)"
  then have "x \<in> set (dropWhile P (rev (dropWhile P s)))"
    by (simp add: strip_by_def lstrip_by_def rstrip_by_def)
  then have "x \<in> set (dropWhile P s)" using set_dropWhileD[of x P "rev (dropWhile P s)"] by simp
  then show "x \<in> set s" by (rule set_dropWhileD)
qed

lemma drop_bullet_set: "set (drop_bullet l) \<subseteq> set l"
  by (auto simp: drop_bullet_def dest: set_dropWhileD)

lemma followups_wf:
  assumes "q \<in> set (snd (extract_followups answer))"
  shows "q \<noteq> [] \<and> py_strip q = q \<and> (\<forall>c\<in>set q. \<not> py_linebreak c)"
proof -
  from assms obtain block where "q \<in> set (followups_of_block block)"
    by (auto simp: extract_followups_def Let_def split: option.splits prod.splits)
  then obtain l where l: "l \<in> set (py_splitlines block)" "q = followup_of_line l" "q \<noteq> []"
    by (auto simp: followups_of_block_def)
  have "\<forall>c\<in>set l. \<not> py_linebreak c"
    using splitlines_no_break[of l "[]" block] l(1) by (simp add: py_splitlines_def)
  moreover have "set q \<subseteq> set l"
    using l(2) strip_by_set drop_bullet_set unfolding followup_of_line_def by (metis subset_trans)
  ultimately show ?thesis using l(2,3) by (auto simp: followup_of_line_def)
qed

subsection \<open>Reading back a well-formed answer\<close>

lemma splitlines_from_no_break:
  "\<forall>c\<in>set l. \<not> py_linebreak c \<Longrightarrow> splitlines_from cur (l @ s) = splitlines_from (cur @ l) s"
proof (induction l arbitrary: cur)
  case Nil
  then show ?case by simp
next
  case (Cons c l)
  then have "\<not> py_linebreak c" and "c \<noteq> 13" by (auto simp: py_linebreak_def)
  with Cons show ?case by simp
qed

lemma splitlines_lf: "splitlines_from cur (10 # s) = cur # splitlines_from [] s"
  by (simp add: py_linebreak_def)

lemma splitlines_block:
  assumes "\<forall>l\<in>set ls. l \<noteq> [] \<and> (\<forall>c\<in>set l. \<not> py_linebreak c)"
  shows "splitlines_from cur (concat (map (\<lambda>l. 10 # l) ls)) =
           (if ls = [] \<and> cur = [] then [] else cur # ls)"
  using assms
proof (induction ls arbitrary: cur)
  case Nil
  then show ?case by simp
next
  case (Cons l ls)
  have "splitlines_from [] (l @ concat (map (\<lambda>l. 10 # l) ls)) = l # ls"
    using Cons by (simp add: splitlines_from_no_break)
  then show ?case by (simp add: splitlines_lf del: splitlines_from.simps)
qed

lemma strip_by_id:
  assumes "s \<noteq> []" "\<not> P (hd s)" "\<not> P (last s)"
  shows "strip_by P s = s"
proof -
  have "dropWhile P s = s" "dropWhile P (rev s) = rev s"
    using assms by (simp_all add: dropWhile_eq_self_iff hd_rev)
  then show ?thesis by (simp add: strip_by_def lstrip_by_def rstrip_by_def)
qed

lemma followup_of_dash_line:
  assumes "q \<noteq> []" "py_strip q = q"
  shows "followup_of_line (lit ''- '' @ q) = q"
proof -
  have hd: "\<not> py_space (hd q)" and la: "\<not> py_space (last q)"
    using strip_by_hd[of py_space q] strip_by_last[of py_space q] assms by auto
  have dash: "lit ''- '' @ q = 45 # 32 # q" by (simp add: lit_def)
  have "py_strip (45 # 32 # q) = 45 # 32 # q"
    by (rule strip_by_id) (use assms la in \<open>auto simp: py_space_def\<close>)
  moreover have "drop_bullet (45 # 32 # q) = q"
    using hd assms(1) blank_space[of "hd q"]
    by (cases q) (auto simp: drop_bullet_def bullet_def blank_def)
  ultimately show ?thesis using assms(2) by (simp add: followup_of_line_def dash)
qed

lemma marker_line_FOLLOWUP_MARKER: "marker_line FOLLOWUP_MARKER"
  by code_simp

definition render_answer :: "pystr \<Rightarrow> pystr list \<Rightarrow> pystr" where
  "render_answer body qs = body @ 10 # FOLLOWUP_MARKER @ concat (map (\<lambda>q. 10 # lit ''- '' @ q) qs)"

definition plain_body :: "pystr \<Rightarrow> bool" where
  "plain_body body \<longleftrightarrow> py_rstrip body = body
     \<and> (\<forall>l\<in>set (split_on 10 body). \<not> marker_line l)
     \<and> \<not> (2 \<le> length (split_on 10 body) \<and> rule_line (last (split_on 10 body)))"

definition plain_question :: "pystr \<Rightarrow> bool" where
  "plain_question q \<longleftrightarrow> q \<noteq> [] \<and> py_strip q = q \<and> (\<forall>c\<in>set q. \<not> py_linebreak c)"

lemma followups_of_rendered:
  assumes "\<forall>q\<in>set qs. plain_question q"
  shows "followups_of_block (concat (map (\<lambda>q. 10 # lit ''- '' @ q) qs)) = qs"
proof -
  let ?ls = "map (\<lambda>q. lit ''- '' @ q) qs"
  have dash: "\<forall>c\<in>set (lit ''- ''). \<not> py_linebreak c"
    by (simp add: lit_def py_linebreak_def)
  have "\<forall>l\<in>set ?ls. l \<noteq> [] \<and> (\<forall>c\<in>set l. \<not> py_linebreak c)"
    using assms dash by (auto simp: plain_question_def)
  from splitlines_block[OF this, of "[]"]
  have "py_splitlines (concat (map (\<lambda>q. 10 # lit ''- '' @ q) qs))
      = (if qs = [] then [] else [] # ?ls)"
    by (simp add: py_splitlines_def o_def)
  moreover have "map followup_of_line ?ls = qs"
    using assms by (simp add: map_idI followup_of_dash_line plain_question_def)
  moreover have "followup_of_line [] = []"
    by (simp add: followup_of_line_def drop_bullet_def strip_by_def lstrip_by_def)
  moreover have "filter (\<lambda>l. l \<noteq> []) qs = qs"
    using assms by (simp add: filter_id_conv plain_question_def)
  ultimately show ?thesis by (simp add: followups_of_block_def)
qed

lemma followups_no_marker:
  "\<forall>l\<in>set (split_on 10 answer). \<not> marker_line l \<Longrightarrow> extract_followups answer = (answer, [])"
  by (simp add: extract_followups_def find_marker_None[THEN iffD2])

section \<open>Properties\<close>

text \<open>C31: Citations are sound, complete and free of duplicates: the cited paths are exactly the
  retrieved paths that occur, trimmed, as a comma-separated piece of some bracket of the answer, each
  path is cited once, and each carries the ordinals of all retrieved chunks of that path in order. A
  path the model made up is never cited.\<close>

theorem extract_citations_exact:
  "distinct (map ct_source_path (extract_citations answer chunks))
   \<and> set (extract_citations answer chunks) =
       {\<lparr>ct_source_path = p, ct_chunk_ords = map ch_ord (filter (\<lambda>c. ch_source_path c = p) chunks)\<rparr> | p.
          p \<in> ch_source_path ` set chunks \<and> p \<noteq> [] \<and> p \<in> py_strip ` set (citation_pieces answer)}"
proof
  have "distinct (map fst (foldl (cite_piece (build_known chunks)) [] (citation_pieces answer)))"
    by (rule foldl_cite_piece_distinct) simp
  then show "distinct (map ct_source_path (extract_citations answer chunks))"
    by (simp add: extract_citations_def Let_def o_def case_prod_beta')
  show "set (extract_citations answer chunks) =
       {\<lparr>ct_source_path = p, ct_chunk_ords = map ch_ord (filter (\<lambda>c. ch_source_path c = p) chunks)\<rparr> | p.
          p \<in> ch_source_path ` set chunks \<and> p \<noteq> [] \<and> p \<in> py_strip ` set (citation_pieces answer)}"
    using set_extract_citations[of answer chunks] by (simp add: ords_of_path_def)
qed

text \<open>Reading back a well-formed answer: when the body has no trailing white space, no marker line
  and no trailing rule, and every question is a trimmed non-empty line, the extraction of the answer
  rendered with the sentinel line and dash-prefixed questions returns exactly the body and the
  questions.\<close>

theorem followups_roundtrip:
  assumes "plain_body body" "\<forall>q\<in>set qs. plain_question q"
  shows "extract_followups (render_answer body qs) = (body, qs)"
proof -
  let ?blk = "concat (map (\<lambda>q. 10 # lit ''- '' @ q) qs)"
  let ?ans = "render_answer body qs"
  have nl: "10 \<notin> set FOLLOWUP_MARKER" by code_simp
  obtain post where post: "split_on 10 ?ans = split_on 10 body @ FOLLOWUP_MARKER # post"
  proof (cases qs)
    case Nil
    then show thesis
      using that[of "[]"] nl by (simp add: render_answer_def split_on_append split_on_id)
  next
    case (Cons q qs')
    let ?rest = "lit ''- '' @ q @ concat (map (\<lambda>q. 10 # lit ''- '' @ q) qs')"
    have "?ans = body @ 10 # FOLLOWUP_MARKER @ 10 # ?rest"
      using Cons by (simp add: render_answer_def)
    then show thesis
      using that[of "split_on 10 ?rest"] nl by (simp add: split_on_append split_on_id)
  qed
  let ?off = "length (concat (map (\<lambda>x. x @ [10]) (split_on 10 body)))"
  have off: "?off = length body + 1" by (simp add: concat_lines)
  have fm: "find_marker 0 (split_on 10 ?ans) = Some (?off, ?off + length FOLLOWUP_MARKER)"
    unfolding post using find_marker_first[of "split_on 10 body" FOLLOWUP_MARKER 0 post] assms(1)
    by (simp add: plain_body_def marker_line_FOLLOWUP_MARKER)
  have tk: "take (length body + 1) ?ans = body @ [10]" by (simp add: render_answer_def)
  have dr: "drop (length body + 1 + length FOLLOWUP_MARKER) ?ans = ?blk"
    by (simp add: render_answer_def)
  have "py_rstrip (body @ [10]) = py_rstrip body"
    by (simp add: rstrip_by_def py_space_def)
  moreover have "drop_trailing_rule body = body"
    using assms(1) by (auto simp: plain_body_def drop_trailing_rule_def Let_def)
  ultimately show ?thesis
    using assms fm dr tk off
    by (simp add: extract_followups_def Let_def followups_of_rendered plain_body_def)
qed


theorem followups_roundtrip_witness:
  "extract_followups (render_answer (lit ''Le roi est mort [a.md].'') [lit ''Qui regne ?'', lit ''Quand ?''])
     = (lit ''Le roi est mort [a.md].'', [lit ''Qui regne ?'', lit ''Quand ?''])"
proof -
  have "plain_body (lit ''Le roi est mort [a.md].'')"
    by (simp add: plain_body_def py_eval)
  moreover have "\<forall>q\<in>set [lit ''Qui regne ?'', lit ''Quand ?'']. plain_question q"
    by (simp add: plain_question_def py_eval)
  ultimately show ?thesis by (rule followups_roundtrip)
qed

text \<open>The emitted body is always a prefix of the raw answer (the extraction only cuts, it never
  rewrites), and every follow-up question is a non-empty trimmed line without a line break.\<close>

theorem followups_only_cut:
  "(\<exists>t. answer = fst (extract_followups answer) @ t)
   \<and> (\<forall>q. q \<in> set (snd (extract_followups answer)) \<longrightarrow>
        q \<noteq> [] \<and> py_strip q = q \<and> (\<forall>c. c \<in> set q \<longrightarrow> \<not> py_linebreak c))"
  using extract_followups_prefix followups_wf by blast

theorem followups_only_cut_witness:
  "lit ''Quand ?'' \<in> set (snd (extract_followups (lit ''A'' @ [10] @ lit ''**Suivi**'' @ [10] @ lit ''* Quand ?'')))
   \<and> lit ''Quand ?'' \<noteq> [] \<and> py_strip (lit ''Quand ?'') = lit ''Quand ?''"
proof -
  let ?a = "lit ''A'' @ [10] @ lit ''**Suivi**'' @ [10] @ lit ''* Quand ?''"
  have "lit ''Quand ?'' \<in> set (snd (extract_followups ?a))"
    by (simp add: py_eval)
  then show ?thesis using followups_only_cut[of ?a] by blast
qed

end
