(* ===== verification/Pricing.thy ===== *)
theory Pricing
  imports Prelude
begin

text \<open>
  The price table and the cost computation (\<open>workers/.../generate/pricing.py\<close>), and the
  None-propagating sums of \<open>generate/_pipeline.py\<close> that combine the cost of the classifier call
  with the cost of the generation call. A Decimal is a rational number: the default context keeps
  28 significant digits, so the products and sums below are exact as long as the token counts have
  fewer than twenty digits.
\<close>

section \<open>The price table\<close>

record model_pricing =
  prompt_eur_per_mtok :: rat
  completion_eur_per_mtok :: rat

definition MODEL_PRICING :: "(pystr \<times> model_pricing) list" where
  "MODEL_PRICING =
     [(lit ''mistral-small-latest'', \<lparr>prompt_eur_per_mtok = 20/100, completion_eur_per_mtok = 60/100\<rparr>),
      (lit ''mistral-large-latest'', \<lparr>prompt_eur_per_mtok = 200/100, completion_eur_per_mtok = 600/100\<rparr>),
      (lit ''claude-3-5-sonnet-20241022'', \<lparr>prompt_eur_per_mtok = 280/100, completion_eur_per_mtok = 1400/100\<rparr>),
      (lit ''gemini-1.5-flash'', \<lparr>prompt_eur_per_mtok = 7/100, completion_eur_per_mtok = 28/100\<rparr>),
      (lit ''gpt-4o-mini'', \<lparr>prompt_eur_per_mtok = 14/100, completion_eur_per_mtok = 56/100\<rparr>),
      (lit ''deepseek-chat'', \<lparr>prompt_eur_per_mtok = 13/100, completion_eur_per_mtok = 27/100\<rparr>)]"

section \<open>Rounding\<close>

text \<open>\<open>ROUND_HALF_EVEN\<close> to an integer, and \<open>quantize(Decimal('0.000001'))\<close> on top of it.\<close>

definition round_half_even :: "rat \<Rightarrow> int" where
  "round_half_even x =
     (let f = \<lfloor>x\<rfloor>; d = x - of_int f
      in if d < 1/2 then f else if d > 1/2 then f + 1 else if even f then f else f + 1)"

definition quantize6 :: "rat \<Rightarrow> rat" where
  "quantize6 x = of_int (round_half_even (x * 1000000)) / 1000000"

lemma round_half_even_floor: "round_half_even x = \<lfloor>x\<rfloor> \<or> round_half_even x = \<lfloor>x\<rfloor> + 1"
  by (simp add: round_half_even_def Let_def)

lemma round_half_even_error: "\<bar>of_int (round_half_even x) - x\<bar> \<le> 1/2"
proof -
  define d where "d = x - of_int \<lfloor>x\<rfloor>"
  have d: "0 \<le> d" "d < 1"
    using of_int_floor_le[of x] floor_correct[of x] by (auto simp: d_def)
  have "of_int (round_half_even x) - x =
      (if d < 1/2 then - d else if d > 1/2 then 1 - d else if even \<lfloor>x\<rfloor> then - d else 1 - d)"
    by (simp add: round_half_even_def Let_def d_def)
  then show ?thesis using d by (simp add: abs_le_iff split: if_splits)
qed

lemma round_half_even_mono: "x \<le> y \<Longrightarrow> round_half_even x \<le> round_half_even y"
proof -
  assume le: "x \<le> y"
  show ?thesis
  proof (cases "\<lfloor>x\<rfloor> = \<lfloor>y\<rfloor>")
    case True
    then show ?thesis using le by (auto simp: round_half_even_def Let_def)
  next
    case False
    then have "\<lfloor>x\<rfloor> + 1 \<le> \<lfloor>y\<rfloor>" using floor_mono[OF le] by simp
    moreover have "round_half_even x \<le> \<lfloor>x\<rfloor> + 1" "\<lfloor>y\<rfloor> \<le> round_half_even y"
      using round_half_even_floor[of x] round_half_even_floor[of y] by auto
    ultimately show ?thesis by linarith
  qed
qed

lemma round_half_even_of_int [simp]: "round_half_even (of_int i) = i"
  by (simp add: round_half_even_def)

lemma round_half_even_zero [simp]: "round_half_even 0 = 0"
  using round_half_even_of_int[of 0] by simp

lemma quantize6_mono: "x \<le> y \<Longrightarrow> quantize6 x \<le> quantize6 y"
  by (simp add: quantize6_def divide_right_mono round_half_even_mono)

lemma quantize6_nonneg: "0 \<le> x \<Longrightarrow> 0 \<le> quantize6 x"
  using quantize6_mono[of 0 x] by (simp add: quantize6_def)

lemma quantize6_error: "\<bar>quantize6 x - x\<bar> \<le> 1/2000000"
proof -
  have "\<bar>of_int (round_half_even (x * 1000000)) - x * 1000000\<bar> \<le> 1/2"
    by (rule round_half_even_error)
  then show ?thesis
    by (simp add: quantize6_def abs_le_iff field_simps)
qed

section \<open>Cost of a call\<close>

definition raw_cost :: "model_pricing \<Rightarrow> int \<Rightarrow> int \<Rightarrow> rat" where
  "raw_cost p pt ct =
     (prompt_eur_per_mtok p * of_int pt + completion_eur_per_mtok p * of_int ct) / 1000000"

definition compute_cost_eur :: "pystr \<Rightarrow> int option \<Rightarrow> int option \<Rightarrow> rat option" where
  "compute_cost_eur model prompt_tokens completion_tokens =
     (case (prompt_tokens, completion_tokens) of
        (Some pt, Some ct) \<Rightarrow>
          (case map_of MODEL_PRICING model of
             None \<Rightarrow> None
           | Some pricing \<Rightarrow> Some (quantize6 (raw_cost pricing pt ct)))
      | _ \<Rightarrow> None)"

text \<open>\<open>add_optional\<close> and \<open>add_decimal_optional\<close> of the pipeline: a missing part makes the sum missing.\<close>

definition add_optional :: "int option \<Rightarrow> int option \<Rightarrow> int option" where
  "add_optional a b =
     (case (a, b) of (Some x, Some y) \<Rightarrow> Some (x + y) | _ \<Rightarrow> None)"

definition add_decimal_optional :: "rat option \<Rightarrow> rat option \<Rightarrow> rat option" where
  "add_decimal_optional a b =
     (case (a, b) of (Some x, Some y) \<Rightarrow> Some (x + y) | _ \<Rightarrow> None)"

lemmas add_optional_defs = add_optional_def add_decimal_optional_def

lemma price_table_nonneg:
  "map_of MODEL_PRICING m = Some p \<Longrightarrow> 0 < prompt_eur_per_mtok p \<and> 0 < completion_eur_per_mtok p"
  by (auto simp: MODEL_PRICING_def split: if_splits)

lemma raw_cost_mono:
  assumes "map_of MODEL_PRICING m = Some p" "pt \<le> pt'" "ct \<le> ct'"
  shows "raw_cost p pt ct \<le> raw_cost p pt' ct'"
proof -
  have "prompt_eur_per_mtok p * of_int pt \<le> prompt_eur_per_mtok p * of_int pt'"
       "completion_eur_per_mtok p * of_int ct \<le> completion_eur_per_mtok p * of_int ct'"
    using price_table_nonneg[OF assms(1)] assms(2,3) by (simp_all add: mult_left_mono)
  then show ?thesis by (simp add: raw_cost_def divide_right_mono add_mono)
qed

lemma compute_cost_Some:
  "compute_cost_eur m pt ct = Some c \<longleftrightarrow>
     (\<exists>x y p. pt = Some x \<and> ct = Some y \<and> map_of MODEL_PRICING m = Some p \<and> c = quantize6 (raw_cost p x y))"
  by (auto simp: compute_cost_eur_def split: option.splits)

lemma compute_cost_None:
  "compute_cost_eur m pt ct = None \<longleftrightarrow> pt = None \<or> ct = None \<or> map_of MODEL_PRICING m = None"
  by (auto simp: compute_cost_eur_def split: option.splits)

section \<open>Properties\<close>

text \<open>The recorded cost of a call with known usage on a priced model is the exact price rounded
  to the nearest micro-euro: it differs from the exact amount by at most half a micro-euro, it is a
  whole number of micro-euros, it is not negative, and it never decreases when tokens are added.\<close>

theorem compute_cost_eur_correct:
  assumes "map_of MODEL_PRICING m = Some p" "0 \<le> pt" "0 \<le> ct" "pt \<le> pt'" "ct \<le> ct'"
  shows "\<exists>c c'. compute_cost_eur m (Some pt) (Some ct) = Some c
           \<and> compute_cost_eur m (Some pt') (Some ct') = Some c'
           \<and> \<bar>c - (prompt_eur_per_mtok p * of_int pt + completion_eur_per_mtok p * of_int ct) / 1000000\<bar>
               \<le> 1/2000000
           \<and> (\<exists>k::int. c * 1000000 = of_int k)
           \<and> 0 \<le> c \<and> c \<le> c'"
proof -
  let ?c = "quantize6 (raw_cost p pt ct)" and ?c' = "quantize6 (raw_cost p pt' ct')"
  have "0 \<le> raw_cost p pt ct"
    using raw_cost_mono[OF assms(1) assms(2,3)] by (simp add: raw_cost_def)
  then have "0 \<le> ?c" by (rule quantize6_nonneg)
  moreover have "?c \<le> ?c'"
    by (rule quantize6_mono, rule raw_cost_mono[OF assms(1,4,5)])
  moreover have "\<exists>k::int. ?c * 1000000 = of_int k"
    by (simp add: quantize6_def)
  moreover have "\<bar>?c - raw_cost p pt ct\<bar> \<le> 1/2000000" by (rule quantize6_error)
  ultimately show ?thesis
    using assms(1) by (auto simp: compute_cost_Some raw_cost_def)
qed

theorem compute_cost_eur_correct_witness:
  "\<exists>c c'. compute_cost_eur (lit ''gpt-4o-mini'') (Some 1000) (Some 10) = Some c
      \<and> compute_cost_eur (lit ''gpt-4o-mini'') (Some 1001) (Some 10) = Some c' \<and> 0 \<le> c \<and> c \<le> c'"
  using compute_cost_eur_correct[of "lit ''gpt-4o-mini''"
      "\<lparr>prompt_eur_per_mtok = 14/100, completion_eur_per_mtok = 56/100\<rparr>" 1000 10 1001 10]
  by (auto simp: MODEL_PRICING_def)

lemma combined_usage_all_or_nothing:
  "(add_optional a b = Some s \<longleftrightarrow> (\<exists>x y. a = Some x \<and> b = Some y \<and> s = x + y))
   \<and> (add_decimal_optional c d = Some r \<longleftrightarrow> (\<exists>x y. c = Some x \<and> d = Some y \<and> r = x + y))"
  by (auto simp: add_optional_defs split: option.splits)

end
