(* ===== verification/Llm.thy ===== *)
theory Llm
  imports Prompting Pricing
begin

text \<open>
  \<open>workers/.../services/llm.py\<close>: the provider configuration, the invocation and streaming wrappers and
  the normalisation of usage figures. The chat model itself is a parameter: what a call to it gives.
\<close>

section \<open>Messages and usage\<close>

text \<open>The content of a model message: a string, or another value together with its \<open>str()\<close>.\<close>

datatype ai_content = CStr pystr | COther pystr | CNone

text \<open>The two metadata dictionaries, in the shape the providers document.\<close>

record ai_message =
  ai_content :: ai_content
  ai_usage_metadata :: "(pystr \<times> int) list"
  ai_response_metadata :: "(pystr \<times> (pystr \<times> int option) list) list"

record usage =
  us_prompt_tokens :: "int option"
  us_completion_tokens :: "int option"
  us_cost_eur :: "rat option"

definition NO_USAGE :: usage where
  "NO_USAGE = \<lparr>us_prompt_tokens = None, us_completion_tokens = None, us_cost_eur = None\<rparr>"

text \<open>\<open>str(message.content) if message.content is not None else ""\<close>\<close>

fun content_text :: "ai_content \<Rightarrow> pystr" where
  "content_text (CStr s) = s"
| "content_text (COther s) = s"
| "content_text CNone = []"

fun content_str :: "ai_content \<Rightarrow> pystr" where
  "content_str (CStr s) = s"
| "content_str _ = []"

section \<open>Configuration\<close>

definition PROVIDERS :: "pystr list" where
  "PROVIDERS = [lit ''mistral'', lit ''anthropic'', lit ''google'', lit ''openai'', lit ''deepseek'']"

record llm_config =
  lc_provider :: pystr
  lc_model :: pystr
  lc_api_key :: pystr

datatype llm_config_error = ProviderInvalid pystr | ModelMissing | ApiKeyMissing | UnsupportedProvider

definition env_get :: "(pystr \<Rightarrow> pystr option) \<Rightarrow> string \<Rightarrow> pystr" where
  "env_get environ k = py_strip (case environ (lit k) of None \<Rightarrow> [] | Some v \<Rightarrow> v)"

definition llm_config_from_env :: "(pystr \<Rightarrow> pystr option) \<Rightarrow> llm_config_error + llm_config" where
  "llm_config_from_env environ =
     (let provider = env_get environ ''LLM_PROVIDER''; model = env_get environ ''LLM_MODEL'';
          api_key = env_get environ ''LLM_API_KEY''
      in if provider \<notin> set PROVIDERS then Inl (ProviderInvalid provider)
         else if model = [] then Inl ModelMissing
         else if api_key = [] then Inl ApiKeyMissing
         else Inr \<lparr>lc_provider = provider, lc_model = model, lc_api_key = api_key\<rparr>)"

datatype chat_class = ChatMistralAI | ChatAnthropic | ChatGoogleGenerativeAI | ChatOpenAI | ChatDeepSeek

definition build_chat_model :: "llm_config \<Rightarrow> llm_config_error + chat_class \<times> pystr \<times> pystr" where
  "build_chat_model config =
     (let p = lc_provider config; args = (lc_model config, lc_api_key config)
      in if p = lit ''mistral'' then Inr (ChatMistralAI, args)
         else if p = lit ''anthropic'' then Inr (ChatAnthropic, args)
         else if p = lit ''google'' then Inr (ChatGoogleGenerativeAI, args)
         else if p = lit ''openai'' then Inr (ChatOpenAI, args)
         else if p = lit ''deepseek'' then Inr (ChatDeepSeek, args)
         else Inl UnsupportedProvider)"

section \<open>Calls\<close>

text \<open>An exception of the provider's SDK: its \<open>status_code\<close> and its response's, if they are there.\<close>

record provider_exn =
  pe_status_code :: pyval
  pe_response_status :: "pyval option"

datatype llm_exn = LlmTimeoutError | LlmUpstreamError int

fun int_value :: "pyval \<Rightarrow> int option" where
  "int_value (PInt n) = Some n"
| "int_value (PBool b) = Some (if b then 1 else 0)"
| "int_value _ = None"

definition extract_status :: "provider_exn \<Rightarrow> int" where
  "extract_status exc =
     (case int_value (pe_status_code exc) of
        Some n \<Rightarrow> n
      | None \<Rightarrow> (case pe_response_status exc of
                  None \<Rightarrow> 500
                | Some v \<Rightarrow> (case int_value v of Some n \<Rightarrow> n | None \<Rightarrow> 500)))"

text \<open>The awaited call: it replies, it raises, or \<open>wait_for\<close> times out.\<close>

datatype chat_result = ChatReply ai_message | ChatTimeout | ChatRaised provider_exn

definition llm_invoke :: "chat_result \<Rightarrow> llm_exn + ai_message" where
  "llm_invoke res =
     (case res of
        ChatReply m \<Rightarrow> Inr m
      | ChatTimeout \<Rightarrow> Inl LlmTimeoutError
      | ChatRaised exc \<Rightarrow> Inl (LlmUpstreamError (extract_status exc)))"

text \<open>The chunks an asynchronous iteration delivers before it stops, times out or raises.\<close>

datatype stream_step = SChunk ai_message | STimeout | SRaised provider_exn

definition final_of :: "ai_message option \<Rightarrow> ai_message" where
  "final_of aggregate =
     (case aggregate of
        None \<Rightarrow> \<lparr>ai_content = CStr [], ai_usage_metadata = [], ai_response_metadata = []\<rparr>
      | Some m \<Rightarrow> m\<lparr>ai_content := CStr (content_str (ai_content m))\<rparr>)"

text \<open>\<open>astream\<close>: the pairs it yields and the exception that ends it, if one does. \<open>add\<close> is the library's
  addition of message chunks.\<close>

fun astream_loop ::
  "(ai_message \<Rightarrow> ai_message \<Rightarrow> ai_message) \<Rightarrow> ai_message option \<Rightarrow> stream_step list
    \<Rightarrow> (pystr \<times> ai_message option) list \<times> llm_exn option" where
  "astream_loop add aggregate [] = ([([], Some (final_of aggregate))], None)"
| "astream_loop add aggregate (STimeout # rest) = ([], Some LlmTimeoutError)"
| "astream_loop add aggregate (SRaised exc # rest) = ([], Some (LlmUpstreamError (extract_status exc)))"
| "astream_loop add aggregate (SChunk chunk # rest) =
     (let delta = content_str (ai_content chunk);
          r = astream_loop add (Some (case aggregate of None \<Rightarrow> chunk | Some a \<Rightarrow> add a chunk)) rest
      in (if delta = [] then fst r else (delta, None) # fst r, snd r))"

definition astream ::
  "(ai_message \<Rightarrow> ai_message \<Rightarrow> ai_message) \<Rightarrow> stream_step list
    \<Rightarrow> (pystr \<times> ai_message option) list \<times> llm_exn option" where
  "astream add steps = astream_loop add None steps"

section \<open>Usage\<close>

definition sub_get :: "(pystr \<times> (pystr \<times> int option) list) list \<Rightarrow> string \<Rightarrow> string \<Rightarrow> int option" where
  "sub_get meta k f = (case map_of meta (lit k) of None \<Rightarrow> None | Some u \<Rightarrow> Option.bind (map_of u (lit f)) id)"

definition raw_tokens :: "ai_message \<Rightarrow> pystr \<Rightarrow> int option \<times> int option" where
  "raw_tokens m provider =
     (let meta = ai_usage_metadata m; resp = ai_response_metadata m
      in if provider \<in> {lit ''mistral'', lit ''google''} \<and> meta \<noteq> []
         then (map_of meta (lit ''input_tokens''), map_of meta (lit ''output_tokens''))
         else if provider = lit ''anthropic''
         then (sub_get resp ''usage'' ''input_tokens'', sub_get resp ''usage'' ''output_tokens'')
         else if provider = lit ''openai''
         then (sub_get resp ''token_usage'' ''prompt_tokens'', sub_get resp ''token_usage'' ''completion_tokens'')
         else if provider = lit ''deepseek''
         then (sub_get resp ''usage'' ''prompt_tokens'', sub_get resp ''usage'' ''completion_tokens'')
         else (None, None))"

definition extract_usage :: "ai_message \<Rightarrow> pystr \<Rightarrow> usage" where
  "extract_usage m provider =
     (case raw_tokens m provider of
        (Some p, Some c) \<Rightarrow> \<lparr>us_prompt_tokens = Some p, us_completion_tokens = Some c, us_cost_eur = None\<rparr>
      | _ \<Rightarrow> NO_USAGE)"

section \<open>Lemmas\<close>

lemma extract_usage_both:
  "us_prompt_tokens (extract_usage m p) = None \<longleftrightarrow> us_completion_tokens (extract_usage m p) = None"
  by (auto simp: extract_usage_def NO_USAGE_def split: prod.split option.split)

lemma astream_ends:
  "snd (astream_loop add agg steps) = None \<longleftrightarrow> (\<forall>s\<in>set steps. \<exists>m. s = SChunk m)"
  by (induction add agg steps rule: astream_loop.induct) (auto simp: Let_def)

text \<open>What the library promises of chunk addition: string contents are concatenated.\<close>

definition chunk_add_law :: "(ai_message \<Rightarrow> ai_message \<Rightarrow> ai_message) \<Rightarrow> bool" where
  "chunk_add_law add \<longleftrightarrow> (\<forall>a b s t. ai_content a = CStr s \<longrightarrow> ai_content b = CStr t \<longrightarrow> ai_content (add a b) = CStr (s @ t))"

definition text_chunks :: "stream_step list \<Rightarrow> bool" where
  "text_chunks steps \<longleftrightarrow> (\<forall>s\<in>set steps. \<exists>m t. s = SChunk m \<and> ai_content m = CStr t)"

lemma astream_text:
  assumes "chunk_add_law add" "text_chunks steps" "\<forall>a. agg = Some a \<longrightarrow> (\<exists>t. ai_content a = CStr t)"
  shows "\<exists>deltas final. astream_loop add agg steps = (map (\<lambda>t. (t, None)) deltas @ [([], Some final)], None)
    \<and> [] \<notin> set deltas
    \<and> ai_content final = CStr ((case agg of None \<Rightarrow> [] | Some a \<Rightarrow> content_str (ai_content a)) @ concat deltas)"
  using assms(2,3)
proof (induction steps arbitrary: agg)
  case Nil
  show ?case by (intro exI[of _ "[]"] exI[of _ "final_of agg"]) (cases agg; simp add: final_of_def)
next
  case (Cons s steps)
  then obtain m t where s: "s = SChunk m" "ai_content m = CStr t" by (auto simp: text_chunks_def)
  define agg' where "agg' = (case agg of None \<Rightarrow> m | Some a \<Rightarrow> add a m)"
  have c: "ai_content agg' = CStr ((case agg of None \<Rightarrow> [] | Some a \<Rightarrow> content_str (ai_content a)) @ t)"
    using assms(1) Cons.prems(2) s by (cases agg) (auto simp: agg'_def chunk_add_law_def)
  have "text_chunks steps" using Cons.prems(1) by (simp add: text_chunks_def)
  with Cons.IH[of "Some agg'"] c obtain deltas final where
    ih: "astream_loop add (Some agg') steps = (map (\<lambda>t. (t, None)) deltas @ [([], Some final)], None)"
      "[] \<notin> set deltas" "ai_content final = CStr (content_str (ai_content agg') @ concat deltas)" by auto
  show ?case
  proof (cases "t = []")
    case True
    with ih c s show ?thesis
      by (intro exI[of _ deltas] exI[of _ final]) (simp add: agg'_def[symmetric] Let_def)
  next
    case False
    with ih c s show ?thesis
      by (intro exI[of _ "t # deltas"] exI[of _ final]) (simp add: agg'_def[symmetric] Let_def)
  qed
qed

section \<open>Properties\<close>

text \<open>A configuration read from the environment is accepted exactly when the trimmed provider is one
  of the five known ones and the trimmed model and key are not empty, and every accepted configuration
  has a chat model: booting never reaches the unsupported-provider error.\<close>

theorem llm_config_accepts:
  "((\<exists>c. llm_config_from_env environ = Inr c) \<longleftrightarrow>
      env_get environ ''LLM_PROVIDER'' \<in> set PROVIDERS \<and> env_get environ ''LLM_MODEL'' \<noteq> []
      \<and> env_get environ ''LLM_API_KEY'' \<noteq> [])
   \<and> (case llm_config_from_env environ of
        Inl _ \<Rightarrow> True
      | Inr c \<Rightarrow> build_chat_model c \<noteq> Inl UnsupportedProvider \<and> py_strip (lc_model c) = lc_model c)"
  by (auto simp: llm_config_from_env_def Let_def build_chat_model_def PROVIDERS_def env_get_def)

text \<open>A stream of text chunks yields exactly the non-empty deltas and then one final message whose
  content is their concatenation, so the answer rebuilt from the tokens is the provider's answer.\<close>

theorem astream_complete:
  assumes "chunk_add_law add" "text_chunks steps"
  shows "\<exists>deltas final. astream add steps = (map (\<lambda>t. (t, None)) deltas @ [([], Some final)], None)
    \<and> [] \<notin> set deltas \<and> ai_content final = CStr (concat deltas)"
  using astream_text[OF assms, of None] by (simp add: astream_def)

definition plain_add :: "ai_message \<Rightarrow> ai_message \<Rightarrow> ai_message" where
  "plain_add a b = a\<lparr>ai_content := CStr (content_str (ai_content a) @ content_str (ai_content b))\<rparr>"

definition text_message :: "pystr \<Rightarrow> ai_message" where
  "text_message t = \<lparr>ai_content = CStr t, ai_usage_metadata = [], ai_response_metadata = []\<rparr>"

lemma plain_add_law: "chunk_add_law plain_add"
  by (simp add: chunk_add_law_def plain_add_def)

theorem astream_complete_witness:
  "\<exists>deltas final. astream plain_add [SChunk (text_message [65]), SChunk (text_message []), SChunk (text_message [66])]
     = (map (\<lambda>t. (t, None)) deltas @ [([], Some final)], None) \<and> ai_content final = CStr (concat deltas)"
proof -
  have "text_chunks [SChunk (text_message [65]), SChunk (text_message []), SChunk (text_message [66])]"
    by (simp add: text_chunks_def text_message_def)
  from astream_complete[OF plain_add_law this] show ?thesis by blast
qed

end
