(* ===== verification/Intent.thy ===== *)
theory Intent
  imports Llm Answer_Parser
begin

text \<open>
  \<open>workers/.../services/intent.py\<close>: the zero-shot intent classifier, which fails open towards the
  archives. \<open>res\<close> is what the chat model gives for the classifier's messages and \<open>elapsed\<close> the
  seconds between the two clock readings around the call.
\<close>

section \<open>The classifier\<close>

definition INTENT_SYSTEM_PROMPT :: pystr where
  "INTENT_SYSTEM_PROMPT =
     lit ''Tu es un classificateur d'intention pour l'Archiviste de Nocilia, un univers de '' @
     lit ''fantasy avec lore, personnages et histoire propres. R'' @ [233] @
     lit ''ponds exclusivement par le mot `in_domain` si la question porte sur cet univers, ou '' @
     lit ''le mot `off_topic` si elle est hors-sujet (cuisine, m'' @ [233] @ lit ''t'' @ [233] @
     lit ''o, code, sport, etc.). Aucun guillemet, aucune ponctuation, aucun pr'' @ [233] @
     lit ''ambule. Un seul mot.''"

definition INTENT_USER_PREFIX :: pystr where
  "INTENT_USER_PREFIX = lit ''[user query]: ''"

definition INTENT_USER_PREFIX_INJECTION :: pystr where
  "INTENT_USER_PREFIX_INJECTION = lit ''[user query, suspected injection]: ''"

definition INTENT_TIMEOUT_S :: nat where
  "INTENT_TIMEOUT_S = 5"

datatype intent = InDomain | OffTopic

record intent_result =
  ir_intent :: intent
  ir_prompt_tokens :: "int option"
  ir_completion_tokens :: "int option"
  ir_cost_eur :: "rat option"
  ir_latency_ms :: int

definition build_intent_messages :: "pystr \<Rightarrow> bool \<Rightarrow> message list" where
  "build_intent_messages query suspected =
     [SystemMessage INTENT_SYSTEM_PROMPT,
      HumanMessage ((if suspected then INTENT_USER_PREFIX_INJECTION else INTENT_USER_PREFIX) @ query)]"

text \<open>\<open>raw.strip().lower()\<close> is compared with two ASCII words without the letter k, the only letter that a
  non-ASCII character lowers to; lowering the ASCII letters decides both comparisons.\<close>

definition parse_intent :: "pystr \<Rightarrow> intent option" where
  "parse_intent raw =
     (let normalised = map ascii_lower (py_strip raw)
      in if normalised = lit ''in_domain'' then Some InDomain
         else if normalised = lit ''off_topic'' then Some OffTopic
         else None)"

text \<open>\<open>int((time.perf_counter() - started) * 1000)\<close>\<close>

definition elapsed_ms :: "rat \<Rightarrow> int" where
  "elapsed_ms elapsed = py_int (elapsed * 1000)"

definition classify_intent :: "llm_config \<Rightarrow> chat_result \<Rightarrow> rat \<Rightarrow> intent_result" where
  "classify_intent client res elapsed =
     (case llm_invoke res of
        Inl _ \<Rightarrow> \<lparr>ir_intent = InDomain, ir_prompt_tokens = None, ir_completion_tokens = None,
                 ir_cost_eur = None, ir_latency_ms = elapsed_ms elapsed\<rparr>
      | Inr ai_message \<Rightarrow>
          (let u = extract_usage ai_message (lc_provider client)
           in \<lparr>ir_intent = (case parse_intent (content_text (ai_content ai_message)) of
                              None \<Rightarrow> InDomain | Some i \<Rightarrow> i),
               ir_prompt_tokens = us_prompt_tokens u, ir_completion_tokens = us_completion_tokens u,
               ir_cost_eur = compute_cost_eur (lc_model client) (us_prompt_tokens u) (us_completion_tokens u),
               ir_latency_ms = elapsed_ms elapsed\<rparr>))"

section \<open>Properties\<close>

text \<open>The classifier always answers and fails open: a question is treated as off topic only when the
  model replied and its trimmed reply is the word off_topic in some capitalisation. A timeout, an
  upstream error or any other reply lets the question through to the archives.\<close>

theorem classify_intent_fails_open:
  "ir_intent (classify_intent client res elapsed) = OffTopic \<longleftrightarrow>
     (\<exists>m. res = ChatReply m \<and> map ascii_lower (py_strip (content_text (ai_content m))) = lit ''off_topic'')"
  by (auto simp: classify_intent_def llm_invoke_def Let_def parse_intent_def split: chat_result.splits)

end
