(* ===== verification/Sse.thy ===== *)
theory Sse
  imports Intent
begin

text \<open>
  The event framing of \<open>workers/.../generate/stream_router.py\<close>: \<open>json.dumps\<close> with its default
  escaping, and the four kinds of events. \<open>fr\<close> is Python's \<open>repr\<close> of a float.
\<close>

section \<open>JSON text\<close>

definition hexchar :: "nat \<Rightarrow> nat" where
  "hexchar n = (if n < 10 then 48 + n else 87 + n)"

definition u_escape :: "nat \<Rightarrow> pystr" where
  "u_escape n = lit (CHR 0x5C # ''u'') @
     [hexchar (n div 4096 mod 16), hexchar (n div 256 mod 16), hexchar (n div 16 mod 16), hexchar (n mod 16)]"

definition json_char :: "nat \<Rightarrow> pystr" where
  "json_char c =
     (if c = 34 then [92, 34] else if c = 92 then [92, 92]
      else if c = 10 then [92, 110] else if c = 13 then [92, 114] else if c = 9 then [92, 116]
      else if c = 8 then [92, 98] else if c = 12 then [92, 102]
      else if 32 \<le> c \<and> c \<le> 126 then [c]
      else if c < 65536 then u_escape c
      else u_escape (55296 + (c - 65536) div 1024) @ u_escape (56320 + (c - 65536) mod 1024))"

definition json_str :: "pystr \<Rightarrow> pystr" where
  "json_str s = [34] @ concat (map json_char s) @ [34]"

fun json_dumps :: "(rat \<Rightarrow> pystr) \<Rightarrow> pyval \<Rightarrow> pystr" where
  "json_dumps fr PNone = lit ''null''"
| "json_dumps fr (PBool b) = (if b then lit ''true'' else lit ''false'')"
| "json_dumps fr (PInt n) = py_str_int n"
| "json_dumps fr (PFloat x) = fr x"
| "json_dumps fr (PStr s) = json_str s"
| "json_dumps fr (PList xs) = lit ''['' @ py_join (lit '', '') (map (json_dumps fr) xs) @ lit '']''"
| "json_dumps fr (PDict kvs) =
     lit ''{'' @ py_join (lit '', '') (map (\<lambda>kv. json_str (fst kv) @ lit '': '' @ json_dumps fr (snd kv)) kvs) @ lit ''}''"

section \<open>Events\<close>

datatype stream_error = ErrTimeout | ErrUpstream | ErrRetrieve

fun stream_error_code :: "stream_error \<Rightarrow> pystr" where
  "stream_error_code ErrTimeout = lit ''llm_timeout''"
| "stream_error_code ErrUpstream = lit ''llm_upstream''"
| "stream_error_code ErrRetrieve = lit ''retrieve_failed''"

datatype sse =
    SseMeta pystr pystr pystr
  | SseToken pystr
  | SseDone "citation list" usage int int "pystr list"
  | SseError stream_error

definition opt_int :: "int option \<Rightarrow> pyval" where
  "opt_int v = (case v of None \<Rightarrow> PNone | Some n \<Rightarrow> PInt n)"

definition opt_float :: "rat option \<Rightarrow> pyval" where
  "opt_float v = (case v of None \<Rightarrow> PNone | Some x \<Rightarrow> PFloat x)"

definition usage_dump :: "usage \<Rightarrow> pyval" where
  "usage_dump u = PDict [(lit ''prompt_tokens'', opt_int (us_prompt_tokens u)),
     (lit ''completion_tokens'', opt_int (us_completion_tokens u)), (lit ''cost_eur'', opt_float (us_cost_eur u))]"

definition citation_dump :: "citation \<Rightarrow> pyval" where
  "citation_dump c = PDict [(lit ''source_path'', PStr (ct_source_path c)),
     (lit ''chunk_ords'', PList (map PInt (ct_chunk_ords c)))]"

fun sse_name :: "sse \<Rightarrow> pystr" where
  "sse_name (SseMeta _ _ _) = lit ''meta''"
| "sse_name (SseToken _) = lit ''token''"
| "sse_name (SseDone _ _ _ _ _) = lit ''done''"
| "sse_name (SseError _) = lit ''error''"

fun sse_data :: "sse \<Rightarrow> pyval" where
  "sse_data (SseMeta mode cid rid) =
     PDict [(lit ''mode'', PStr mode), (lit ''conversation_id'', PStr cid), (lit ''request_id'', PStr rid)]"
| "sse_data (SseToken text) = PDict [(lit ''text'', PStr text)]"
| "sse_data (SseDone citations u retrieve_ms llm_ms followups) =
     PDict [(lit ''citations'', PList (map citation_dump citations)), (lit ''usage'', usage_dump u),
            (lit ''retrieve_ms'', PInt retrieve_ms), (lit ''llm_ms'', PInt llm_ms),
            (lit ''followups'', PList (map PStr followups))]"
| "sse_data (SseError code) = PDict [(lit ''error'', PStr (stream_error_code code))]"

definition sse_event :: "(rat \<Rightarrow> pystr) \<Rightarrow> sse \<Rightarrow> pystr" where
  "sse_event fr e = lit ''event: '' @ sse_name e @ [10] @ lit ''data: '' @ json_dumps fr (sse_data e) @ [10, 10]"

section \<open>Lemmas\<close>

definition printable :: "pystr \<Rightarrow> bool" where
  "printable s \<longleftrightarrow> (\<forall>c\<in>set s. 32 \<le> c \<and> c \<le> 126)"

lemma printable_simps [simp]:
  "printable []" "printable (c # s) \<longleftrightarrow> 32 \<le> c \<and> c \<le> 126 \<and> printable s"
  "printable (s @ t) \<longleftrightarrow> printable s \<and> printable t"
  by (auto simp: printable_def)

lemma printable_u_escape: "printable (u_escape n)"
proof -
  have "32 \<le> hexchar (k mod 16) \<and> hexchar (k mod 16) \<le> 126" for k
    using mod_less_divisor[of 16 k] by (auto simp: hexchar_def)
  then show ?thesis by (simp add: u_escape_def lit_def)
qed

lemma printable_json_char: "printable (json_char c)"
  by (simp add: json_char_def printable_u_escape)

lemma printable_json_str: "printable (json_str s)"
proof -
  have "printable (concat (map json_char s))" by (induction s) (simp_all add: printable_json_char)
  then show ?thesis by (simp add: json_str_def)
qed

lemma printable_join: "printable sep \<Longrightarrow> \<forall>s\<in>set ss. printable s \<Longrightarrow> printable (py_join sep ss)"
proof (induction ss rule: induct_list012)
  case (3 a b ss)
  then show ?case by simp
qed simp_all

lemma printable_str_int: "printable (py_str_int n)"
proof -
  have "printable (digits_of k)" for k using digits_of_range[of _ k] by (fastforce simp: printable_def)
  then show ?thesis by (simp add: py_str_int_def)
qed

lemma printable_json: "(\<And>x. printable (fr x)) \<Longrightarrow> printable (json_dumps fr v)"
proof (induction fr v rule: json_dumps.induct)
  case (6 fr xs)
  then show ?case by (auto simp: lit_def intro!: printable_join)
next
  case (7 fr kvs)
  then show ?case by (auto simp: lit_def printable_json_str intro!: printable_join)
qed (simp_all add: lit_def printable_json_str printable_str_int)

lemma printable_name: "printable (sse_name e)"
  by (cases e) (simp_all add: lit_def)

lemma printable_no_newline: "printable s \<Longrightarrow> 10 \<notin> set s"
  by (auto simp: printable_def)

section \<open>Properties\<close>

text \<open>The event stream cannot be forged through its payloads: whatever the texts, paths and follow-up
  questions contain, the lines of a rendered stream are exactly one event line, one data line and one
  empty line per event.\<close>

theorem sse_frames_exact:
  assumes "\<And>x. printable (fr x)"
  shows "split_on 10 (concat (map (sse_event fr) events)) =
    concat (map (\<lambda>e. [lit ''event: '' @ sse_name e, lit ''data: '' @ json_dumps fr (sse_data e), []]) events) @ [[]]"
proof (induction events)
  case (Cons e events)
  let ?l1 = "lit ''event: '' @ sse_name e" and ?l2 = "lit ''data: '' @ json_dumps fr (sse_data e)"
  have "10 \<notin> set ?l1" "10 \<notin> set ?l2"
    using printable_no_newline[OF printable_name[of e]] printable_no_newline[OF printable_json[where fr = fr and v = "sse_data e", OF assms]]
    by (simp_all add: lit_def)
  moreover have "sse_event fr e = ?l1 @ 10 # ?l2 @ 10 # [] @ [10]" by (simp add: sse_event_def)
  ultimately have "split_on 10 (sse_event fr e @ t) = [?l1, ?l2, []] @ split_on 10 t" for t
    using split_on_line[of 10 ?l1] split_on_line[of 10 ?l2] split_on_line[of 10 "[]" t] by simp
  with Cons show ?case by simp
qed simp

theorem sse_frames_exact_witness:
  "split_on 10 (concat (map (sse_event (\<lambda>_. lit ''0.5'')) [SseToken (lit ''a'' @ [10] @ lit ''event: done'')])) =
    [lit ''event: token'', lit ''data: '' @ json_dumps (\<lambda>_. lit ''0.5'') (sse_data (SseToken (lit ''a'' @ [10] @ lit ''event: done''))), [], []]"
proof -
  have "printable (lit ''0.5'')" by (simp add: lit_def)
  then show ?thesis
    using sse_frames_exact[of "\<lambda>_. lit ''0.5''" "[SseToken (lit ''a'' @ [10] @ lit ''event: done'')]"]
    by (simp add: lit_def)
qed

end
