(* ===== verification/Requests.thy ===== *)
theory Requests
  imports Prelude
begin

text \<open>
  The request boundary of \<open>/v1/generate\<close>: the UUID check and the request model
  (\<open>workers/.../generate/models.py\<close>), and \<open>_parse_request\<close> of \<open>generate/router.py\<close> with the
  order of its checks and its error codes. A raised \<open>_GenerateError\<close> is a value of the left
  summand.
\<close>

section \<open>The UUID check\<close>

definition hexdigit :: "nat \<Rightarrow> bool" where
  "hexdigit c \<longleftrightarrow> (48 \<le> c \<and> c \<le> 57) \<or> (97 \<le> c \<and> c \<le> 102)"

definition uuid_shape :: "pystr \<Rightarrow> bool" where
  "uuid_shape s \<longleftrightarrow> length s = 36
     \<and> list_all (\<lambda>i. if i \<in> {8, 13, 18, 23} then s ! i = 45 else hexdigit (s ! i)) [0..<36]"

text \<open>\<open>_UUID_RE.match(value)\<close>. The pattern ends with \<open>$\<close>, which in Python also matches before a
  trailing newline.\<close>

definition is_valid_uuid :: "pystr \<Rightarrow> bool" where
  "is_valid_uuid value \<longleftrightarrow>
     uuid_shape value \<or> (value \<noteq> [] \<and> last value = 10 \<and> uuid_shape (butlast value))"

lemmas uuid_eval [py_eval] = hexdigit_def uuid_shape_def is_valid_uuid_def

lemma uuid_shape_ascii: "uuid_shape s \<Longrightarrow> c \<in> set s \<Longrightarrow> c = 45 \<or> hexdigit c"
proof -
  assume u: "uuid_shape s" and "c \<in> set s"
  then obtain i where i: "i < length s" "c = s ! i" by (auto simp only: in_set_conv_nth)
  from u have len: "length s = 36"
    and all: "\<forall>i\<in>set [0..<36]. if i \<in> {8, 13, 18, 23} then s ! i = 45 else hexdigit (s ! i)"
    unfolding uuid_shape_def list_all_iff by blast+
  have "i \<in> set [0..<36]" using i(1) len by (simp only: set_upt atLeastLessThan_iff) simp
  then have "if i \<in> {8, 13, 18, 23} then s ! i = 45 else hexdigit (s ! i)" using all by blast
  then show ?thesis unfolding i(2) by presburger
qed

lemma is_valid_uuid_nonempty: "is_valid_uuid s \<Longrightarrow> s \<noteq> []"
  unfolding is_valid_uuid_def uuid_shape_def by fastforce

lemma is_valid_uuid_Nil [simp]: "\<not> is_valid_uuid []"
  using is_valid_uuid_nonempty by blast

lemma is_valid_uuid_chars: "is_valid_uuid s \<Longrightarrow> c \<in> set s \<Longrightarrow> c = 45 \<or> c = 10 \<or> hexdigit c"
proof -
  assume v: "is_valid_uuid s" and c: "c \<in> set s"
  have "s = butlast s @ [last s]" using is_valid_uuid_nonempty[OF v] by simp
  then have "c \<in> set (butlast s) \<or> c = last s" using c by (metis Un_iff empty_iff insert_iff list.set set_append)
  then show ?thesis
    using v c uuid_shape_ascii[of s c] uuid_shape_ascii[of "butlast s" c]
    unfolding is_valid_uuid_def by metis
qed

text \<open>An identifier for the concrete instances.\<close>

definition sample_uuid :: pystr where
  "sample_uuid = lit ''aaaaaaaa-aaaa-aaaa-aaaa-aaaaaaaaaaaa''"

lemma sample_uuid_valid: "is_valid_uuid sample_uuid"
  by code_simp

section \<open>The request model\<close>

definition QUERY_MAX_BYTES :: nat where
  "QUERY_MAX_BYTES = 4 * 1024"

record generate_request =
  rq_query :: pystr
  rq_conversation_id :: "pystr option"
  rq_user_id :: pystr
  rq_user_tier :: pystr
  rq_request_id :: pystr

datatype gen_error = GenerateError (ge_status: int) (ge_code: pystr)

definition CONTRACT_TIER_TO_INTERNAL :: "pystr \<Rightarrow> pystr option" where
  "CONTRACT_TIER_TO_INTERNAL t =
     (if t = lit ''anonymous'' then Some (lit ''anonymous'')
      else if t = lit ''member'' then Some (lit ''members'')
      else if t = lit ''author'' then Some (lit ''author_only'')
      else None)"

definition USER_TIERS :: "pystr set" where
  "USER_TIERS = {lit ''anonymous'', lit ''members'', lit ''author_only''}"

text \<open>Field validators of the pydantic model: Inl when the field is rejected.\<close>

definition validate_query :: "payload \<Rightarrow> unit + pystr" where
  "validate_query p =
     (case map_of p (lit ''query'') of
        Some (PStr q) \<Rightarrow>
          (if q = [] then Inl ()
           else case py_encode q of
                  None \<Rightarrow> Inl ()
                | Some b \<Rightarrow> if QUERY_MAX_BYTES < length b then Inl () else Inr q)
      | _ \<Rightarrow> Inl ())"

definition validate_opt_str :: "payload \<Rightarrow> pystr \<Rightarrow> unit + pystr option" where
  "validate_opt_str p k =
     (case map_of p k of
        None \<Rightarrow> Inr None
      | Some PNone \<Rightarrow> Inr None
      | Some (PStr s) \<Rightarrow> (if py_encode s = None then Inl () else Inr (Some s))
      | Some _ \<Rightarrow> Inl ())"

definition validate_str :: "payload \<Rightarrow> pystr \<Rightarrow> unit + pystr" where
  "validate_str p k =
     (case map_of p k of
        Some (PStr s) \<Rightarrow> (if py_encode s = None then Inl () else Inr s)
      | _ \<Rightarrow> Inl ())"

definition validate_tier :: "payload \<Rightarrow> unit + pystr" where
  "validate_tier p =
     (case map_of p (lit ''user_tier'') of
        Some (PStr s) \<Rightarrow> (if s \<in> USER_TIERS then Inr s else Inl ())
      | _ \<Rightarrow> Inl ())"

definition err_loc :: "pystr \<Rightarrow> unit + 'a \<Rightarrow> pystr list" where
  "err_loc k r = (case r of Inl _ \<Rightarrow> [k] | Inr _ \<Rightarrow> [])"

text \<open>\<open>GenerateRequest.model_validate(payload)\<close>: the rejected fields in declaration order, or the
  request.\<close>

definition model_validate :: "payload \<Rightarrow> pystr list + generate_request" where
  "model_validate p =
     (let q = validate_query p; cid = validate_opt_str p (lit ''conversation_id'');
          uid = validate_str p (lit ''user_id''); tier = validate_tier p;
          rid = validate_str p (lit ''request_id'')
      in case (q, cid, uid, tier, rid) of
           (Inr q', Inr cid', Inr uid', Inr tier', Inr rid') \<Rightarrow>
             Inr \<lparr>rq_query = q', rq_conversation_id = cid', rq_user_id = uid',
                  rq_user_tier = tier', rq_request_id = rid'\<rparr>
         | _ \<Rightarrow> Inl (err_loc (lit ''query'') q @ err_loc (lit ''conversation_id'') cid
                     @ err_loc (lit ''user_id'') uid @ err_loc (lit ''user_tier'') tier
                     @ err_loc (lit ''request_id'') rid))"

text \<open>The loop over \<open>exc.errors()\<close>.\<close>

fun validation_code :: "pystr list \<Rightarrow> pystr" where
  "validation_code [] = lit ''invalid_query''"
| "validation_code (loc # locs) =
     (if loc = lit ''request_id'' then lit ''invalid_request_id''
      else if loc = lit ''query'' then lit ''invalid_query''
      else validation_code locs)"

text \<open>The checks on the body, once the header values are stored in it.\<close>

definition parse_body :: "payload \<Rightarrow> gen_error + generate_request" where
  "parse_body p =
     (case map_of p (lit ''request_id'') of
        Some (PStr rid) \<Rightarrow>
          if \<not> is_valid_uuid rid then Inl (GenerateError 400 (lit ''invalid_request_id''))
          else if (case map_of p (lit ''conversation_id'') of
                     Some (PStr cid) \<Rightarrow> \<not> is_valid_uuid cid | _ \<Rightarrow> False)
          then Inl (GenerateError 400 (lit ''invalid_conversation_id''))
          else (case model_validate p of
                  Inl locs \<Rightarrow> Inl (GenerateError 400 (validation_code locs))
                | Inr r \<Rightarrow> Inr r)
      | _ \<Rightarrow> Inl (GenerateError 400 (lit ''invalid_request_id'')))"

definition store_identity :: "payload \<Rightarrow> pystr \<Rightarrow> pystr \<Rightarrow> payload" where
  "store_identity payload uid tier =
     dict_set (dict_set payload (lit ''user_id'') (PStr uid)) (lit ''user_tier'') (PStr tier)"

definition parse_request :: "payload \<Rightarrow> (pystr \<Rightarrow> pystr option) \<Rightarrow> gen_error + generate_request" where
  "parse_request payload headers =
     (case headers (lit ''x-user-id'') of
        None \<Rightarrow> Inl (GenerateError 400 (lit ''invalid_user_id''))
      | Some raw_user_id \<Rightarrow>
          if raw_user_id = [] \<or> \<not> is_valid_uuid raw_user_id
          then Inl (GenerateError 400 (lit ''invalid_user_id''))
          else
            (case headers (lit ''x-user-tier'') of
               None \<Rightarrow> Inl (GenerateError 422 (lit ''invalid_user_tier''))
             | Some raw_user_tier \<Rightarrow>
                 if raw_user_tier = [] then Inl (GenerateError 422 (lit ''invalid_user_tier''))
                 else (case CONTRACT_TIER_TO_INTERNAL raw_user_tier of
                         None \<Rightarrow> Inl (GenerateError 422 (lit ''invalid_user_tier''))
                       | Some tier \<Rightarrow> parse_body (store_identity payload raw_user_id tier))))"

section \<open>Lemmas\<close>

lemma tier_internal: "CONTRACT_TIER_TO_INTERNAL t = Some i \<Longrightarrow> i \<in> USER_TIERS"
  by (auto simp: CONTRACT_TIER_TO_INTERNAL_def USER_TIERS_def split: if_splits)

lemma is_valid_uuid_encodes: "is_valid_uuid s \<Longrightarrow> py_encode s \<noteq> None"
proof -
  assume "is_valid_uuid s"
  then have "\<not> is_surrogate c" if "c \<in> set s" for c
    using is_valid_uuid_chars[OF _ that] by (auto simp: is_surrogate_def hexdigit_def)
  then show ?thesis by (auto simp: py_encode_def)
qed

lemma validate_query_iff:
  "validate_query p = Inr q \<longleftrightarrow>
     map_of p (lit ''query'') = Some (PStr q) \<and> q \<noteq> [] \<and> py_encode q \<noteq> None
     \<and> length (utf8 q) \<le> QUERY_MAX_BYTES"
  by (auto simp: validate_query_def py_encode_def split: option.splits pyval.splits if_splits)

lemma validate_str_iff:
  "validate_str p k = Inr s \<longleftrightarrow> map_of p k = Some (PStr s) \<and> py_encode s \<noteq> None"
  by (auto simp: validate_str_def split: option.splits pyval.splits if_splits)

lemma validate_tier_iff:
  "validate_tier p = Inr s \<longleftrightarrow> map_of p (lit ''user_tier'') = Some (PStr s) \<and> s \<in> USER_TIERS"
  by (auto simp: validate_tier_def split: option.splits pyval.splits if_splits)

lemma model_validate_Inr:
  "model_validate p = Inr r \<longleftrightarrow>
     validate_query p = Inr (rq_query r)
   \<and> validate_opt_str p (lit ''conversation_id'') = Inr (rq_conversation_id r)
   \<and> validate_str p (lit ''user_id'') = Inr (rq_user_id r)
   \<and> validate_tier p = Inr (rq_user_tier r)
   \<and> validate_str p (lit ''request_id'') = Inr (rq_request_id r)"
  by (cases r) (auto simp: model_validate_def Let_def split: sum.splits)

text \<open>The conversation id a payload carries: None when it is absent or null, rejected (outer None)
  when it is not a UUID string.\<close>

definition conversation_field :: "payload \<Rightarrow> pystr option option" where
  "conversation_field p =
     (case map_of p (lit ''conversation_id'') of
        None \<Rightarrow> Some None
      | Some PNone \<Rightarrow> Some None
      | Some (PStr s) \<Rightarrow> (if is_valid_uuid s then Some (Some s) else None)
      | Some _ \<Rightarrow> None)"

lemma conversation_field_iff:
  "conversation_field p = Some cid \<longleftrightarrow>
     validate_opt_str p (lit ''conversation_id'') = Inr cid
     \<and> \<not> (case map_of p (lit ''conversation_id'') of Some (PStr c) \<Rightarrow> \<not> is_valid_uuid c | _ \<Rightarrow> False)"
  using is_valid_uuid_encodes
  by (fastforce simp: conversation_field_def validate_opt_str_def
        split: option.splits pyval.splits if_splits)

lemma parse_body_Inr:
  "parse_body p = Inr r \<longleftrightarrow>
     map_of p (lit ''request_id'') = Some (PStr (rq_request_id r)) \<and> is_valid_uuid (rq_request_id r)
   \<and> conversation_field p = Some (rq_conversation_id r)
   \<and> validate_query p = Inr (rq_query r)
   \<and> validate_str p (lit ''user_id'') = Inr (rq_user_id r)
   \<and> validate_tier p = Inr (rq_user_tier r)"
proof (cases "\<exists>rid. map_of p (lit ''request_id'') = Some (PStr rid)")
  case False
  then show ?thesis by (auto simp: parse_body_def split: option.splits pyval.splits)
next
  case True
  then obtain rid where rid: "map_of p (lit ''request_id'') = Some (PStr rid)" by blast
  have "parse_body p = Inr r \<longleftrightarrow> is_valid_uuid rid
      \<and> \<not> (case map_of p (lit ''conversation_id'') of Some (PStr c) \<Rightarrow> \<not> is_valid_uuid c | _ \<Rightarrow> False)
      \<and> model_validate p = Inr r"
    by (simp add: parse_body_def rid split: sum.splits)
  then show ?thesis
    using rid is_valid_uuid_encodes
    by (auto simp: model_validate_Inr conversation_field_iff validate_str_iff)
qed

lemma store_identity_fields [simp]:
  "map_of (store_identity p uid tier) (lit ''user_id'') = Some (PStr uid)"
  "map_of (store_identity p uid tier) (lit ''user_tier'') = Some (PStr tier)"
  "k \<noteq> lit ''user_id'' \<Longrightarrow> k \<noteq> lit ''user_tier'' \<Longrightarrow>
     map_of (store_identity p uid tier) k = map_of p k"
  by (simp_all add: store_identity_def)

lemma store_identity_checks [simp]:
  "conversation_field (store_identity p uid tier) = conversation_field p"
  "validate_query (store_identity p uid tier) = validate_query p"
  by (simp_all add: conversation_field_def validate_query_def)

lemma tier_nonempty: "CONTRACT_TIER_TO_INTERNAL t = Some i \<Longrightarrow> t \<noteq> []"
  by (auto simp: CONTRACT_TIER_TO_INTERNAL_def)

section \<open>Properties\<close>

text \<open>C30: A request is accepted exactly when the two identity headers are valid, the body carries a
  valid request id, an absent or valid conversation id and a non-empty query of at most 4096 UTF-8
  bytes; the accepted request takes its user id and its tier from the headers alone, whatever the
  body says, so a client cannot raise its own tier through the payload.\<close>

theorem parse_request_accepts_iff:
  "parse_request payload headers = Inr r \<longleftrightarrow>
     headers (lit ''x-user-id'') = Some (rq_user_id r) \<and> is_valid_uuid (rq_user_id r)
   \<and> (\<exists>ctier. headers (lit ''x-user-tier'') = Some ctier
        \<and> CONTRACT_TIER_TO_INTERNAL ctier = Some (rq_user_tier r))
   \<and> map_of payload (lit ''request_id'') = Some (PStr (rq_request_id r))
   \<and> is_valid_uuid (rq_request_id r)
   \<and> conversation_field payload = Some (rq_conversation_id r)
   \<and> map_of payload (lit ''query'') = Some (PStr (rq_query r)) \<and> rq_query r \<noteq> []
   \<and> py_encode (rq_query r) \<noteq> None \<and> length (utf8 (rq_query r)) \<le> 4096"
  using is_valid_uuid_nonempty is_valid_uuid_encodes tier_nonempty tier_internal
  by (auto simp: parse_request_def parse_body_Inr validate_str_iff validate_tier_iff
        validate_query_iff QUERY_MAX_BYTES_def split: option.splits if_splits)

text \<open>The identifier check accepts more than its pattern was written for: besides the 36-character
  lower-case UUID shape it accepts that shape followed by one newline, and nothing else.\<close>

theorem is_valid_uuid_exact:
  "is_valid_uuid s \<longleftrightarrow> uuid_shape s \<or> (\<exists>t. s = t @ [10] \<and> uuid_shape t)"
  by (auto simp: is_valid_uuid_def) (metis append_butlast_last_id)

end
