(* ===== verification/Database.thy ===== *)
theory Database
  imports Requests
begin

text \<open>
  The Postgres tables the workers read and write, as lists of rows, with the constraints of
  \<open>migrations/\<close> (primary keys, foreign keys, UNIQUE and CHECK). A statement of the source is a
  function on this state; a violated constraint, a failed cast or a transport failure is an exception
  value, and a statement or transaction that raises leaves the state as it was.
\<close>

section \<open>Rows and tables\<close>

datatype role = User | Assistant

type_synonym vec = "rat list"

record message_row =
  mr_conversation_id :: pystr
  mr_role :: role
  mr_ordinal :: int
  mr_content :: pystr
  mr_token_count :: int
  mr_created_at :: int

record conversation_row =
  cv_id :: pystr
  cv_user_id :: pystr
  cv_gcs_uri :: pystr
  cv_created_at :: int
  cv_message_count :: int

record ticket_row =
  tk_id :: pystr
  tk_conversation_id :: pystr
  tk_question :: pystr
  tk_question_embedding :: "vec option"
  tk_category :: pystr
  tk_priority_score :: int
  tk_status :: pystr
  tk_judges_not_passed :: bool

record query_log_row =
  ql_request_id :: pystr
  ql_user_id :: pystr
  ql_conversation_id :: "pystr option"
  ql_query_text :: pystr
  ql_mode :: "pystr option"
  ql_intent :: "pystr option"
  ql_status_code :: int
  ql_latency_ms :: int
  ql_prompt_tokens :: "int option"
  ql_completion_tokens :: "int option"
  ql_cost_eur :: "rat option"

record db =
  db_users :: "(pystr \<times> pystr) list"
  db_conversations :: "conversation_row list"
  db_messages :: "message_row list"
  db_tickets :: "ticket_row list"
  db_query_log :: "query_log_row list"

text \<open>Exceptions a statement can raise. Foreign-key and unique violations are Postgres errors; a
  value that cannot be encoded for its parameter is an interface error and a ValueError.\<close>

datatype db_exn =
    PostgresError
  | ForeignKeyViolationError
  | UniqueViolationError
  | InterfaceError
  | DataError
  | OSError
  | TimeoutError

definition is_postgres_error :: "db_exn \<Rightarrow> bool" where
  "is_postgres_error e \<longleftrightarrow> e \<in> {PostgresError, ForeignKeyViolationError, UniqueViolationError}"

definition is_interface_error :: "db_exn \<Rightarrow> bool" where
  "is_interface_error e \<longleftrightarrow> e \<in> {InterfaceError, DataError}"

text \<open>\<open>(asyncpg.PostgresError, OSError, TimeoutError)\<close>, the clause of the best-effort writes.\<close>

definition caught_best_effort :: "db_exn \<Rightarrow> bool" where
  "caught_best_effort e \<longleftrightarrow> is_postgres_error e \<or> e = OSError \<or> e = TimeoutError"

definition PG_INT_MAX :: int where
  "PG_INT_MAX = 2147483647"

definition pg_int :: "int \<Rightarrow> bool" where
  "pg_int i \<longleftrightarrow> - PG_INT_MAX - 1 \<le> i \<and> i \<le> PG_INT_MAX"

section \<open>Lookups\<close>

definition has_user :: "db \<Rightarrow> pystr \<Rightarrow> bool" where
  "has_user d u \<longleftrightarrow> u \<in> fst ` set (db_users d)"

definition find_conversation :: "db \<Rightarrow> pystr \<Rightarrow> conversation_row option" where
  "find_conversation d c = List.find (\<lambda>r. cv_id r = c) (db_conversations d)"

definition has_conversation :: "db \<Rightarrow> pystr \<Rightarrow> bool" where
  "has_conversation d c \<longleftrightarrow> c \<in> cv_id ` set (db_conversations d)"

lemma find_conversation_None: "find_conversation d c = None \<longleftrightarrow> \<not> has_conversation d c"
  by (auto simp: find_conversation_def has_conversation_def find_None_iff)

lemma find_conversation_Some:
  "find_conversation d c = Some r \<Longrightarrow> r \<in> set (db_conversations d) \<and> cv_id r = c"
  by (auto simp: find_conversation_def find_Some_iff)

section \<open>The constraints of the schema\<close>

definition wf_users :: "db \<Rightarrow> bool" where
  "wf_users d \<longleftrightarrow> distinct (map fst (db_users d))"

definition wf_conversations :: "db \<Rightarrow> bool" where
  "wf_conversations d \<longleftrightarrow> distinct (map cv_id (db_conversations d))
     \<and> distinct (map cv_gcs_uri (db_conversations d))
     \<and> (\<forall>r\<in>set (db_conversations d). has_user d (cv_user_id r)
          \<and> 0 \<le> cv_message_count r \<and> cv_message_count r \<le> PG_INT_MAX)"

definition wf_messages :: "db \<Rightarrow> bool" where
  "wf_messages d \<longleftrightarrow>
     distinct (map (\<lambda>m. (mr_conversation_id m, mr_ordinal m)) (db_messages d))
     \<and> (\<forall>m\<in>set (db_messages d). has_conversation d (mr_conversation_id m)
          \<and> 0 \<le> mr_ordinal m \<and> 0 \<le> mr_token_count m)"

definition wf_tickets :: "db \<Rightarrow> bool" where
  "wf_tickets d \<longleftrightarrow> distinct (map tk_id (db_tickets d))
     \<and> (\<forall>t\<in>set (db_tickets d). has_conversation d (tk_conversation_id t)
          \<and> 1 \<le> tk_priority_score t \<and> tk_priority_score t \<le> PG_INT_MAX)"

definition wf_query_log :: "db \<Rightarrow> bool" where
  "wf_query_log d \<longleftrightarrow> distinct (map ql_request_id (db_query_log d))
     \<and> (\<forall>q\<in>set (db_query_log d). has_user d (ql_user_id q)
          \<and> (\<forall>c. ql_conversation_id q = Some c \<longrightarrow> has_conversation d c))"

definition wf_db :: "db \<Rightarrow> bool" where
  "wf_db d \<longleftrightarrow> wf_users d \<and> wf_conversations d \<and> wf_messages d \<and> wf_tickets d \<and> wf_query_log d"

lemmas wf_defs =
  wf_db_def wf_users_def wf_conversations_def wf_messages_def wf_tickets_def wf_query_log_def

lemma find_conversation_wf:
  "wf_conversations d \<Longrightarrow> r \<in> set (db_conversations d) \<Longrightarrow> find_conversation d (cv_id r) = Some r"
  by (simp add: find_conversation_def wf_conversations_def find_by_key)

section \<open>Ordering\<close>

text \<open>\<open>ORDER BY ordinal DESC\<close>; the rows of one conversation have distinct ordinals.\<close>

definition newest_first :: "message_row list \<Rightarrow> message_row list" where
  "newest_first ms = rev (sort_key mr_ordinal ms)"

lemma set_newest_first [simp]: "set (newest_first ms) = set ms"
  by (simp add: newest_first_def)

lemma length_newest_first [simp]: "length (newest_first ms) = length ms"
  by (simp add: newest_first_def)

lemma newest_first_sorted: "sorted_wrt (\<lambda>a b. mr_ordinal a \<ge> mr_ordinal b) (newest_first ms)"
proof -
  have "sorted (map mr_ordinal (sort_key mr_ordinal ms))" by simp
  then have "sorted_wrt (\<lambda>a b. mr_ordinal a \<le> mr_ordinal b) (sort_key mr_ordinal ms)"
    by (simp add: sorted_wrt_map)
  then show ?thesis by (simp add: newest_first_def sorted_wrt_rev)
qed

lemma sort_key_snoc:
  "\<forall>x\<in>set xs. f x \<le> f m \<Longrightarrow> sort_key f (xs @ [m]) = sort_key f xs @ [m]"
proof (induction xs)
  case Nil
  then show ?case by simp
next
  case (Cons x xs)
  have "insort_key f x (ys @ [m]) = insort_key f x ys @ [m]" if "f x \<le> f m" for ys
    using that by (induction ys) auto
  with Cons show ?case by simp
qed

lemma newest_first_snoc:
  "\<forall>x\<in>set ms. mr_ordinal x < mr_ordinal m \<Longrightarrow> newest_first (ms @ [m]) = m # newest_first ms"
  using sort_key_snoc[of ms mr_ordinal m] by (simp add: newest_first_def less_imp_le)

section \<open>A small state for the concrete instances\<close>

definition sample_db :: db where
  "sample_db =
     \<lparr>db_users = [(lit ''u1'', lit ''member'')],
      db_conversations = [\<lparr>cv_id = lit ''c1'', cv_user_id = lit ''u1'', cv_gcs_uri = lit ''gs://b/c1.md'',
                           cv_created_at = 100, cv_message_count = 3\<rparr>],
      db_messages =
        [\<lparr>mr_conversation_id = lit ''c1'', mr_role = User, mr_ordinal = 0, mr_content = lit ''a'',
          mr_token_count = 5, mr_created_at = 100\<rparr>,
         \<lparr>mr_conversation_id = lit ''c1'', mr_role = Assistant, mr_ordinal = 1, mr_content = lit ''b'',
          mr_token_count = 3, mr_created_at = 101\<rparr>,
         \<lparr>mr_conversation_id = lit ''c1'', mr_role = User, mr_ordinal = 2, mr_content = lit ''c'',
          mr_token_count = 2, mr_created_at = 102\<rparr>],
      db_tickets = [], db_query_log = []\<rparr>"

lemma sample_db_wf: "wf_db sample_db"
  by (simp add: sample_db_def wf_defs has_user_def has_conversation_def PG_INT_MAX_def)

end
