(* ===== verification/Conversation_Repository.thy ===== *)
theory Conversation_Repository
  imports Database
begin

text \<open>
  \<open>workers/.../conversation/repository.py\<close>: the index row of a conversation, its message counter and
  the structured message store. \<open>cast\<close> is the text-to-UUID cast of a statement parameter (None: the
  driver refuses the value); \<open>fault\<close> is a transport or server failure of the call, None when there
  is none. Timestamps are integers.
\<close>

section \<open>Operations\<close>

datatype repo_error = UnknownUserError | DbRaised db_exn | IntOfNone

type_synonym uuid_cast = "pystr \<Rightarrow> pystr option"

definition upsert_anon_user :: "db \<Rightarrow> pystr \<Rightarrow> db" where
  "upsert_anon_user d u =
     (if has_user d u then d else d\<lparr>db_users := db_users d @ [(u, lit ''anonymous'')]\<rparr>)"

definition create_if_absent ::
  "uuid_cast \<Rightarrow> db_exn option \<Rightarrow> db \<Rightarrow> pystr \<Rightarrow> pystr \<Rightarrow> pystr \<Rightarrow> int \<Rightarrow> (repo_error + bool \<times> int) \<times> db" where
  "create_if_absent cast fault d conversation_id user_id gcs_uri created_at =
     (case fault of
        Some e \<Rightarrow> (Inl (if e = ForeignKeyViolationError then UnknownUserError else DbRaised e), d)
      | None \<Rightarrow>
          (case (cast user_id, cast conversation_id) of
             (Some u, Some c) \<Rightarrow>
               (let d1 = upsert_anon_user d u
                in case find_conversation d1 c of
                     Some r \<Rightarrow> (Inr (False, cv_created_at r), d1)
                   | None \<Rightarrow>
                       if gcs_uri \<in> cv_gcs_uri ` set (db_conversations d1)
                       then (Inl (DbRaised UniqueViolationError), d)
                       else (Inr (True, created_at),
                             d1\<lparr>db_conversations := db_conversations d1 @
                                 [\<lparr>cv_id = c, cv_user_id = u, cv_gcs_uri = gcs_uri,
                                   cv_created_at = created_at, cv_message_count = 0\<rparr>]\<rparr>))
           | _ \<Rightarrow> (Inl (DbRaised DataError), d)))"

definition bump_count :: "pystr \<Rightarrow> conversation_row \<Rightarrow> conversation_row" where
  "bump_count c r = (if cv_id r = c then r\<lparr>cv_message_count := cv_message_count r + 1\<rparr> else r)"

definition increment_message_count ::
  "uuid_cast \<Rightarrow> db_exn option \<Rightarrow> db \<Rightarrow> pystr \<Rightarrow> (repo_error + int) \<times> db" where
  "increment_message_count cast fault d conversation_id =
     (case fault of
        Some e \<Rightarrow> (Inl (DbRaised e), d)
      | None \<Rightarrow>
          (case cast conversation_id of
             None \<Rightarrow> (Inl (DbRaised DataError), d)
           | Some c \<Rightarrow>
               (case find_conversation d c of
                  None \<Rightarrow> (Inl IntOfNone, d)
                | Some r \<Rightarrow>
                    if PG_INT_MAX < cv_message_count r + 1 then (Inl (DbRaised PostgresError), d)
                    else (Inr (cv_message_count r + 1),
                          d\<lparr>db_conversations := map (bump_count c) (db_conversations d)\<rparr>))))"

definition insert_message ::
  "uuid_cast \<Rightarrow> db_exn option \<Rightarrow> int \<Rightarrow> db \<Rightarrow> pystr \<Rightarrow> role \<Rightarrow> int \<Rightarrow> pystr \<Rightarrow> int \<Rightarrow> (db_exn + unit) \<times> db" where
  "insert_message cast fault now d conversation_id rl ordinal content token_count =
     (case fault of
        Some e \<Rightarrow> (Inl e, d)
      | None \<Rightarrow>
          (case cast conversation_id of
             None \<Rightarrow> (Inl DataError, d)
           | Some c \<Rightarrow>
               if \<not> pg_int ordinal \<or> \<not> pg_int token_count then (Inl DataError, d)
               else if ordinal < 0 \<or> token_count < 0 then (Inl PostgresError, d)
               else if (c, ordinal) \<in> (\<lambda>m. (mr_conversation_id m, mr_ordinal m)) ` set (db_messages d)
               then (Inl UniqueViolationError, d)
               else if \<not> has_conversation d c then (Inl ForeignKeyViolationError, d)
               else (Inr (),
                     d\<lparr>db_messages := db_messages d @
                         [\<lparr>mr_conversation_id = c, mr_role = rl, mr_ordinal = ordinal,
                           mr_content = content, mr_token_count = token_count, mr_created_at = now\<rparr>]\<rparr>)))"

text \<open>The two tail reads; \<open>LIMIT\<close> is a natural number here (the callers pass 50).\<close>

definition messages_of :: "db \<Rightarrow> pystr \<Rightarrow> message_row list" where
  "messages_of d c = filter (\<lambda>m. mr_conversation_id m = c) (db_messages d)"

definition fetch_tail ::
  "uuid_cast \<Rightarrow> db_exn option \<Rightarrow> db \<Rightarrow> pystr \<Rightarrow> nat \<Rightarrow> db_exn + message_row list" where
  "fetch_tail cast fault d conversation_id limit =
     (case fault of
        Some e \<Rightarrow> Inl e
      | None \<Rightarrow>
          (case cast conversation_id of
             None \<Rightarrow> Inl DataError
           | Some c \<Rightarrow> Inr (take limit (newest_first (messages_of d c)))))"

definition owns :: "db \<Rightarrow> pystr \<Rightarrow> pystr \<Rightarrow> bool" where
  "owns d u c \<longleftrightarrow> (\<exists>r\<in>set (db_conversations d). cv_id r = c \<and> cv_user_id r = u)"

definition fetch_tail_owned ::
  "uuid_cast \<Rightarrow> db_exn option \<Rightarrow> db \<Rightarrow> pystr \<Rightarrow> pystr \<Rightarrow> nat \<Rightarrow> db_exn + message_row list" where
  "fetch_tail_owned cast fault d conversation_id user_id limit =
     (case fault of
        Some e \<Rightarrow> Inl e
      | None \<Rightarrow>
          (case (cast conversation_id, cast user_id) of
             (Some c, Some u) \<Rightarrow>
               Inr (take limit (newest_first
                      (filter (\<lambda>m. mr_conversation_id m = c \<and> owns d u c) (db_messages d))))
           | _ \<Rightarrow> Inl DataError))"

section \<open>The schema is preserved\<close>

lemma upsert_has_user [simp]: "has_user (upsert_anon_user d u) v \<longleftrightarrow> has_user d v \<or> v = u"
  by (auto simp: upsert_anon_user_def has_user_def)

lemma upsert_frame [simp]:
  "db_conversations (upsert_anon_user d u) = db_conversations d"
  "db_messages (upsert_anon_user d u) = db_messages d"
  "db_tickets (upsert_anon_user d u) = db_tickets d"
  "db_query_log (upsert_anon_user d u) = db_query_log d"
  "has_conversation (upsert_anon_user d u) c = has_conversation d c"
  "find_conversation (upsert_anon_user d u) c = find_conversation d c"
  by (simp_all add: upsert_anon_user_def has_conversation_def find_conversation_def)

lemma upsert_wf: "wf_db d \<Longrightarrow> wf_db (upsert_anon_user d u)"
proof -
  assume "wf_db d"
  moreover have "wf_users d \<Longrightarrow> wf_users (upsert_anon_user d u)"
    by (auto simp: wf_users_def upsert_anon_user_def has_user_def)
  ultimately show ?thesis by (auto simp: wf_defs)
qed

lemma add_conversation_wf:
  assumes "wf_db d" "\<not> has_conversation d c" "has_user d u"
    "uri \<notin> cv_gcs_uri ` set (db_conversations d)"
  shows "wf_db (d\<lparr>db_conversations := db_conversations d @
           [\<lparr>cv_id = c, cv_user_id = u, cv_gcs_uri = uri, cv_created_at = t, cv_message_count = 0\<rparr>]\<rparr>)"
proof -
  have "has_conversation (d\<lparr>db_conversations := db_conversations d @ [r]\<rparr>) x
      \<longleftrightarrow> has_conversation d x \<or> x = cv_id r" for r x
    by (auto simp: has_conversation_def)
  moreover have "has_user (d\<lparr>db_conversations := cs\<rparr>) v = has_user d v" for cs v
    by (simp add: has_user_def)
  ultimately show ?thesis
    using assms by (auto simp: wf_defs has_conversation_def[of d c] PG_INT_MAX_def)
qed

lemma create_if_absent_wf: "wf_db d \<Longrightarrow> wf_db (snd (create_if_absent cast fault d cid uid uri t))"
  using upsert_wf[of d] add_conversation_wf[OF upsert_wf, of d _ _ _ uri t]
  by (simp add: create_if_absent_def Let_def find_conversation_None split: option.split)

lemma bump_count_fields [simp]:
  "cv_id (bump_count c r) = cv_id r" "cv_user_id (bump_count c r) = cv_user_id r"
  "cv_gcs_uri (bump_count c r) = cv_gcs_uri r"
  by (simp_all add: bump_count_def)

lemma bump_has [simp]:
  "has_conversation (d\<lparr>db_conversations := map (bump_count c) (db_conversations d)\<rparr>) x = has_conversation d x"
  "has_user (d\<lparr>db_conversations := cs\<rparr>) u = has_user d u"
  by (auto simp: has_conversation_def has_user_def image_iff)

lemma increment_wf: "wf_db d \<Longrightarrow> wf_db (snd (increment_message_count cast fault d cid))"
proof -
  assume wf: "wf_db d"
  have "wf_db (d\<lparr>db_conversations := map (bump_count c) (db_conversations d)\<rparr>)"
    if r: "find_conversation d c = Some r" and ok: "cv_message_count r + 1 \<le> PG_INT_MAX" for c r
  proof -
    have "x = r" if "x \<in> set (db_conversations d)" "cv_id x = c" for x
      using find_conversation_wf[of d x] that r wf by (auto simp: wf_db_def)
    then have "0 \<le> cv_message_count (bump_count c x) \<and> cv_message_count (bump_count c x) \<le> PG_INT_MAX"
      if "x \<in> set (db_conversations d)" for x
      using that wf ok by (auto simp: bump_count_def wf_defs)
    with wf show ?thesis by (auto simp: wf_defs o_def)
  qed
  with wf show ?thesis
    by (auto simp: increment_message_count_def split: option.splits)
qed

lemma insert_message_wf:
  "wf_db d \<Longrightarrow> wf_db (snd (insert_message cast fault now d cid rl n content tc))"
proof -
  assume wf: "wf_db d"
  have "has_conversation (d\<lparr>db_messages := ms\<rparr>) x = has_conversation d x"
       "has_user (d\<lparr>db_messages := ms\<rparr>) u = has_user d u" for ms x u
    by (simp_all add: has_conversation_def has_user_def)
  with wf show ?thesis
    by (auto simp: insert_message_def wf_defs image_iff split: option.splits)
qed

section \<open>Ordinals\<close>

text \<open>Every stored message has an ordinal below the counter of its conversation.\<close>

definition ordinals_below :: "db \<Rightarrow> bool" where
  "ordinals_below d \<longleftrightarrow>
     (\<forall>m\<in>set (db_messages d). \<forall>r\<in>set (db_conversations d).
        cv_id r = mr_conversation_id m \<longrightarrow> mr_ordinal m < cv_message_count r)"

lemma upsert_ordinals [simp]: "ordinals_below (upsert_anon_user d u) = ordinals_below d"
  by (simp add: ordinals_below_def)

lemma create_ordinals:
  assumes "wf_db d" "ordinals_below d"
  shows "ordinals_below (snd (create_if_absent cast fault d cid uid uri t))"
proof -
  have "mr_conversation_id m \<noteq> c" if "m \<in> set (db_messages d)" "\<not> has_conversation d c" for m c
    using assms(1) that by (auto simp: wf_defs)
  with assms show ?thesis
    by (auto simp: create_if_absent_def Let_def ordinals_below_def find_conversation_None
        split: option.splits)
qed

lemma increment_ordinals:
  assumes "ordinals_below d"
  shows "ordinals_below (snd (increment_message_count cast fault d cid))"
proof -
  have "ordinals_below (d\<lparr>db_conversations := map (bump_count c) (db_conversations d)\<rparr>)" for c
    unfolding ordinals_below_def
  proof (intro ballI impI)
    fix m r' assume m: "m \<in> set (db_messages (d\<lparr>db_conversations := map (bump_count c) (db_conversations d)\<rparr>))"
      and r': "r' \<in> set (db_conversations (d\<lparr>db_conversations := map (bump_count c) (db_conversations d)\<rparr>))"
        "cv_id r' = mr_conversation_id m"
    from r' obtain r where "r \<in> set (db_conversations d)" and eq: "r' = bump_count c r"
      by auto
    with m r' assms have "mr_ordinal m < cv_message_count r" by (simp add: ordinals_below_def)
    then show "mr_ordinal m < cv_message_count r'" by (simp add: eq bump_count_def)
  qed
  with assms show ?thesis by (simp add: increment_message_count_def split: option.split)
qed

text \<open>After the counter was bumped to \<open>n\<close>, the ordinal \<open>n - 1\<close> is free.\<close>

lemma increment_fresh:
  assumes "wf_db d" "ordinals_below d"
    "increment_message_count cast fault d cid = (Inr n, d')" "cast cid = Some c"
  shows "(c, n - 1) \<notin> (\<lambda>m. (mr_conversation_id m, mr_ordinal m)) ` set (db_messages d')
    \<and> has_conversation d' c \<and> 0 < n
    \<and> (\<forall>r\<in>set (db_conversations d'). cv_id r = c \<longrightarrow> cv_message_count r = n)"
proof -
  from assms(3,4) obtain r where r: "find_conversation d c = Some r" "n = cv_message_count r + 1"
    and d': "d' = d\<lparr>db_conversations := map (bump_count c) (db_conversations d)\<rparr>"
    by (auto simp: increment_message_count_def split: option.splits if_splits)
  have rin: "r \<in> set (db_conversations d)" "cv_id r = c"
    using find_conversation_Some[OF r(1)] by auto
  have uniq: "x = r" if "x \<in> set (db_conversations d)" "cv_id x = c" for x
    using find_conversation_wf[of d x] that r assms(1) by (auto simp: wf_db_def)
  have "\<forall>m\<in>set (db_messages d). mr_conversation_id m = c \<longrightarrow> mr_ordinal m < cv_message_count r"
    using assms(2) rin by (simp add: ordinals_below_def)
  moreover have "0 \<le> cv_message_count r" using assms(1) rin by (auto simp: wf_defs)
  moreover have "has_conversation d c" using rin by (auto simp: has_conversation_def)
  moreover have "cv_message_count (bump_count c x) = n"
    if "x \<in> set (db_conversations d)" "cv_id x = c" for x
    using uniq[OF that] rin r(2) by (simp add: bump_count_def)
  ultimately show ?thesis using r(2) by (auto simp: d')
qed

lemma insert_ordinals:
  assumes "ordinals_below d" "\<forall>r\<in>set (db_conversations d). cast cid = Some (cv_id r) \<longrightarrow> n < cv_message_count r"
  shows "ordinals_below (snd (insert_message cast fault now d cid rl n content tc))"
  using assms by (auto simp: insert_message_def ordinals_below_def split: option.splits)

end
