(* ===== verification/Tickets.thy ===== *)
theory Tickets
  imports Conversation_Repository
begin

text \<open>
  \<open>workers/.../services/ticket_service.py\<close>: lore-gap tickets, deduplicated by cosine similarity of the
  question's embedding, and \<open>services/query_log.py\<close>: one row per request. Parameters: the embedder's
  \<open>encode_batch\<close> (Inl: it raises), the vector distance operator, the generated ticket id and a
  failure of the transaction.
\<close>

section \<open>Ticket service\<close>

definition TICKET_DEDUP_COSINE_THRESHOLD :: rat where
  "TICKET_DEDUP_COSINE_THRESHOLD = 85/100"

datatype ticket_action = Created | Incremented | SkippedError

record ticket_result =
  tr_action :: ticket_action
  tr_ticket_id :: "pystr option"
  tr_priority_score :: "int option"

record ticket_env =
  te_encode_batch :: "pystr list \<Rightarrow> unit + vec list"
  te_distance :: "vec \<Rightarrow> vec \<Rightarrow> rat"
  te_cast :: uuid_cast
  te_new_id :: pystr
  te_fault :: "db_exn option"

text \<open>\<open>1 - (question_embedding <=> $1) >= $2\<close> on an open ticket; NULL never satisfies it.\<close>

definition similar_open :: "(vec \<Rightarrow> vec \<Rightarrow> rat) \<Rightarrow> vec \<Rightarrow> ticket_row \<Rightarrow> bool" where
  "similar_open df v t \<longleftrightarrow> tk_status t = lit ''open''
     \<and> (case tk_question_embedding t of
          None \<Rightarrow> False | Some e \<Rightarrow> TICKET_DEDUP_COSINE_THRESHOLD \<le> 1 - df e v)"

definition ticket_distance :: "(vec \<Rightarrow> vec \<Rightarrow> rat) \<Rightarrow> vec \<Rightarrow> ticket_row \<Rightarrow> rat" where
  "ticket_distance df v t = (case tk_question_embedding t of None \<Rightarrow> 0 | Some e \<Rightarrow> df e v)"

text \<open>\<open>ORDER BY ... ASC LIMIT 1\<close>\<close>

fun nearest :: "('a \<Rightarrow> rat) \<Rightarrow> 'a list \<Rightarrow> 'a option" where
  "nearest f [] = None"
| "nearest f (t # ts) =
     (case nearest f ts of None \<Rightarrow> Some t | Some u \<Rightarrow> Some (if f t \<le> f u then t else u))"

definition find_similar :: "ticket_env \<Rightarrow> db \<Rightarrow> vec \<Rightarrow> ticket_row option" where
  "find_similar env d v =
     nearest (ticket_distance (te_distance env) v) (filter (similar_open (te_distance env) v) (db_tickets d))"

definition bump_priority :: "pystr \<Rightarrow> ticket_row \<Rightarrow> ticket_row" where
  "bump_priority i t = (if tk_id t = i then t\<lparr>tk_priority_score := tk_priority_score t + 1\<rparr> else t)"

definition new_ticket :: "ticket_env \<Rightarrow> pystr \<Rightarrow> pystr \<Rightarrow> vec \<Rightarrow> bool \<Rightarrow> ticket_row" where
  "new_ticket env c question v judges_not_passed =
     \<lparr>tk_id = te_new_id env, tk_conversation_id = c, tk_question = question,
      tk_question_embedding = Some v, tk_category = lit ''uncategorized'', tk_priority_score = 1,
      tk_status = lit ''open'', tk_judges_not_passed = judges_not_passed\<rparr>"

definition insert_ticket ::
  "ticket_env \<Rightarrow> db \<Rightarrow> vec \<Rightarrow> pystr \<Rightarrow> pystr \<Rightarrow> bool \<Rightarrow> db_exn + ticket_result \<times> db" where
  "insert_ticket env d v conversation_id question judges_not_passed =
     (case te_cast env conversation_id of
        None \<Rightarrow> Inl DataError
      | Some c \<Rightarrow>
          if te_new_id env \<in> tk_id ` set (db_tickets d) then Inl UniqueViolationError
          else if \<not> has_conversation d c then Inl ForeignKeyViolationError
          else Inr (\<lparr>tr_action = Created, tr_ticket_id = Some (te_new_id env), tr_priority_score = Some 1\<rparr>,
                    d\<lparr>db_tickets := db_tickets d @ [new_ticket env c question v judges_not_passed]\<rparr>))"

definition run_transaction ::
  "ticket_env \<Rightarrow> db \<Rightarrow> vec \<Rightarrow> pystr \<Rightarrow> pystr \<Rightarrow> bool \<Rightarrow> bool \<Rightarrow> db_exn + ticket_result \<times> db" where
  "run_transaction env d v conversation_id question judges_not_passed force =
     (case te_fault env of
        Some e \<Rightarrow> Inl e
      | None \<Rightarrow>
          (case (if force then None else find_similar env d v) of
             Some t \<Rightarrow>
               if PG_INT_MAX < tk_priority_score t + 1 then Inl PostgresError
               else Inr (\<lparr>tr_action = Incremented, tr_ticket_id = Some (tk_id t),
                          tr_priority_score = Some (tk_priority_score t + 1)\<rparr>,
                         d\<lparr>db_tickets := map (bump_priority (tk_id t)) (db_tickets d)\<rparr>)
           | None \<Rightarrow> insert_ticket env d v conversation_id question judges_not_passed))"

definition SKIPPED :: ticket_result where
  "SKIPPED = \<lparr>tr_action = SkippedError, tr_ticket_id = None, tr_priority_score = None\<rparr>"

definition caught_by_ticket_service :: "db_exn \<Rightarrow> bool" where
  "caught_by_ticket_service e \<longleftrightarrow> is_postgres_error e \<or> is_interface_error e \<or> e = OSError \<or> e = TimeoutError"

definition create_or_increment ::
  "ticket_env \<Rightarrow> db \<Rightarrow> pystr \<Rightarrow> pystr \<Rightarrow> bool \<Rightarrow> bool \<Rightarrow> (db_exn + ticket_result) \<times> db" where
  "create_or_increment env d conversation_id question judges_not_passed force =
     (case te_encode_batch env [question] of
        Inl _ \<Rightarrow> (Inr SKIPPED, d)
      | Inr [] \<Rightarrow> (Inr SKIPPED, d)
      | Inr (v # _) \<Rightarrow>
          (case run_transaction env d v conversation_id question judges_not_passed force of
             Inl e \<Rightarrow> (if caught_by_ticket_service e then Inr SKIPPED else Inl e, d)
           | Inr (res, d1) \<Rightarrow> (Inr res, d1)))"

section \<open>Lemmas\<close>

lemma nearest_None [simp]: "nearest f ts = None \<longleftrightarrow> ts = []"
  by (cases ts) (auto split: option.split)

lemma nearest_Some: "nearest f ts = Some t \<Longrightarrow> t \<in> set ts \<and> (\<forall>u\<in>set ts. f t \<le> f u)"
proof (induction ts arbitrary: t)
  case (Cons a ts)
  show ?case
  proof (cases "nearest f ts")
    case None
    with Cons.prems show ?thesis by simp
  next
    case (Some u)
    with Cons.prems have t: "t = (if f a \<le> f u then a else u)" by simp
    have u: "u \<in> set ts" "\<forall>w\<in>set ts. f u \<le> f w" using Cons.IH[OF Some] by auto
    show ?thesis using u by (cases "f a \<le> f u") (force simp: t)+
  qed
qed simp

lemma find_similar_Some:
  "find_similar env d v = Some t \<Longrightarrow> t \<in> set (db_tickets d) \<and> similar_open (te_distance env) v t
     \<and> (\<forall>u\<in>set (db_tickets d). similar_open (te_distance env) v u \<longrightarrow>
          ticket_distance (te_distance env) v t \<le> ticket_distance (te_distance env) v u)"
  unfolding find_similar_def by (drule nearest_Some) auto

lemma find_similar_None:
  "find_similar env d v = None \<longleftrightarrow> (\<forall>u\<in>set (db_tickets d). \<not> similar_open (te_distance env) v u)"
  by (simp add: find_similar_def filter_empty_conv)

lemma caught_all: "caught_by_ticket_service e"
  by (cases e) (simp_all add: caught_by_ticket_service_def is_postgres_error_def is_interface_error_def)

lemma bump_priority_fields [simp]:
  "tk_id (bump_priority i t) = tk_id t" "tk_conversation_id (bump_priority i t) = tk_conversation_id t"
  "tk_question (bump_priority i t) = tk_question t" "tk_status (bump_priority i t) = tk_status t"
  "tk_judges_not_passed (bump_priority i t) = tk_judges_not_passed t"
  by (simp_all add: bump_priority_def)

abbreviation priorities :: "db \<Rightarrow> int" where
  "priorities d \<equiv> sum_list (map tk_priority_score (db_tickets d))"

lemma bump_total:
  "distinct (map tk_id ts) \<Longrightarrow> t \<in> set ts \<Longrightarrow>
   sum_list (map (tk_priority_score \<circ> bump_priority (tk_id t)) ts) = sum_list (map tk_priority_score ts) + 1"
proof (induction ts)
  case (Cons a ts)
  have same: "map (tk_priority_score \<circ> bump_priority i) ts = map tk_priority_score ts"
    if "i \<notin> tk_id ` set ts" for i
    using that by (auto simp: bump_priority_def)
  show ?case
  proof (cases "tk_id a = tk_id t")
    case True
    with Cons.prems have "tk_id t \<notin> tk_id ` set ts" by auto
    note s = same[OF this]
    have a: "tk_priority_score (bump_priority (tk_id t) a) = tk_priority_score a + 1"
      by (simp add: bump_priority_def True)
    show ?thesis unfolding list.map sum_list.Cons s by (simp add: a)
  next
    case False
    then have "tk_priority_score (bump_priority (tk_id t) a) = tk_priority_score a" "t \<in> set ts"
      using Cons.prems by (auto simp: bump_priority_def)
    with Cons show ?thesis by simp
  qed
qed simp

lemma has_tickets [simp]:
  "has_conversation (d\<lparr>db_tickets := ts\<rparr>) c = has_conversation d c"
  "has_user (d\<lparr>db_tickets := ts\<rparr>) u = has_user d u"
  by (simp_all add: has_conversation_def has_user_def)

text \<open>What one call can do to the tickets.\<close>

lemma create_or_increment_cases:
  obtains (skipped) "create_or_increment env d cid q jnp force = (Inr SKIPPED, d)"
  | (incremented) v vs t where "te_encode_batch env [q] = Inr (v # vs)" "\<not> force" "find_similar env d v = Some t" "tk_priority_score t < PG_INT_MAX"
      "create_or_increment env d cid q jnp force =
         (Inr \<lparr>tr_action = Incremented, tr_ticket_id = Some (tk_id t),
               tr_priority_score = Some (tk_priority_score t + 1)\<rparr>,
          d\<lparr>db_tickets := map (bump_priority (tk_id t)) (db_tickets d)\<rparr>)"
  | (created) v vs c where "te_encode_batch env [q] = Inr (v # vs)" "force \<or> find_similar env d v = None"
      "te_cast env cid = Some c" "has_conversation d c" "te_new_id env \<notin> tk_id ` set (db_tickets d)"
      "create_or_increment env d cid q jnp force =
         (Inr \<lparr>tr_action = Created, tr_ticket_id = Some (te_new_id env), tr_priority_score = Some 1\<rparr>,
          d\<lparr>db_tickets := db_tickets d @ [new_ticket env c q v jnp]\<rparr>)"
proof (cases "te_encode_batch env [q]")
  case (Inr rows)
  show thesis
  proof (cases rows)
    case (Cons v vs)
    show thesis
    proof (cases "run_transaction env d v cid q jnp force")
      case (Inl e)
      with Inr Cons show thesis by (intro skipped) (simp add: create_or_increment_def caught_all)
    next
      case (Inr p)
      obtain res d1 where p: "p = (res, d1)" by fastforce
      have eq: "create_or_increment env d cid q jnp force = (Inr res, d1)"
        using \<open>te_encode_batch env [q] = Inr rows\<close> Cons Inr p by (simp add: create_or_increment_def)
      have run: "run_transaction env d v cid q jnp force = Inr (res, d1)" using Inr p by simp
      show thesis
      proof (cases "if force then None else find_similar env d v")
        case None
        then have "insert_ticket env d v cid q jnp = Inr (res, d1)"
          using run by (simp add: run_transaction_def split: option.splits)
        then show thesis
          using created[of v vs] None eq \<open>te_encode_batch env [q] = Inr rows\<close> Cons
          by (auto simp: insert_ticket_def split: option.splits if_splits)
      next
        case (Some t)
        then show thesis
          using incremented[of v vs t] run eq \<open>te_encode_batch env [q] = Inr rows\<close> Cons
          by (auto simp: run_transaction_def split: option.splits if_splits)
      qed
    qed
  qed (use Inr skipped in \<open>simp add: create_or_increment_def\<close>)
qed (use skipped in \<open>simp add: create_or_increment_def\<close>)

lemma new_ticket_fields [simp]:
  "tk_id (new_ticket env c q v j) = te_new_id env" "tk_conversation_id (new_ticket env c q v j) = c"
  "tk_priority_score (new_ticket env c q v j) = 1" "tk_judges_not_passed (new_ticket env c q v j) = j"
  "tk_status (new_ticket env c q v j) = lit ''open''" "tk_question (new_ticket env c q v j) = q"
  by (simp_all add: new_ticket_def)

lemma create_or_increment_wf:
  assumes wf: "wf_db d"
  shows "wf_db (snd (create_or_increment env d cid q jnp force))"
proof (cases rule: create_or_increment_cases[of env d cid q jnp force])
  case (incremented v vs t)
  have uniq: "x = t" if "x \<in> set (db_tickets d)" "tk_id x = tk_id t" for x
    using that find_similar_Some[OF incremented(3)] wf by (auto simp: wf_defs distinct_map inj_on_def)
  have range: "1 \<le> tk_priority_score x \<and> tk_priority_score x \<le> PG_INT_MAX" if "x \<in> set (db_tickets d)" for x
    using that wf by (simp add: wf_defs)
  have "1 \<le> tk_priority_score (bump_priority (tk_id t) x) \<and> tk_priority_score (bump_priority (tk_id t) x) \<le> PG_INT_MAX"
    if x: "x \<in> set (db_tickets d)" for x
    using range[OF x] uniq[OF x] incremented(4) by (cases "tk_id x = tk_id t") (auto simp: bump_priority_def)
  with wf incremented(5) show ?thesis by (auto simp: wf_defs o_def)
next
  case (created v vs c)
  with wf show ?thesis by (auto simp: wf_defs PG_INT_MAX_def)
qed (simp add: wf)

section \<open>Query log\<close>

definition QUERY_LOG_MODES :: "pystr set" where
  "QUERY_LOG_MODES = {lit ''canon'', lit ''off_topic'', lit ''lore_gap'', lit ''mystery''}"

definition ql_ints_ok :: "query_log_row \<Rightarrow> bool" where
  "ql_ints_ok row \<longleftrightarrow> pg_int (ql_status_code row) \<and> pg_int (ql_latency_ms row)
     \<and> (\<forall>n. ql_prompt_tokens row = Some n \<longrightarrow> pg_int n) \<and> (\<forall>n. ql_completion_tokens row = Some n \<longrightarrow> pg_int n)"

definition ql_checks_ok :: "query_log_row \<Rightarrow> bool" where
  "ql_checks_ok row \<longleftrightarrow> (\<forall>m. ql_mode row = Some m \<longrightarrow> m \<in> QUERY_LOG_MODES) \<and> 0 \<le> ql_latency_ms row
     \<and> (\<forall>c. ql_cost_eur row = Some c \<longrightarrow> \<bar>c\<bar> < 10000)"

text \<open>\<open>$3::uuid\<close> of an optional value.\<close>

definition cast_opt :: "uuid_cast \<Rightarrow> pystr option \<Rightarrow> pystr option option" where
  "cast_opt cast v = (case v of None \<Rightarrow> Some None | Some s \<Rightarrow> map_option Some (cast s))"

definition query_log_statement :: "uuid_cast \<Rightarrow> db_exn option \<Rightarrow> db \<Rightarrow> query_log_row \<Rightarrow> db_exn + db" where
  "query_log_statement cast fault d row =
     (case fault of
        Some e \<Rightarrow> Inl e
      | None \<Rightarrow>
          (case (cast (ql_request_id row), cast (ql_user_id row), cast_opt cast (ql_conversation_id row)) of
             (Some rid, Some uid, Some cid) \<Rightarrow>
               if \<not> ql_ints_ok row then Inl DataError
               else if \<not> ql_checks_ok row then Inl PostgresError
               else if rid \<in> ql_request_id ` set (db_query_log d) then Inl UniqueViolationError
               else if \<not> has_user d uid \<or> (case cid of None \<Rightarrow> False | Some c \<Rightarrow> \<not> has_conversation d c)
               then Inl ForeignKeyViolationError
               else Inr (d\<lparr>db_query_log := db_query_log d @
                       [row\<lparr>ql_request_id := rid, ql_user_id := uid, ql_conversation_id := cid\<rparr>]\<rparr>)
           | _ \<Rightarrow> Inl DataError))"

definition insert_query_log :: "uuid_cast \<Rightarrow> db_exn option \<Rightarrow> db \<Rightarrow> query_log_row \<Rightarrow> (db_exn + bool) \<times> db" where
  "insert_query_log cast fault d row =
     (case query_log_statement cast fault d row of
        Inr d1 \<Rightarrow> (Inr True, d1)
      | Inl e \<Rightarrow> (if caught_best_effort e then Inr False else Inl e, d))"

lemma has_query_log [simp]:
  "has_conversation (d\<lparr>db_query_log := ts\<rparr>) c = has_conversation d c"
  "has_user (d\<lparr>db_query_log := ts\<rparr>) u = has_user d u"
  by (simp_all add: has_conversation_def has_user_def)

lemma insert_query_log_wf: "wf_db d \<Longrightarrow> wf_db (snd (insert_query_log cast fault d row))"
  by (auto simp: insert_query_log_def query_log_statement_def wf_defs split: option.splits sum.splits if_splits)

section \<open>Properties\<close>


text \<open>Deduplication is exact: without force, an increment goes to the open ticket nearest to the
  question among those within the similarity threshold, and a new ticket is created only when no open
  ticket is within it.\<close>

theorem create_or_increment_dedup:
  assumes "te_encode_batch env [q] = Inr [v]" "create_or_increment env d cid q jnp False = (Inr res, d')"
  shows "(tr_action res = Created \<longrightarrow> (\<forall>t\<in>set (db_tickets d). \<not> similar_open (te_distance env) v t))
    \<and> (tr_action res = Incremented \<longrightarrow> (\<exists>t\<in>set (db_tickets d). tr_ticket_id res = Some (tk_id t)
         \<and> similar_open (te_distance env) v t
         \<and> (\<forall>u\<in>set (db_tickets d). similar_open (te_distance env) v u \<longrightarrow>
              ticket_distance (te_distance env) v t \<le> ticket_distance (te_distance env) v u)))"
proof (cases rule: create_or_increment_cases[of env d cid q jnp False])
  case skipped
  with assms show ?thesis by (auto simp: SKIPPED_def)
next
  case (incremented w ws t)
  with assms have "res = \<lparr>tr_action = Incremented, tr_ticket_id = Some (tk_id t),
      tr_priority_score = Some (tk_priority_score t + 1)\<rparr>" "w = v" by auto
  with find_similar_Some[OF incremented(3)] show ?thesis by auto
next
  case (created w ws c)
  with assms have "res = \<lparr>tr_action = Created, tr_ticket_id = Some (te_new_id env), tr_priority_score = Some 1\<rparr>"
    "find_similar env d v = None" by auto
  then show ?thesis by (simp add: find_similar_None)
qed

text \<open>A query-log row is reported stored exactly when it is appended; a refused row leaves the log
  unchanged. A row whose user or conversation is not in the database yet, which is the failure path of a
  first turn, is always refused, so that request leaves no trace in the log.\<close>

theorem insert_query_log_exact:
  "(fst (insert_query_log cast fault d row) = Inr True \<longleftrightarrow>
      length (db_query_log (snd (insert_query_log cast fault d row))) = Suc (length (db_query_log d)))
   \<and> (fst (insert_query_log cast fault d row) \<noteq> Inr True \<longrightarrow> snd (insert_query_log cast fault d row) = d)
   \<and> ((\<forall>u. cast (ql_user_id row) = Some u \<longrightarrow> \<not> has_user d u)
        \<or> (\<exists>s. ql_conversation_id row = Some s \<and> (\<forall>c. cast s = Some c \<longrightarrow> \<not> has_conversation d c))
      \<longrightarrow> snd (insert_query_log cast fault d row) = d)"
proof -
  have "query_log_statement cast fault d row = Inr d1 \<Longrightarrow> length (db_query_log d1) = Suc (length (db_query_log d))" for d1
    by (auto simp: query_log_statement_def split: option.splits if_splits)
  moreover have "query_log_statement cast fault d row = Inr d1 \<Longrightarrow>
      (\<exists>u. cast (ql_user_id row) = Some u \<and> has_user d u)
      \<and> (\<forall>s. ql_conversation_id row = Some s \<longrightarrow> (\<exists>c. cast s = Some c \<and> has_conversation d c))" for d1
    by (auto simp: query_log_statement_def cast_opt_def split: option.splits if_splits)
  ultimately show ?thesis
    by (cases "query_log_statement cast fault d row") (auto simp: insert_query_log_def)
qed

section \<open>Concrete instances\<close>

definition sample_ticket_env :: ticket_env where
  "sample_ticket_env = \<lparr>te_encode_batch = (\<lambda>qs. Inr (map (\<lambda>_. [1]) qs)), te_distance = (\<lambda>a b. 1/10),
     te_cast = Some, te_new_id = lit ''t1'', te_fault = None\<rparr>"

definition sample_ticket_db :: db where
  "sample_ticket_db = sample_db\<lparr>db_tickets := [new_ticket sample_ticket_env (lit ''c1'') (lit ''old'') [1] False]\<rparr>"

lemma sample_ticket_db_wf: "wf_db sample_ticket_db"
  by (simp add: sample_ticket_db_def wf_defs sample_db_def has_conversation_def has_user_def PG_INT_MAX_def)

lemma sample_increment:
  "create_or_increment sample_ticket_env sample_ticket_db (lit ''c1'') (lit ''q'') True False =
     (Inr \<lparr>tr_action = Incremented, tr_ticket_id = Some (lit ''t1''), tr_priority_score = Some 2\<rparr>,
      sample_ticket_db\<lparr>db_tickets := map (bump_priority (lit ''t1'')) (db_tickets sample_ticket_db)\<rparr>)"
  by (simp add: create_or_increment_def run_transaction_def find_similar_def sample_ticket_db_def
      sample_ticket_env_def similar_open_def new_ticket_def TICKET_DEDUP_COSINE_THRESHOLD_def PG_INT_MAX_def)


theorem create_or_increment_dedup_witness:
  "\<exists>t. t \<in> set (db_tickets sample_ticket_db) \<and> tk_id t = lit ''t1'' \<and> similar_open (\<lambda>a b. 1/10) [1] t"
proof -
  have e: "te_encode_batch sample_ticket_env [lit ''q''] = Inr [[1]]" by (simp add: sample_ticket_env_def)
  have "te_distance sample_ticket_env = (\<lambda>a b. 1/10)" by (simp add: sample_ticket_env_def)
  with create_or_increment_dedup[OF e sample_increment] show ?thesis by auto
qed

lemma sample_log_row_refused:
  "insert_query_log Some None sample_db
     \<lparr>ql_request_id = lit ''r'', ql_user_id = lit ''u9'', ql_conversation_id = None, ql_query_text = lit ''q'',
      ql_mode = None, ql_intent = None, ql_status_code = 502, ql_latency_ms = 1, ql_prompt_tokens = None,
      ql_completion_tokens = None, ql_cost_eur = None\<rparr> = (Inr False, sample_db)"
  by (simp add: insert_query_log_def query_log_statement_def cast_opt_def ql_ints_ok_def ql_checks_ok_def pg_int_def
      PG_INT_MAX_def has_user_def sample_db_def caught_best_effort_def is_postgres_error_def)

theorem insert_query_log_exact_witness:
  "snd (insert_query_log Some None sample_db
     \<lparr>ql_request_id = lit ''r'', ql_user_id = lit ''u9'', ql_conversation_id = None, ql_query_text = lit ''q'',
      ql_mode = None, ql_intent = None, ql_status_code = 502, ql_latency_ms = 1, ql_prompt_tokens = None,
      ql_completion_tokens = None, ql_cost_eur = None\<rparr>) = sample_db"
  using insert_query_log_exact[of Some None sample_db
     "\<lparr>ql_request_id = lit ''r'', ql_user_id = lit ''u9'', ql_conversation_id = None, ql_query_text = lit ''q'',
      ql_mode = None, ql_intent = None, ql_status_code = 502, ql_latency_ms = 1, ql_prompt_tokens = None,
      ql_completion_tokens = None, ql_cost_eur = None\<rparr>"] by (simp add: sample_log_row_refused)

end
