(* ===== verification/Memory_Window.thy ===== *)
theory Memory_Window
  imports Prompting Conversation_Repository "HOL-Library.Sublist"
begin

text \<open>
  \<open>workers/.../generate/memory.py\<close>: the bounded window of prior turns. The reader is the
  \<open>TailReader\<close> protocol: a function argument here, and the locale \<open>tail_reader\<close> for its contract,
  interpreted on the repository's owner-scoped read.
\<close>

section \<open>Loading the window\<close>

definition MEMORY_MAX_TURNS :: nat where
  "MEMORY_MAX_TURNS = 50"

record memory_window =
  mw_messages :: "message list"
  mw_last_user_turn :: "pystr option"

definition EMPTY_WINDOW :: memory_window where
  "EMPTY_WINDOW = \<lparr>mw_messages = [], mw_last_user_turn = None\<rparr>"

text \<open>The loop of \<open>_select_within_budget\<close>, with its running \<open>total\<close>.\<close>

fun select_loop :: "int \<Rightarrow> int \<Rightarrow> message_row list \<Rightarrow> message_row list" where
  "select_loop budget used [] = []"
| "select_loop budget used (row # rows) =
     (let used' = used + mr_token_count row
      in if budget < used' then [] else row # select_loop budget used' rows)"

definition select_within_budget :: "message_row list \<Rightarrow> int \<Rightarrow> message_row list" where
  "select_within_budget rows budget = select_loop budget 0 rows"

definition to_message :: "message_row \<Rightarrow> message" where
  "to_message row =
     (if mr_role row = Assistant then AIMessage (mr_content row) else HumanMessage (mr_content row))"

fun pop_assistant :: "message_row list \<Rightarrow> message_row list" where
  "pop_assistant [] = []"
| "pop_assistant (row # rows) = (if mr_role row = Assistant then pop_assistant rows else row # rows)"

definition render_window :: "message_row list \<Rightarrow> message list" where
  "render_window selected = map to_message (pop_assistant (rev selected))"

fun last_user_turn :: "message_row list \<Rightarrow> pystr option" where
  "last_user_turn [] = None"
| "last_user_turn (row # rows) = (if mr_role row = User then Some (mr_content row) else last_user_turn rows)"

definition load_memory_window ::
  "(pystr \<Rightarrow> pystr \<Rightarrow> nat \<Rightarrow> db_exn + message_row list) option \<Rightarrow> pystr \<Rightarrow> pystr \<Rightarrow> int
    \<Rightarrow> db_exn + memory_window" where
  "load_memory_window repo conversation_id user_id token_budget =
     (case repo of
        None \<Rightarrow> Inr EMPTY_WINDOW
      | Some fetch_owned \<Rightarrow>
          if token_budget \<le> 0 then Inr EMPTY_WINDOW
          else (case fetch_owned conversation_id user_id MEMORY_MAX_TURNS of
                  Inl e \<Rightarrow> Inl e
                | Inr rows \<Rightarrow>
                    if rows = [] then Inr EMPTY_WINDOW
                    else Inr \<lparr>mw_messages = render_window (select_within_budget rows token_budget),
                              mw_last_user_turn = last_user_turn rows\<rparr>))"

section \<open>Trimming\<close>

abbreviation tokens :: "message_row list \<Rightarrow> int" where
  "tokens rows \<equiv> sum_list (map mr_token_count rows)"

lemma tokens_rev [simp]: "tokens (rev rows) = tokens rows"
  by (induction rows) simp_all

lemma select_prefix: "prefix (select_loop budget used rows) rows"
  by (induction rows arbitrary: used) (auto simp: Let_def)

lemma select_tokens: "used \<le> budget \<Longrightarrow> used + tokens (select_loop budget used rows) \<le> budget"
proof (induction rows arbitrary: used)
  case (Cons r rows)
  show ?case using Cons.prems Cons.IH[of "used + mr_token_count r"] by (simp add: Let_def add.assoc)
qed simp

lemma tokens_nonneg: "\<forall>m\<in>set rows. 0 \<le> mr_token_count m \<Longrightarrow> 0 \<le> tokens rows"
  by (induction rows) auto

text \<open>With non-negative counts, every affordable prefix is part of the selection.\<close>

lemma select_longest:
  "prefix ps rows \<Longrightarrow> \<forall>m\<in>set rows. 0 \<le> mr_token_count m \<Longrightarrow> used + tokens ps \<le> budget
   \<Longrightarrow> prefix ps (select_loop budget used rows)"
proof (induction rows arbitrary: ps used)
  case (Cons r rows)
  show ?case
  proof (cases ps)
    case (Cons p ps')
    with Cons.prems have p: "p = r" "prefix ps' rows" by auto
    then have "0 \<le> tokens ps'" using Cons.prems(2) set_mono_prefix[OF p(2)] by (intro tokens_nonneg) auto
    moreover have "prefix ps' (select_loop budget (used + mr_token_count r) rows)"
      using Cons.prems Cons p by (intro Cons.IH) auto
    ultimately show ?thesis using Cons.prems(3) Cons p by (auto simp: Let_def)
  qed simp
qed simp

lemma pop_assistant_dropWhile: "pop_assistant rows = dropWhile (\<lambda>m. mr_role m = Assistant) rows"
  by (induction rows) auto

text \<open>\<open>opens_on_user\<close>: what the window must start with.\<close>

definition opens_on_user :: "message_row list \<Rightarrow> bool" where
  "opens_on_user w \<longleftrightarrow> (w = [] \<or> mr_role (hd w) = User)"

lemma pop_assistant_opens: "opens_on_user (pop_assistant rows)"
proof (induction rows)
  case (Cons r rows)
  then show ?case by (cases "mr_role r") (auto simp: opens_on_user_def)
qed (simp add: opens_on_user_def)

lemma pop_assistant_suffix: "suffix (pop_assistant rows) rows"
  by (simp add: pop_assistant_dropWhile suffix_dropWhile)

lemma pop_assistant_longest: "suffix w rows \<Longrightarrow> opens_on_user w \<Longrightarrow> suffix w (pop_assistant rows)"
proof (induction rows)
  case (Cons r rows)
  then show ?case by (auto simp: suffix_Cons opens_on_user_def)
qed simp

lemma to_message_not_system [simp]: "\<not> is_system (to_message r)"
  by (simp add: to_message_def is_system_def)

section \<open>The TailReader contract\<close>

text \<open>\<open>turns s c u\<close> is what the store holds for the reader \<open>u\<close> in conversation \<open>c\<close>, newest first. A
  reader returns at most the newest \<open>n\<close> of them or raises.\<close>

locale tail_reader =
  fixes fetch_owned :: "'s \<Rightarrow> pystr \<Rightarrow> pystr \<Rightarrow> nat \<Rightarrow> db_exn + message_row list"
    and turns :: "'s \<Rightarrow> pystr \<Rightarrow> pystr \<Rightarrow> message_row list"
    and ok :: "'s \<Rightarrow> bool"
  assumes tail: "fetch_owned s c u n = Inr rows \<Longrightarrow> rows = take n (turns s c u)"
    and counts: "ok s \<Longrightarrow> m \<in> set (turns s c u) \<Longrightarrow> 0 \<le> mr_token_count m"
begin

lemma load_cases:
  assumes "load_memory_window (Some (fetch_owned s)) c u budget = Inr w" "0 < budget"
  shows "mw_messages w = render_window (select_within_budget (take MEMORY_MAX_TURNS (turns s c u)) budget)
    \<and> mw_last_user_turn w = last_user_turn (take MEMORY_MAX_TURNS (turns s c u))"
proof (cases "fetch_owned s c u MEMORY_MAX_TURNS")
  case (Inr rows)
  with assms tail[OF Inr] show ?thesis
    by (auto simp: load_memory_window_def EMPTY_WINDOW_def render_window_def select_within_budget_def
        split: if_splits)
qed (use assms in \<open>simp add: load_memory_window_def\<close>)

lemma load_fails:
  "load_memory_window (Some (fetch_owned s)) c u budget = Inl e
   \<Longrightarrow> fetch_owned s c u MEMORY_MAX_TURNS = Inl e"
  by (auto simp: load_memory_window_def split: if_splits sum.splits)

lemma window_longest:
  assumes "ok s" "load_memory_window (Some (fetch_owned s)) c u budget = Inr mw" "0 < budget"
  shows "\<exists>w. mw_messages mw = map to_message w \<and> suffix w (rev (turns s c u))
    \<and> tokens w \<le> budget \<and> length w \<le> MEMORY_MAX_TURNS \<and> opens_on_user w
    \<and> (\<forall>v. suffix v (rev (turns s c u)) \<and> tokens v \<le> budget \<and> length v \<le> MEMORY_MAX_TURNS
          \<and> opens_on_user v \<longrightarrow> suffix v w)"
proof -
  define rows where "rows = take MEMORY_MAX_TURNS (turns s c u)"
  define sel where "sel = select_loop budget 0 rows"
  have pre: "prefix sel rows" "prefix rows (turns s c u)"
    unfolding sel_def rows_def by (rule select_prefix) (simp add: take_is_prefix)
  have nn: "\<forall>m\<in>set rows. 0 \<le> mr_token_count m"
    using counts[OF assms(1)] by (auto simp: rows_def dest: in_set_takeD)
  let ?w = "pop_assistant (rev sel)"
  have suf: "suffix ?w (rev sel)" by (rule pop_assistant_suffix)
  then obtain p where p: "rev sel = p @ ?w" by (auto simp: suffix_def)
  have "tokens sel = tokens (rev sel)" by simp
  also have "\<dots> = tokens p + tokens ?w" by (subst p) simp
  finally have "tokens sel = tokens p + tokens ?w" .
  moreover have "0 \<le> tokens p"
    using nn p set_mono_prefix[OF pre(1)] by (intro tokens_nonneg) (metis Un_iff set_append set_rev subsetD)
  moreover have "tokens sel \<le> budget" using select_tokens[of 0 budget rows] assms(3) by (simp add: sel_def)
  ultimately have budget: "tokens ?w \<le> budget" by simp
  have len: "length ?w \<le> MEMORY_MAX_TURNS"
    using suffix_length_le[OF suf] prefix_length_le[OF pre(1)] by (simp add: rows_def)
  have "suffix ?w (rev (turns s c u))"
    using suf prefix_order.trans[OF pre] suffix_order.trans[of ?w "rev sel"]
    by (simp add: suffix_to_prefix)
  moreover have "suffix v ?w" if v: "suffix v (rev (turns s c u))" "tokens v \<le> budget"
    "length v \<le> MEMORY_MAX_TURNS" "opens_on_user v" for v
  proof -
    have "prefix (rev v) (turns s c u)" using v(1) by (simp add: suffix_to_prefix)
    then have "prefix (rev v) rows"
      using v(3) by (auto simp: rows_def prefix_def)
    then have "prefix (rev v) sel" unfolding sel_def
      using nn v(2) by (intro select_longest) auto
    then have "suffix v (rev sel)" by (simp add: suffix_to_prefix)
    then show ?thesis using v(4) by (rule pop_assistant_longest)
  qed
  ultimately show ?thesis
    using load_cases[OF assms(2,3)] budget len pop_assistant_opens[of "rev sel"]
    by (intro exI[of _ ?w]) (auto simp: render_window_def select_within_budget_def sel_def rows_def)
qed

end

section \<open>The repository is a TailReader\<close>

text \<open>The turns of a conversation a user owns, newest first.\<close>

definition owned_turns :: "uuid_cast \<Rightarrow> db \<Rightarrow> pystr \<Rightarrow> pystr \<Rightarrow> message_row list" where
  "owned_turns cast d conversation_id user_id =
     (case (cast conversation_id, cast user_id) of
        (Some c, Some u) \<Rightarrow> if owns d u c then newest_first (messages_of d c) else []
      | _ \<Rightarrow> [])"

interpretation conversation_tail: tail_reader
  "\<lambda>(fault, d). fetch_tail_owned cast fault d" "\<lambda>(fault, d). owned_turns cast d" "\<lambda>(fault, d). wf_db d"
  for cast
proof (unfold_locales, goal_cases)
  case (1 s c u n rows)
  then show ?case
    by (cases s) (auto simp: fetch_tail_owned_def owned_turns_def messages_of_def newest_first_def
        split: option.splits if_splits)
next
  case (2 s m c u)
  then show ?case
    by (cases s) (auto simp: owned_turns_def messages_of_def wf_defs split: option.splits if_splits)
qed

lemma newest_first_strict:
  "distinct (map mr_ordinal ms) \<Longrightarrow> sorted_wrt (\<lambda>a b. mr_ordinal b < mr_ordinal a) (newest_first ms)"
proof -
  assume d: "distinct (map mr_ordinal ms)"
  have "sorted_wrt (<) (map mr_ordinal (sort_key mr_ordinal ms))"
    using d by (simp add: strict_sorted_iff distinct_map)
  then show ?thesis by (simp add: newest_first_def sorted_wrt_rev sorted_wrt_map)
qed

lemma messages_of_distinct:
  assumes "wf_db d" shows "distinct (map mr_ordinal (messages_of d c))"
proof -
  have "inj_on (\<lambda>m. (mr_conversation_id m, mr_ordinal m)) (set (db_messages d))" "distinct (db_messages d)"
    using assms by (auto simp: wf_defs distinct_map)
  then show ?thesis by (auto simp: messages_of_def distinct_map inj_on_def)
qed

lemma owned_turns_sorted:
  "wf_db d \<Longrightarrow> sorted_wrt (\<lambda>a b. mr_ordinal b < mr_ordinal a) (owned_turns cast d cid uid)"
  by (simp add: owned_turns_def newest_first_strict messages_of_distinct split: option.split)

text \<open>The newest stored turn is the first of the read, and a newest user turn is \<open>last_user_turn\<close>.\<close>

lemma last_user_turn_Some:
  "last_user_turn rows = Some t \<longleftrightarrow>
     (\<exists>newer r older. rows = newer @ r # older \<and> mr_role r = User \<and> mr_content r = t
        \<and> (\<forall>m\<in>set newer. mr_role m = Assistant))"
proof (induction rows)
  case (Cons r rows)
  have "(\<exists>newer q older. r # rows = newer @ q # older \<and> Q newer q)
      \<longleftrightarrow> Q [] r \<or> (\<exists>newer q older. rows = newer @ q # older \<and> Q (r # newer) q)" for Q
    by (auto simp: Cons_eq_append_conv)
  with Cons show ?case by (cases "mr_role r") auto
qed simp

section \<open>Properties\<close>

text \<open>C2: for a positive token budget, the memory window of a conversation is exactly the longest run of
  its most recent turns that fits the budget, is at most 50 turns long and opens on a user turn, rendered
  in chronological order as human and assistant messages.\<close>

theorem memory_window_longest:
  assumes "wf_db d" "0 < budget"
    "load_memory_window (Some (fetch_tail_owned cast fault d)) cid uid budget = Inr mw"
  shows "\<exists>w. mw_messages mw = map to_message w
    \<and> suffix w (rev (owned_turns cast d cid uid)) \<and> sorted_wrt (\<lambda>a b. mr_ordinal a < mr_ordinal b) w
    \<and> tokens w \<le> budget \<and> length w \<le> MEMORY_MAX_TURNS \<and> opens_on_user w
    \<and> (\<forall>v. suffix v (rev (owned_turns cast d cid uid)) \<and> tokens v \<le> budget
          \<and> length v \<le> MEMORY_MAX_TURNS \<and> opens_on_user v \<longrightarrow> suffix v w)"
proof -
  have "sorted_wrt (\<lambda>a b. mr_ordinal a < mr_ordinal b) w"
    if "suffix w (rev (owned_turns cast d cid uid))" for w
  proof -
    from that obtain p where "rev (owned_turns cast d cid uid) = p @ w" by (auto simp: suffix_def)
    moreover have "sorted_wrt (\<lambda>a b. mr_ordinal a < mr_ordinal b) (rev (owned_turns cast d cid uid))"
      using owned_turns_sorted[OF assms(1)] by (simp add: sorted_wrt_rev)
    ultimately show ?thesis by (simp add: sorted_wrt_append)
  qed
  with conversation_tail.window_longest[where s = "(fault, d)" and cast = cast and c = cid and u = uid and budget = budget and mw = mw] assms
  show ?thesis by auto
qed

lemma sample_window:
  "load_memory_window (Some (fetch_tail_owned Some None sample_db)) (lit ''c1'') (lit ''u1'') 6
     = Inr \<lparr>mw_messages = [HumanMessage (lit ''c'')], mw_last_user_turn = Some (lit ''c'')\<rparr>"
  by (simp add: load_memory_window_def fetch_tail_owned_def sample_db_def owns_def newest_first_def
      MEMORY_MAX_TURNS_def select_within_budget_def render_window_def to_message_def)

theorem memory_window_longest_witness:
  "\<exists>w. [HumanMessage (lit ''c'')] = map to_message w \<and> tokens w \<le> 6
     \<and> suffix w (rev (owned_turns Some sample_db (lit ''c1'') (lit ''u1'')))"
proof -
  have "(0::int) < 6" by simp
  from memory_window_longest[OF sample_db_wf this sample_window] show ?thesis
    unfolding memory_window.simps by (elim exE conjE) (intro exI conjI; assumption)
qed

text \<open>C38: history never leaks across owners: when the reader does not own the conversation, whatever
  the budget, the window is empty, and no window ever contains a system message.\<close>

theorem memory_window_owner_scoped:
  assumes "load_memory_window (Some (fetch_tail_owned cast fault d)) cid uid budget = Inr mw"
  shows "((\<forall>c u. cast cid = Some c \<and> cast uid = Some u \<longrightarrow> \<not> owns d u c) \<longrightarrow> mw = EMPTY_WINDOW)
    \<and> (\<forall>m\<in>set (mw_messages mw). \<not> is_system m)"
proof -
  have "owned_turns cast d cid uid = []" if "\<forall>c u. cast cid = Some c \<and> cast uid = Some u \<longrightarrow> \<not> owns d u c"
    using that by (auto simp: owned_turns_def split: option.split)
  then show ?thesis
    using assms conversation_tail.tail[where s = "(fault, d)" and cast = cast and c = cid and u = uid and n = MEMORY_MAX_TURNS]
    by (fastforce simp: load_memory_window_def render_window_def EMPTY_WINDOW_def
        split: if_splits sum.splits)
qed

lemma stranger_window:
  "load_memory_window (Some (fetch_tail_owned Some None sample_db)) (lit ''c1'') (lit ''u2'') 6 = Inr EMPTY_WINDOW"
  by (simp add: load_memory_window_def fetch_tail_owned_def sample_db_def owns_def newest_first_def)

theorem memory_window_owner_scoped_witness:
  "\<not> owns sample_db (lit ''u2'') (lit ''c1'')
   \<and> load_memory_window (Some (fetch_tail_owned Some None sample_db)) (lit ''c1'') (lit ''u2'') 6 = Inr EMPTY_WINDOW
   \<and> list_all (\<lambda>m. \<not> is_system m) [HumanMessage (lit ''c'')]"
  using memory_window_owner_scoped[OF stranger_window] stranger_window
    memory_window_owner_scoped[OF sample_window] by (simp add: owns_def sample_db_def)

end
