(* ===== verification/Datetime.thy ===== *)
theory Datetime
  imports Prelude
begin

text \<open>
  The part of Python's \<open>datetime\<close> the workers use: the fields, \<open>isoformat\<close>, the proleptic Gregorian
  ordinal behind comparisons, and timezone defaulting. Instants are microseconds since the
  ordinal epoch, offsets are seconds east of UTC.
\<close>

record datetime =
  dt_year :: nat
  dt_month :: nat
  dt_day :: nat
  dt_hour :: nat
  dt_minute :: nat
  dt_second :: nat
  dt_micro :: nat
  dt_offset :: "int option"

definition zero_pad :: "nat \<Rightarrow> nat \<Rightarrow> pystr" where
  "zero_pad w n = replicate (w - length (digits_of n)) 48 @ digits_of n"

definition iso_offset :: "int \<Rightarrow> pystr" where
  "iso_offset off =
     (let a = nat \<bar>off\<bar>
      in (if off < 0 then lit ''-'' else lit ''+'') @ zero_pad 2 (a div 3600) @ lit '':'' @
         zero_pad 2 (a div 60 mod 60) @ (if a mod 60 = 0 then [] else lit '':'' @ zero_pad 2 (a mod 60)))"

definition isoformat :: "datetime \<Rightarrow> pystr" where
  "isoformat d =
     zero_pad 4 (dt_year d) @ lit ''-'' @ zero_pad 2 (dt_month d) @ lit ''-'' @ zero_pad 2 (dt_day d) @
     lit ''T'' @ zero_pad 2 (dt_hour d) @ lit '':'' @ zero_pad 2 (dt_minute d) @ lit '':'' @
     zero_pad 2 (dt_second d) @
     (if dt_micro d = 0 then [] else lit ''.'' @ zero_pad 6 (dt_micro d)) @
     (case dt_offset d of None \<Rightarrow> [] | Some off \<Rightarrow> iso_offset off)"

definition is_leap :: "nat \<Rightarrow> bool" where
  "is_leap y \<longleftrightarrow> 4 dvd y \<and> (\<not> 100 dvd y \<or> 400 dvd y)"

definition days_in_month :: "nat \<Rightarrow> nat \<Rightarrow> nat" where
  "days_in_month y m =
     (if m = 2 then (if is_leap y then 29 else 28) else if m \<in> {4, 6, 9, 11} then 30 else 31)"

definition toordinal :: "datetime \<Rightarrow> int" where
  "toordinal d =
     (let y = int (dt_year d) - 1
      in y * 365 + y div 4 - y div 100 + y div 400
         + int (\<Sum>m\<leftarrow>[1..<dt_month d]. days_in_month (dt_year d) m) + int (dt_day d))"

definition instant :: "datetime \<Rightarrow> int" where
  "instant d =
     (toordinal d * 86400 + int (dt_hour d) * 3600 + int (dt_minute d) * 60 + int (dt_second d)
        - (case dt_offset d of None \<Rightarrow> 0 | Some off \<Rightarrow> off)) * 1000000 + int (dt_micro d)"

definition replace_tz_utc :: "datetime \<Rightarrow> datetime" where
  "replace_tz_utc d = d\<lparr>dt_offset := Some 0\<rparr>"

definition default_utc :: "datetime \<Rightarrow> datetime" where
  "default_utc d = (if dt_offset d = None then replace_tz_utc d else d)"

lemma instant_default_utc [simp]: "instant (default_utc d) = instant d"
  by (simp add: default_utc_def replace_tz_utc_def instant_def toordinal_def)

lemma digits_of_ascii: "c \<in> set (digits_of n) \<Longrightarrow> c < 128"
  using digits_of_range[of c n] by simp

lemma zero_pad_ascii: "c \<in> set (zero_pad w n) \<Longrightarrow> c < 128"
  by (auto simp: zero_pad_def dest: digits_of_ascii)

lemma isoformat_ascii: "c \<in> set (isoformat d) \<Longrightarrow> c < 128"
  by (auto simp: isoformat_def iso_offset_def Let_def lit_def dest: zero_pad_ascii
      split: if_splits option.splits)

end
