(* ===== verification/Gcs_Storage.thy ===== *)
theory Gcs_Storage
  imports Datetime Database "HOL-Library.Sublist"
begin

text \<open>
  \<open>workers/.../conversation/gcs_storage.py\<close>: the append-only Markdown object of a conversation, written
  by an optimistic read-modify-write on the object's generation. The storage service is a parameter: a
  state of type \<open>'g\<close> (other writers included) and the three client calls on it.
\<close>

section \<open>The client calls\<close>

datatype gcs_exn =
    NotFound | PreconditionFailed | ServiceUnavailable | RetryError | GoogleAPICallError | GcsOSError
  | OtherGcsExn

text \<open>\<open>(ServiceUnavailable, RetryError, GoogleAPICallError, OSError)\<close>: NotFound, PreconditionFailed and
  ServiceUnavailable are subclasses of GoogleAPICallError.\<close>

definition is_storage_error :: "gcs_exn \<Rightarrow> bool" where
  "is_storage_error e \<longleftrightarrow> e \<noteq> OtherGcsExn"

datatype conv_error =
    ConversationAlreadyExistsError
  | ConcurrentWriteError
  | StorageUnavailableError
  | ConversationObjectMissingError
  | RaisedGcs gcs_exn
  | EncodeError

record 'g gcs_ops =
  download_as_bytes :: "'g \<Rightarrow> pystr \<Rightarrow> (gcs_exn + bytes \<times> nat option) \<times> 'g"
  upload_from_string :: "'g \<Rightarrow> pystr \<Rightarrow> bytes \<Rightarrow> nat \<Rightarrow> (gcs_exn + unit) \<times> 'g"
  reload_generation :: "'g \<Rightarrow> pystr \<Rightarrow> (gcs_exn + nat) \<times> 'g"

section \<open>Formats\<close>

definition header_text :: "pystr \<Rightarrow> datetime \<Rightarrow> pystr \<Rightarrow> pystr" where
  "header_text conversation_id created_at user_id =
     lit ''# Conversation '' @ conversation_id @ [10, 10] @ lit ''Created: '' @ isoformat created_at @ [10] @
     lit ''User: '' @ user_id @ [10, 10] @ lit ''---'' @ [10]"

fun role_name :: "role \<Rightarrow> pystr" where
  "role_name User = lit ''user''"
| "role_name Assistant = lit ''assistant''"

definition block_text :: "datetime \<Rightarrow> role \<Rightarrow> pystr \<Rightarrow> pystr" where
  "block_text timestamp rl content =
     lit ''## ['' @ isoformat timestamp @ lit ''] '' @ role_name rl @ [10] @ content @ [10, 10]"

definition RETRY_BACKOFF_SECONDS :: "rat list" where
  "RETRY_BACKOFF_SECONDS = [5/100, 20/100, 80/100]"

definition gcs_uri :: "pystr \<Rightarrow> pystr \<Rightarrow> pystr" where
  "gcs_uri bucket conversation_id = lit ''gs://'' @ bucket @ lit ''/'' @ conversation_id @ lit ''.md''"

definition blob_name :: "pystr \<Rightarrow> pystr" where
  "blob_name conversation_id = conversation_id @ lit ''.md''"

section \<open>Creating and appending\<close>

definition upload_header :: "'g gcs_ops \<Rightarrow> 'g \<Rightarrow> pystr \<Rightarrow> pystr \<Rightarrow> (conv_error + nat) \<times> 'g" where
  "upload_header ops g conversation_id header =
     (case py_encode header of
        None \<Rightarrow> (Inl EncodeError, g)
      | Some data \<Rightarrow>
          (case upload_from_string ops g (blob_name conversation_id) data 0 of
             (Inl e, g1) \<Rightarrow>
               (Inl (if e = PreconditionFailed then ConversationAlreadyExistsError
                     else if is_storage_error e then StorageUnavailableError else RaisedGcs e), g1)
           | (Inr _, g1) \<Rightarrow>
               (case reload_generation ops g1 (blob_name conversation_id) of
                  (Inl e, g2) \<Rightarrow> (Inl (RaisedGcs e), g2)
                | (Inr gen, g2) \<Rightarrow> (Inr gen, g2))))"

definition create_conversation_object ::
  "'g gcs_ops \<Rightarrow> 'g \<Rightarrow> pystr \<Rightarrow> pystr \<Rightarrow> datetime \<Rightarrow> (conv_error + nat) \<times> 'g" where
  "create_conversation_object ops g conversation_id user_id created_at =
     upload_header ops g conversation_id (header_text conversation_id created_at user_id)"

text \<open>The loop of \<open>_read_modify_write\<close> on the back-offs that are left: one attempt, and after a lost
  race a sleep and another attempt while a back-off remains. The second result lists the sleeps.\<close>

fun rmw_loop ::
  "'g gcs_ops \<Rightarrow> pystr \<Rightarrow> pystr \<Rightarrow> rat list \<Rightarrow> 'g \<Rightarrow> (conv_error + nat \<times> nat) \<times> rat list \<times> 'g" where
  "rmw_loop ops conversation_id block backoffs g =
     (case download_as_bytes ops g (blob_name conversation_id) of
        (Inl e, g1) \<Rightarrow>
          (Inl (if e = NotFound then ConversationObjectMissingError
                else if is_storage_error e then StorageUnavailableError else RaisedGcs e), [], g1)
      | (Inr (current, gen), g1) \<Rightarrow>
          (case py_encode block of
             None \<Rightarrow> (Inl EncodeError, [], g1)
           | Some data \<Rightarrow>
               (case upload_from_string ops g1 (blob_name conversation_id) (current @ data)
                       (case gen of None \<Rightarrow> 0 | Some n \<Rightarrow> n) of
                  (Inl e, g2) \<Rightarrow>
                    if e = PreconditionFailed then
                      (case backoffs of
                         [] \<Rightarrow> (Inl ConcurrentWriteError, [], g2)
                       | t # ts \<Rightarrow>
                           (case rmw_loop ops conversation_id block ts g2 of
                              (r, sl, g3) \<Rightarrow> (r, t # sl, g3)))
                    else if is_storage_error e then (Inl StorageUnavailableError, [], g2)
                    else (Inl (RaisedGcs e), [], g2)
                | (Inr _, g2) \<Rightarrow>
                    (case reload_generation ops g2 (blob_name conversation_id) of
                       (Inl e, g3) \<Rightarrow> (Inl (RaisedGcs e), [], g3)
                     | (Inr gen', g3) \<Rightarrow> (Inr (gen', length (current @ data)), [], g3)))))"

declare rmw_loop.simps [simp del]

definition read_modify_write ::
  "'g gcs_ops \<Rightarrow> 'g \<Rightarrow> pystr \<Rightarrow> pystr \<Rightarrow> (conv_error + nat \<times> nat) \<times> rat list \<times> 'g" where
  "read_modify_write ops g conversation_id block =
     rmw_loop ops conversation_id block RETRY_BACKOFF_SECONDS g"

definition append_block ::
  "'g gcs_ops \<Rightarrow> 'g \<Rightarrow> pystr \<Rightarrow> role \<Rightarrow> pystr \<Rightarrow> datetime \<Rightarrow> (conv_error + nat \<times> nat) \<times> rat list \<times> 'g" where
  "append_block ops g conversation_id rl content timestamp =
     read_modify_write ops g conversation_id (block_text timestamp rl content)"

section \<open>What the service promises\<close>

text \<open>
  \<open>hist g k\<close> lists the events of object \<open>k\<close>, oldest first: \<open>Some (gen, data)\<close> a version written,
  None a deletion. Generations identify versions; the history only grows, whatever other clients do
  between two calls; a download returns a version with its generation; an upload accepted under
  \<open>if_generation_match = m\<close> directly follows version \<open>m\<close>, and under 0 it follows no version.
\<close>

type_synonym gcs_history = "(nat \<times> bytes) option list"

definition gens :: "gcs_history \<Rightarrow> nat list" where
  "gens h = map fst (List.map_filter id h)"

definition follows :: "nat \<Rightarrow> gcs_history \<Rightarrow> bool" where
  "follows m h \<longleftrightarrow>
     (if m = 0 then h = [] \<or> last h = None else h \<noteq> [] \<and> (\<exists>c. last h = Some (m, c)))"

definition history_grows :: "('g \<Rightarrow> pystr \<Rightarrow> gcs_history) \<Rightarrow> 'g \<Rightarrow> 'g \<Rightarrow> bool" where
  "history_grows hist g g' \<longleftrightarrow> (\<forall>k. prefix (hist g k) (hist g' k))"

definition download_law :: "'g gcs_ops \<Rightarrow> ('g \<Rightarrow> pystr \<Rightarrow> gcs_history) \<Rightarrow> bool" where
  "download_law ops hist \<longleftrightarrow> (\<forall>g k. history_grows hist g (snd (download_as_bytes ops g k))
     \<and> (case fst (download_as_bytes ops g k) of
          Inl _ \<Rightarrow> True
        | Inr (c, gen) \<Rightarrow> (\<exists>n. gen = Some n \<and> Some (n, c) \<in> set (hist (snd (download_as_bytes ops g k)) k))))"

definition upload_law :: "'g gcs_ops \<Rightarrow> ('g \<Rightarrow> pystr \<Rightarrow> gcs_history) \<Rightarrow> bool" where
  "upload_law ops hist \<longleftrightarrow> (\<forall>g k data m. history_grows hist g (snd (upload_from_string ops g k data m))
     \<and> (case fst (upload_from_string ops g k data m) of
          Inl _ \<Rightarrow> True
        | Inr _ \<Rightarrow> (\<exists>old n later. hist (snd (upload_from_string ops g k data m)) k = old @ Some (n, data) # later
                    \<and> prefix (hist g k) old \<and> follows m old)))"

definition gcs_contract :: "'g gcs_ops \<Rightarrow> ('g \<Rightarrow> pystr \<Rightarrow> gcs_history) \<Rightarrow> bool" where
  "gcs_contract ops hist \<longleftrightarrow>
     (\<forall>g k. distinct (gens (hist g k)) \<and> 0 \<notin> set (gens (hist g k)))
     \<and> download_law ops hist \<and> upload_law ops hist
     \<and> (\<forall>g k. history_grows hist g (snd (reload_generation ops g k)))"

lemma gens_iff: "n \<in> set (gens h) \<longleftrightarrow> (\<exists>c. Some (n, c) \<in> set h)"
  by (force simp: gens_def List.map_filter_def)

lemma gens_unique:
  assumes "distinct (gens h)" "Some (n, c) \<in> set h" "Some (n, c') \<in> set h"
  shows "c = c'"
proof (rule eq_key_imp_eq_value)
  show "distinct (map fst (List.map_filter id h))" using assms(1) by (simp add: gens_def)
qed (use assms(2,3) in \<open>force simp: List.map_filter_def\<close>)+

lemma contract_gens: "gcs_contract ops hist \<Longrightarrow> distinct (gens (hist g k)) \<and> 0 \<notin> set (gens (hist g k))"
  by (simp add: gcs_contract_def)

lemma grows_trans:
  "history_grows hist g g1 \<Longrightarrow> history_grows hist g1 g2 \<Longrightarrow> history_grows hist g g2"
  unfolding history_grows_def using prefix_order.trans by blast

lemma contract_grows:
  assumes "gcs_contract ops hist"
  shows "download_as_bytes ops g k = (r, g') \<Longrightarrow> history_grows hist g g'"
    "upload_from_string ops g k data m = (r', g') \<Longrightarrow> history_grows hist g g'"
    "reload_generation ops g k = (r'', g') \<Longrightarrow> history_grows hist g g'"
  using assms by (metis gcs_contract_def download_law_def upload_law_def snd_conv)+

lemma contract_download:
  assumes "gcs_contract ops hist" "download_as_bytes ops g k = (Inr (c, gen), g')"
  shows "\<exists>n. gen = Some n \<and> Some (n, c) \<in> set (hist g' k)"
proof -
  have "download_law ops hist" using assms(1) by (simp add: gcs_contract_def)
  from this[unfolded download_law_def, THEN spec, THEN spec, of g k] assms(2) show ?thesis by simp
qed

lemma contract_upload:
  assumes "gcs_contract ops hist" "upload_from_string ops g k data m = (Inr u, g')"
  shows "\<exists>old n later. hist g' k = old @ Some (n, data) # later \<and> prefix (hist g k) old \<and> follows m old"
proof -
  have "upload_law ops hist" using assms(1) by (simp add: gcs_contract_def)
  from this[unfolded upload_law_def, THEN spec, THEN spec, THEN spec, THEN spec, of g k data m] assms(2)
  show ?thesis by simp
qed

text \<open>A version that was downloaded and then matched is the one the new version replaces.\<close>

lemma download_then_upload:
  assumes C: "gcs_contract ops hist"
    and dl: "download_as_bytes ops g k = (Inr (c, gen), g1)"
    and ul: "upload_from_string ops g1 k data (case gen of None \<Rightarrow> 0 | Some n \<Rightarrow> n) = (Inr u, g2)"
  shows "\<exists>old m n later. hist g2 k = old @ [Some (m, c), Some (n, data)] @ later
    \<and> prefix (hist g k) (old @ [Some (m, c)])"
proof -
  obtain m where m: "gen = Some m" "Some (m, c) \<in> set (hist g1 k)"
    using contract_download[OF C dl] by auto
  then have "m \<noteq> 0" using contract_gens[OF C, of g1 k] gens_iff by metis
  obtain old n later where o: "hist g2 k = old @ Some (n, data) # later" "prefix (hist g1 k) old"
      "follows m old"
    using contract_upload[OF C ul] m by auto
  then obtain old' c' where old: "old = old' @ [Some (m, c')]"
    using \<open>m \<noteq> 0\<close> by (auto simp: follows_def) (metis append_butlast_last_id)
  have "Some (m, c) \<in> set (hist g2 k)" "Some (m, c') \<in> set (hist g2 k)"
    using m o old set_mono_prefix[OF o(2)] by auto
  then have "c' = c" using gens_unique contract_gens[OF C] by metis
  moreover have "prefix (hist g k) old"
    using contract_grows(1)[OF C dl] o(2) prefix_order.trans unfolding history_grows_def by blast
  ultimately show ?thesis using o(1) old by auto
qed

text \<open>The ways one pass of the loop can go.\<close>

lemma rmw_loop_cases:
  obtains (download_failed) e g1 where
    "download_as_bytes ops g (blob_name cid) = (Inl e, g1)"
    "rmw_loop ops cid block bs g = (Inl (if e = NotFound then ConversationObjectMissingError
       else if is_storage_error e then StorageUnavailableError else RaisedGcs e), [], g1)"
  | (not_encodable) r g1 where
    "download_as_bytes ops g (blob_name cid) = (Inr r, g1)" "py_encode block = None"
    "rmw_loop ops cid block bs g = (Inl EncodeError, [], g1)"
  | (upload_failed) c gen g1 e g2 where
    "download_as_bytes ops g (blob_name cid) = (Inr (c, gen), g1)"
    "upload_from_string ops g1 (blob_name cid) (c @ utf8 block) (case gen of None \<Rightarrow> 0 | Some n \<Rightarrow> n) = (Inl e, g2)"
    "e \<noteq> PreconditionFailed"
    "rmw_loop ops cid block bs g =
       (Inl (if is_storage_error e then StorageUnavailableError else RaisedGcs e), [], g2)"
  | (race_exhausted) c gen g1 g2 where
    "download_as_bytes ops g (blob_name cid) = (Inr (c, gen), g1)"
    "upload_from_string ops g1 (blob_name cid) (c @ utf8 block) (case gen of None \<Rightarrow> 0 | Some n \<Rightarrow> n)
       = (Inl PreconditionFailed, g2)"
    "bs = []" "rmw_loop ops cid block bs g = (Inl ConcurrentWriteError, [], g2)"
  | (race_retry) c gen g1 g2 t ts r sl g3 where
    "download_as_bytes ops g (blob_name cid) = (Inr (c, gen), g1)"
    "upload_from_string ops g1 (blob_name cid) (c @ utf8 block) (case gen of None \<Rightarrow> 0 | Some n \<Rightarrow> n)
       = (Inl PreconditionFailed, g2)"
    "bs = t # ts" "rmw_loop ops cid block ts g2 = (r, sl, g3)"
    "rmw_loop ops cid block bs g = (r, t # sl, g3)"
  | (reload_failed) c gen g1 u g2 e g3 where
    "download_as_bytes ops g (blob_name cid) = (Inr (c, gen), g1)"
    "upload_from_string ops g1 (blob_name cid) (c @ utf8 block) (case gen of None \<Rightarrow> 0 | Some n \<Rightarrow> n) = (Inr u, g2)"
    "reload_generation ops g2 (blob_name cid) = (Inl e, g3)"
    "rmw_loop ops cid block bs g = (Inl (RaisedGcs e), [], g3)"
  | (written) c gen g1 u g2 gen' g3 where
    "download_as_bytes ops g (blob_name cid) = (Inr (c, gen), g1)"
    "upload_from_string ops g1 (blob_name cid) (c @ utf8 block) (case gen of None \<Rightarrow> 0 | Some n \<Rightarrow> n) = (Inr u, g2)"
    "reload_generation ops g2 (blob_name cid) = (Inr gen', g3)"
    "rmw_loop ops cid block bs g = (Inr (gen', length (c @ utf8 block)), [], g3)"
proof -
  note eq = rmw_loop.simps[of ops cid block bs g]
  obtain dr g1 where dl: "download_as_bytes ops g (blob_name cid) = (dr, g1)" by fastforce
  show thesis
  proof (cases dr)
    case (Inl e)
    with dl eq show ?thesis by (intro download_failed[of e g1]) simp_all
  next
    case (Inr p)
    then obtain c gen where dr: "dr = Inr (c, gen)" by (cases p) auto
    show ?thesis
    proof (cases "py_encode block")
      case None
      with dl dr eq show ?thesis by (intro not_encodable[of "(c, gen)" g1]) simp_all
    next
      case (Some data)
      then have enc: "py_encode block = Some (utf8 block)" by (auto simp: py_encode_def split: if_splits)
      obtain ur g2 where ul: "upload_from_string ops g1 (blob_name cid) (c @ utf8 block)
          (case gen of None \<Rightarrow> 0 | Some n \<Rightarrow> n) = (ur, g2)" by fastforce
      show ?thesis
      proof (cases ur)
        case (Inl e)
        show ?thesis
        proof (cases "e = PreconditionFailed")
          case True
          show ?thesis
          proof (cases bs)
            case Nil
            with dl dr enc ul Inl True eq show ?thesis
              by (intro race_exhausted[of c gen g1 g2]) simp_all
          next
            case (Cons t ts)
            obtain r sl g3 where "rmw_loop ops cid block ts g2 = (r, sl, g3)" by (metis prod_cases3)
            with Cons dl dr enc ul Inl True eq show ?thesis
              by (intro race_retry[of c gen g1 g2 t ts r sl g3]) simp_all
          qed
        next
          case False
          with dl dr enc ul Inl eq show ?thesis by (intro upload_failed[of c gen g1 e g2]) simp_all
        qed
      next
        case (Inr u)
        obtain rr g3 where rl: "reload_generation ops g2 (blob_name cid) = (rr, g3)" by fastforce
        show ?thesis
        proof (cases rr)
          case (Inl e)
          with dl dr enc ul Inr rl eq show ?thesis
            by (intro reload_failed[of c gen g1 u g2 e g3]) simp_all
        next
          case (Inr gen')
          with dl dr enc ul \<open>ur = Inr u\<close> rl eq show ?thesis
            by (intro written[of c gen g1 u g2 gen' g3]) simp_all
        qed
      qed
    qed
  qed
qed

lemma attempt_grows:
  assumes C: "gcs_contract ops hist"
    and "download_as_bytes ops g k = (r, g1)" "upload_from_string ops g1 k data m = (r', g2)"
  shows "history_grows hist g g2"
  using contract_grows(1)[OF C assms(2)] contract_grows(2)[OF C assms(3)] by (rule grows_trans)

lemma rmw_grows:
  assumes C: "gcs_contract ops hist"
  shows "history_grows hist g (snd (snd (rmw_loop ops cid block bs g)))"
proof (induction "length bs" arbitrary: g bs)
  case (0 bs)
  show ?case
  proof (cases rule: rmw_loop_cases[of ops g cid block bs])
    case (reload_failed c gen g1 u g2 e g3)
    with attempt_grows[OF C reload_failed(1,2)] contract_grows(3)[OF C reload_failed(3)] show ?thesis
      by (simp add: grows_trans[of hist g g2 g3])
  next
    case (written c gen g1 u g2 gen' g3)
    with attempt_grows[OF C written(1,2)] contract_grows(3)[OF C written(3)] show ?thesis
      by (simp add: grows_trans[of hist g g2 g3])
  qed (use 0 in \<open>auto simp: attempt_grows[OF C] contract_grows(1)[OF C]\<close>)
next
  case (Suc n bs)
  show ?case
  proof (cases rule: rmw_loop_cases[of ops g cid block bs])
    case (reload_failed c gen g1 u g2 e g3)
    with attempt_grows[OF C reload_failed(1,2)] contract_grows(3)[OF C reload_failed(3)] show ?thesis
      by (simp add: grows_trans[of hist g g2 g3])
  next
    case (written c gen g1 u g2 gen' g3)
    with attempt_grows[OF C written(1,2)] contract_grows(3)[OF C written(3)] show ?thesis
      by (simp add: grows_trans[of hist g g2 g3])
  next
    case (race_retry c gen g1 g2 t ts r sl g3)
    with attempt_grows[OF C race_retry(1,2)] Suc.hyps(1)[of ts g2] Suc.hyps(2) show ?thesis
      by (simp add: grows_trans[of hist g g2 g3])
  qed (use Suc in \<open>auto simp: attempt_grows[OF C] contract_grows(1)[OF C]\<close>)
qed

lemma rmw_appends:
  assumes C: "gcs_contract ops hist"
  shows "rmw_loop ops cid block bs g = (Inr (gen, sz), sl, g') \<Longrightarrow>
    \<exists>old m c n later. hist g' (blob_name cid) = old @ [Some (m, c), Some (n, c @ utf8 block)] @ later
      \<and> prefix (hist g (blob_name cid)) (old @ [Some (m, c)]) \<and> sz = length (c @ utf8 block)"
proof (induction "length bs" arbitrary: bs g sl rule: less_induct)
  case less
  show ?case
  proof (cases rule: rmw_loop_cases[of ops g cid block bs])
    case (written c gn g1 u g2 gen' g3)
    with less.prems have eqs: "g3 = g'" "sz = length (c @ utf8 block)" by auto
    obtain old m n later where h: "hist g2 (blob_name cid) = old @ [Some (m, c), Some (n, c @ utf8 block)] @ later"
        "prefix (hist g (blob_name cid)) (old @ [Some (m, c)])"
      using download_then_upload[OF C written(1,2)] by blast
    have "prefix (hist g2 (blob_name cid)) (hist g' (blob_name cid))"
      using contract_grows(3)[OF C written(3)] eqs(1) by (simp add: history_grows_def)
    with h(1) obtain later' where
      "hist g' (blob_name cid) = old @ [Some (m, c), Some (n, c @ utf8 block)] @ later'"
      by (auto simp: prefix_def)
    with h(2) eqs(2) show ?thesis by blast
  next
    case (race_retry c gn g1 g2 t ts r sl' g3)
    then have "rmw_loop ops cid block ts g2 = (Inr (gen, sz), sl', g')" using less.prems by auto
    from less.hyps[OF _ this] race_retry(3) obtain old m c' n later where
      h: "hist g' (blob_name cid) = old @ [Some (m, c'), Some (n, c' @ utf8 block)] @ later"
         "prefix (hist g2 (blob_name cid)) (old @ [Some (m, c')])" "sz = length (c' @ utf8 block)"
      by auto
    moreover have "prefix (hist g (blob_name cid)) (hist g2 (blob_name cid))"
      using attempt_grows[OF C race_retry(1,2)] by (simp add: history_grows_def)
    ultimately have "prefix (hist g (blob_name cid)) (old @ [Some (m, c')])"
      using prefix_order.trans by blast
    with h show ?thesis by blast
  qed (use less.prems in \<open>auto split: if_splits\<close>)
qed

text \<open>The sleeps are a beginning of the back-off table, the whole of it when the writer gives up.\<close>

lemma rmw_sleeps:
  "rmw_loop ops cid block bs g = (r, sl, g') \<Longrightarrow> prefix sl bs \<and> (r = Inl ConcurrentWriteError \<longrightarrow> sl = bs)"
proof (induction "length bs" arbitrary: bs g sl rule: less_induct)
  case less
  show ?case
  proof (cases rule: rmw_loop_cases[of ops g cid block bs])
    case (race_retry c gn g1 g2 t ts r' sl' g3)
    with less.prems less.hyps[of ts g2 sl'] show ?thesis by auto
  qed (use less.prems in \<open>auto split: if_splits\<close>)
qed

section \<open>A service that keeps the contract\<close>

text \<open>Objects as the list of their versions; the generation of a version is its position.\<close>

type_synonym bucket = "pystr \<Rightarrow> bytes list"

definition bucket_download :: "bucket \<Rightarrow> pystr \<Rightarrow> (gcs_exn + bytes \<times> nat option) \<times> bucket" where
  "bucket_download g k = (if g k = [] then Inl NotFound else Inr (last (g k), Some (length (g k))), g)"

definition bucket_upload :: "bucket \<Rightarrow> pystr \<Rightarrow> bytes \<Rightarrow> nat \<Rightarrow> (gcs_exn + unit) \<times> bucket" where
  "bucket_upload g k data m =
     (if m = length (g k) then (Inr (), g(k := g k @ [data])) else (Inl PreconditionFailed, g))"

definition bucket_reload :: "bucket \<Rightarrow> pystr \<Rightarrow> (gcs_exn + nat) \<times> bucket" where
  "bucket_reload g k = (if g k = [] then Inl NotFound else Inr (length (g k)), g)"

definition bucket_ops :: "bucket gcs_ops" where
  "bucket_ops = \<lparr>download_as_bytes = bucket_download, upload_from_string = bucket_upload,
     reload_generation = bucket_reload\<rparr>"

definition bucket_hist :: "bucket \<Rightarrow> pystr \<Rightarrow> gcs_history" where
  "bucket_hist g k = map Some (zip [1..<Suc (length (g k))] (g k))"

lemma gens_bucket: "gens (bucket_hist g k) = [1..<Suc (length (g k))]"
proof -
  have "List.map_filter id (map Some xs) = xs" for xs :: "(nat \<times> bytes) list"
    by (induction xs) (simp_all add: List.map_filter_def)
  then show ?thesis by (simp add: gens_def bucket_hist_def del: upt_Suc)
qed

lemma bucket_hist_snoc:
  "bucket_hist (g(k := g k @ [data])) k = bucket_hist g k @ [Some (Suc (length (g k)), data)]"
  using upt_Suc_append[of 1 "Suc (length (g k))"] by (simp add: bucket_hist_def del: upt_Suc)

lemma bucket_grows: "history_grows bucket_hist g (g(k := g k @ [data]))"
  unfolding history_grows_def
proof
  fix k'
  show "prefix (bucket_hist g k') (bucket_hist (g(k := g k @ [data])) k')"
    by (cases "k' = k") (simp_all add: bucket_hist_snoc, simp add: bucket_hist_def)
qed

lemma bucket_last: "g k \<noteq> [] \<Longrightarrow> last (bucket_hist g k) = Some (length (g k), last (g k))"
proof -
  assume ne: "g k \<noteq> []"
  then obtain xs x where "g k = xs @ [x]" by (metis rev_exhaust)
  with upt_Suc_append[of 1 "Suc (length xs)"] show ?thesis by (simp add: bucket_hist_def del: upt_Suc)
qed

lemma bucket_contract: "gcs_contract bucket_ops bucket_hist"
proof -
  have refl: "history_grows bucket_hist g g" for g by (simp add: history_grows_def)
  have ne: "bucket_hist g k = [] \<longleftrightarrow> g k = []" for g k
    by (cases "g k") (auto simp: bucket_hist_def simp del: upt_Suc simp: upt_conv_Cons)
  have "Some (length (g k), last (g k)) \<in> set (bucket_hist g k)" if "g k \<noteq> []" for g k
    using bucket_last[of g k] ne[of g k] that last_in_set by metis
  then have "download_law bucket_ops bucket_hist"
    by (auto simp: download_law_def bucket_ops_def bucket_download_def refl)
  moreover have "follows (length (g k)) (bucket_hist g k)" for g k
    using bucket_last[of g k] ne[of g k] by (auto simp: follows_def)
  then have "upload_law bucket_ops bucket_hist"
    by (auto simp: upload_law_def bucket_ops_def bucket_upload_def refl bucket_grows bucket_hist_snoc
        intro!: exI[of _ "bucket_hist _ _"])
  ultimately show ?thesis
    by (simp add: gcs_contract_def gens_bucket bucket_ops_def bucket_reload_def refl del: upt_Suc)
qed

section \<open>Properties\<close>

text \<open>C3: a reported append is never a lost update. Whatever other writers do between the calls, when
  \<open>_read_modify_write\<close> returns a generation, the object's history contains a version that is its
  direct predecessor's content followed by exactly the encoded block, every version that existed at
  the start precedes it, and the reported size is its length.\<close>

theorem read_modify_write_no_lost_update:
  assumes "gcs_contract ops hist"
    and "read_modify_write ops g cid block = (Inr (gen, sz), sleeps, g')"
  shows "\<exists>old m c n later.
      hist g' (blob_name cid) = old @ [Some (m, c), Some (n, c @ utf8 block)] @ later
    \<and> prefix (hist g (blob_name cid)) (old @ [Some (m, c)]) \<and> sz = length (c @ utf8 block)"
  using rmw_appends[OF assms(1)] assms(2) by (simp add: read_modify_write_def)

theorem read_modify_write_no_lost_update_witness:
  "\<exists>old m c n later.
      bucket_hist ((\<lambda>_. [])(lit ''c1.md'' := [[1], [1, 120]])) (blob_name (lit ''c1''))
        = old @ [Some (m, c), Some (n, c @ utf8 (lit ''x''))] @ later"
proof -
  have "read_modify_write bucket_ops ((\<lambda>_. [])(lit ''c1.md'' := [[1]])) (lit ''c1'') (lit ''x'')
      = (Inr (2, 2), [], (\<lambda>_. [])(lit ''c1.md'' := [[1], [1, 120]]))"
    by (simp add: read_modify_write_def rmw_loop.simps bucket_ops_def bucket_download_def bucket_upload_def
        bucket_reload_def blob_name_def py_eval RETRY_BACKOFF_SECONDS_def)
  from read_modify_write_no_lost_update[OF bucket_contract this] show ?thesis by blast
qed

text \<open>The writer makes at most four attempts, sleeping 50, 200 and 800 ms in this order between
  them; it reports a concurrent-write conflict only after all three back-offs, and never undoes a
  version of any object.\<close>

theorem read_modify_write_bounded_retries:
  assumes "read_modify_write ops g cid block = (r, sleeps, g')"
  shows "prefix sleeps [5/100, 20/100, 80/100]
    \<and> (r = Inl ConcurrentWriteError \<longrightarrow> sleeps = [5/100, 20/100, 80/100])
    \<and> (gcs_contract ops hist \<longrightarrow> history_grows hist g g')"
  using rmw_sleeps[of ops cid block RETRY_BACKOFF_SECONDS g r sleeps g'] assms
    rmw_grows[of ops hist g cid block RETRY_BACKOFF_SECONDS]
  by (simp add: read_modify_write_def RETRY_BACKOFF_SECONDS_def)

definition contended_ops :: "unit gcs_ops" where
  "contended_ops = \<lparr>download_as_bytes = (\<lambda>g k. (Inr ([], Some 1), g)),
     upload_from_string = (\<lambda>g k data m. (Inl PreconditionFailed, g)), reload_generation = (\<lambda>g k. (Inr 1, g))\<rparr>"

lemma contended_gives_up:
  "read_modify_write contended_ops () [] (lit ''x'') = (Inl ConcurrentWriteError, [5/100, 20/100, 80/100], ())"
  by (simp add: read_modify_write_def rmw_loop.simps contended_ops_def py_eval RETRY_BACKOFF_SECONDS_def)

theorem read_modify_write_bounded_retries_witness:
  "fst (read_modify_write contended_ops () [] (lit ''x'')) = Inl ConcurrentWriteError
   \<and> fst (snd (read_modify_write contended_ops () [] (lit ''x''))) = [5/100, 20/100, 80/100]"
  using read_modify_write_bounded_retries[OF contended_gives_up] by (simp add: contended_gives_up)

end
