(* ===== verification/Pipeline.thy ===== *)
theory Pipeline
  imports Sse Acl Requests Tickets Memory_Window Gcs_Storage
begin

text \<open>
  The internal HTTP clients (\<open>services/retrieve_client.py\<close>, \<open>services/conversation_client.py\<close>) and the
  finalisation shared by the blocking and the streaming router (\<open>generate/_pipeline.py\<close>). Effects on
  the outside are the events of a trace; the replies of the outside are fields of \<open>gen_env\<close>. The
  conversation service is reached over HTTP and may change the database.
\<close>

section \<open>The outside world of a request\<close>

datatype mode = Canon | OffTopicMode | LoreGap | Mystery

fun mode_name :: "mode \<Rightarrow> pystr" where
  "mode_name Canon = lit ''canon''"
| "mode_name OffTopicMode = lit ''off_topic''"
| "mode_name LoreGap = lit ''lore_gap''"
| "mode_name Mystery = lit ''mystery''"

fun intent_name :: "intent \<Rightarrow> pystr" where
  "intent_name InDomain = lit ''in_domain''"
| "intent_name OffTopic = lit ''off_topic''"

datatype gen_event =
    ELlm "message list"
  | ESearch payload
  | EAppend role pystr
  | ETicket pystr
  | EQueryLog query_log_row
  | EYield sse

text \<open>A response: its status and its decoded JSON body (None: not JSON); Inl is a transport error.\<close>

record gen_env =
  ge_client :: llm_config
  ge_invoke :: "message list \<Rightarrow> rat option \<Rightarrow> chat_result"
  ge_stream :: "message list \<Rightarrow> stream_step list"
  ge_chunk_add :: "ai_message \<Rightarrow> ai_message \<Rightarrow> ai_message"
  ge_retrieve_post :: "payload \<Rightarrow> unit + int \<times> pyval option"
  ge_chunk_validate :: "pyval \<Rightarrow> chunk option"
  ge_conversation_post :: "db \<Rightarrow> pystr \<Rightarrow> payload \<Rightarrow> (unit + int) \<times> db"
  ge_reader :: "(db \<Rightarrow> pystr \<Rightarrow> pystr \<Rightarrow> nat \<Rightarrow> db_exn + message_row list) option"
  ge_token_budget :: int
  ge_tickets :: "ticket_env option"
  ge_cast :: uuid_cast
  ge_log_fault :: "db_exn option"
  ge_uuid :: pystr
  ge_now_user :: datetime
  ge_now_assistant :: datetime
  ge_intent_elapsed :: rat
  ge_retrieve_elapsed :: rat
  ge_llm_elapsed :: rat
  ge_total_elapsed :: rat

section \<open>Clients\<close>

datatype search_error = RetrieveError | SearchCrash

fun chunks_field :: "pyval \<Rightarrow> pyval list option" where
  "chunks_field (PDict kvs) =
     (case map_of kvs (lit ''chunks'') of None \<Rightarrow> Some [] | Some (PList xs) \<Rightarrow> Some xs | Some _ \<Rightarrow> None)"
| "chunks_field _ = Some []"

definition retrieve_body :: "pystr \<Rightarrow> int \<Rightarrow> pystr \<Rightarrow> payload" where
  "retrieve_body query top_k user_tier =
     [(lit ''query'', PStr query), (lit ''top_k'', PInt top_k), (lit ''user_tier'', PStr user_tier)]"

definition search_client :: "gen_env \<Rightarrow> pystr \<Rightarrow> int \<Rightarrow> pystr \<Rightarrow> search_error + chunk list" where
  "search_client env query top_k user_tier =
     (case ge_retrieve_post env (retrieve_body query top_k user_tier) of
        Inl _ \<Rightarrow> Inl RetrieveError
      | Inr (status, body) \<Rightarrow>
          if status div 100 \<noteq> 2 then Inl RetrieveError
          else (case Option.bind body chunks_field of
                  None \<Rightarrow> Inl SearchCrash
                | Some items \<Rightarrow>
                    (case those (map (ge_chunk_validate env) items) of
                       None \<Rightarrow> Inl SearchCrash
                     | Some chunks \<Rightarrow> Inr chunks)))"

record append_result =
  ar_ok :: bool
  ar_status_code :: "int option"

definition append_message ::
  "gen_env \<Rightarrow> db \<Rightarrow> pystr \<Rightarrow> role \<Rightarrow> pystr \<Rightarrow> datetime \<Rightarrow> pystr \<Rightarrow> append_result \<times> db" where
  "append_message env d conversation_id rl content timestamp user_id =
     (case ge_conversation_post env d (lit ''/v1/conversations/'' @ conversation_id @ lit ''/messages'')
             [(lit ''role'', PStr (role_name rl)), (lit ''content'', PStr content),
              (lit ''timestamp'', PStr (isoformat timestamp)), (lit ''user_id'', PStr user_id)] of
        (Inl _, d1) \<Rightarrow> (\<lparr>ar_ok = False, ar_status_code = None\<rparr>, d1)
      | (Inr status, d1) \<Rightarrow> (\<lparr>ar_ok = (status div 100 = 2), ar_status_code = Some status\<rparr>, d1))"

section \<open>Finalisation\<close>

record gen_ctx =
  gc_parsed :: generate_request
  gc_conversation_id :: pystr
  gc_suspected :: bool
  gc_memory :: "message list"
  gc_retrieval_query :: pystr

record prepared =
  pm_mode :: mode
  pm_messages :: "message list"
  pm_visible_chunks :: "chunk list"
  pm_retrieve_ms :: int
  pm_max_score :: rat
  pm_blocked_count :: int
  pm_intent_result :: intent_result

record generation_result =
  gr_persisted_content :: pystr
  gr_usage :: usage
  gr_citations :: "citation list"
  gr_llm_ms :: int
  gr_followups :: "pystr list"

datatype ticket_outcome = TicketSkipped | TicketAction ticket_action

text \<open>Nothing, a call that is skipped, or the ticket service; the service never raises.\<close>

definition maybe_create_ticket ::
  "gen_env \<Rightarrow> db \<Rightarrow> gen_ctx \<Rightarrow> prepared \<Rightarrow> append_result \<Rightarrow> append_result \<Rightarrow> (db_exn + ticket_outcome) \<times> gen_event list \<times> db" where
  "maybe_create_ticket env d ctx prep user_append asst_append =
     (if pm_mode prep \<noteq> LoreGap then (Inr TicketSkipped, [], d)
      else if \<not> (ar_ok user_append \<and> ar_ok asst_append) then (Inr (TicketAction SkippedError), [], d)
      else case ge_tickets env of
             None \<Rightarrow> (Inr (TicketAction SkippedError), [], d)
           | Some te \<Rightarrow>
               (case create_or_increment te d (gc_conversation_id ctx) (rq_query (gc_parsed ctx)) False False of
                  (Inl e, d1) \<Rightarrow> (Inl e, [ETicket (rq_query (gc_parsed ctx))], d1)
                | (Inr r, d1) \<Rightarrow> (Inr (TicketAction (tr_action r)), [ETicket (rq_query (gc_parsed ctx))], d1)))"

definition logged_intent :: "mode \<Rightarrow> intent_result \<Rightarrow> pystr" where
  "logged_intent m ir = (if m = OffTopicMode then lit ''off_topic'' else intent_name (ir_intent ir))"

definition log_row ::
  "gen_env \<Rightarrow> gen_ctx \<Rightarrow> mode \<Rightarrow> intent_result \<Rightarrow> int \<Rightarrow> int option \<Rightarrow> int option \<Rightarrow> rat option \<Rightarrow> query_log_row" where
  "log_row env ctx m ir status pt ct cost =
     \<lparr>ql_request_id = rq_request_id (gc_parsed ctx), ql_user_id = rq_user_id (gc_parsed ctx),
      ql_conversation_id = Some (gc_conversation_id ctx), ql_query_text = rq_query (gc_parsed ctx),
      ql_mode = Some (mode_name m), ql_intent = Some (logged_intent m ir), ql_status_code = status,
      ql_latency_ms = elapsed_ms (ge_total_elapsed env), ql_prompt_tokens = pt, ql_completion_tokens = ct,
      ql_cost_eur = cost\<rparr>"

definition success_row :: "gen_env \<Rightarrow> gen_ctx \<Rightarrow> prepared \<Rightarrow> usage \<Rightarrow> query_log_row" where
  "success_row env ctx prep u =
     log_row env ctx (pm_mode prep) (pm_intent_result prep) 200
       (us_prompt_tokens u) (us_completion_tokens u) (us_cost_eur u)"

text \<open>\<open>query_log_repo.insert\<close>, with its event.\<close>

definition insert_log :: "gen_env \<Rightarrow> db \<Rightarrow> query_log_row \<Rightarrow> (db_exn + bool) \<times> gen_event list \<times> db" where
  "insert_log env d row =
     (case insert_query_log (ge_cast env) (ge_log_fault env) d row of (r, d1) \<Rightarrow> (r, [EQueryLog row], d1))"

definition finalize_generation ::
  "gen_env \<Rightarrow> db \<Rightarrow> gen_ctx \<Rightarrow> prepared \<Rightarrow> generation_result \<Rightarrow> (db_exn + ticket_outcome) \<times> gen_event list \<times> db" where
  "finalize_generation env d ctx prep result =
     (let query = rq_query (gc_parsed ctx); uid = rq_user_id (gc_parsed ctx); cid = gc_conversation_id ctx
      in case append_message env d cid User query (ge_now_user env) uid of
           (user_append, d1) \<Rightarrow>
         (case append_message env d1 cid Assistant (gr_persisted_content result) (ge_now_assistant env) uid of
            (asst_append, d2) \<Rightarrow>
          (case maybe_create_ticket env d2 ctx prep user_append asst_append of
             (ticket, tev, d3) \<Rightarrow>
               (let evs = [EAppend User query, EAppend Assistant (gr_persisted_content result)] @ tev
                in case ticket of
                     Inl e \<Rightarrow> (Inl e, evs, d3)
                   | Inr action \<Rightarrow>
                       (case insert_log env d3 (success_row env ctx prep (gr_usage result)) of
                          (Inl e, lev, d4) \<Rightarrow> (Inl e, evs @ lev, d4)
                        | (Inr _, lev, d4) \<Rightarrow> (Inr action, evs @ lev, d4))))))"

section \<open>Lemmas\<close>

lemma create_or_increment_Inr: "\<exists>res. fst (create_or_increment te d cid q j f) = Inr res"
  by (cases rule: create_or_increment_cases[of te d cid q j f]) auto

lemma maybe_create_ticket_Inr: "\<exists>a. fst (maybe_create_ticket env d ctx prep ua aa) = Inr a"
proof (cases "ge_tickets env")
  case (Some te)
  obtain res where "fst (create_or_increment te d (gc_conversation_id ctx) (rq_query (gc_parsed ctx)) False False) = Inr res"
    using create_or_increment_Inr by blast
  then show ?thesis
    using Some by (auto simp: maybe_create_ticket_def split: prod.split)
qed (simp add: maybe_create_ticket_def)

text \<open>The trace of the finalisation: both turns, at most one ticket, then one log row.\<close>

lemma finalize_trace:
  "\<exists>tev. fst (snd (finalize_generation env d ctx prep result)) =
       [EAppend User (rq_query (gc_parsed ctx)), EAppend Assistant (gr_persisted_content result)] @ tev
         @ [EQueryLog (success_row env ctx prep (gr_usage result))]
     \<and> (tev = [] \<or> tev = [ETicket (rq_query (gc_parsed ctx))] \<and> pm_mode prep = LoreGap \<and> ge_tickets env \<noteq> None)"
proof -
  obtain ua d1 where a1: "append_message env d (gc_conversation_id ctx) User (rq_query (gc_parsed ctx))
      (ge_now_user env) (rq_user_id (gc_parsed ctx)) = (ua, d1)" by fastforce
  obtain aa d2 where a2: "append_message env d1 (gc_conversation_id ctx) Assistant (gr_persisted_content result)
      (ge_now_assistant env) (rq_user_id (gc_parsed ctx)) = (aa, d2)" by fastforce
  obtain t tev d3 where t: "maybe_create_ticket env d2 ctx prep ua aa = (t, tev, d3)" by (metis prod_cases3)
  obtain a where ta: "t = Inr a" using maybe_create_ticket_Inr[of env d2 ctx prep ua aa] t by auto
  obtain r d4 where l: "insert_query_log (ge_cast env) (ge_log_fault env) d3
      (success_row env ctx prep (gr_usage result)) = (r, d4)" by fastforce
  have "tev = [] \<or> tev = [ETicket (rq_query (gc_parsed ctx))] \<and> pm_mode prep = LoreGap \<and> ge_tickets env \<noteq> None"
    using t by (auto simp: maybe_create_ticket_def split: if_splits option.splits prod.splits sum.splits)
  then show ?thesis
    by (cases r) (simp_all add: finalize_generation_def Let_def a1 a2 t ta insert_log_def l)
qed

end
