(* ===== verification/Generate_Router.thy ===== *)
theory Generate_Router
  imports Pipeline
begin

text \<open>
  \<open>workers/.../generate/router.py\<close>: POST /v1/generate. The handler returns the response or the failure,
  the trace of what it sent out, and the database.
\<close>

section \<open>Entering a request\<close>

definition TOP_K :: int where
  "TOP_K = 5"

definition LORE_GAP_THRESHOLD :: rat where
  "LORE_GAP_THRESHOLD = 45/100"

datatype gen_fail = Refused gen_error | Crashed

record generate_response =
  rs_answer :: pystr
  rs_citations :: "citation list"
  rs_mode :: mode
  rs_conversation_id :: pystr
  rs_request_id :: pystr
  rs_usage :: usage
  rs_retrieve_ms :: int
  rs_llm_ms :: int

text \<open>\<open>bool(detect_injection(s))\<close>\<close>

definition suspects :: "pystr \<Rightarrow> bool" where
  "suspects s = (case detect_injection s of None \<Rightarrow> False | Some m \<Rightarrow> m \<noteq> [])"

text \<open>\<open>parsed.conversation_id or str(uuid.uuid4())\<close>\<close>

definition conversation_or_new :: "gen_env \<Rightarrow> generate_request \<Rightarrow> pystr" where
  "conversation_or_new env rq =
     (case rq_conversation_id rq of None \<Rightarrow> ge_uuid env | Some c \<Rightarrow> if c = [] then ge_uuid env else c)"

definition retrieval_query_of :: "memory_window \<Rightarrow> pystr \<Rightarrow> pystr" where
  "retrieval_query_of w query =
     (case mw_last_user_turn w of None \<Rightarrow> query | Some t \<Rightarrow> if t = [] then query else t @ [10] @ query)"

definition history_suspected :: "memory_window \<Rightarrow> bool" where
  "history_suspected w = (case mw_last_user_turn w of None \<Rightarrow> False | Some t \<Rightarrow> suspects t)"

text \<open>The part of the handler up to the classification, shared with the streaming route.\<close>

definition enter_request ::
  "gen_env \<Rightarrow> db \<Rightarrow> generate_request \<Rightarrow> gen_fail + gen_ctx \<times> intent_result \<times> gen_event list" where
  "enter_request env d rq =
     (let cid = conversation_or_new env rq
      in case load_memory_window (map_option (\<lambda>f. f d) (ge_reader env)) cid (rq_user_id rq) (ge_token_budget env) of
           Inl _ \<Rightarrow> Inl Crashed
         | Inr w \<Rightarrow>
             (let rquery = retrieval_query_of w (rq_query rq);
                  msgs = build_intent_messages rquery (suspects (rq_query rq) \<or> history_suspected w);
                  ir = classify_intent (ge_client env) (ge_invoke env msgs (Some (of_nat INTENT_TIMEOUT_S))) (ge_intent_elapsed env)
              in Inr (\<lparr>gc_parsed = rq, gc_conversation_id = cid, gc_suspected = suspects (rq_query rq),
                       gc_memory = mw_messages w, gc_retrieval_query = rquery\<rparr>, ir, [ELlm msgs])))"

section \<open>Deciding the mode\<close>

fun max_score :: "chunk list \<Rightarrow> rat" where
  "max_score [] = 0"
| "max_score (c # cs) = foldl (\<lambda>m x. max m (ch_score x)) (ch_score c) cs"

definition prepare ::
  "mode \<Rightarrow> message list \<Rightarrow> chunk list \<Rightarrow> int \<Rightarrow> rat \<Rightarrow> int \<Rightarrow> intent_result \<Rightarrow> prepared" where
  "prepare m msgs chunks retrieve_ms score blocked ir =
     \<lparr>pm_mode = m, pm_messages = msgs, pm_visible_chunks = chunks, pm_retrieve_ms = retrieve_ms,
      pm_max_score = score, pm_blocked_count = blocked, pm_intent_result = ir\<rparr>"

definition prepare_retrieved :: "gen_env \<Rightarrow> gen_ctx \<Rightarrow> intent_result \<Rightarrow> chunk list \<Rightarrow> prepared" where
  "prepare_retrieved env ctx ir chunks =
     (let query = rq_query (gc_parsed ctx); sus = gc_suspected ctx; mem = gc_memory ctx;
          retrieve_ms = elapsed_ms (ge_retrieve_elapsed env);
          acl = filter_chunks_by_tier chunks (rq_user_tier (gc_parsed ctx))
      in if visible acl = [] \<and> 1 \<le> blocked_count acl
         then prepare Mystery (build_mystery_messages query sus mem) [] retrieve_ms 0 (blocked_count acl) ir
         else let score = max_score (visible acl)
              in if score < LORE_GAP_THRESHOLD
                 then prepare LoreGap (build_lore_gap_messages query sus mem) (visible acl) retrieve_ms score
                        (blocked_count acl) ir
                 else prepare Canon (build_messages query (visible acl) sus mem) (visible acl) retrieve_ms score
                        (blocked_count acl) ir)"

definition decide_mode ::
  "gen_env \<Rightarrow> gen_ctx \<Rightarrow> intent_result \<Rightarrow> (gen_fail + prepared) \<times> gen_event list" where
  "decide_mode env ctx ir =
     (if ir_intent ir = OffTopic
      then (Inr (prepare OffTopicMode
                   (build_off_topic_messages (rq_query (gc_parsed ctx)) (gc_suspected ctx) (gc_memory ctx))
                   [] 0 0 0 ir), [])
      else (case search_client env (gc_retrieval_query ctx) TOP_K (rq_user_tier (gc_parsed ctx)) of
              Inl RetrieveError \<Rightarrow> Inl (Refused (GenerateError 502 (lit ''retrieve_failed'')))
            | Inl SearchCrash \<Rightarrow> Inl Crashed
            | Inr chunks \<Rightarrow> Inr (prepare_retrieved env ctx ir chunks),
            [ESearch (retrieve_body (gc_retrieval_query ctx) TOP_K (rq_user_tier (gc_parsed ctx)))]))"

section \<open>Invoking and finalising\<close>

definition with_classifier :: "mode \<Rightarrow> bool" where
  "with_classifier m \<longleftrightarrow> m = LoreGap \<or> m = OffTopicMode"

definition failure_row :: "gen_env \<Rightarrow> gen_ctx \<Rightarrow> prepared \<Rightarrow> int \<Rightarrow> query_log_row" where
  "failure_row env ctx prep status =
     (let ir = pm_intent_result prep
      in if with_classifier (pm_mode prep)
         then log_row env ctx (pm_mode prep) ir status (ir_prompt_tokens ir) (ir_completion_tokens ir) (ir_cost_eur ir)
         else log_row env ctx (pm_mode prep) ir status None None None)"

definition build_usage :: "gen_env \<Rightarrow> prepared \<Rightarrow> ai_message \<Rightarrow> usage" where
  "build_usage env prep ai_message =
     (let raw = extract_usage ai_message (lc_provider (ge_client env));
          cost = compute_cost_eur (lc_model (ge_client env)) (us_prompt_tokens raw) (us_completion_tokens raw);
          ir = pm_intent_result prep
      in if with_classifier (pm_mode prep)
         then \<lparr>us_prompt_tokens = add_optional (ir_prompt_tokens ir) (us_prompt_tokens raw),
               us_completion_tokens = add_optional (ir_completion_tokens ir) (us_completion_tokens raw),
               us_cost_eur = add_decimal_optional (ir_cost_eur ir) cost\<rparr>
         else \<lparr>us_prompt_tokens = us_prompt_tokens raw, us_completion_tokens = us_completion_tokens raw,
               us_cost_eur = cost\<rparr>)"

definition llm_failure :: "llm_exn \<Rightarrow> int \<times> pystr" where
  "llm_failure e = (case e of LlmTimeoutError \<Rightarrow> (504, lit ''llm_timeout'') | LlmUpstreamError _ \<Rightarrow> (502, lit ''llm_upstream''))"

definition generation_of :: "gen_env \<Rightarrow> prepared \<Rightarrow> ai_message \<Rightarrow> generation_result" where
  "generation_of env prep ai_message =
     (let raw_answer = content_text (ai_content ai_message);
          llm_ms_raw = elapsed_ms (ge_llm_elapsed env)
      in case extract_followups raw_answer of
           (answer, followups) \<Rightarrow>
             \<lparr>gr_persisted_content = raw_answer, gr_usage = build_usage env prep ai_message,
              gr_citations = extract_citations answer (pm_visible_chunks prep),
              gr_llm_ms = (if with_classifier (pm_mode prep) then ir_latency_ms (pm_intent_result prep) + llm_ms_raw
                           else llm_ms_raw),
              gr_followups = followups\<rparr>)"

definition response_of :: "gen_ctx \<Rightarrow> prepared \<Rightarrow> generation_result \<Rightarrow> generate_response" where
  "response_of ctx prep result =
     \<lparr>rs_answer = fst (extract_followups (gr_persisted_content result)), rs_citations = gr_citations result,
      rs_mode = pm_mode prep, rs_conversation_id = gc_conversation_id ctx,
      rs_request_id = rq_request_id (gc_parsed ctx), rs_usage = gr_usage result,
      rs_retrieve_ms = pm_retrieve_ms prep, rs_llm_ms = gr_llm_ms result\<rparr>"

definition invoke_and_finalize ::
  "gen_env \<Rightarrow> db \<Rightarrow> gen_ctx \<Rightarrow> prepared \<Rightarrow> (gen_fail + generate_response) \<times> gen_event list \<times> db" where
  "invoke_and_finalize env d ctx prep =
     (case llm_invoke (ge_invoke env (pm_messages prep) None) of
        Inl e \<Rightarrow>
          (case insert_log env d (failure_row env ctx prep (fst (llm_failure e))) of
             (Inl _, lev, d1) \<Rightarrow> (Inl Crashed, ELlm (pm_messages prep) # lev, d1)
           | (Inr _, lev, d1) \<Rightarrow>
               (Inl (Refused (GenerateError (fst (llm_failure e)) (snd (llm_failure e)))), ELlm (pm_messages prep) # lev, d1))
      | Inr ai_message \<Rightarrow>
          (let result = generation_of env prep ai_message
           in case finalize_generation env d ctx prep result of
                (Inl _, evs, d1) \<Rightarrow> (Inl Crashed, ELlm (pm_messages prep) # evs, d1)
              | (Inr _, evs, d1) \<Rightarrow> (Inr (response_of ctx prep result), ELlm (pm_messages prep) # evs, d1)))"

definition handle_generate ::
  "gen_env \<Rightarrow> db \<Rightarrow> payload \<Rightarrow> (pystr \<Rightarrow> pystr option) \<Rightarrow> (gen_fail + generate_response) \<times> gen_event list \<times> db" where
  "handle_generate env d payload headers =
     (case parse_request payload headers of
        Inl e \<Rightarrow> (Inl (Refused e), [], d)
      | Inr rq \<Rightarrow>
          (case enter_request env d rq of
             Inl e \<Rightarrow> (Inl e, [], d)
           | Inr (ctx, ir, ev0) \<Rightarrow>
               (case decide_mode env ctx ir of
                  (Inl e, ev1) \<Rightarrow> (Inl e, ev0 @ ev1, d)
                | (Inr prep, ev1) \<Rightarrow>
                    (case invoke_and_finalize env d ctx prep of
                       (r, ev2, d1) \<Rightarrow> (r, ev0 @ ev1 @ ev2, d1)))))"

section \<open>Reading a trace\<close>

fun persisted :: "gen_event list \<Rightarrow> (role \<times> pystr) list" where
  "persisted [] = []"
| "persisted (EAppend rl c # evs) = (rl, c) # persisted evs"
| "persisted (_ # evs) = persisted evs"

fun logged :: "gen_event list \<Rightarrow> query_log_row list" where
  "logged [] = []"
| "logged (EQueryLog row # evs) = row # logged evs"
| "logged (_ # evs) = logged evs"

fun ticketed :: "gen_event list \<Rightarrow> pystr list" where
  "ticketed [] = []"
| "ticketed (ETicket q # evs) = q # ticketed evs"
| "ticketed (_ # evs) = ticketed evs"

fun prompts :: "gen_event list \<Rightarrow> message list list" where
  "prompts [] = []"
| "prompts (ELlm ms # evs) = ms # prompts evs"
| "prompts (_ # evs) = prompts evs"

fun yielded :: "gen_event list \<Rightarrow> sse list" where
  "yielded [] = []"
| "yielded (EYield e # evs) = e # yielded evs"
| "yielded (_ # evs) = yielded evs"

lemma trace_append [simp]:
  "persisted (a @ b) = persisted a @ persisted b" "logged (a @ b) = logged a @ logged b"
  "ticketed (a @ b) = ticketed a @ ticketed b" "prompts (a @ b) = prompts a @ prompts b"
  "yielded (a @ b) = yielded a @ yielded b"
proof -
  show "persisted (a @ b) = persisted a @ persisted b" by (induction a rule: persisted.induct) auto
  show "logged (a @ b) = logged a @ logged b" by (induction a rule: logged.induct) auto
  show "ticketed (a @ b) = ticketed a @ ticketed b" by (induction a rule: ticketed.induct) auto
  show "prompts (a @ b) = prompts a @ prompts b" by (induction a rule: prompts.induct) auto
  show "yielded (a @ b) = yielded a @ yielded b" by (induction a rule: yielded.induct) auto
qed

section \<open>Lemmas\<close>

lemma foldl_max_less: "foldl (\<lambda>m x. max m (ch_score x)) (a :: rat) cs < t \<longleftrightarrow> a < t \<and> (\<forall>c\<in>set cs. ch_score c < t)"
  by (induction cs arbitrary: a) auto

lemma max_score_less: "0 < t \<Longrightarrow> max_score cs < t \<longleftrightarrow> (\<forall>c\<in>set cs. ch_score c < t)"
  by (cases cs) (auto simp: foldl_max_less)

lemma threshold_pos: "0 < LORE_GAP_THRESHOLD"
  by (simp add: LORE_GAP_THRESHOLD_def)

lemma mystery_condition:
  "visible (filter_chunks_by_tier cs t) = [] \<and> 1 \<le> blocked_count (filter_chunks_by_tier cs t)
   \<longleftrightarrow> cs \<noteq> [] \<and> (\<forall>c\<in>set cs. \<not> may_see t c)"
proof -
  have "1 \<le> blocked_count (filter_chunks_by_tier cs t) \<longleftrightarrow> (\<exists>c\<in>set cs. \<not> may_see t c)"
    by (auto simp: blocked_filter filter_empty_conv Suc_le_eq simp flip: length_greater_0_conv)
  then show ?thesis by (auto simp: visible_filter filter_empty_conv)
qed

lemma prepare_fields [simp]:
  "pm_mode (prepare m ms cs r s b ir) = m" "pm_messages (prepare m ms cs r s b ir) = ms"
  "pm_visible_chunks (prepare m ms cs r s b ir) = cs" "pm_retrieve_ms (prepare m ms cs r s b ir) = r"
  "pm_max_score (prepare m ms cs r s b ir) = s" "pm_blocked_count (prepare m ms cs r s b ir) = b"
  "pm_intent_result (prepare m ms cs r s b ir) = ir"
  by (simp_all add: prepare_def)

definition SYSTEM_PROMPTS :: "pystr set" where
  "SYSTEM_PROMPTS = {INTENT_SYSTEM_PROMPT, SYSTEM_PROMPT, OFF_TOPIC_SYSTEM_PROMPT, LORE_GAP_SYSTEM_PROMPT,
     MYSTERY_SYSTEM_PROMPT}"

text \<open>A prompt with one trusted system message in front and only human and assistant turns behind it.\<close>

definition zoned :: "message list \<Rightarrow> bool" where
  "zoned ms \<longleftrightarrow> (\<exists>s rest. ms = SystemMessage s # rest \<and> s \<in> SYSTEM_PROMPTS \<and> (\<forall>m\<in>set rest. \<not> is_system m))"

lemma zoned_assemble:
  "p \<in> SYSTEM_PROMPTS \<Longrightarrow> \<forall>m\<in>set h. \<not> is_system m \<Longrightarrow> zoned (assemble p u h)"
  by (auto simp: zoned_def assemble_def)

lemma zoned_builders:
  assumes "\<forall>m\<in>set h. \<not> is_system m"
  shows "zoned (build_messages q cs b h)" "zoned (build_off_topic_messages q b h)"
    "zoned (build_mystery_messages q b h)" "zoned (build_lore_gap_messages q b h)"
  by (simp_all only: builder_defs)
    (rule zoned_assemble[OF _ assms]; simp add: SYSTEM_PROMPTS_def)+

lemma zoned_intent: "zoned (build_intent_messages q b)"
  by (simp add: zoned_def build_intent_messages_def SYSTEM_PROMPTS_def)

lemma load_window_no_system:
  "load_memory_window repo cid uid budget = Inr w \<Longrightarrow> m \<in> set (mw_messages w) \<Longrightarrow> \<not> is_system m"
  by (auto simp: load_memory_window_def EMPTY_WINDOW_def render_window_def split: option.splits if_splits sum.splits)

lemma enter_request_ctx:
  assumes "enter_request env d rq = Inr (ctx, ir, evs)"
  shows "gc_parsed ctx = rq" "\<forall>m\<in>set (gc_memory ctx). \<not> is_system m"
    "\<exists>ms. evs = [ELlm ms] \<and> zoned ms"
  using assms load_window_no_system
  by (auto simp: enter_request_def Let_def zoned_intent split: sum.splits)

lemma decide_mode_zoned:
  assumes "decide_mode env ctx ir = (Inr prep, evs)" "\<forall>m\<in>set (gc_memory ctx). \<not> is_system m"
  shows "zoned (pm_messages prep)"
  using assms zoned_builders[OF assms(2)]
  by (auto simp: decide_mode_def prepare_retrieved_def Let_def split: if_splits sum.splits search_error.splits)

lemma decide_mode_trace:
  "persisted (snd (decide_mode env ctx ir)) = []" "logged (snd (decide_mode env ctx ir)) = []"
  "ticketed (snd (decide_mode env ctx ir)) = []" "prompts (snd (decide_mode env ctx ir)) = []"
  by (auto simp: decide_mode_def)

lemma finalize_reads:
  assumes "finalize_generation env d ctx prep result = (r, evs, d')"
  shows "persisted evs = [(User, rq_query (gc_parsed ctx)), (Assistant, gr_persisted_content result)]
    \<and> logged evs = [success_row env ctx prep (gr_usage result)] \<and> prompts evs = [] \<and> yielded evs = []
    \<and> (ticketed evs = [] \<or> ticketed evs = [rq_query (gc_parsed ctx)] \<and> pm_mode prep = LoreGap)"
  using finalize_trace[of env d ctx prep result] assms by auto

lemma insert_log_reads:
  assumes "insert_log env d row = (r, evs, d')"
  shows "evs = [EQueryLog row]"
  using assms by (auto simp: insert_log_def split: prod.splits)

lemma invoke_reads:
  assumes "invoke_and_finalize env d ctx prep = (r, evs, d')"
  shows "prompts evs = [pm_messages prep]"
    "r = Inr resp \<Longrightarrow> \<exists>m. llm_invoke (ge_invoke env (pm_messages prep) None) = Inr m
       \<and> resp = response_of ctx prep (generation_of env prep m)
       \<and> persisted evs = [(User, rq_query (gc_parsed ctx)), (Assistant, content_text (ai_content m))]
       \<and> logged evs = [success_row env ctx prep (build_usage env prep m)]"
    "r = Inl (Refused e) \<Longrightarrow> persisted evs = [] \<and> ticketed evs = []
       \<and> (\<exists>x. llm_invoke (ge_invoke env (pm_messages prep) None) = Inl x
            \<and> e = GenerateError (fst (llm_failure x)) (snd (llm_failure x))
            \<and> logged evs = [failure_row env ctx prep (ge_status e)])"
    "length (logged evs) = 1"
proof -
  have gen: "gr_persisted_content (generation_of env prep m) = content_text (ai_content m)"
    "gr_usage (generation_of env prep m) = build_usage env prep m" for m
    by (simp_all add: generation_of_def Let_def split: prod.split)
  show "prompts evs = [pm_messages prep]"
    "r = Inr resp \<Longrightarrow> \<exists>m. llm_invoke (ge_invoke env (pm_messages prep) None) = Inr m
       \<and> resp = response_of ctx prep (generation_of env prep m)
       \<and> persisted evs = [(User, rq_query (gc_parsed ctx)), (Assistant, content_text (ai_content m))]
       \<and> logged evs = [success_row env ctx prep (build_usage env prep m)]"
    "r = Inl (Refused e) \<Longrightarrow> persisted evs = [] \<and> ticketed evs = []
       \<and> (\<exists>x. llm_invoke (ge_invoke env (pm_messages prep) None) = Inl x
            \<and> e = GenerateError (fst (llm_failure x)) (snd (llm_failure x))
            \<and> logged evs = [failure_row env ctx prep (ge_status e)])"
    "length (logged evs) = 1"
    using assms
    by (auto simp: invoke_and_finalize_def Let_def gen split: sum.splits prod.splits
        dest!: insert_log_reads finalize_reads)
qed

text \<open>The handler, one stage after the other.\<close>

lemma handle_generate_cases:
  obtains (rejected) e where "parse_request p h = Inl e" "handle_generate env d p h = (Inl (Refused e), [], d)"
  | (no_window) rq where "parse_request p h = Inr rq" "enter_request env d rq = Inl Crashed"
      "handle_generate env d p h = (Inl Crashed, [], d)"
  | (no_mode) rq ctx ir ev0 e ev1 where "parse_request p h = Inr rq" "enter_request env d rq = Inr (ctx, ir, ev0)"
      "decide_mode env ctx ir = (Inl e, ev1)" "handle_generate env d p h = (Inl e, ev0 @ ev1, d)"
  | (invoked) rq ctx ir ev0 prep ev1 r ev2 d' where "parse_request p h = Inr rq"
      "enter_request env d rq = Inr (ctx, ir, ev0)" "decide_mode env ctx ir = (Inr prep, ev1)"
      "invoke_and_finalize env d ctx prep = (r, ev2, d')"
      "handle_generate env d p h = (r, ev0 @ ev1 @ ev2, d')"
proof (cases "parse_request p h")
  case (Inl e)
  then show thesis by (intro rejected[of e]) (simp_all add: handle_generate_def)
next
  case (Inr rq)
  show thesis
  proof (cases "enter_request env d rq")
    case (Inl e)
    then have "e = Crashed" by (auto simp: enter_request_def Let_def split: sum.splits)
    with Inl Inr show thesis by (intro no_window[of rq]) (simp_all add: handle_generate_def)
  next
    case (Inr t)
    then obtain ctx ir ev0 where t: "enter_request env d rq = Inr (ctx, ir, ev0)" by (cases t) auto
    obtain dm ev1 where dm: "decide_mode env ctx ir = (dm, ev1)" by fastforce
    show thesis
    proof (cases dm)
      case (Inl e)
      with t dm \<open>parse_request p h = Inr rq\<close> show thesis
        by (intro no_mode[of rq ctx ir ev0 e ev1]) (simp_all add: handle_generate_def)
    next
      case (Inr prep)
      obtain r ev2 d' where "invoke_and_finalize env d ctx prep = (r, ev2, d')" by (metis prod_cases3)
      with Inr t dm \<open>parse_request p h = Inr rq\<close> show thesis
        by (intro invoked[of rq ctx ir ev0 prep ev1 r ev2 d']) (simp_all add: handle_generate_def)
    qed
  qed
qed

section \<open>A concrete context\<close>

definition sample_request :: generate_request where
  "sample_request = \<lparr>rq_query = lit ''Qui est-ce ?'', rq_conversation_id = None, rq_user_id = sample_uuid,
     rq_user_tier = lit ''members'', rq_request_id = sample_uuid\<rparr>"

definition sample_ctx :: gen_ctx where
  "sample_ctx = \<lparr>gc_parsed = sample_request, gc_conversation_id = sample_uuid, gc_suspected = False,
     gc_memory = [], gc_retrieval_query = lit ''Qui est-ce ?''\<rparr>"

definition sample_chunk :: "string \<Rightarrow> rat \<Rightarrow> string \<Rightarrow> chunk" where
  "sample_chunk path score tier = \<lparr>ch_source_path = lit path, ch_ord = 0, ch_text = lit ''t'', ch_score = score,
     ch_access_tier = lit tier\<rparr>"

definition sample_ir :: intent_result where
  "sample_ir = \<lparr>ir_intent = InDomain, ir_prompt_tokens = Some 10, ir_completion_tokens = Some 1,
     ir_cost_eur = Some (1/100), ir_latency_ms = 3\<rparr>"

definition epoch :: datetime where
  "epoch = \<lparr>dt_year = 1970, dt_month = 1, dt_day = 1, dt_hour = 0, dt_minute = 0, dt_second = 0, dt_micro = 0,
     dt_offset = Some 0\<rparr>"

definition sample_gen_env :: gen_env where
  "sample_gen_env = \<lparr>ge_client = \<lparr>lc_provider = lit ''mistral'', lc_model = lit ''mistral-small-latest'', lc_api_key = lit ''k''\<rparr>,
     ge_invoke = (\<lambda>ms t. ChatReply (text_message (lit ''ok''))), ge_stream = (\<lambda>ms. [SChunk (text_message (lit ''ok''))]),
     ge_chunk_add = plain_add, ge_retrieve_post = (\<lambda>b. Inr (200, Some (PDict []))), ge_chunk_validate = (\<lambda>v. None),
     ge_conversation_post = (\<lambda>d url b. (Inr 201, d)), ge_reader = None, ge_token_budget = 0, ge_tickets = None,
     ge_cast = Some, ge_log_fault = Some TimeoutError, ge_uuid = sample_uuid, ge_now_user = epoch, ge_now_assistant = epoch,
     ge_intent_elapsed = 0, ge_retrieve_elapsed = 0, ge_llm_elapsed = 0, ge_total_elapsed = 0\<rparr>"

lemma sample_may_see [simp]:
  "may_see (lit ''members'') (sample_chunk p x ''public'')"
  "may_see (lit ''members'') (sample_chunk p x ''members'')"
  "\<not> may_see (lit ''members'') (sample_chunk p x ''author_only'')"
  by (simp_all add: sample_chunk_def tier_simps)

lemma sample_tier [simp]: "rq_user_tier (gc_parsed sample_ctx) = lit ''members''"
  by (simp add: sample_ctx_def sample_request_def)

section \<open>Properties\<close>

text \<open>The mode of an in-domain request is decided by what the caller may see: canon exactly when some
  visible chunk scores at least 0.45, mystery exactly when chunks were found but none is visible, and
  lore gap otherwise.\<close>

theorem mode_decision_table:
  "pm_mode (prepare_retrieved env ctx ir chunks) =
     (if \<exists>c\<in>set chunks. may_see (rq_user_tier (gc_parsed ctx)) c \<and> 45/100 \<le> ch_score c then Canon
      else if chunks \<noteq> [] \<and> (\<forall>c\<in>set chunks. \<not> may_see (rq_user_tier (gc_parsed ctx)) c) then Mystery
      else LoreGap)"
proof -
  let ?t = "rq_user_tier (gc_parsed ctx)"
  have "max_score (visible (filter_chunks_by_tier chunks ?t)) < LORE_GAP_THRESHOLD \<longleftrightarrow>
      \<not> (\<exists>c\<in>set chunks. may_see ?t c \<and> 45/100 \<le> ch_score c)"
    using max_score_less[OF threshold_pos]
    by (auto simp: visible_filter LORE_GAP_THRESHOLD_def not_less)
  then show ?thesis
    using mystery_condition[of chunks ?t] by (auto simp: prepare_retrieved_def Let_def)
qed

theorem mode_decision_table_witness:
  "pm_mode (prepare_retrieved sample_gen_env sample_ctx sample_ir [sample_chunk ''a'' (9/10) ''author_only'']) = Mystery
   \<and> pm_mode (prepare_retrieved sample_gen_env sample_ctx sample_ir [sample_chunk ''a'' (9/10) ''author_only'', sample_chunk ''b'' (1/2) ''members'']) = Canon
   \<and> pm_mode (prepare_retrieved sample_gen_env sample_ctx sample_ir [sample_chunk ''b'' (1/10) ''public'']) = LoreGap
   \<and> pm_mode (prepare_retrieved sample_gen_env sample_ctx sample_ir []) = LoreGap"
proof -
  have "ch_score (sample_chunk p x t) = x" for p x t by (simp add: sample_chunk_def)
  then show ?thesis by (simp add: mode_decision_table)
qed

text \<open>C5: what a caller may not see cannot influence what the model is asked: two retrievals with the same
  visible chunks, which agree on whether anything was blocked, lead to the same prompt, mode and citable
  chunks, whatever the blocked chunks contain.\<close>

theorem blocked_chunks_noninterference:
  assumes "filter (may_see (rq_user_tier (gc_parsed ctx))) chunks = filter (may_see (rq_user_tier (gc_parsed ctx))) chunks'"
    "(\<exists>c\<in>set chunks. \<not> may_see (rq_user_tier (gc_parsed ctx)) c) \<longleftrightarrow>
     (\<exists>c\<in>set chunks'. \<not> may_see (rq_user_tier (gc_parsed ctx)) c)"
  shows "pm_messages (prepare_retrieved env ctx ir chunks) = pm_messages (prepare_retrieved env ctx ir chunks')
    \<and> pm_mode (prepare_retrieved env ctx ir chunks) = pm_mode (prepare_retrieved env ctx ir chunks')
    \<and> pm_visible_chunks (prepare_retrieved env ctx ir chunks) = pm_visible_chunks (prepare_retrieved env ctx ir chunks')"
proof -
  let ?t = "rq_user_tier (gc_parsed ctx)"
  have v: "visible (filter_chunks_by_tier chunks ?t) = visible (filter_chunks_by_tier chunks' ?t)"
    using assms(1) by (simp add: visible_filter)
  have "1 \<le> blocked_count (filter_chunks_by_tier cs ?t) \<longleftrightarrow> (\<exists>c\<in>set cs. \<not> may_see ?t c)" for cs
    by (auto simp: blocked_filter filter_empty_conv Suc_le_eq simp flip: length_greater_0_conv)
  with v assms(2) show ?thesis by (simp add: prepare_retrieved_def Let_def)
qed

theorem blocked_chunks_noninterference_witness:
  "pm_messages (prepare_retrieved sample_gen_env sample_ctx sample_ir [sample_chunk ''secret'' 1 ''author_only'', sample_chunk ''b'' (1/2) ''public''])
   = pm_messages (prepare_retrieved sample_gen_env sample_ctx sample_ir [sample_chunk ''b'' (1/2) ''public'', sample_chunk ''autre'' 0 ''author_only''])"
  using blocked_chunks_noninterference[of sample_ctx "[sample_chunk ''secret'' 1 ''author_only'', sample_chunk ''b'' (1/2) ''public'']"
      "[sample_chunk ''b'' (1/2) ''public'', sample_chunk ''autre'' 0 ''author_only'']" sample_gen_env sample_ir]
  by simp

text \<open>Every prompt the blocking route sends to the model has exactly one system message, at its head and
  out of the five fixed texts: user text, retrieved chunks and stored history never reach the system role.\<close>

theorem generate_prompts_zoned:
  "list_all zoned (prompts (fst (snd (handle_generate env d p h))))"
proof (cases rule: handle_generate_cases[of p h env d])
  case (no_mode rq ctx ir ev0 e ev1)
  then show ?thesis
    using enter_request_ctx[OF no_mode(2)] decide_mode_trace(4)[of env ctx ir] by auto
next
  case (invoked rq ctx ir ev0 prep ev1 r ev2 d')
  then show ?thesis
    using enter_request_ctx[OF invoked(2)] decide_mode_trace(4)[of env ctx ir]
      decide_mode_zoned[OF invoked(3)] invoke_reads(1)[OF invoked(4)] by auto
qed simp_all


text \<open>An answer cites only what its reader may see: every citation of a response names the path of a
  retrieved chunk the caller's tier grants.\<close>

theorem citations_visible:
  assumes "prep = prepare_retrieved env ctx ir chunks"
  shows "\<forall>c\<in>set (rs_citations (response_of ctx prep (generation_of env prep m))).
    \<exists>k\<in>set chunks. may_see (rq_user_tier (gc_parsed ctx)) k \<and> ch_source_path k = ct_source_path c"
proof -
  have "set (pm_visible_chunks prep) \<subseteq> {k \<in> set chunks. may_see (rq_user_tier (gc_parsed ctx)) k}"
    by (auto simp: assms prepare_retrieved_def Let_def visible_filter)
  moreover obtain a f where "extract_followups (content_text (ai_content m)) = (a, f)" by fastforce
  ultimately show ?thesis
    by (auto simp: response_of_def generation_of_def Let_def set_extract_citations)
qed

definition sample_prep :: prepared where
  "sample_prep = prepare_retrieved sample_gen_env sample_ctx sample_ir
     [sample_chunk ''a'' (9/10) ''author_only'', sample_chunk ''b'' (1/2) ''public'']"

theorem citations_visible_witness:
  "list_all (\<lambda>c. ct_source_path c \<noteq> lit ''a'')
     (rs_citations (response_of sample_ctx sample_prep (generation_of sample_gen_env sample_prep (text_message (lit ''[b]'')))))"
proof -
  have "ch_source_path (sample_chunk p x t) = lit p" for p x t by (simp add: sample_chunk_def)
  with citations_visible[OF sample_prep_def, of "text_message (lit ''[b]'')"] show ?thesis
    by (auto simp: list_all_iff)
qed

end
