(* ===== verification/Stream_Router.thy ===== *)
theory Stream_Router
  imports Generate_Router
begin

text \<open>
  \<open>workers/.../generate/stream_router.py\<close>: POST /v1/generate/stream. A run of the event generator is its
  trace (what it sends to the services and what it yields to the client, in order), whether it ended
  normally or by an exception, and the database.
\<close>

section \<open>Helpers\<close>

definition TOP_K_STREAM :: int where
  "TOP_K_STREAM = 5"

fun final_message :: "(pystr \<times> ai_message option) list \<Rightarrow> ai_message option \<Rightarrow> ai_message option" where
  "final_message [] acc = acc"
| "final_message ((delta, maybe_final) # ys) acc =
     final_message ys (case maybe_final of None \<Rightarrow> acc | Some m \<Rightarrow> Some m)"

fun token_parts :: "(pystr \<times> ai_message option) list \<Rightarrow> pystr list" where
  "token_parts [] = []"
| "token_parts ((delta, maybe_final) # ys) =
     (case maybe_final of None \<Rightarrow> delta # token_parts ys | Some _ \<Rightarrow> token_parts ys)"

definition collect_llm_stream :: "gen_env \<Rightarrow> message list \<Rightarrow> llm_exn + pystr list \<times> ai_message option" where
  "collect_llm_stream env messages =
     (case astream (ge_chunk_add env) (ge_stream env messages) of
        (_, Some e) \<Rightarrow> Inl e
      | (ys, None) \<Rightarrow> Inr (token_parts ys, final_message ys None))"

definition raw_stream_usage :: "gen_env \<Rightarrow> ai_message option \<Rightarrow> usage" where
  "raw_stream_usage env final =
     (case final of None \<Rightarrow> NO_USAGE | Some m \<Rightarrow> extract_usage m (lc_provider (ge_client env)))"

definition build_stream_usage :: "gen_env \<Rightarrow> ai_message option \<Rightarrow> usage" where
  "build_stream_usage env final =
     (let raw = raw_stream_usage env final
      in \<lparr>us_prompt_tokens = us_prompt_tokens raw, us_completion_tokens = us_completion_tokens raw,
          us_cost_eur = compute_cost_eur (lc_model (ge_client env)) (us_prompt_tokens raw) (us_completion_tokens raw)\<rparr>)"

definition combine_usage :: "gen_env \<Rightarrow> intent_result \<Rightarrow> usage \<Rightarrow> usage" where
  "combine_usage env ir raw =
     \<lparr>us_prompt_tokens = add_optional (ir_prompt_tokens ir) (us_prompt_tokens raw),
      us_completion_tokens = add_optional (ir_completion_tokens ir) (us_completion_tokens raw),
      us_cost_eur = add_decimal_optional (ir_cost_eur ir)
        (compute_cost_eur (lc_model (ge_client env)) (us_prompt_tokens raw) (us_completion_tokens raw))\<rparr>"

definition insert_failure_log ::
  "gen_env \<Rightarrow> db \<Rightarrow> gen_ctx \<Rightarrow> intent_result \<Rightarrow> mode \<Rightarrow> int \<Rightarrow> int option \<Rightarrow> int option
    \<Rightarrow> (db_exn + bool) \<times> gen_event list \<times> db" where
  "insert_failure_log env d ctx ir m status pt ct = insert_log env d (log_row env ctx m ir status pt ct None)"

text \<open>An event that ends the generator after a failure row was logged.\<close>

definition fail_with ::
  "gen_env \<Rightarrow> db \<Rightarrow> gen_ctx \<Rightarrow> intent_result \<Rightarrow> mode \<Rightarrow> int \<Rightarrow> int option \<Rightarrow> int option \<Rightarrow> stream_error
    \<Rightarrow> bool \<times> gen_event list \<times> db" where
  "fail_with env d ctx ir m status pt ct code =
     (case insert_failure_log env d ctx ir m status pt ct of
        (Inl _, lev, d1) \<Rightarrow> (False, lev, d1)
      | (Inr _, lev, d1) \<Rightarrow> (True, lev @ [EYield (SseError code)], d1))"

text \<open>The shape the four mode branches share: the meta event, the model's stream, the two failure
  branches, the tokens, the finalisation and the done event. \<open>k\<close> builds what the branch builds from
  the collected stream.\<close>

definition stream_answer ::
  "gen_env \<Rightarrow> db \<Rightarrow> gen_ctx \<Rightarrow> intent_result \<Rightarrow> mode \<Rightarrow> message list \<Rightarrow> int option \<Rightarrow> int option
    \<Rightarrow> (pystr list \<Rightarrow> ai_message option \<Rightarrow> prepared \<times> generation_result \<times> sse) \<Rightarrow> bool \<times> gen_event list \<times> db" where
  "stream_answer env d ctx ir m msgs pt ct k =
     (let pre = [EYield (SseMeta (mode_name m) (gc_conversation_id ctx) (rq_request_id (gc_parsed ctx))), ELlm msgs]
      in case collect_llm_stream env msgs of
           Inl LlmTimeoutError \<Rightarrow>
             (case fail_with env d ctx ir m 504 pt ct ErrTimeout of (ok, evs, d1) \<Rightarrow> (ok, pre @ evs, d1))
         | Inl (LlmUpstreamError _) \<Rightarrow>
             (case fail_with env d ctx ir m 502 pt ct ErrUpstream of (ok, evs, d1) \<Rightarrow> (ok, pre @ evs, d1))
         | Inr (parts, final) \<Rightarrow>
             (let toks = map (\<lambda>t. EYield (SseToken t)) parts
              in case k parts final of
                   (prep, result, done_event) \<Rightarrow>
                     (case finalize_generation env d ctx prep result of
                        (Inl _, evs, d1) \<Rightarrow> (False, pre @ toks @ evs, d1)
                      | (Inr _, evs, d1) \<Rightarrow> (True, pre @ toks @ evs @ [EYield done_event], d1))))"

section \<open>The branches\<close>

definition canon_result ::
  "gen_env \<Rightarrow> chunk list \<Rightarrow> pystr list \<Rightarrow> ai_message option \<Rightarrow> generation_result" where
  "canon_result env visible_chunks parts final =
     (let raw_answer = concat parts
      in case extract_followups raw_answer of
           (answer, followups) \<Rightarrow>
             \<lparr>gr_persisted_content = raw_answer, gr_usage = build_stream_usage env final,
              gr_citations = extract_citations answer visible_chunks,
              gr_llm_ms = elapsed_ms (ge_llm_elapsed env), gr_followups = followups\<rparr>)"

definition plain_result :: "pystr list \<Rightarrow> usage \<Rightarrow> int \<Rightarrow> generation_result" where
  "plain_result parts u llm_ms =
     \<lparr>gr_persisted_content = concat parts, gr_usage = u, gr_citations = [], gr_llm_ms = llm_ms, gr_followups = []\<rparr>"

definition done_of :: "generation_result \<Rightarrow> int \<Rightarrow> sse" where
  "done_of result retrieve_ms =
     SseDone (gr_citations result) (gr_usage result) retrieve_ms (gr_llm_ms result) (gr_followups result)"

definition stream_mystery ::
  "gen_env \<Rightarrow> db \<Rightarrow> gen_ctx \<Rightarrow> intent_result \<Rightarrow> int \<Rightarrow> int \<Rightarrow> bool \<times> gen_event list \<times> db" where
  "stream_mystery env d ctx ir retrieve_ms blocked =
     (let msgs = build_mystery_messages (rq_query (gc_parsed ctx)) (gc_suspected ctx) (gc_memory ctx)
      in stream_answer env d ctx ir Mystery msgs None None
           (\<lambda>parts final.
              let result = plain_result parts (build_stream_usage env final) (elapsed_ms (ge_llm_elapsed env))
              in (prepare Mystery msgs [] retrieve_ms 0 blocked ir, result, done_of result retrieve_ms)))"

definition stream_lore_gap ::
  "gen_env \<Rightarrow> db \<Rightarrow> gen_ctx \<Rightarrow> intent_result \<Rightarrow> chunk list \<Rightarrow> int \<Rightarrow> bool \<times> gen_event list \<times> db" where
  "stream_lore_gap env d ctx ir chunks retrieve_ms =
     (let msgs = build_lore_gap_messages (rq_query (gc_parsed ctx)) (gc_suspected ctx) (gc_memory ctx)
      in stream_answer env d ctx ir LoreGap msgs (ir_prompt_tokens ir) (ir_completion_tokens ir)
           (\<lambda>parts final.
              let result = plain_result parts (combine_usage env ir (raw_stream_usage env final))
                             (ir_latency_ms ir + elapsed_ms (ge_llm_elapsed env))
              in (prepare LoreGap msgs chunks retrieve_ms (max_score chunks) 0 ir, result, done_of result retrieve_ms)))"

definition stream_off_topic ::
  "gen_env \<Rightarrow> db \<Rightarrow> gen_ctx \<Rightarrow> intent_result \<Rightarrow> bool \<times> gen_event list \<times> db" where
  "stream_off_topic env d ctx ir =
     (let msgs = build_off_topic_messages (rq_query (gc_parsed ctx)) (gc_suspected ctx) (gc_memory ctx)
      in stream_answer env d ctx ir OffTopicMode msgs (ir_prompt_tokens ir) (ir_completion_tokens ir)
           (\<lambda>parts final.
              let result = plain_result parts (combine_usage env ir (raw_stream_usage env final))
                             (ir_latency_ms ir + elapsed_ms (ge_llm_elapsed env))
              in (prepare OffTopicMode msgs [] 0 0 0 ir, result, done_of result 0)))"

definition stream_retrieved ::
  "gen_env \<Rightarrow> db \<Rightarrow> gen_ctx \<Rightarrow> intent_result \<Rightarrow> chunk list \<Rightarrow> bool \<times> gen_event list \<times> db" where
  "stream_retrieved env d ctx ir chunks =
     (let retrieve_ms = elapsed_ms (ge_retrieve_elapsed env);
          acl = filter_chunks_by_tier chunks (rq_user_tier (gc_parsed ctx))
      in if visible acl = [] \<and> 1 \<le> blocked_count acl then stream_mystery env d ctx ir retrieve_ms (blocked_count acl)
         else if max_score (visible acl) < LORE_GAP_THRESHOLD then stream_lore_gap env d ctx ir (visible acl) retrieve_ms
         else let msgs = build_messages (rq_query (gc_parsed ctx)) (visible acl) (gc_suspected ctx) (gc_memory ctx)
              in stream_answer env d ctx ir Canon msgs None None
                   (\<lambda>parts final.
                      let result = canon_result env (visible acl) parts final
                      in (prepare Canon msgs (visible acl) retrieve_ms (max_score (visible acl)) (blocked_count acl) ir,
                          result, done_of result retrieve_ms)))"

definition stream_canon ::
  "gen_env \<Rightarrow> db \<Rightarrow> gen_ctx \<Rightarrow> intent_result \<Rightarrow> bool \<times> gen_event list \<times> db" where
  "stream_canon env d ctx ir =
     (let ev = ESearch (retrieve_body (gc_retrieval_query ctx) TOP_K_STREAM (rq_user_tier (gc_parsed ctx)))
      in case search_client env (gc_retrieval_query ctx) TOP_K_STREAM (rq_user_tier (gc_parsed ctx)) of
           Inl RetrieveError \<Rightarrow>
             (case fail_with env d ctx ir Canon 502 None None ErrRetrieve of (ok, evs, d1) \<Rightarrow> (ok, ev # evs, d1))
         | Inl SearchCrash \<Rightarrow> (False, [ev], d)
         | Inr chunks \<Rightarrow> (case stream_retrieved env d ctx ir chunks of (ok, evs, d1) \<Rightarrow> (ok, ev # evs, d1)))"

definition stream_generate ::
  "gen_env \<Rightarrow> db \<Rightarrow> gen_ctx \<Rightarrow> intent_result \<Rightarrow> bool \<times> gen_event list \<times> db" where
  "stream_generate env d ctx ir =
     (if ir_intent ir = OffTopic then stream_off_topic env d ctx ir else stream_canon env d ctx ir)"

text \<open>The route: errors before the stream are JSON responses.\<close>

definition post_generate_stream ::
  "gen_env \<Rightarrow> db \<Rightarrow> payload \<Rightarrow> (pystr \<Rightarrow> pystr option) \<Rightarrow> (gen_fail + bool) \<times> gen_event list \<times> db" where
  "post_generate_stream env d payload headers =
     (case parse_request payload headers of
        Inl e \<Rightarrow> (Inl (Refused e), [], d)
      | Inr rq \<Rightarrow>
          (case enter_request env d rq of
             Inl e \<Rightarrow> (Inl e, [], d)
           | Inr (ctx, ir, ev0) \<Rightarrow>
               (case stream_generate env d ctx ir of (ok, evs, d1) \<Rightarrow> (Inr ok, ev0 @ evs, d1))))"

section \<open>Lemmas\<close>

lemma yielded_tokens [simp]:
  "yielded (map (\<lambda>t. EYield (SseToken t)) parts) = map SseToken parts"
  "persisted (map (\<lambda>t. EYield (SseToken t)) parts) = []" "logged (map (\<lambda>t. EYield (SseToken t)) parts) = []"
  "prompts (map (\<lambda>t. EYield (SseToken t)) parts) = []" "ticketed (map (\<lambda>t. EYield (SseToken t)) parts) = []"
  by (induction parts) simp_all

lemma fail_with_reads:
  assumes "fail_with env d ctx ir m status pt ct code = (ok, evs, d')"
  shows "persisted evs = [] \<and> ticketed evs = [] \<and> prompts evs = [] \<and> logged evs = [log_row env ctx m ir status pt ct None]
    \<and> yielded evs = (if ok then [SseError code] else [])"
  using assms by (auto simp: fail_with_def insert_failure_log_def split: prod.splits sum.splits dest!: insert_log_reads)

text \<open>How one branch can go.\<close>

lemma stream_answer_cases:
  obtains (failed) e ok evs d' where "collect_llm_stream env msgs = Inl e"
    "fail_with env d ctx ir m (fst (llm_failure e)) pt ct (case e of LlmTimeoutError \<Rightarrow> ErrTimeout | LlmUpstreamError _ \<Rightarrow> ErrUpstream)
      = (ok, evs, d')"
    "stream_answer env d ctx ir m msgs pt ct k =
      (ok, [EYield (SseMeta (mode_name m) (gc_conversation_id ctx) (rq_request_id (gc_parsed ctx))), ELlm msgs] @ evs, d')"
  | (streamed) parts final prep result dn r evs d' where "collect_llm_stream env msgs = Inr (parts, final)"
    "k parts final = (prep, result, dn)" "finalize_generation env d ctx prep result = (r, evs, d')"
    "stream_answer env d ctx ir m msgs pt ct k =
      ((case r of Inl _ \<Rightarrow> False | Inr _ \<Rightarrow> True),
       [EYield (SseMeta (mode_name m) (gc_conversation_id ctx) (rq_request_id (gc_parsed ctx))), ELlm msgs]
         @ map (\<lambda>t. EYield (SseToken t)) parts @ evs @ (case r of Inl _ \<Rightarrow> [] | Inr _ \<Rightarrow> [EYield dn]), d')"
proof (cases "collect_llm_stream env msgs")
  case (Inl e)
  obtain ok evs d' where f: "fail_with env d ctx ir m (fst (llm_failure e)) pt ct
      (case e of LlmTimeoutError \<Rightarrow> ErrTimeout | LlmUpstreamError _ \<Rightarrow> ErrUpstream) = (ok, evs, d')"
    by (metis prod_cases3)
  with Inl show thesis
    by (intro failed[of e ok evs d']) (cases e; simp add: stream_answer_def Let_def llm_failure_def)+
next
  case (Inr p)
  obtain parts final where p: "p = (parts, final)" by fastforce
  obtain prep result dn where k: "k parts final = (prep, result, dn)" by (metis prod_cases3)
  obtain r evs d' where f: "finalize_generation env d ctx prep result = (r, evs, d')" by (metis prod_cases3)
  show thesis
    by (rule streamed[of parts final prep result dn r evs d'])
      (use Inr p k f in \<open>simp_all add: stream_answer_def Let_def split: sum.split\<close>)
qed

text \<open>What a branch is, seen from the mode decision of the blocking route: the same messages under the
  same mode, the classifier's tokens in its failure rows where that mode counts them, and a result
  that persists the collected tokens and the same usage.\<close>

definition branch_ok ::
  "gen_env \<Rightarrow> prepared \<Rightarrow> int option \<Rightarrow> int option \<Rightarrow> (pystr list \<Rightarrow> ai_message option \<Rightarrow> prepared \<times> generation_result \<times> sse) \<Rightarrow> bool" where
  "branch_ok env prep pt ct k \<longleftrightarrow>
     pt = (if with_classifier (pm_mode prep) then ir_prompt_tokens (pm_intent_result prep) else None)
   \<and> ct = (if with_classifier (pm_mode prep) then ir_completion_tokens (pm_intent_result prep) else None)
   \<and> (\<forall>parts final prep' result dn. k parts final = (prep', result, dn) \<longrightarrow>
        pm_mode prep' = pm_mode prep \<and> pm_intent_result prep' = pm_intent_result prep
      \<and> gr_persisted_content result = concat parts \<and> dn = done_of result (pm_retrieve_ms prep)
      \<and> (\<forall>fm. final = Some fm \<longrightarrow> gr_usage result = build_usage env prep fm))"

lemma branch_okI:
  assumes "pt = (if with_classifier (pm_mode prep) then ir_prompt_tokens (pm_intent_result prep) else None)"
    "ct = (if with_classifier (pm_mode prep) then ir_completion_tokens (pm_intent_result prep) else None)"
    "\<And>parts final. pm_mode (fst (k parts final)) = pm_mode prep
       \<and> pm_intent_result (fst (k parts final)) = pm_intent_result prep
       \<and> gr_persisted_content (fst (snd (k parts final))) = concat parts
       \<and> snd (snd (k parts final)) = done_of (fst (snd (k parts final))) (pm_retrieve_ms prep)"
    "\<And>parts fm. gr_usage (fst (snd (k parts (Some fm)))) = build_usage env prep fm"
  shows "branch_ok env prep pt ct k"
  unfolding branch_ok_def
proof (intro conjI allI impI)
  fix parts final prep' result dn fm
  assume k: "k parts final = (prep', result, dn)"
  show "pm_mode prep' = pm_mode prep" "pm_intent_result prep' = pm_intent_result prep"
    "gr_persisted_content result = concat parts" "dn = done_of result (pm_retrieve_ms prep)"
    using assms(3)[of parts final] k by auto
  show "gr_usage result = build_usage env prep fm" if "final = Some fm"
    using assms(4)[of parts fm] k that by auto
qed (use assms(1,2) in simp_all)

lemma usage_agree:
  "\<not> with_classifier (pm_mode prep) \<Longrightarrow> build_stream_usage env (Some fm) = build_usage env prep fm"
  "with_classifier (pm_mode prep) \<Longrightarrow>
     combine_usage env (pm_intent_result prep) (raw_stream_usage env (Some fm)) = build_usage env prep fm"
  by (simp_all add: build_stream_usage_def build_usage_def raw_stream_usage_def combine_usage_def Let_def)

lemma plain_result_fields [simp]:
  "gr_persisted_content (plain_result parts u ms) = concat parts" "gr_usage (plain_result parts u ms) = u"
  by (simp_all add: plain_result_def)

lemma canon_result_fields [simp]:
  "gr_persisted_content (canon_result env cs parts final) = concat parts"
  "gr_usage (canon_result env cs parts final) = build_stream_usage env final"
  by (simp_all add: canon_result_def Let_def split: prod.split)

lemma with_classifier_simps [simp]:
  "\<not> with_classifier Canon" "\<not> with_classifier Mystery" "with_classifier LoreGap" "with_classifier OffTopicMode"
  by (simp_all add: with_classifier_def)

lemma stream_retrieved_branch:
  "\<exists>pt ct k. stream_retrieved env d ctx ir chunks =
      stream_answer env d ctx ir (pm_mode (prepare_retrieved env ctx ir chunks))
        (pm_messages (prepare_retrieved env ctx ir chunks)) pt ct k
    \<and> branch_ok env (prepare_retrieved env ctx ir chunks) pt ct k"
proof -
  let ?acl = "filter_chunks_by_tier chunks (rq_user_tier (gc_parsed ctx))"
  consider (mystery) "visible ?acl = [] \<and> 1 \<le> blocked_count ?acl"
    | (gap) "\<not> (visible ?acl = [] \<and> 1 \<le> blocked_count ?acl)" "max_score (visible ?acl) < LORE_GAP_THRESHOLD"
    | (canon) "\<not> (visible ?acl = [] \<and> 1 \<le> blocked_count ?acl)" "\<not> max_score (visible ?acl) < LORE_GAP_THRESHOLD"
    by blast
  then show ?thesis
  proof cases
    case mystery
    then show ?thesis
      by (simp only: stream_retrieved_def prepare_retrieved_def Let_def stream_mystery_def if_True simp_thms prepare_fields)
        (intro exI conjI, rule refl, rule branch_okI; simp add: usage_agree)
  next
    case gap
    then show ?thesis
      by (simp only: stream_retrieved_def prepare_retrieved_def Let_def stream_lore_gap_def if_True if_False simp_thms prepare_fields)
        (intro exI conjI, rule refl, rule branch_okI; simp add: usage_agree(2)[of "prepare LoreGap _ _ _ _ _ _", simplified])
  next
    case canon
    then show ?thesis
      by (simp only: stream_retrieved_def prepare_retrieved_def Let_def if_True if_False simp_thms prepare_fields)
        (intro exI conjI, rule refl, rule branch_okI; simp add: usage_agree)
  qed
qed

lemma stream_generate_decided:
  assumes "decide_mode env ctx ir = (Inr prep, ev1)"
  shows "\<exists>pt ct k. branch_ok env prep pt ct k \<and> pm_intent_result prep = ir
    \<and> stream_generate env d ctx ir =
        (case stream_answer env d ctx ir (pm_mode prep) (pm_messages prep) pt ct k of (ok, evs, d1) \<Rightarrow> (ok, ev1 @ evs, d1))"
proof (cases "ir_intent ir = OffTopic")
  case True
  let ?msgs = "build_off_topic_messages (rq_query (gc_parsed ctx)) (gc_suspected ctx) (gc_memory ctx)"
  from True assms have prep: "prep = prepare OffTopicMode ?msgs [] 0 0 0 ir" "ev1 = []"
    by (simp_all add: decide_mode_def)
  let ?k = "\<lambda>parts final. let result = plain_result parts (combine_usage env ir (raw_stream_usage env final))
      (ir_latency_ms ir + elapsed_ms (ge_llm_elapsed env))
    in (prepare OffTopicMode ?msgs [] 0 0 0 ir, result, done_of result 0)"
  have "branch_ok env prep (ir_prompt_tokens ir) (ir_completion_tokens ir) ?k"
    unfolding prep by (rule branch_okI) (simp_all add: Let_def usage_agree(2)[of "prepare OffTopicMode _ _ _ _ _ _", simplified])
  moreover have "stream_generate env d ctx ir =
      (case stream_answer env d ctx ir (pm_mode prep) (pm_messages prep) (ir_prompt_tokens ir) (ir_completion_tokens ir) ?k
       of (ok, evs, d1) \<Rightarrow> (ok, ev1 @ evs, d1))"
    using True by (simp add: stream_generate_def stream_off_topic_def prep Let_def)
  ultimately show ?thesis using prep by auto
next
  case False
  with assms obtain chunks where c: "search_client env (gc_retrieval_query ctx) TOP_K (rq_user_tier (gc_parsed ctx)) = Inr chunks"
    "prep = prepare_retrieved env ctx ir chunks"
    "ev1 = [ESearch (retrieve_body (gc_retrieval_query ctx) TOP_K (rq_user_tier (gc_parsed ctx)))]"
    by (auto simp: decide_mode_def split: sum.splits search_error.splits)
  have top: "TOP_K_STREAM = TOP_K" by (simp add: TOP_K_STREAM_def TOP_K_def)
  obtain pt ct k where k: "stream_retrieved env d ctx ir chunks =
      stream_answer env d ctx ir (pm_mode prep) (pm_messages prep) pt ct k" "branch_ok env prep pt ct k"
    using stream_retrieved_branch[of env d ctx ir chunks] c(2) by metis
  moreover have "pm_intent_result prep = ir" by (simp add: c(2) prepare_retrieved_def Let_def)
  moreover have "stream_generate env d ctx ir =
      (case stream_answer env d ctx ir (pm_mode prep) (pm_messages prep) pt ct k of (ok, evs, d1) \<Rightarrow> (ok, ev1 @ evs, d1))"
    using False c k(1) by (simp add: stream_generate_def stream_canon_def top Let_def)
  ultimately show ?thesis by blast
qed

lemma stream_generate_undecided:
  assumes "decide_mode env ctx ir = (Inl e, ev1)"
  shows "(e = Crashed \<and> stream_generate env d ctx ir = (False, ev1, d))
    \<or> (e = Refused (GenerateError 502 (lit ''retrieve_failed'')) \<and> stream_generate env d ctx ir =
        (case fail_with env d ctx ir Canon 502 None None ErrRetrieve of (ok, evs, d1) \<Rightarrow> (ok, ev1 @ evs, d1)))"
  using assms
  by (auto simp: decide_mode_def stream_generate_def stream_canon_def TOP_K_STREAM_def TOP_K_def Let_def
      split: if_splits sum.splits search_error.splits)

text \<open>The finalisation looks only at the mode, the classification, the persisted text and the usage.\<close>

lemma finalize_cong:
  assumes "pm_mode prep = pm_mode prep'" "pm_intent_result prep = pm_intent_result prep'"
    "gr_persisted_content res = gr_persisted_content res'" "gr_usage res = gr_usage res'"
  shows "finalize_generation env d ctx prep res = finalize_generation env d ctx prep' res'"
proof -
  have row: "success_row env ctx prep (gr_usage res) = success_row env ctx prep' (gr_usage res')"
    using assms by (simp add: success_row_def)
  have ticket: "maybe_create_ticket env d2 ctx prep = maybe_create_ticket env d2 ctx prep'" for d2
    using assms(1) by (simp add: maybe_create_ticket_def fun_eq_iff)
  show ?thesis unfolding finalize_generation_def assms(3) row ticket ..
qed

lemma stream_answer_prompts:
  "prompts (fst (snd (stream_answer env d ctx ir m msgs pt ct k))) = [msgs]"
proof (cases rule: stream_answer_cases[of env msgs d ctx ir m pt ct k])
  case (failed e ok evs d')
  then show ?thesis using fail_with_reads[OF failed(2)] by simp
next
  case (streamed parts final prep result dn r evs d')
  then show ?thesis using finalize_reads[OF streamed(3)] by (simp split: sum.split)
qed

section \<open>A concrete request\<close>

definition sample_gen_payload :: payload where
  "sample_gen_payload = [(lit ''query'', PStr (lit ''Qui ?'')), (lit ''request_id'', PStr sample_uuid)]"

definition sample_headers :: "pystr \<Rightarrow> pystr option" where
  "sample_headers k = (if k = lit ''x-user-id'' then Some sample_uuid
     else if k = lit ''x-user-tier'' then Some (lit ''member'') else None)"

definition sample_parsed :: generate_request where
  "sample_parsed = \<lparr>rq_query = lit ''Qui ?'', rq_conversation_id = None, rq_user_id = sample_uuid,
     rq_user_tier = lit ''members'', rq_request_id = sample_uuid\<rparr>"

lemma sample_parse_request: "parse_request sample_gen_payload sample_headers = Inr sample_parsed"
proof -
  have "sample_uuid \<noteq> []" "py_encode sample_uuid \<noteq> None"
    using is_valid_uuid_nonempty[OF sample_uuid_valid] is_valid_uuid_encodes[OF sample_uuid_valid] by auto
  moreover have "py_encode (lit ''Qui ?'') = Some (lit ''Qui ?'')"
    by (simp add: py_encode_def lit_def is_surrogate_def utf8_def utf8_cp_def)
  ultimately show ?thesis
    by (simp add: parse_request_def sample_headers_def sample_gen_payload_def sample_uuid_valid store_identity_def
        CONTRACT_TIER_TO_INTERNAL_def parse_body_def model_validate_def validate_query_def validate_opt_str_def
        validate_str_def validate_tier_def USER_TIERS_def QUERY_MAX_BYTES_def sample_parsed_def)
      (auto simp: sample_parsed_def)
qed

text \<open>A database that does not answer the log insert is not fatal.\<close>

lemma finalize_log_down:
  assumes "ge_log_fault env = Some TimeoutError"
  shows "\<exists>a evs d'. finalize_generation env d ctx prep result = (Inr a, evs, d')"
proof -
  obtain ua d1 where a1: "append_message env d (gc_conversation_id ctx) User (rq_query (gc_parsed ctx))
      (ge_now_user env) (rq_user_id (gc_parsed ctx)) = (ua, d1)" by fastforce
  obtain aa d2 where a2: "append_message env d1 (gc_conversation_id ctx) Assistant (gr_persisted_content result)
      (ge_now_assistant env) (rq_user_id (gc_parsed ctx)) = (aa, d2)" by fastforce
  obtain t tev d3 where t: "maybe_create_ticket env d2 ctx prep ua aa = (t, tev, d3)" by (metis prod_cases3)
  obtain a where "t = Inr a" using maybe_create_ticket_Inr[of env d2 ctx prep ua aa] t by auto
  with a1 a2 t assms show ?thesis
    by (simp add: finalize_generation_def Let_def insert_log_def insert_query_log_def query_log_statement_def
        caught_best_effort_def)
qed

lemma sample_window_empty: "load_memory_window None c u b = Inr EMPTY_WINDOW"
  by (simp add: load_memory_window_def)

lemma sample_stream:
  "\<exists>evs d'. post_generate_stream sample_gen_env sample_db sample_gen_payload sample_headers = (Inr True, evs, d')"
proof -
  let ?env = sample_gen_env
  have enter: "\<exists>ctx ev0. enter_request ?env sample_db sample_parsed = Inr (ctx,
      \<lparr>ir_intent = InDomain, ir_prompt_tokens = None, ir_completion_tokens = None, ir_cost_eur = None, ir_latency_ms = 0\<rparr>, ev0)
      \<and> gc_parsed ctx = sample_parsed"
    by (simp add: enter_request_def Let_def sample_gen_env_def sample_window_empty classify_intent_def llm_invoke_def
        text_message_def parse_intent_def extract_usage_def raw_tokens_def NO_USAGE_def compute_cost_eur_def elapsed_ms_def
        py_int_def py_eval ascii_lower_def)
  then obtain ctx ev0 where e: "enter_request ?env sample_db sample_parsed = Inr (ctx,
      \<lparr>ir_intent = InDomain, ir_prompt_tokens = None, ir_completion_tokens = None, ir_cost_eur = None, ir_latency_ms = 0\<rparr>, ev0)"
    "gc_parsed ctx = sample_parsed" by blast
  have c: "\<exists>parts fm. collect_llm_stream ?env ms = Inr (parts, fm)" for ms
    by (simp add: collect_llm_stream_def astream_def sample_gen_env_def Let_def)
  have "search_client ?env q n t = Inr []" for q n t
    by (simp add: search_client_def sample_gen_env_def)
  then obtain prep ev1 where dm: "decide_mode ?env ctx
      \<lparr>ir_intent = InDomain, ir_prompt_tokens = None, ir_completion_tokens = None, ir_cost_eur = None, ir_latency_ms = 0\<rparr>
      = (Inr prep, ev1)"
    by (auto simp: decide_mode_def)
  from stream_generate_decided[OF this, of sample_db] obtain pt ct k where k: "stream_generate ?env sample_db ctx
      \<lparr>ir_intent = InDomain, ir_prompt_tokens = None, ir_completion_tokens = None, ir_cost_eur = None, ir_latency_ms = 0\<rparr> =
      (case stream_answer ?env sample_db ctx
          \<lparr>ir_intent = InDomain, ir_prompt_tokens = None, ir_completion_tokens = None, ir_cost_eur = None, ir_latency_ms = 0\<rparr>
          (pm_mode prep) (pm_messages prep) pt ct k of (ok, evs, d1) \<Rightarrow> (ok, ev1 @ evs, d1))" by blast
  obtain parts fm where cc: "collect_llm_stream ?env (pm_messages prep) = Inr (parts, fm)" using c by blast
  obtain prep' result dn where kk: "k parts fm = (prep', result, dn)" by (metis prod_cases3)
  have "ge_log_fault ?env = Some TimeoutError" by (simp add: sample_gen_env_def)
  then obtain a evs d' where "finalize_generation ?env sample_db ctx prep' result = (Inr a, evs, d')"
    using finalize_log_down by blast
  with sample_parse_request e(1) k cc kk show ?thesis
    by (simp add: post_generate_stream_def stream_answer_def Let_def)
qed

section \<open>Properties\<close>

text \<open>The two routes ask the model exactly the same: for the same request, state and outside world, the
  prompts sent by the streaming route are those of the blocking route.\<close>

theorem stream_same_prompts:
  "prompts (fst (snd (post_generate_stream env d p h))) = prompts (fst (snd (handle_generate env d p h)))"
proof (cases rule: handle_generate_cases[of p h env d])
  case (no_mode rq ctx ir ev0 e ev1)
  then show ?thesis
    using stream_generate_undecided[OF no_mode(3), of d]
    by (auto simp: post_generate_stream_def split: prod.splits dest!: fail_with_reads)
next
  case (invoked rq ctx ir ev0 prep ev1 r ev2 d')
  obtain pt ct k where k: "stream_generate env d ctx ir =
      (case stream_answer env d ctx ir (pm_mode prep) (pm_messages prep) pt ct k of (ok, evs, d1) \<Rightarrow> (ok, ev1 @ evs, d1))"
    using stream_generate_decided[OF invoked(3), of d] by blast
  then show ?thesis
    using invoked invoke_reads(1)[OF invoked(4)]
      stream_answer_prompts[of env d ctx ir "pm_mode prep" "pm_messages prep" pt ct k]
    by (simp add: post_generate_stream_def split: prod.splits)
qed (simp_all add: post_generate_stream_def)



text \<open>C6: an answered request leaves the same state whichever route it took: when the collected stream of each
  prompt is the blocking answer to it, with the same usage, the same turns are stored, the same tickets
  raised, the same row logged, and the database is the same.\<close>

theorem stream_blocking_parity:
  assumes agree: "\<And>ms m. llm_invoke (ge_invoke env ms None) = Inr m \<Longrightarrow>
      \<exists>parts fm. collect_llm_stream env ms = Inr (parts, Some fm) \<and> concat parts = content_text (ai_content m)
        \<and> extract_usage fm (lc_provider (ge_client env)) = extract_usage m (lc_provider (ge_client env))"
    and blocking: "handle_generate env d p h = (Inr resp, evs, d1)"
  shows "\<exists>evs'. post_generate_stream env d p h = (Inr True, evs', d1)
    \<and> persisted evs' = persisted evs \<and> logged evs' = logged evs \<and> ticketed evs' = ticketed evs"
proof (cases rule: handle_generate_cases[of p h env d])
  case (invoked rq ctx ir ev0 prep ev1 r ev2 d')
  with blocking have r: "r = Inr resp" "d' = d1" "evs = ev0 @ ev1 @ ev2" by auto
  then obtain m where m: "llm_invoke (ge_invoke env (pm_messages prep) None) = Inr m"
    using invoke_reads(2)[OF invoked(4)] by blast
  obtain fr fevs where f: "finalize_generation env d ctx prep (generation_of env prep m) = (fr, fevs, d1)"
      "ev2 = ELlm (pm_messages prep) # fevs" "\<exists>x. fr = Inr x"
    using invoked(4) r m by (auto simp: invoke_and_finalize_def Let_def split: sum.splits prod.splits)
  obtain parts fm where c: "collect_llm_stream env (pm_messages prep) = Inr (parts, Some fm)"
      "concat parts = content_text (ai_content m)"
      "extract_usage fm (lc_provider (ge_client env)) = extract_usage m (lc_provider (ge_client env))"
    using agree[OF m] by blast
  obtain pt ct k where k: "branch_ok env prep pt ct k" "stream_generate env d ctx ir =
      (case stream_answer env d ctx ir (pm_mode prep) (pm_messages prep) pt ct k of (ok, evs, d1) \<Rightarrow> (ok, ev1 @ evs, d1))"
    using stream_generate_decided[OF invoked(3), of d] by blast
  obtain prep' result dn where kk: "k parts (Some fm) = (prep', result, dn)" by (metis prod_cases3)
  have same: "pm_mode prep' = pm_mode prep" "pm_intent_result prep' = pm_intent_result prep"
      "gr_persisted_content result = concat parts" "gr_usage result = build_usage env prep fm"
    using k(1) kk unfolding branch_ok_def by blast+
  have "build_usage env prep fm = build_usage env prep m" using c(3) by (simp add: build_usage_def)
  then have "finalize_generation env d ctx prep' result = (fr, fevs, d1)"
    using finalize_cong[of prep' prep result "generation_of env prep m" env d ctx] same c(2) f(1)
    by (simp add: generation_of_def Let_def split: prod.splits)
  then show ?thesis
    using invoked(1,2) k(2) c(1) kk f(2,3) r(3)
    by (auto simp: post_generate_stream_def stream_answer_def Let_def)
qed (use blocking in auto)

lemma sample_agree:
  "llm_invoke (ge_invoke sample_gen_env ms None) = Inr m \<Longrightarrow>
      \<exists>parts fm. collect_llm_stream sample_gen_env ms = Inr (parts, Some fm) \<and> concat parts = content_text (ai_content m)
        \<and> extract_usage fm (lc_provider (ge_client sample_gen_env)) = extract_usage m (lc_provider (ge_client sample_gen_env))"
  by (auto simp: sample_gen_env_def llm_invoke_def collect_llm_stream_def astream_def text_message_def final_of_def
      Let_def lit_def)

lemma sample_blocking:
  "\<exists>resp evs d1. handle_generate sample_gen_env sample_db sample_gen_payload sample_headers = (Inr resp, evs, d1)"
proof (cases rule: handle_generate_cases[of sample_gen_payload sample_headers sample_gen_env sample_db])
  case (invoked rq ctx ir ev0 prep ev1 r ev2 d')
  have "ge_log_fault sample_gen_env = Some TimeoutError" by (simp add: sample_gen_env_def)
  from finalize_log_down[OF this] obtain a fevs d1 where "finalize_generation sample_gen_env sample_db ctx prep
      (generation_of sample_gen_env prep (text_message (lit ''ok''))) = (Inr a, fevs, d1)" by blast
  moreover have "llm_invoke (ge_invoke sample_gen_env ms t) = Inr (text_message (lit ''ok''))" for ms t
    by (simp add: sample_gen_env_def llm_invoke_def)
  ultimately have "\<exists>resp evs. invoke_and_finalize sample_gen_env sample_db ctx prep = (Inr resp, evs, d1)"
    by (simp add: invoke_and_finalize_def Let_def)
  with invoked show ?thesis by auto
next
  case (no_mode rq ctx ir ev0 e ev1)
  have "search_client sample_gen_env q n t = Inr []" for q n t
    by (simp add: search_client_def sample_gen_env_def)
  with no_mode(3) show ?thesis by (auto simp: decide_mode_def split: if_splits)
next
  case (no_window rq)
  then show ?thesis by (simp add: enter_request_def sample_gen_env_def sample_window_empty Let_def)
qed (simp add: sample_parse_request)

theorem stream_blocking_parity_witness:
  "\<exists>resp evs evs' d1. handle_generate sample_gen_env sample_db sample_gen_payload sample_headers = (Inr resp, evs, d1)
     \<and> post_generate_stream sample_gen_env sample_db sample_gen_payload sample_headers = (Inr True, evs', d1)
     \<and> persisted evs' = persisted evs \<and> logged evs' = logged evs"
  using sample_blocking stream_blocking_parity[OF sample_agree] by metis

text \<open>A failed request is logged differently by the two routes. When the model fails in the same way on
  both, a request whose retrieval failed is logged by the streaming route only, and any other one is logged
  by both, with rows that agree in everything but the cost, which the streaming route leaves out.\<close>

theorem stream_failure_rows:
  assumes fails: "\<And>ms. \<exists>x. llm_invoke (ge_invoke env ms None) = Inl x \<and> collect_llm_stream env ms = Inl x"
    and entered: "parse_request p h = Inr rq"
    and blocking: "handle_generate env d p h = (Inl (Refused e), evs, d1)"
    and stream: "post_generate_stream env d p h = (Inr ok, evs', d2)"
  shows "(e = GenerateError 502 (lit ''retrieve_failed'') \<and> logged evs = [] \<and> length (logged evs') = 1)
    \<or> (length (logged evs) = 1 \<and> logged evs' = map (\<lambda>r. r\<lparr>ql_cost_eur := None\<rparr>) (logged evs))"
proof (cases rule: handle_generate_cases[of p h env d])
  case (no_mode rq' ctx ir ev0 x ev1)
  have pre: "logged ev0 = []" "logged ev1 = []"
    using enter_request_ctx(3)[OF no_mode(2)] decide_mode_trace(2)[of env ctx ir] no_mode(3) by auto
  with no_mode blocking stream stream_generate_undecided[OF no_mode(3), of d] show ?thesis
    by (auto simp: post_generate_stream_def split: prod.splits dest!: fail_with_reads)
next
  case (invoked rq' ctx ir ev0 prep ev1 r ev2 d')
  have pre: "logged ev0 = []" "logged ev1 = []"
    using enter_request_ctx(3)[OF invoked(2)] decide_mode_trace(2)[of env ctx ir] invoked(3) by auto
  obtain x where x: "llm_invoke (ge_invoke env (pm_messages prep) None) = Inl x"
      "collect_llm_stream env (pm_messages prep) = Inl x" using fails by blast
  have b: "logged evs = [failure_row env ctx prep (ge_status e)]" "ge_status e = fst (llm_failure x)"
    using invoke_reads(3)[OF invoked(4), of e] blocking invoked(5) pre x(1) by auto
  obtain pt ct k where k: "branch_ok env prep pt ct k" "pm_intent_result prep = ir" "stream_generate env d ctx ir =
      (case stream_answer env d ctx ir (pm_mode prep) (pm_messages prep) pt ct k of (ok, evs, d1) \<Rightarrow> (ok, ev1 @ evs, d1))"
    using stream_generate_decided[OF invoked(3), of d] by blast
  have "logged (fst (snd (stream_answer env d ctx ir (pm_mode prep) (pm_messages prep) pt ct k)))
      = [log_row env ctx (pm_mode prep) ir (fst (llm_failure x)) pt ct None]"
    using x(2) by (cases rule: stream_answer_cases[of env "pm_messages prep" d ctx ir "pm_mode prep" pt ct k])
      (auto dest!: fail_with_reads)
  then have "logged evs' = [log_row env ctx (pm_mode prep) ir (fst (llm_failure x)) pt ct None]"
    using stream invoked(1,2) k(3) pre by (auto simp: post_generate_stream_def split: prod.splits)
  with b k(1,2) show ?thesis by (auto simp: branch_ok_def failure_row_def log_row_def Let_def)
qed (use entered blocking in auto)

definition down_env :: gen_env where
  "down_env = sample_gen_env\<lparr>ge_invoke := (\<lambda>ms t. ChatTimeout), ge_stream := (\<lambda>ms. [STimeout])\<rparr>"

lemma down_fails: "\<exists>x. llm_invoke (ge_invoke down_env ms None) = Inl x \<and> collect_llm_stream down_env ms = Inl x"
  by (simp add: down_env_def llm_invoke_def collect_llm_stream_def astream_def)

lemma down_blocking:
  "\<exists>e evs d1 ok evs' d2. handle_generate down_env sample_db sample_gen_payload sample_headers = (Inl (Refused e), evs, d1)
     \<and> post_generate_stream down_env sample_db sample_gen_payload sample_headers = (Inr ok, evs', d2)"
proof (cases rule: handle_generate_cases[of sample_gen_payload sample_headers down_env sample_db])
  case (invoked rq ctx ir ev0 prep ev1 r ev2 d')
  have "insert_query_log (ge_cast down_env) (ge_log_fault down_env) d row = (Inr False, d)" for d row
    by (simp add: down_env_def sample_gen_env_def insert_query_log_def query_log_statement_def caught_best_effort_def)
  moreover have "llm_invoke (ge_invoke down_env ms None) = Inl LlmTimeoutError" for ms
    by (simp add: down_env_def llm_invoke_def)
  ultimately have "\<exists>e evs. invoke_and_finalize down_env sample_db ctx prep = (Inl (Refused e), evs, sample_db)"
    by (simp add: invoke_and_finalize_def insert_log_def)
  with invoked show ?thesis by (auto simp: post_generate_stream_def split: prod.split)
next
  case (no_mode rq ctx ir ev0 e ev1)
  have "search_client down_env q n t = Inr []" for q n t
    by (simp add: search_client_def down_env_def sample_gen_env_def)
  with no_mode(3) show ?thesis by (auto simp: decide_mode_def split: if_splits)
next
  case (no_window rq)
  then show ?thesis by (simp add: enter_request_def down_env_def sample_gen_env_def sample_window_empty Let_def)
qed (simp add: sample_parse_request)

theorem stream_failure_rows_witness:
  "\<exists>evs evs' r r' d1 d2. handle_generate down_env sample_db sample_gen_payload sample_headers = (r, evs, d1)
     \<and> post_generate_stream down_env sample_db sample_gen_payload sample_headers = (r', evs', d2)
     \<and> length (logged evs') = 1"
proof -
  obtain e evs d1 ok evs' d2 where
    h: "handle_generate down_env sample_db sample_gen_payload sample_headers = (Inl (Refused e), evs, d1)"
      "post_generate_stream down_env sample_db sample_gen_payload sample_headers = (Inr ok, evs', d2)"
    using down_blocking by blast
  have "length (logged evs') = 1"
    using stream_failure_rows[OF down_fails sample_parse_request h] by auto
  with h show ?thesis by blast
qed

end
