(* ===== verification/Conversation_Router.thy ===== *)
theory Conversation_Router
  imports Gcs_Storage Conversation_Repository
begin

text \<open>
  \<open>workers/.../conversation/router.py\<close> and \<open>conversation/models.py\<close>: POST
  /v1/conversations/{id}/messages. The transcript object in the bucket is the source of truth; the
  counter and the structured message row are best-effort writes after it.
\<close>

section \<open>The request body\<close>

definition MAX_CONTENT_BYTES :: nat where
  "MAX_CONTENT_BYTES = 16 * 1024"

record message_in =
  mi_role :: role
  mi_content :: pystr
  mi_timestamp :: datetime
  mi_user_id :: pystr

record message_out =
  mo_conversation_id :: pystr
  mo_message_count :: int
  mo_gcs_uri :: pystr
  mo_generation :: nat

datatype msg_error = HTTPException (he_status: int) (he_code: pystr) | InternalError

text \<open>Field validation in declaration order; a field is its value or its error. \<open>parse_dt\<close> is the
  library's datetime parsing of a JSON value.\<close>

datatype content_error = ContentTooLargeError | OtherContentError

fun role_of :: "pyval option \<Rightarrow> role option" where
  "role_of (Some (PStr s)) =
     (if s = lit ''user'' then Some User else if s = lit ''assistant'' then Some Assistant else None)"
| "role_of _ = None"

fun content_of :: "pyval option \<Rightarrow> content_error + pystr" where
  "content_of (Some (PStr s)) =
     (if s = [] then Inl OtherContentError
      else case py_encode s of
             None \<Rightarrow> Inl OtherContentError
           | Some b \<Rightarrow> if MAX_CONTENT_BYTES < length b then Inl ContentTooLargeError else Inr s)"
| "content_of _ = Inl OtherContentError"

fun str_of :: "pyval option \<Rightarrow> pystr option" where
  "str_of (Some (PStr s)) = (if py_encode s = None then None else Some s)"
| "str_of _ = None"

definition timestamp_of :: "(pyval \<Rightarrow> datetime option) \<Rightarrow> pyval option \<Rightarrow> datetime option" where
  "timestamp_of parse_dt v = Option.bind v parse_dt"

text \<open>\<open>_parse_body\<close>: the first error in field order decides; an error of \<open>user_id\<close> alone is
  \<open>invalid_payload\<close>.\<close>

definition parse_message :: "(pyval \<Rightarrow> datetime option) \<Rightarrow> payload \<Rightarrow> msg_error + message_in" where
  "parse_message parse_dt raw =
     (case role_of (map_of raw (lit ''role'')) of
        None \<Rightarrow> Inl (HTTPException 422 (lit ''invalid_role''))
      | Some rl \<Rightarrow>
          (case content_of (map_of raw (lit ''content'')) of
             Inl ContentTooLargeError \<Rightarrow> Inl (HTTPException 413 (lit ''content_too_large''))
           | Inl OtherContentError \<Rightarrow> Inl (HTTPException 422 (lit ''empty_content''))
           | Inr content \<Rightarrow>
               (case timestamp_of parse_dt (map_of raw (lit ''timestamp'')) of
                  None \<Rightarrow> Inl (HTTPException 422 (lit ''invalid_timestamp''))
                | Some ts \<Rightarrow>
                    (case str_of (map_of raw (lit ''user_id'')) of
                       None \<Rightarrow> Inl (HTTPException 422 (lit ''invalid_payload''))
                     | Some u \<Rightarrow> Inr \<lparr>mi_role = rl, mi_content = content, mi_timestamp = ts, mi_user_id = u\<rparr>))))"

section \<open>The handler\<close>

definition FUTURE_TOLERANCE :: int where
  "FUTURE_TOLERANCE = 5 * 60 * 1000000"

definition check_timestamp :: "int \<Rightarrow> datetime \<Rightarrow> int \<Rightarrow> msg_error option" where
  "check_timestamp now timestamp created_at =
     (if now + FUTURE_TOLERANCE < instant (default_utc timestamp)
      then Some (HTTPException 422 (lit ''timestamp_in_future''))
      else if instant (default_utc timestamp) < created_at
      then Some (HTTPException 422 (lit ''timestamp_before_conversation''))
      else None)"

text \<open>What the handler takes from outside: the clocks, the outcome of each database call, the tokenizer
  (a ValueError is the value Inl True, another exception Inl False), the driver's reading of a datetime
  parameter and of a stored instant.\<close>

record 'g msg_env =
  me_gcs :: "'g gcs_ops"
  me_bucket :: pystr
  me_parse_dt :: "pyval \<Rightarrow> datetime option"
  me_cast :: uuid_cast
  me_pg_instant :: "datetime \<Rightarrow> int"
  me_pg_datetime :: "int \<Rightarrow> datetime"
  me_now :: int
  me_db_now :: int
  me_create_fault :: "db_exn option"
  me_increment_fault :: "db_exn option"
  me_insert_fault :: "db_exn option"
  me_count_tokens :: "pystr \<Rightarrow> bool + int"

definition insert_message_best_effort ::
  "'g msg_env \<Rightarrow> db \<Rightarrow> pystr \<Rightarrow> message_in \<Rightarrow> int \<Rightarrow> (msg_error + unit) \<times> db" where
  "insert_message_best_effort env d conversation_id msg ordinal =
     (case me_count_tokens env (mi_content msg) of
        Inl is_value_error \<Rightarrow> (if is_value_error then Inr () else Inl InternalError, d)
      | Inr token_count \<Rightarrow>
          (case insert_message (me_cast env) (me_insert_fault env) (me_db_now env) d conversation_id
                  (mi_role msg) ordinal (mi_content msg) token_count of
             (Inr _, d1) \<Rightarrow> (Inr (), d1)
           | (Inl e, d1) \<Rightarrow> (if caught_best_effort e \<or> e = DataError then Inr () else Inl InternalError, d1)))"

fun append_error :: "conv_error \<Rightarrow> msg_error" where
  "append_error ConcurrentWriteError = HTTPException 409 (lit ''concurrent_write'')"
| "append_error StorageUnavailableError = HTTPException 503 (lit ''storage_unavailable'')"
| "append_error _ = InternalError"

text \<open>\<open>_append_block\<close> with the mapping of its callers' \<open>except\<close> clauses: a missing object is recreated
  once and the append tried a second time.\<close>

definition append_block_self_heal ::
  "'g msg_env \<Rightarrow> 'g \<Rightarrow> pystr \<Rightarrow> message_in \<Rightarrow> datetime \<Rightarrow> (msg_error + nat) \<times> 'g" where
  "append_block_self_heal env g conversation_id msg created_at =
     (case append_block (me_gcs env) g conversation_id (mi_role msg) (mi_content msg) (mi_timestamp msg) of
        (Inr (generation, _), _, g1) \<Rightarrow> (Inr generation, g1)
      | (Inl e, _, g1) \<Rightarrow>
          if e \<noteq> ConversationObjectMissingError then (Inl (append_error e), g1)
          else (case create_conversation_object (me_gcs env) g1 conversation_id (mi_user_id msg) created_at of
                  (cr, g2) \<Rightarrow>
                    (case (cr, cr = Inl ConversationAlreadyExistsError) of
                       (Inl e2, False) \<Rightarrow> (Inl (append_error e2), g2)
                     | _ \<Rightarrow>
                         (case append_block (me_gcs env) g2 conversation_id (mi_role msg) (mi_content msg)
                                 (mi_timestamp msg) of
                            (Inr (generation, _), _, g3) \<Rightarrow> (Inr generation, g3)
                          | (Inl e3, _, g3) \<Rightarrow> (Inl (append_error e3), g3)))))"

text \<open>The counter and the message row, after the append.\<close>

definition record_turn ::
  "'g msg_env \<Rightarrow> db \<Rightarrow> pystr \<Rightarrow> message_in \<Rightarrow> (msg_error + int) \<times> db" where
  "record_turn env d conversation_id msg =
     (case increment_message_count (me_cast env) (me_increment_fault env) d conversation_id of
        (Inl (DbRaised e), d1) \<Rightarrow> (if caught_best_effort e then Inr (- 1) else Inl InternalError, d1)
      | (Inl _, d1) \<Rightarrow> (Inl InternalError, d1)
      | (Inr message_count, d1) \<Rightarrow>
          if 0 < message_count
          then (case insert_message_best_effort env d1 conversation_id msg (message_count - 1) of
                  (Inl e, d2) \<Rightarrow> (Inl e, d2)
                | (Inr _, d2) \<Rightarrow> (Inr message_count, d2))
          else (Inr message_count, d1))"

definition create_object_if_new ::
  "'g msg_env \<Rightarrow> 'g \<Rightarrow> bool \<Rightarrow> pystr \<Rightarrow> pystr \<Rightarrow> datetime \<Rightarrow> (msg_error + unit) \<times> 'g" where
  "create_object_if_new env g is_new conversation_id user_id created_at =
     (if is_new
      then (case create_conversation_object (me_gcs env) g conversation_id user_id created_at of
              (Inr _, g1) \<Rightarrow> (Inr (), g1)
            | (Inl e, g1) \<Rightarrow>
                (Inl (if e = ConversationAlreadyExistsError
                      then HTTPException 409 (lit ''conversation_already_exists'')
                      else if e = StorageUnavailableError
                      then HTTPException 503 (lit ''storage_unavailable'')
                      else InternalError), g1))
      else (Inr (), g))"

text \<open>\<open>is_valid_conversation_id\<close> is the expression of \<open>is_valid_uuid\<close>.\<close>

definition is_valid_conversation_id :: "pystr \<Rightarrow> bool" where
  "is_valid_conversation_id value = is_valid_uuid value"

definition post_message ::
  "'g msg_env \<Rightarrow> 'g \<Rightarrow> db \<Rightarrow> pystr \<Rightarrow> payload \<Rightarrow> (msg_error + message_out) \<times> 'g \<times> db" where
  "post_message env g d conversation_id payload =
     (if \<not> is_valid_conversation_id conversation_id
      then (Inl (HTTPException 400 (lit ''invalid_conversation_id'')), g, d)
      else case parse_message (me_parse_dt env) payload of
        Inl e \<Rightarrow> (Inl e, g, d)
      | Inr msg \<Rightarrow>
          (case create_if_absent (me_cast env) (me_create_fault env) d conversation_id (mi_user_id msg)
                  (gcs_uri (me_bucket env) conversation_id) (me_pg_instant env (mi_timestamp msg)) of
             (Inl e, d1) \<Rightarrow>
               (Inl (if e = UnknownUserError then HTTPException 422 (lit ''unknown_user'') else InternalError), g, d1)
           | (Inr (is_new, created), d1) \<Rightarrow>
               (case check_timestamp (me_now env) (mi_timestamp msg) created of
                  Some e \<Rightarrow> (Inl e, g, d1)
                | None \<Rightarrow>
                    (case create_object_if_new env g is_new conversation_id (mi_user_id msg)
                            (me_pg_datetime env created) of
                       (Inl e, g1) \<Rightarrow> (Inl e, g1, d1)
                     | (Inr _, g1) \<Rightarrow>
                         (case append_block_self_heal env g1 conversation_id msg (me_pg_datetime env created) of
                            (Inl e, g2) \<Rightarrow> (Inl e, g2, d1)
                          | (Inr generation, g2) \<Rightarrow>
                              (case record_turn env d1 conversation_id msg of
                                 (Inl e, d2) \<Rightarrow> (Inl e, g2, d2)
                               | (Inr message_count, d2) \<Rightarrow>
                                   (Inr \<lparr>mo_conversation_id = conversation_id, mo_message_count = message_count,
                                         mo_gcs_uri = gcs_uri (me_bucket env) conversation_id,
                                         mo_generation = generation\<rparr>, g2, d2)))))))"

section \<open>Invariants\<close>

lemma best_effort_db:
  "snd (insert_message_best_effort env d cid msg n) = d
   \<or> (\<exists>tc. snd (insert_message_best_effort env d cid msg n) =
        snd (insert_message (me_cast env) (me_insert_fault env) (me_db_now env) d cid (mi_role msg) n (mi_content msg) tc))"
proof (cases "me_count_tokens env (mi_content msg)")
  case (Inr tc)
  then show ?thesis
    by (intro disjI2 exI[of _ tc]) (auto simp: insert_message_best_effort_def split: prod.split sum.split)
qed (simp add: insert_message_best_effort_def)

lemma best_effort_wf: "wf_db d \<Longrightarrow> wf_db (snd (insert_message_best_effort env d cid msg n))"
  using best_effort_db[of env d cid msg n] insert_message_wf by metis

lemma record_turn_db:
  obtains (counter) "snd (record_turn env d cid msg) =
      snd (increment_message_count (me_cast env) (me_increment_fault env) d cid)"
  | (both) n d1 where
      "increment_message_count (me_cast env) (me_increment_fault env) d cid = (Inr n, d1)"
      "snd (record_turn env d cid msg) = snd (insert_message_best_effort env d1 cid msg (n - 1))"
proof -
  obtain ir d1 where i: "increment_message_count (me_cast env) (me_increment_fault env) d cid = (ir, d1)"
    by fastforce
  show thesis
  proof (cases ir)
    case (Inl e)
    with i show thesis by (intro counter) (cases e; simp add: record_turn_def)
  next
    case (Inr n)
    with i have "snd (record_turn env d cid msg) =
        (if 0 < n then snd (insert_message_best_effort env d1 cid msg (n - 1)) else d1)"
      by (simp add: record_turn_def split: prod.split sum.split)
    with i Inr counter both show thesis by (cases "0 < n") auto
  qed
qed

lemma record_turn_wf: "wf_db d \<Longrightarrow> wf_db (snd (record_turn env d cid msg))"
proof (cases rule: record_turn_db[of env d cid msg])
  case (both n d1)
  moreover assume "wf_db d"
  ultimately show ?thesis
    using increment_wf[of d "me_cast env" "me_increment_fault env" cid] by (simp add: best_effort_wf)
qed (simp add: increment_wf)

lemma record_turn_ordinals:
  assumes "wf_db d" "ordinals_below d"
  shows "ordinals_below (snd (record_turn env d cid msg))"
proof (cases rule: record_turn_db[of env d cid msg])
  case (both n d1)
  have o1: "ordinals_below d1"
    using increment_ordinals[OF assms(2), of "me_cast env" "me_increment_fault env" cid] both(1) by simp
  have "\<forall>r\<in>set (db_conversations d1). me_cast env cid = Some (cv_id r) \<longrightarrow> n - 1 < cv_message_count r"
    using increment_fresh[OF assms both(1)] by auto
  with o1 have "ordinals_below (snd (insert_message (me_cast env) (me_insert_fault env) (me_db_now env) d1 cid
      (mi_role msg) (n - 1) (mi_content msg) tc))" for tc
    by (rule insert_ordinals)
  with o1 both(2) best_effort_db[of env d1 cid msg "n - 1"] show ?thesis by metis
qed (simp add: increment_ordinals assms)

text \<open>The database after the handler is that before it, or after the row was created, or after the
  turn was recorded on top of that.\<close>

lemma post_message_db:
  fixes env :: "'g msg_env"
  obtains (same) "snd (snd (post_message env g d cid p)) = d"
  | (created) fault uid uri t where "snd (snd (post_message env g d cid p)) =
      snd (create_if_absent (me_cast env) fault d cid uid uri t)"
  | (recorded) fault uid uri t msg where "snd (snd (post_message env g d cid p)) =
      snd (record_turn env (snd (create_if_absent (me_cast env) fault d cid uid uri t)) cid msg)"
proof (cases "is_valid_conversation_id cid")
  case True
  show thesis
  proof (cases "parse_message (me_parse_dt env) p")
    case (Inr msg)
    define cr where "cr = create_if_absent (me_cast env) (me_create_fault env) d cid (mi_user_id msg)
      (gcs_uri (me_bucket env) cid) (me_pg_instant env (mi_timestamp msg))"
    have "snd (snd (post_message env g d cid p)) = snd cr
      \<or> snd (snd (post_message env g d cid p)) = snd (record_turn env (snd cr) cid msg)"
      using True Inr
      by (simp add: post_message_def cr_def[symmetric] split: prod.split sum.split option.split)
    then show thesis unfolding cr_def using created recorded by metis
  qed (use same True in \<open>simp add: post_message_def\<close>)
qed (use same in \<open>simp add: post_message_def\<close>)

lemma post_message_invariant:
  assumes "wf_db d" "ordinals_below d"
  shows "wf_db (snd (snd (post_message env g d cid p))) \<and> ordinals_below (snd (snd (post_message env g d cid p)))"
proof (cases rule: post_message_db[of env g d cid p])
  case (recorded fault uid uri t msg)
  then show ?thesis
    using assms by (simp add: record_turn_wf record_turn_ordinals create_if_absent_wf create_ordinals)
qed (use assms in \<open>simp_all add: create_if_absent_wf create_ordinals\<close>)

section \<open>The transcript\<close>

lemma upload_header_grows:
  assumes "gcs_contract ops hist" "upload_header ops g cid h = (r, g')"
  shows "history_grows hist g g'"
  using assms(2) contract_grows(2,3)[OF assms(1)] grows_trans[of hist]
  by (auto simp: upload_header_def history_grows_def split: option.splits prod.splits sum.splits) metis+

lemma create_object_grows:
  "gcs_contract ops hist \<Longrightarrow> create_conversation_object ops g cid u t = (r, g') \<Longrightarrow> history_grows hist g g'"
  unfolding create_conversation_object_def by (rule upload_header_grows)

text \<open>\<open>appended hist g g' cid block\<close>: between \<open>g\<close> and \<open>g'\<close> the object of \<open>cid\<close> received a version that is
  the live content followed by the block.\<close>

definition appended :: "('g \<Rightarrow> pystr \<Rightarrow> gcs_history) \<Rightarrow> 'g \<Rightarrow> 'g \<Rightarrow> pystr \<Rightarrow> pystr \<Rightarrow> bool" where
  "appended hist g g' cid block \<longleftrightarrow>
     (\<exists>old m c n later. hist g' (blob_name cid) = old @ [Some (m, c), Some (n, c @ utf8 block)] @ later
        \<and> prefix (hist g (blob_name cid)) (old @ [Some (m, c)]))"

lemma appended_earlier: "history_grows hist g g1 \<Longrightarrow> appended hist g1 g' cid block \<Longrightarrow> appended hist g g' cid block"
  unfolding appended_def history_grows_def using prefix_order.trans by metis

lemma append_block_appended:
  assumes "gcs_contract ops hist" "append_block ops g cid rl content ts = (Inr (gen, sz), sl, g')"
  shows "appended hist g g' cid (block_text ts rl content)"
  using rmw_appends[OF assms(1)] assms(2)
  unfolding append_block_def read_modify_write_def appended_def by metis

lemma append_block_grows:
  assumes "gcs_contract ops hist" "append_block ops g cid rl content ts = (r, sl, g')"
  shows "history_grows hist g g'"
  using rmw_grows[OF assms(1), of g cid "block_text ts rl content" RETRY_BACKOFF_SECONDS] assms(2)
  by (simp add: append_block_def read_modify_write_def)

lemma self_heal_appended:
  assumes C: "gcs_contract (me_gcs env) hist"
    and "append_block_self_heal env g cid msg created = (Inr gen, g')"
  shows "appended hist g g' cid (block_text (mi_timestamp msg) (mi_role msg) (mi_content msg))"
proof -
  let ?app = "\<lambda>g. append_block (me_gcs env) g cid (mi_role msg) (mi_content msg) (mi_timestamp msg)"
  obtain r1 sl1 g1 where a1: "?app g = (r1, sl1, g1)" by (metis prod_cases3)
  show ?thesis
  proof (cases r1)
    case (Inr p)
    with a1 assms(2) have "?app g = (Inr p, sl1, g')" by (cases p) (auto simp: append_block_self_heal_def)
    then show ?thesis by (cases p) (simp add: append_block_appended[OF C])
  next
    case (Inl e)
    obtain cr g2 where c: "create_conversation_object (me_gcs env) g1 cid (mi_user_id msg) created = (cr, g2)"
      by fastforce
    obtain r3 sl3 g3 where a3: "?app g2 = (r3, sl3, g3)" by (metis prod_cases3)
    from assms(2) a1 Inl c a3 have "g3 = g' \<and> (\<exists>p. r3 = Inr p)"
      by (auto simp: append_block_self_heal_def split: if_splits sum.splits bool.splits)
    then have "appended hist g2 g' cid (block_text (mi_timestamp msg) (mi_role msg) (mi_content msg))"
      using append_block_appended[OF C] a3 by auto
    moreover have "history_grows hist g g2"
      using append_block_grows[OF C a1] create_object_grows[OF C c] by (rule grows_trans)
    ultimately show ?thesis by (rule appended_earlier[rotated])
  qed
qed

lemma post_message_success:
  assumes "post_message env g d cid p = (Inr out, g', d')"
  obtains msg is_new created d1 g1 where
    "is_valid_conversation_id cid" "parse_message (me_parse_dt env) p = Inr msg"
    "create_if_absent (me_cast env) (me_create_fault env) d cid (mi_user_id msg)
       (gcs_uri (me_bucket env) cid) (me_pg_instant env (mi_timestamp msg)) = (Inr (is_new, created), d1)"
    "check_timestamp (me_now env) (mi_timestamp msg) created = None"
    "create_object_if_new env g is_new cid (mi_user_id msg) (me_pg_datetime env created) = (Inr (), g1)"
    "append_block_self_heal env g1 cid msg (me_pg_datetime env created) = (Inr (mo_generation out), g')"
    "record_turn env d1 cid msg = (Inr (mo_message_count out), d')"
    "mo_conversation_id out = cid" "mo_gcs_uri out = gcs_uri (me_bucket env) cid"
  using assms by (auto simp: post_message_def split: if_splits sum.splits prod.splits option.splits)

lemma create_object_if_new_grows:
  "gcs_contract (me_gcs env) hist \<Longrightarrow> create_object_if_new env g is_new cid u t = (r, g') \<Longrightarrow> history_grows hist g g'"
  using create_object_grows[of "me_gcs env" hist]
  by (auto simp: create_object_if_new_def history_grows_def split: if_splits prod.splits sum.splits)

lemma self_heal_grows:
  assumes C: "gcs_contract (me_gcs env) hist"
  shows "history_grows hist g (snd (append_block_self_heal env g cid msg created))"
proof -
  let ?app = "\<lambda>g. append_block (me_gcs env) g cid (mi_role msg) (mi_content msg) (mi_timestamp msg)"
  obtain r1 sl1 g1 where a1: "?app g = (r1, sl1, g1)" by (metis prod_cases3)
  obtain cr g2 where c: "create_conversation_object (me_gcs env) g1 cid (mi_user_id msg) created = (cr, g2)"
    by fastforce
  obtain r3 sl3 g3 where a3: "?app g2 = (r3, sl3, g3)" by (metis prod_cases3)
  have "snd (append_block_self_heal env g cid msg created) \<in> {g1, g2, g3}"
    by (auto simp: append_block_self_heal_def a1 c a3 split: sum.split prod.split bool.split)
  moreover have g1: "history_grows hist g g1" by (rule append_block_grows[OF C a1])
  moreover have g2: "history_grows hist g g2" using g1 create_object_grows[OF C c] by (rule grows_trans)
  moreover have "history_grows hist g g3" using g2 append_block_grows[OF C a3] by (rule grows_trans)
  ultimately show ?thesis by auto
qed

lemma post_message_grows:
  assumes C: "gcs_contract (me_gcs env) hist"
  shows "history_grows hist g (fst (snd (post_message env g d cid p)))"
proof -
  have refl: "history_grows hist g g" by (simp add: history_grows_def)
  have heal: "history_grows hist g g2"
    if "create_object_if_new env g is_new cid u t = (r, g1)" "append_block_self_heal env g1 cid msg t = (r', g2)"
    for r g1 msg is_new u t r' g2
    using grows_trans[OF create_object_if_new_grows[OF C that(1)] self_heal_grows[OF C, of g1 cid msg t]] that(2)
    by simp
  show ?thesis
    using refl by (auto simp: post_message_def split: sum.split prod.split option.split
        intro: create_object_if_new_grows[OF C] heal)
qed

section \<open>The recorded turn\<close>

text \<open>The row the handler stores for a turn.\<close>

definition turn_row :: "'g msg_env \<Rightarrow> pystr \<Rightarrow> message_in \<Rightarrow> int \<Rightarrow> int \<Rightarrow> message_row" where
  "turn_row env c msg ordinal tc =
     \<lparr>mr_conversation_id = c, mr_role = mi_role msg, mr_ordinal = ordinal, mr_content = mi_content msg,
      mr_token_count = tc, mr_created_at = me_db_now env\<rparr>"

lemma record_turn_newest:
  assumes wf: "wf_db d" "ordinals_below d"
    and faults: "me_insert_fault env = None" "me_cast env cid = Some c"
    and tok: "me_count_tokens env (mi_content msg) = Inr tc" "0 \<le> tc" "tc \<le> PG_INT_MAX"
    and r: "record_turn env d cid msg = (Inr n, d')" "n \<noteq> - 1"
  shows "newest_first (messages_of d' c) = turn_row env c msg (n - 1) tc # newest_first (messages_of d c)
    \<and> (\<forall>x\<in>set (db_conversations d'). cv_id x = c \<longrightarrow> cv_message_count x = n)"
proof -
  obtain ir d1 where i: "increment_message_count (me_cast env) (me_increment_fault env) d cid = (ir, d1)"
    by fastforce
  with r obtain m where ir: "ir = Inr m"
    by (cases ir) (auto simp: record_turn_def split: repo_error.splits if_splits)
  have fresh: "(c, m - 1) \<notin> (\<lambda>x. (mr_conversation_id x, mr_ordinal x)) ` set (db_messages d1)"
    "has_conversation d1 c" "0 < m" "\<forall>x\<in>set (db_conversations d1). cv_id x = c \<longrightarrow> cv_message_count x = m"
    using increment_fresh[OF wf i[unfolded ir] faults(2)] by auto
  have range: "m \<le> PG_INT_MAX" and same: "db_messages d1 = db_messages d"
    using i ir by (auto simp: increment_message_count_def split: option.splits if_splits)
  have "pg_int (m - 1)" "pg_int tc" using range fresh(3) tok by (auto simp: pg_int_def PG_INT_MAX_def)
  then have ins: "insert_message_best_effort env d1 cid msg (m - 1) =
      (Inr (), d1\<lparr>db_messages := db_messages d1 @ [turn_row env c msg (m - 1) tc]\<rparr>)"
    using fresh tok faults by (simp add: insert_message_best_effort_def insert_message_def turn_row_def)
  with r i ir fresh(3) have eqs: "n = m" "d' = d1\<lparr>db_messages := db_messages d1 @ [turn_row env c msg (m - 1) tc]\<rparr>"
    by (auto simp: record_turn_def)
  have older: "\<forall>x\<in>set (messages_of d c). mr_ordinal x < m - 1"
  proof
    fix x assume "x \<in> set (messages_of d c)"
    then have x: "x \<in> set (db_messages d)" "mr_conversation_id x = c" by (auto simp: messages_of_def)
    obtain rr where rr: "rr \<in> set (db_conversations d)" "cv_id rr = c"
      using wf(1) x by (auto simp: wf_defs has_conversation_def)
    from rr i ir faults(2) wf(1) have "cv_message_count rr = m - 1"
      using find_conversation_wf[of d rr]
      by (auto simp: increment_message_count_def wf_db_def split: option.splits if_splits)
    moreover from rr wf(2) x have "mr_ordinal x < cv_message_count rr" by (simp add: ordinals_below_def)
    ultimately show "mr_ordinal x < m - 1" by simp
  qed
  have "messages_of d' c = messages_of d c @ [turn_row env c msg (m - 1) tc]"
    by (simp add: eqs(2) messages_of_def same turn_row_def)
  with newest_first_snoc[of "messages_of d c" "turn_row env c msg (m - 1) tc"] older fresh(4) eqs
  show ?thesis by (simp add: turn_row_def)
qed

section \<open>A concrete exchange\<close>

definition sample_dt :: datetime where
  "sample_dt = \<lparr>dt_year = 2026, dt_month = 1, dt_day = 2, dt_hour = 3, dt_minute = 4, dt_second = 5,
     dt_micro = 0, dt_offset = Some 0\<rparr>"

definition sample_msg_env :: "bucket msg_env" where
  "sample_msg_env = \<lparr>me_gcs = bucket_ops, me_bucket = lit ''b'', me_parse_dt = (\<lambda>_. Some sample_dt),
     me_cast = Some, me_pg_instant = instant, me_pg_datetime = (\<lambda>_. sample_dt), me_now = instant sample_dt,
     me_db_now = 0, me_create_fault = None, me_increment_fault = None, me_insert_fault = None,
     me_count_tokens = (\<lambda>s. Inr (int (length s)))\<rparr>"

definition sample_payload :: payload where
  "sample_payload = [(lit ''role'', PStr (lit ''user'')), (lit ''content'', PStr (lit ''hi'')),
     (lit ''timestamp'', PStr (lit ''t'')), (lit ''user_id'', PStr (lit ''u1''))]"

definition sample_msg :: message_in where
  "sample_msg = \<lparr>mi_role = User, mi_content = lit ''hi'', mi_timestamp = sample_dt, mi_user_id = lit ''u1''\<rparr>"

definition empty_db :: db where
  "empty_db = \<lparr>db_users = [], db_conversations = [], db_messages = [], db_tickets = [], db_query_log = []\<rparr>"

lemma empty_db_ok: "wf_db empty_db" "ordinals_below empty_db"
  by (simp_all add: empty_db_def wf_defs ordinals_below_def)

lemma sample_parse: "parse_message (me_parse_dt sample_msg_env) sample_payload = Inr sample_msg"
  by (simp add: parse_message_def sample_msg_env_def sample_payload_def sample_msg_def timestamp_of_def
      MAX_CONTENT_BYTES_def py_eval)

lemma sample_iso: "isoformat sample_dt = lit ''2026-01-02T03:04:05+00:00''"
  by (simp add: isoformat_def sample_dt_def iso_offset_def zero_pad_def digits_of.simps lit_def)

lemma sample_create:
  "create_if_absent Some None empty_db sample_uuid (lit ''u1'') uri t = (Inr (True, t),
     \<lparr>db_users = [(lit ''u1'', lit ''anonymous'')],
      db_conversations = [\<lparr>cv_id = sample_uuid, cv_user_id = lit ''u1'', cv_gcs_uri = uri, cv_created_at = t,
        cv_message_count = 0\<rparr>], db_messages = [], db_tickets = [], db_query_log = []\<rparr>)"
  by (simp add: create_if_absent_def empty_db_def upsert_anon_user_def has_user_def find_conversation_def)

lemma sample_object:
  "create_conversation_object bucket_ops (\<lambda>_. []) sample_uuid (lit ''u1'') sample_dt =
     (Inr 1, (\<lambda>_. [])(blob_name sample_uuid := [utf8 (header_text sample_uuid sample_dt (lit ''u1''))]))"
proof -
  have "py_encode (header_text sample_uuid sample_dt (lit ''u1'')) \<noteq> None"
    by (simp add: header_text_def sample_iso sample_uuid_def py_eval)
  then have "py_encode (header_text sample_uuid sample_dt (lit ''u1'')) =
      Some (utf8 (header_text sample_uuid sample_dt (lit ''u1'')))"
    by (simp add: py_encode_def split: if_splits)
  then show ?thesis
    by (simp add: create_conversation_object_def upload_header_def bucket_ops_def bucket_upload_def bucket_reload_def)
qed

lemma sample_append:
  "append_block bucket_ops ((\<lambda>_. [])(blob_name sample_uuid := [h])) sample_uuid User (lit ''hi'') sample_dt =
     (Inr (2, length (h @ utf8 (block_text sample_dt User (lit ''hi'')))), [],
      (\<lambda>_. [])(blob_name sample_uuid := [h, h @ utf8 (block_text sample_dt User (lit ''hi''))]))"
proof -
  have "py_encode (block_text sample_dt User (lit ''hi'')) = Some (utf8 (block_text sample_dt User (lit ''hi'')))"
    by (simp add: block_text_def sample_iso py_eval)
  then show ?thesis
    by (simp add: append_block_def read_modify_write_def rmw_loop.simps bucket_ops_def bucket_download_def
        bucket_upload_def bucket_reload_def)
qed

lemma sample_post:
  "\<exists>out g' d'. post_message sample_msg_env (\<lambda>_. []) empty_db sample_uuid sample_payload = (Inr out, g', d')
     \<and> mo_message_count out = 1"
proof -
  have v: "is_valid_conversation_id sample_uuid"
    by (simp add: is_valid_conversation_id_def sample_uuid_valid)
  have c: "check_timestamp (instant sample_dt) sample_dt (instant sample_dt) = None"
    by (simp add: check_timestamp_def FUTURE_TOLERANCE_def)
  show ?thesis
    using v sample_parse c
    by (simp add: post_message_def sample_msg_env_def sample_msg_def sample_create create_object_if_new_def
        sample_object append_block_self_heal_def sample_append record_turn_def increment_message_count_def
        find_conversation_def bump_count_def PG_INT_MAX_def insert_message_best_effort_def insert_message_def
        pg_int_def has_conversation_def)
qed

section \<open>Properties\<close>

text \<open>A sequence of requests, each with its own outside world.\<close>

fun serve_messages :: "('g msg_env \<times> pystr \<times> payload) list \<Rightarrow> 'g \<Rightarrow> db \<Rightarrow> 'g \<times> db" where
  "serve_messages [] g d = (g, d)"
| "serve_messages ((env, cid, p) # reqs) g d = (case post_message env g d cid p of (_, g1, d1) \<Rightarrow> serve_messages reqs g1 d1)"

text \<open>C7: whatever sequence of requests arrives, with whatever failures of the database, the storage
  service and the tokenizer, the schema constraints hold after it, every stored ordinal is below its
  conversation's counter, and no object of the bucket loses a version.\<close>

theorem serve_messages_invariant:
  assumes "wf_db d" "ordinals_below d" "\<forall>(env, cid, p)\<in>set reqs. gcs_contract (me_gcs env) hist"
  shows "wf_db (snd (serve_messages reqs g d)) \<and> ordinals_below (snd (serve_messages reqs g d))
    \<and> history_grows hist g (fst (serve_messages reqs g d))"
  using assms
proof (induction reqs arbitrary: g d)
  case Nil
  then show ?case by (simp add: history_grows_def)
next
  case (Cons rq reqs)
  obtain env cid p where rq: "rq = (env, cid, p)" by (metis prod_cases3)
  obtain r g1 d1 where s: "post_message env g d cid p = (r, g1, d1)" by (metis prod_cases3)
  have "wf_db d1 \<and> ordinals_below d1"
    using post_message_invariant[OF Cons.prems(1,2), of env g cid p] s by simp
  moreover have "history_grows hist g g1"
    using post_message_grows[of env hist g d cid p] Cons.prems(3) rq s by simp
  ultimately show ?case
    using Cons.IH[of d1 g1] Cons.prems(3) grows_trans[of hist g g1] by (simp add: rq s)
qed

theorem serve_messages_invariant_witness:
  "wf_db (snd (serve_messages [(sample_msg_env, sample_uuid, sample_payload)] (\<lambda>_. []) empty_db))"
  using serve_messages_invariant[OF empty_db_ok, of "[(sample_msg_env, sample_uuid, sample_payload)]" bucket_hist]
    bucket_contract by (simp add: sample_msg_env_def)

text \<open>C8: an acknowledged message is in the transcript: when the handler answers with a generation, the
  conversation's object has received a version that is its previous content followed by exactly the
  message's block, whether the object was created, appended to or recreated on the way.\<close>

theorem post_message_acknowledged:
  assumes "gcs_contract (me_gcs env) hist" "post_message env g d cid p = (Inr out, g', d')"
  shows "\<exists>msg. parse_message (me_parse_dt env) p = Inr msg \<and> mo_conversation_id out = cid
    \<and> appended hist g g' cid (block_text (mi_timestamp msg) (mi_role msg) (mi_content msg))"
  using assms(2)
proof (cases rule: post_message_success)
  case (1 msg is_new created d1 g1)
  then show ?thesis
    using appended_earlier[OF create_object_if_new_grows[OF assms(1)] self_heal_appended[OF assms(1)]] by metis
qed

theorem post_message_acknowledged_witness:
  "\<exists>g' msg. parse_message (me_parse_dt sample_msg_env) sample_payload = Inr msg
    \<and> appended bucket_hist (\<lambda>_. []) g' sample_uuid (block_text (mi_timestamp msg) (mi_role msg) (mi_content msg))"
proof -
  have C: "gcs_contract (me_gcs sample_msg_env) bucket_hist" using bucket_contract by (simp add: sample_msg_env_def)
  from sample_post obtain out g' d' where
    "post_message sample_msg_env (\<lambda>_. []) empty_db sample_uuid sample_payload = (Inr out, g', d')" by blast
  from post_message_acknowledged[OF C this] show ?thesis by blast
qed

text \<open>The double write keeps up with the transcript: when the counter was bumped and the insert
  meets no outside failure, the new turn is stored under the ordinal just below the returned count and
  is the newest turn of the conversation; the constraint on ordinals cannot make it fail.\<close>

theorem post_message_double_write:
  assumes "wf_db d" "ordinals_below d" "post_message env g d cid p = (Inr out, g', d')"
    "parse_message (me_parse_dt env) p = Inr msg" "mo_message_count out \<noteq> - 1"
    "me_insert_fault env = None" "me_cast env cid = Some c"
    "me_count_tokens env (mi_content msg) = Inr tc" "0 \<le> tc" "tc \<le> PG_INT_MAX"
  shows "\<exists>older. newest_first (messages_of d' c) = turn_row env c msg (mo_message_count out - 1) tc # older
    \<and> older = newest_first (messages_of d c)"
  using assms(3)
proof (cases rule: post_message_success)
  case (1 m is_new created d1 g1)
  have "wf_db d1" "ordinals_below d1"
    using create_if_absent_wf[OF assms(1)] create_ordinals[OF assms(1,2)] 1(3) by (metis snd_conv)+
  moreover have "messages_of d1 c = messages_of d c"
    using 1(3) by (auto simp: create_if_absent_def Let_def messages_of_def split: option.splits if_splits)
  ultimately show ?thesis using record_turn_newest[of d1 env cid c msg tc] 1 assms by simp
qed

theorem post_message_double_write_witness:
  "\<exists>d'. newest_first (messages_of d' sample_uuid) = [turn_row sample_msg_env sample_uuid sample_msg 0 2]"
proof -
  from sample_post obtain out g' d' where
    p: "post_message sample_msg_env (\<lambda>_. []) empty_db sample_uuid sample_payload = (Inr out, g', d')"
    "mo_message_count out = 1" by blast
  have "newest_first (messages_of empty_db sample_uuid) = []"
    by (simp add: messages_of_def empty_db_def newest_first_def)
  moreover have "me_insert_fault sample_msg_env = None" "me_cast sample_msg_env sample_uuid = Some sample_uuid"
    "me_count_tokens sample_msg_env (mi_content sample_msg) = Inr 2"
    by (simp_all add: sample_msg_env_def sample_msg_def)
  ultimately show ?thesis
    using post_message_double_write[OF empty_db_ok p(1) sample_parse, of sample_uuid 2] p(2)
    by (auto simp: PG_INT_MAX_def)
qed

text \<open>The first message of a conversation is never refused as older than the conversation, given
  that the driver stores the timestamp at the instant it denotes.\<close>

theorem first_message_not_before:
  assumes "me_pg_instant env (mi_timestamp msg) = instant (mi_timestamp msg)"
    "create_if_absent (me_cast env) fault d cid uid uri (me_pg_instant env (mi_timestamp msg)) = (Inr (True, created), d1)"
  shows "check_timestamp now (mi_timestamp msg) created \<noteq> Some (HTTPException 422 (lit ''timestamp_before_conversation''))"
proof -
  have "created = instant (mi_timestamp msg)"
    using assms by (auto simp: create_if_absent_def Let_def split: option.splits if_splits)
  then show ?thesis by (simp add: check_timestamp_def)
qed

theorem first_message_not_before_witness:
  "check_timestamp 0 sample_dt (instant sample_dt) \<noteq> Some (HTTPException 422 (lit ''timestamp_before_conversation''))"
  using first_message_not_before[of sample_msg_env sample_msg None empty_db sample_uuid "lit ''u1''" "[]"
      "instant sample_dt"] sample_create[of "[]" "instant sample_dt"]
  by (simp add: sample_msg_env_def sample_msg_def)

end
