(* ===== verification/Embedder.thy ===== *)
theory Embedder
  imports Database
begin

text \<open>
  \<open>workers/.../embedder.py\<close>: the batched embedding client, the deterministic offline embedder and their
  factory. The embedding API, the hash, the random generator and the norm are parameters. The locale
  \<open>embedder\<close> is the protocol the callers rely on; both classes are interpretations of it.
\<close>

section \<open>Definitions\<close>

definition EMBEDDING_DIM :: nat where
  "EMBEDDING_DIM = 1024"

definition DEFAULT_BATCH_SIZE :: int where
  "DEFAULT_BATCH_SIZE = 32"

datatype embed_error = EmbedValueError | EmbedRuntimeError | EmbedClientError

text \<open>\<open>default_batch_size\<close>: \<open>raw\<close> is the variable, \<open>int_of\<close> Python's \<open>int()\<close> of a string.\<close>

definition default_batch_size :: "(pystr \<Rightarrow> int option) \<Rightarrow> pystr option \<Rightarrow> embed_error + int" where
  "default_batch_size int_of raw =
     (case raw of
        None \<Rightarrow> Inr DEFAULT_BATCH_SIZE
      | Some s \<Rightarrow>
          if s = [] then Inr DEFAULT_BATCH_SIZE
          else (case int_of s of
                  None \<Rightarrow> Inl EmbedValueError
                | Some v \<Rightarrow> if v \<le> 0 then Inl EmbedValueError else Inr v))"

type_synonym embed_client = "pystr list \<Rightarrow> embed_error + vec list"

text \<open>The loop over \<open>range(0, len(texts), batch_size)\<close>; \<open>n\<close> is positive.\<close>

function embed_batches :: "embed_client \<Rightarrow> nat \<Rightarrow> pystr list \<Rightarrow> embed_error + vec list" where
  "embed_batches client n texts =
     (if n = 0 \<or> texts = [] then Inr []
      else case client (take n texts) of
             Inl e \<Rightarrow> Inl e
           | Inr vs \<Rightarrow>
               (case embed_batches client n (drop n texts) of
                  Inl e \<Rightarrow> Inl e
                | Inr rest \<Rightarrow> Inr (vs @ rest)))"
  by pat_completeness auto
termination by (relation "measure (\<lambda>(client, n, texts). length texts)") auto

declare embed_batches.simps [simp del]

definition mistral_encode_batch :: "embed_client \<Rightarrow> pystr list \<Rightarrow> int \<Rightarrow> embed_error + vec list" where
  "mistral_encode_batch client texts batch_size =
     (if texts = [] then Inr []
      else if batch_size \<le> 0 then Inl EmbedValueError
      else case embed_batches client (nat batch_size) texts of
             Inl e \<Rightarrow> Inl e
           | Inr vectors \<Rightarrow>
               if \<exists>v\<in>set vectors. length v \<noteq> EMBEDDING_DIM then Inl EmbedRuntimeError else Inr vectors)"

text \<open>The offline embedder: \<open>seed_of\<close> is the first four bytes of the digest as an integer, \<open>gauss seed\<close>
  the generator's samples, \<open>nrm\<close> the Euclidean norm of a float vector.\<close>

definition fake_encode_one :: "(pystr \<Rightarrow> nat) \<Rightarrow> (nat \<Rightarrow> nat \<Rightarrow> rat) \<Rightarrow> (vec \<Rightarrow> rat) \<Rightarrow> pystr \<Rightarrow> vec" where
  "fake_encode_one seed_of gauss nrm text =
     (let v = map (gauss (seed_of text)) [0..<EMBEDDING_DIM]; n = nrm v
      in if n = 0 then v[0 := 1] else map (\<lambda>x. x / n) v)"

definition fake_encode_batch ::
  "(pystr \<Rightarrow> nat) \<Rightarrow> (nat \<Rightarrow> nat \<Rightarrow> rat) \<Rightarrow> (vec \<Rightarrow> rat) \<Rightarrow> pystr list \<Rightarrow> int \<Rightarrow> embed_error + vec list" where
  "fake_encode_batch seed_of gauss nrm texts batch_size =
     (if texts = [] then Inr []
      else if batch_size \<le> 0 then Inl EmbedValueError
      else Inr (map (fake_encode_one seed_of gauss nrm) texts))"

datatype embedder_kind = MistralEmbedder | FakeEmbedder

definition build_embedder :: "pystr option \<Rightarrow> pystr option \<Rightarrow> embed_error + embedder_kind" where
  "build_embedder provider env_provider =
     (let raw = (case provider of
                   Some p \<Rightarrow> p
                 | None \<Rightarrow> (case env_provider of Some p \<Rightarrow> p | None \<Rightarrow> lit ''mistral''))
      in if raw \<notin> {lit ''mistral'', lit ''fake''} then Inl EmbedValueError
         else if raw = lit ''fake'' then Inr FakeEmbedder else Inr MistralEmbedder)"

section \<open>The embedder protocol\<close>

locale embedder =
  fixes encode_batch :: "pystr list \<Rightarrow> int \<Rightarrow> embed_error + vec list"
  assumes empty: "encode_batch [] n = Inr []"
    and dims: "encode_batch texts n = Inr vs \<Longrightarrow> v \<in> set vs \<Longrightarrow> length v = EMBEDDING_DIM"
    and positive: "texts \<noteq> [] \<Longrightarrow> n \<le> 0 \<Longrightarrow> encode_batch texts n = Inl EmbedValueError"
begin

lemma one_text: "encode_batch [t] 1 = Inr (v # vs) \<Longrightarrow> length v = EMBEDDING_DIM"
  using dims[of "[t]" 1 "v # vs" v] by simp

lemma accepted_size: "encode_batch texts n = Inr vs \<Longrightarrow> texts = [] \<or> 0 < n"
  using positive[of texts n] by (cases "0 < n") auto

end

interpretation mistral: embedder "mistral_encode_batch client" for client
  by unfold_locales (auto simp: mistral_encode_batch_def split: if_splits sum.splits)

interpretation fake: embedder "fake_encode_batch seed_of gauss nrm" for seed_of gauss nrm
proof unfold_locales
  fix texts n vs v
  assume "fake_encode_batch seed_of gauss nrm texts n = Inr vs" "v \<in> set vs"
  moreover have "length (fake_encode_one seed_of gauss nrm t) = EMBEDDING_DIM" for t
    by (simp add: fake_encode_one_def Let_def)
  ultimately show "length v = EMBEDDING_DIM"
    by (auto simp: fake_encode_batch_def split: if_splits)
qed (simp_all add: fake_encode_batch_def)

section \<open>Batching\<close>

text \<open>When the API embeds each text on its own, the batches make no difference.\<close>

lemma embed_batches_pointwise:
  assumes client: "\<And>ts. client ts = Inr (map e ts)" and n: "0 < n"
  shows "embed_batches client n texts = Inr (map e texts)"
proof (induction "length texts" arbitrary: texts rule: less_induct)
  case less
  have "texts \<noteq> [] \<Longrightarrow> embed_batches client n (drop n texts) = Inr (map e (drop n texts))"
    using n by (intro less) simp
  then show ?case
    using n by (subst embed_batches.simps) (simp add: client flip: map_append)
qed

section \<open>Properties\<close>

text \<open>Encoding is independent of the batch size: with an API that embeds each text on its own into 1024
  dimensions, every positive batch size gives the vectors of the texts in order, one per text.\<close>

theorem encode_batch_size_irrelevant:
  assumes "\<And>ts. client ts = Inr (map e ts)" "\<And>t. length (e t) = EMBEDDING_DIM" "0 < n"
  shows "mistral_encode_batch client texts n = Inr (map e texts)"
  using embed_batches_pointwise[of client e "nat n" texts] assms
  by (auto simp: mistral_encode_batch_def)

theorem encode_batch_size_irrelevant_witness:
  "mistral_encode_batch (\<lambda>ts. Inr (map (\<lambda>t. replicate EMBEDDING_DIM (of_nat (length t))) ts)) [lit ''a'', lit ''bc'', []] 2 =
     Inr (map (\<lambda>t. replicate EMBEDDING_DIM (of_nat (length t))) [lit ''a'', lit ''bc'', []])"
  by (rule encode_batch_size_irrelevant) simp_all

text \<open>Both embedders keep the protocol: whatever the API returns and whatever the generator draws, an
  answer consists of 1024-dimensional vectors only, and a batch size that is not positive is refused.\<close>

theorem embedders_keep_protocol:
  "(mistral_encode_batch client texts n = Inr vs \<longrightarrow> list_all (\<lambda>v. length v = 1024) vs \<and> (texts = [] \<or> 0 < n))
   \<and> (fake_encode_batch seed_of gauss nrm texts n = Inr vs \<longrightarrow>
        list_all (\<lambda>v. length v = 1024) vs \<and> (texts = [] \<or> 0 < n))"
  using mistral.dims[of client texts n vs] fake.dims[of seed_of gauss nrm texts n vs]
    mistral.accepted_size[of client texts n vs] fake.accepted_size[of seed_of gauss nrm texts n vs]
  by (auto simp: list_all_iff EMBEDDING_DIM_def)

theorem embedders_keep_protocol_witness:
  "\<exists>vs. fake_encode_batch length (\<lambda>s i. 1) (\<lambda>v. 2) [lit ''a''] 1 = Inr vs \<and> list_all (\<lambda>v. length v = 1024) vs"
proof -
  have "fake_encode_batch length (\<lambda>s i. 1) (\<lambda>v. 2) [lit ''a''] 1 =
      Inr [fake_encode_one length (\<lambda>s i. 1) (\<lambda>v. 2) (lit ''a'')]"
    by (simp add: fake_encode_batch_def)
  with embedders_keep_protocol[of "\<lambda>_. Inr []" "[lit ''a'']" 1 "[fake_encode_one length (\<lambda>s i. 1) (\<lambda>v. 2) (lit ''a'')]"
      length "\<lambda>s i. 1" "\<lambda>v. 2"]
  show ?thesis by blast
qed

end
