(* ===== verification/Retrieval.thy ===== *)
theory Retrieval
  imports Acl Embedder "HOL-Library.Multiset" "HOL-Library.List_Lexorder" "HOL-Library.Product_Lexorder"
begin

text \<open>
  The corpus tables and \<open>workers/.../retrieve\<close>: request validation, the cosine top-k query and the
  route POST /v1/retrieve. \<open>df\<close> is the distance operator of the vector extension.
\<close>

section \<open>The corpus\<close>

record document_row =
  dr_id :: pystr
  dr_source_path :: pystr
  dr_title :: pystr
  dr_tags :: "pystr list"
  dr_access_tier :: pystr
  dr_content_hash :: pystr

record chunk_row =
  cr_id :: pystr
  cr_document_id :: pystr
  cr_ord :: int
  cr_text :: pystr
  cr_embedding :: vec

record corpus =
  co_documents :: "document_row list"
  co_chunks :: "chunk_row list"

definition find_document :: "corpus \<Rightarrow> pystr \<Rightarrow> document_row option" where
  "find_document co i = List.find (\<lambda>r. dr_id r = i) (co_documents co)"

definition wf_corpus :: "corpus \<Rightarrow> bool" where
  "wf_corpus co \<longleftrightarrow> distinct (map dr_id (co_documents co)) \<and> distinct (map dr_source_path (co_documents co))
     \<and> (\<forall>r\<in>set (co_documents co). dr_access_tier r \<in> KNOWN_TIERS)
     \<and> distinct (map cr_id (co_chunks co)) \<and> distinct (map (\<lambda>c. (cr_document_id c, cr_ord c)) (co_chunks co))
     \<and> (\<forall>c\<in>set (co_chunks co). cr_document_id c \<in> dr_id ` set (co_documents co) \<and> length (cr_embedding c) = EMBEDDING_DIM)"

section \<open>Search\<close>

record retrieved_chunk =
  rc_chunk_id :: pystr
  rc_document_id :: pystr
  rc_source_path :: pystr
  rc_ord :: int
  rc_text :: pystr
  rc_score :: rat
  rc_access_tier :: pystr

text \<open>\<open>ROUND(x::numeric, 6)\<close> rounds halves away from zero.\<close>

definition round6 :: "rat \<Rightarrow> rat" where
  "round6 x = (if x < 0 then - (of_int \<lfloor>- x * 1000000 + 1/2\<rfloor> / 1000000) else of_int \<lfloor>x * 1000000 + 1/2\<rfloor> / 1000000)"

definition to_retrieved :: "(vec \<Rightarrow> vec \<Rightarrow> rat) \<Rightarrow> vec \<Rightarrow> chunk_row \<times> document_row \<Rightarrow> retrieved_chunk" where
  "to_retrieved df v p = (case p of (c, r) \<Rightarrow>
     \<lparr>rc_chunk_id = cr_id c, rc_document_id = dr_id r, rc_source_path = dr_source_path r, rc_ord = cr_ord c,
      rc_text = cr_text c, rc_score = round6 (1 - df (cr_embedding c) v), rc_access_tier = dr_access_tier r\<rparr>)"

text \<open>\<open>FROM chunks c JOIN documents d ON d.id = c.document_id\<close>\<close>

definition joined :: "corpus \<Rightarrow> (chunk_row \<times> document_row) list" where
  "joined co = List.map_filter (\<lambda>c. map_option (Pair c) (find_document co (cr_document_id c))) (co_chunks co)"

definition order_key :: "(vec \<Rightarrow> vec \<Rightarrow> rat) \<Rightarrow> vec \<Rightarrow> chunk_row \<times> document_row \<Rightarrow> rat \<times> pystr" where
  "order_key df v p = (df (cr_embedding (fst p)) v, cr_id (fst p))"

text \<open>\<open>ChunkValidationError\<close> is the validation error of a RetrievedChunk whose tier is not one of the literals.\<close>

datatype search_exn = DatabaseUnavailableError | SearchRaised db_exn | ChunkValidationError

definition db_failure_caught :: "db_exn \<Rightarrow> bool" where
  "db_failure_caught e \<longleftrightarrow> is_postgres_error e \<or> is_interface_error e \<or> e = OSError \<or> e = TimeoutError"

text \<open>The query has no tier predicate: \<open>allowed_tiers\<close> is an argument the function ignores.\<close>

definition search ::
  "(vec \<Rightarrow> vec \<Rightarrow> rat) \<Rightarrow> db_exn option \<Rightarrow> corpus \<Rightarrow> vec \<Rightarrow> pystr set \<Rightarrow> nat \<Rightarrow> search_exn + retrieved_chunk list" where
  "search df fault co v allowed top_k =
     (case fault of
        Some e \<Rightarrow> Inl (if db_failure_caught e then DatabaseUnavailableError else SearchRaised e)
      | None \<Rightarrow>
          (let rows = take top_k (sort_key (order_key df v) (joined co))
           in if \<forall>p\<in>set rows. dr_access_tier (snd p) \<in> KNOWN_TIERS then Inr (map (to_retrieved df v) rows)
              else Inl ChunkValidationError))"

section \<open>The route\<close>

definition MAX_QUERY_BYTES :: nat where
  "MAX_QUERY_BYTES = 4096"

definition TOP_K_DEFAULT :: int where "TOP_K_DEFAULT = 5"
definition TOP_K_MIN :: int where "TOP_K_MIN = 1"
definition TOP_K_MAX :: int where "TOP_K_MAX = 20"

definition ALLOWED_USER_TIERS :: "pystr set" where
  "ALLOWED_USER_TIERS = {lit ''anonymous'', lit ''members'', lit ''author_only''}"

definition ALLOWED_TIERS_BY_USER_TIER :: "pystr \<Rightarrow> pystr list option" where
  "ALLOWED_TIERS_BY_USER_TIER t =
     (if t = lit ''anonymous'' then Some [lit ''public'']
      else if t = lit ''members'' then Some [lit ''public'', lit ''members'']
      else if t = lit ''author_only'' then Some [lit ''public'', lit ''members'', lit ''author_only'']
      else None)"

text \<open>A validation result: the value, an error code, or the UnicodeEncodeError of a lone surrogate.\<close>

datatype retrieve_error = RetrieveCode pystr | RetrieveCrash

definition validate_retrieve_query :: "pyval \<Rightarrow> retrieve_error + pystr" where
  "validate_retrieve_query v =
     (case v of
        PStr s \<Rightarrow>
          (if py_strip s = [] then Inl (RetrieveCode (lit ''invalid_query''))
           else case py_encode s of
                  None \<Rightarrow> Inl RetrieveCrash
                | Some b \<Rightarrow> if MAX_QUERY_BYTES < length b then Inl (RetrieveCode (lit ''invalid_query'')) else Inr s)
      | _ \<Rightarrow> Inl (RetrieveCode (lit ''invalid_query'')))"

definition validate_top_k :: "pyval option \<Rightarrow> retrieve_error + int" where
  "validate_top_k v =
     (case v of
        None \<Rightarrow> Inr TOP_K_DEFAULT
      | Some PNone \<Rightarrow> Inr TOP_K_DEFAULT
      | Some (PInt n) \<Rightarrow> (if n < TOP_K_MIN \<or> TOP_K_MAX < n then Inl (RetrieveCode (lit ''invalid_top_k'')) else Inr n)
      | Some _ \<Rightarrow> Inl (RetrieveCode (lit ''invalid_top_k'')))"

definition validate_user_tier :: "pyval \<Rightarrow> retrieve_error + pystr" where
  "validate_user_tier v =
     (case v of
        PStr s \<Rightarrow> (if s \<in> ALLOWED_USER_TIERS then Inr s else Inl (RetrieveCode (lit ''invalid_user_tier'')))
      | _ \<Rightarrow> Inl (RetrieveCode (lit ''invalid_user_tier'')))"

definition validate_body :: "pyval \<Rightarrow> retrieve_error + pystr \<times> int \<times> pystr" where
  "validate_body payload =
     (case payload of
        PDict kvs \<Rightarrow>
          (case (map_of kvs (lit ''query''), map_of kvs (lit ''user_tier'')) of
             (Some q, Some t) \<Rightarrow>
               (case validate_retrieve_query q of
                  Inl e \<Rightarrow> Inl e
                | Inr query \<Rightarrow>
                    (case validate_top_k (map_of kvs (lit ''top_k'')) of
                       Inl e \<Rightarrow> Inl e
                     | Inr top_k \<Rightarrow>
                         (case validate_user_tier t of
                            Inl e \<Rightarrow> Inl e
                          | Inr tier \<Rightarrow> Inr (query, top_k, tier))))
           | _ \<Rightarrow> Inl (RetrieveCode (lit ''invalid_request'')))
      | _ \<Rightarrow> Inl (RetrieveCode (lit ''invalid_request'')))"

datatype retrieve_response =
    Retrieved "retrieved_chunk list" int int
  | RetrieveFailed int pystr
  | RetrieveInternal

record retrieve_env =
  re_encode :: "(pystr list \<Rightarrow> int \<Rightarrow> embed_error + vec list) option"
  re_distance :: "vec \<Rightarrow> vec \<Rightarrow> rat"
  re_fault :: "db_exn option"
  re_embedding_ms :: int
  re_search_ms :: int

definition execute_search :: "retrieve_env \<Rightarrow> corpus \<Rightarrow> pystr \<Rightarrow> int \<Rightarrow> pystr \<Rightarrow> (pystr list \<Rightarrow> int \<Rightarrow> embed_error + vec list) \<Rightarrow> retrieve_response" where
  "execute_search env co query top_k tier encode =
     (case encode [query] 1 of
        Inr [v] \<Rightarrow>
          (case ALLOWED_TIERS_BY_USER_TIER tier of
             None \<Rightarrow> RetrieveInternal
           | Some allowed \<Rightarrow>
               (case search (re_distance env) (re_fault env) co v (set allowed) (nat top_k) of
                  Inl DatabaseUnavailableError \<Rightarrow> RetrieveFailed 503 (lit ''database_unavailable'')
                | Inl _ \<Rightarrow> RetrieveInternal
                | Inr chunks \<Rightarrow> Retrieved chunks (max 0 (re_embedding_ms env)) (max 0 (re_search_ms env))))
      | _ \<Rightarrow> RetrieveInternal)"

text \<open>\<open>raw\<close> is the decoded body, None when it is not JSON.\<close>

definition post_retrieve :: "retrieve_env \<Rightarrow> corpus \<Rightarrow> pyval option \<Rightarrow> retrieve_response" where
  "post_retrieve env co raw =
     (case raw of
        None \<Rightarrow> RetrieveFailed 400 (lit ''invalid_request'')
      | Some payload \<Rightarrow>
          (case validate_body payload of
             Inl (RetrieveCode code) \<Rightarrow> RetrieveFailed 400 code
           | Inl RetrieveCrash \<Rightarrow> RetrieveInternal
           | Inr (query, top_k, tier) \<Rightarrow>
               (case re_encode env of
                  None \<Rightarrow> RetrieveFailed 503 (lit ''embedder_unavailable'')
                | Some encode \<Rightarrow> execute_search env co query top_k tier encode)))"

section \<open>Lemmas\<close>

lemma find_document_Some: "find_document co i = Some r \<Longrightarrow> r \<in> set (co_documents co) \<and> dr_id r = i"
  by (auto simp: find_document_def find_Some_iff)

lemma find_document_None: "find_document co i = None \<longleftrightarrow> i \<notin> dr_id ` set (co_documents co)"
  by (auto simp: find_document_def find_None_iff)

lemma find_document_total:
  assumes "wf_corpus co" "c \<in> set (co_chunks co)"
  shows "\<exists>r. find_document co (cr_document_id c) = Some r"
proof -
  have "cr_document_id c \<in> dr_id ` set (co_documents co)" using assms by (auto simp: wf_corpus_def)
  then have "find_document co (cr_document_id c) \<noteq> None" by (simp add: find_document_None)
  then show ?thesis by blast
qed

lemma in_map_filter: "y \<in> set (List.map_filter f xs) \<longleftrightarrow> (\<exists>x\<in>set xs. f x = Some y)"
  by (induction xs) (auto simp: map_filter_simps split: option.splits)

lemma joined_iff: "(c, r) \<in> set (joined co) \<longleftrightarrow> c \<in> set (co_chunks co) \<and> find_document co (cr_document_id c) = Some r"
  by (auto simp: joined_def in_map_filter)

lemma joined_chunks: "wf_corpus co \<Longrightarrow> map fst (joined co) = co_chunks co"
proof -
  assume wf: "wf_corpus co"
  have "map fst (List.map_filter (\<lambda>c. map_option (Pair c) (find_document co (cr_document_id c))) cs) = cs"
    if "set cs \<subseteq> set (co_chunks co)" for cs
    using that
  proof (induction cs)
    case (Cons c cs)
    then obtain r where "find_document co (cr_document_id c) = Some r" using find_document_total [OF wf, of c] by auto
    with Cons show ?case by (simp add: map_filter_simps)
  qed (simp add: map_filter_simps)
  then show ?thesis by (simp add: joined_def)
qed

lemma joined_length: "wf_corpus co \<Longrightarrow> length (joined co) = length (co_chunks co)"
  using joined_chunks by (metis length_map)

lemma joined_known_tier: "wf_corpus co \<Longrightarrow> p \<in> set (joined co) \<Longrightarrow> dr_access_tier (snd p) \<in> KNOWN_TIERS"
  by (cases p) (auto simp: joined_iff wf_corpus_def dest!: find_document_Some)

lemma take_sorted_smallest:
  fixes f :: "'a \<Rightarrow> 'b::linorder"
  assumes "x \<in> set (take k (sort_key f xs))" "y \<in> set (drop k (sort_key f xs))"
  shows "f x \<le> f y"
proof -
  have "sorted (map f (take k (sort_key f xs)) @ map f (drop k (sort_key f xs)))"
    by (simp flip: map_append)
  then show ?thesis using assms by (auto simp: sorted_append)
qed

lemma caught_every_db_failure: "db_failure_caught e"
  by (cases e) (simp_all add: db_failure_caught_def is_postgres_error_def is_interface_error_def)

lemma search_wf:
  "wf_corpus co \<Longrightarrow> search df None co v a k = Inr (map (to_retrieved df v) (take k (sort_key (order_key df v) (joined co))))"
  using joined_known_tier by (fastforce simp: search_def Let_def dest: in_set_takeD)

lemma validate_retrieve_query_accepts:
  "validate_retrieve_query v = Inr q \<longleftrightarrow>
     v = PStr q \<and> py_strip q \<noteq> [] \<and> (\<exists>b. py_encode q = Some b \<and> length b \<le> MAX_QUERY_BYTES)"
  by (auto simp: validate_retrieve_query_def split: pyval.splits option.splits if_splits)

lemma validate_top_k_accepts:
  "validate_top_k v = Inr k \<longleftrightarrow>
     v \<in> {None, Some PNone} \<and> k = TOP_K_DEFAULT \<or> v = Some (PInt k) \<and> TOP_K_MIN \<le> k \<and> k \<le> TOP_K_MAX"
  by (auto simp: validate_top_k_def split: pyval.splits option.splits if_splits)

lemma validate_user_tier_accepts: "validate_user_tier v = Inr t \<longleftrightarrow> v = PStr t \<and> t \<in> ALLOWED_USER_TIERS"
  by (auto simp: validate_user_tier_def split: pyval.splits if_splits)

lemmas validate_accepts = validate_retrieve_query_accepts validate_top_k_accepts validate_user_tier_accepts

lemma validate_top_k_range: "validate_top_k v = Inr k \<Longrightarrow> 1 \<le> k \<and> k \<le> 20"
  by (auto simp: validate_top_k_accepts TOP_K_DEFAULT_def TOP_K_MIN_def TOP_K_MAX_def)

lemma tier_table_total: "t \<in> ALLOWED_USER_TIERS \<Longrightarrow> \<exists>a. ALLOWED_TIERS_BY_USER_TIER t = Some a"
  by (auto simp: ALLOWED_USER_TIERS_def ALLOWED_TIERS_BY_USER_TIER_def)

text \<open>The two copies of the tier table, here and in the access filter, agree.\<close>

lemma tier_tables_agree: "map_option set (ALLOWED_TIERS_BY_USER_TIER t) = ALLOWED_ACCESS_TIERS_BY_USER_TIER t"
  by (auto simp: ALLOWED_TIERS_BY_USER_TIER_def ALLOWED_ACCESS_TIERS_BY_USER_TIER_def)

lemma order_key_strict:
  assumes wf: "wf_corpus co"
    and near: "p \<in> set (take k (sort_key (order_key df v) (joined co)))"
    and far: "q \<in> set (drop k (sort_key (order_key df v) (joined co)))"
  shows "order_key df v p < order_key df v q"
proof -
  let ?s = "sort_key (order_key df v) (joined co)"
  have "distinct (map (cr_id \<circ> fst) (joined co))"
    using wf joined_chunks[OF wf] by (simp add: wf_corpus_def flip: map_map)
  moreover have "mset (map (cr_id \<circ> fst) ?s) = mset (map (cr_id \<circ> fst) (joined co))" by (simp only: mset_map mset_sort)
  ultimately have "distinct (map (cr_id \<circ> fst) ?s)" using mset_eq_imp_distinct_iff by blast
  then have "distinct (map (cr_id \<circ> fst) (take k ?s) @ map (cr_id \<circ> fst) (drop k ?s))"
    by (simp flip: map_append)
  then have "cr_id (fst p) \<noteq> cr_id (fst q)" using near far by (fastforce simp: disjoint_iff)
  moreover have "order_key df v p \<le> order_key df v q" using near far by (rule take_sorted_smallest)
  ultimately show ?thesis by (auto simp: order_key_def less_le)
qed

lemma validate_body_accepts:
  "validate_body payload = Inr (q, k, t) \<longleftrightarrow>
     (\<exists>kvs vq vt. payload = PDict kvs \<and> map_of kvs (lit ''query'') = Some vq \<and> map_of kvs (lit ''user_tier'') = Some vt
        \<and> validate_retrieve_query vq = Inr q \<and> validate_top_k (map_of kvs (lit ''top_k'')) = Inr k
        \<and> validate_user_tier vt = Inr t)"
  by (auto simp: validate_body_def split: pyval.splits option.splits sum.splits)

lemma validate_body_tier: "validate_body payload = Inr (q, k, t) \<Longrightarrow> \<exists>a. ALLOWED_TIERS_BY_USER_TIER t = Some a"
  by (auto simp: validate_body_accepts validate_user_tier_accepts tier_table_total)

lemma post_retrieve_ok:
  assumes "wf_corpus co" "validate_body payload = Inr (q, k, t)" "re_encode env = Some encode"
    "encode [q] 1 = Inr [v]" "re_fault env = None"
  shows "post_retrieve env co (Some payload) =
    Retrieved (map (to_retrieved (re_distance env) v) (take (nat k) (sort_key (order_key (re_distance env) v) (joined co))))
      (max 0 (re_embedding_ms env)) (max 0 (re_search_ms env))"
  using assms validate_body_tier[OF assms(2)] by (auto simp: post_retrieve_def execute_search_def search_wf)

section \<open>Properties\<close>

text \<open>Validation of a retrieve body accepts exactly the objects with a non-blank query of at most 4096
  encoded bytes, an absent, null or 1..20 integer top_k (never a boolean) and one of the three user tiers,
  and returns those values with 5 for a missing top_k.\<close>

theorem validate_body_exact:
  "validate_body payload = Inr (q, k, t) \<longleftrightarrow>
     (\<exists>kvs b. payload = PDict kvs \<and> map_of kvs (lit ''query'') = Some (PStr q) \<and> py_strip q \<noteq> []
        \<and> py_encode q = Some b \<and> length b \<le> 4096
        \<and> (case map_of kvs (lit ''top_k'') of
             None \<Rightarrow> k = 5
           | Some w \<Rightarrow> w = PNone \<and> k = 5 \<or> w = PInt k \<and> 1 \<le> k \<and> k \<le> 20)
        \<and> map_of kvs (lit ''user_tier'') = Some (PStr t)
        \<and> t \<in> {lit ''anonymous'', lit ''members'', lit ''author_only''})"
  unfolding validate_body_accepts validate_accepts MAX_QUERY_BYTES_def TOP_K_DEFAULT_def TOP_K_MIN_def
    TOP_K_MAX_def ALLOWED_USER_TIERS_def
  by (auto split: option.splits)


definition sample_vec :: "rat \<Rightarrow> vec" where
  "sample_vec x = replicate EMBEDDING_DIM x"

definition sample_corpus :: corpus where
  "sample_corpus =
     \<lparr>co_documents = [\<lparr>dr_id = lit ''d'', dr_source_path = lit ''a.md'', dr_title = [], dr_tags = [],
         dr_access_tier = lit ''members'', dr_content_hash = []\<rparr>],
      co_chunks = [\<lparr>cr_id = lit ''x'', cr_document_id = lit ''d'', cr_ord = 0, cr_text = lit ''t'', cr_embedding = sample_vec 1\<rparr>,
        \<lparr>cr_id = lit ''y'', cr_document_id = lit ''d'', cr_ord = 1, cr_text = lit ''u'', cr_embedding = sample_vec 2\<rparr>]\<rparr>"

definition sample_retrieve_env :: retrieve_env where
  "sample_retrieve_env = \<lparr>re_encode = Some (\<lambda>ts n. Inr (map (\<lambda>t. sample_vec 2) ts)),
     re_distance = (\<lambda>x y. \<bar>hd x - hd y\<bar>), re_fault = None, re_embedding_ms = 3, re_search_ms = 4\<rparr>"

definition sample_retrieve_body :: pyval where
  "sample_retrieve_body = PDict [(lit ''query'', PStr (lit ''qui?'')), (lit ''top_k'', PInt 1), (lit ''user_tier'', PStr (lit ''anonymous''))]"

lemma sample_corpus_wf: "wf_corpus sample_corpus"
  by (simp add: wf_corpus_def sample_corpus_def sample_vec_def KNOWN_TIERS_def lit_def)

lemma sample_retrieve_body_valid: "validate_body sample_retrieve_body = Inr (lit ''qui?'', 1, lit ''anonymous'')"
  by (simp add: validate_body_accepts validate_accepts sample_retrieve_body_def lit_def MAX_QUERY_BYTES_def
      TOP_K_MIN_def TOP_K_MAX_def ALLOWED_USER_TIERS_def py_eval)


end
