(* ===== verification/Contradiction.thy ===== *)
theory Contradiction
  imports Judge Retrieval Tickets Requests "HOL-Library.Sublist"
begin

text \<open>
  \<open>workers/.../contradiction\<close>: the sources a claim is judged against (\<open>repository.py\<close>), the panel, the
  redaction of its reason and the ticket policy (\<open>service.py\<close>), and the route (\<open>router.py\<close>).
\<close>

section \<open>Sources\<close>

record citation_ref =
  cf_source_path :: pystr
  cf_chunk_ords :: "int list"

record panel_env =
  pn_collate :: "pystr \<Rightarrow> pystr"
  pn_resolve_fault :: "db_exn option"
  pn_encode :: "pystr list \<Rightarrow> int \<Rightarrow> embed_error + vec list"
  pn_distance :: "vec \<Rightarrow> vec \<Rightarrow> rat"
  pn_search_fault :: "db_exn option"
  pn_chat :: "message list \<Rightarrow> chat_result"
  pn_word :: "nat \<Rightarrow> bool"
  pn_lower :: "pystr \<Rightarrow> pystr"
  pn_ticket_env :: ticket_env

text \<open>What a call can raise past its callers: the route answers 500.\<close>

datatype panel_exn =
  SourceResolutionError | UncaughtEmbedding | UncaughtChunkValidation | VerdictKeyError | TicketRaised db_exn

definition wanted :: "citation_ref list \<Rightarrow> (pystr \<times> int) set" where
  "wanted citations = set (concat (map (\<lambda>c. map (Pair (cf_source_path c)) (cf_chunk_ords c)) citations))"

text \<open>\<open>_RESOLVE_SQL\<close>; \<open>coll\<close> is the collation key of a path.\<close>

definition resolve_rows :: "(pystr \<Rightarrow> pystr) \<Rightarrow> corpus \<Rightarrow> pystr set \<Rightarrow> pystr set \<Rightarrow> source list" where
  "resolve_rows coll co paths allowed =
     map (\<lambda>p. (dr_source_path (snd p), cr_ord (fst p), cr_text (fst p)))
       (sort_key (\<lambda>p. (coll (dr_source_path (snd p)), cr_ord (fst p)))
          (filter (\<lambda>p. dr_source_path (snd p) \<in> paths \<and> dr_access_tier (snd p) \<in> allowed) (joined co)))"

definition resolve_cited_sources :: "panel_env \<Rightarrow> corpus \<Rightarrow> citation_ref list \<Rightarrow> pystr \<Rightarrow> panel_exn + source list" where
  "resolve_cited_sources env co citations user_tier =
     (if allowed_tiers user_tier = {} \<or> wanted citations = {} then Inr []
      else case pn_resolve_fault env of
             Some e \<Rightarrow> Inl SourceResolutionError
           | None \<Rightarrow>
               Inr (filter (\<lambda>s. (fst s, fst (snd s)) \<in> wanted citations)
                 (resolve_rows (pn_collate env) co (cf_source_path ` set citations) (allowed_tiers user_tier))))"

definition RETRIEVAL_TOP_K :: nat where
  "RETRIEVAL_TOP_K = 5"

fun visible_sources :: "pystr set \<Rightarrow> retrieved_chunk list \<Rightarrow> source list" where
  "visible_sources allowed [] = []"
| "visible_sources allowed (c # cs) =
     (if rc_access_tier c \<notin> KNOWN_TIERS then visible_sources allowed cs
      else if rc_access_tier c \<in> allowed then (rc_source_path c, rc_ord c, rc_text c) # visible_sources allowed cs
      else visible_sources allowed cs)"

text \<open>\<open>_resolve_sources\<close>; the inner None is its None.\<close>

definition resolve_sources ::
  "panel_env \<Rightarrow> corpus \<Rightarrow> citation_ref list \<Rightarrow> pystr \<Rightarrow> pystr \<Rightarrow> panel_exn + source list option" where
  "resolve_sources env co citations user_tier claim =
     (if citations \<noteq> [] then
        (case resolve_cited_sources env co citations user_tier of
           Inl _ \<Rightarrow> Inr None
         | Inr sources \<Rightarrow> Inr (Some sources))
      else
        (case pn_encode env [claim] 1 of
           Inl EmbedClientError \<Rightarrow> Inl UncaughtEmbedding
         | Inl _ \<Rightarrow> Inr None
         | Inr [] \<Rightarrow> Inl UncaughtEmbedding
         | Inr (v # _) \<Rightarrow>
             (case search (pn_distance env) (pn_search_fault env) co v (allowed_tiers user_tier) RETRIEVAL_TOP_K of
                Inl ChunkValidationError \<Rightarrow> Inl UncaughtChunkValidation
              | Inl _ \<Rightarrow> Inr None
              | Inr chunks \<Rightarrow> Inr (Some (visible_sources (allowed_tiers user_tier) chunks)))))"

section \<open>The panel\<close>

definition MAJORITY_THRESHOLD :: nat where
  "MAJORITY_THRESHOLD = 2"

definition REASON_UNCLEAR :: pystr where
  "REASON_UNCLEAR = lit ''Les juges n'ont pas pu trancher l'affirmation.''"

definition REASON_NO_SOURCES :: pystr where
  "REASON_NO_SOURCES = lit ''Aucune source disponible pour '' @ [233] @ lit ''valuer l'affirmation.''"

fun safe_reason_of :: "verdict \<Rightarrow> pystr" where
  "safe_reason_of Present = lit ''L'affirmation est soutenue par les sources.''"
| "safe_reason_of Absent = lit ''L'information est absente des sources.''"
| "safe_reason_of Contradiction = lit ''Les sources se contredisent.''"
| "safe_reason_of Unclear = REASON_UNCLEAR"

definition MIN_LEAK_SUBSTR_CHARS :: nat where
  "MIN_LEAK_SUBSTR_CHARS = 24"

text \<open>\<open>reply.content if isinstance(reply.content, str) else str(reply.content)\<close>\<close>

fun judge_text :: "ai_content \<Rightarrow> pystr" where
  "judge_text (CStr s) = s"
| "judge_text (COther s) = s"
| "judge_text CNone = lit ''None''"

definition run_judge :: "panel_env \<Rightarrow> pystr \<Rightarrow> source list \<Rightarrow> pystr \<Rightarrow> panel_exn + verdict \<times> pystr" where
  "run_judge env claim sources lens =
     (case llm_invoke (pn_chat env (build_judge_messages claim sources lens)) of
        Inl _ \<Rightarrow> Inr (Unclear, [])
      | Inr reply \<Rightarrow>
          (case parse_verdict (pn_word env) (judge_text (ai_content reply)) of
             None \<Rightarrow> Inl VerdictKeyError
           | Some p \<Rightarrow> Inr p))"

text \<open>\<open>asyncio.gather\<close> over the lenses: the results in order, or the exception of a judge.\<close>

fun gather :: "(panel_exn + 'a) list \<Rightarrow> panel_exn + 'a list" where
  "gather [] = Inr []"
| "gather (r # rs) =
     (case r of
        Inl e \<Rightarrow> Inl e
      | Inr x \<Rightarrow> (case gather rs of Inl e \<Rightarrow> Inl e | Inr xs \<Rightarrow> Inr (x # xs)))"

definition run_panel :: "panel_env \<Rightarrow> pystr \<Rightarrow> source list \<Rightarrow> panel_exn + (verdict \<times> pystr) list" where
  "run_panel env claim sources = gather (map (run_judge env claim sources) JUDGE_LENSES)"

definition reasons_for :: "verdict \<Rightarrow> (verdict \<times> pystr) list \<Rightarrow> pystr list" where
  "reasons_for v outcomes = map snd (filter (\<lambda>p. fst p = v) outcomes)"

fun aggregate_loop :: "verdict list \<Rightarrow> (verdict \<times> pystr) list \<Rightarrow> verdict \<times> pystr \<times> bool" where
  "aggregate_loop [] outcomes = (Unclear, REASON_UNCLEAR, False)"
| "aggregate_loop (candidate # rest) outcomes =
     (if MAJORITY_THRESHOLD \<le> length (reasons_for candidate outcomes)
      then (candidate, case List.find (\<lambda>r. r \<noteq> []) (reasons_for candidate outcomes) of
                         None \<Rightarrow> REASON_UNCLEAR | Some r \<Rightarrow> r, True)
      else aggregate_loop rest outcomes)"

definition aggregate_verdicts :: "(verdict \<times> pystr) list \<Rightarrow> verdict \<times> pystr \<times> bool" where
  "aggregate_verdicts outcomes = aggregate_loop [Contradiction, Absent, Present, Unclear] outcomes"

text \<open>Does a window of the lowered body, at a multiple of the step, occur in the lowered reason?\<close>

fun leak_at :: "pystr \<Rightarrow> pystr \<Rightarrow> nat list \<Rightarrow> bool" where
  "leak_at body reason [] = False"
| "leak_at body reason (start # starts) =
     (sublist (take MIN_LEAK_SUBSTR_CHARS (drop start body)) reason \<or> leak_at body reason starts)"

definition window_starts :: "pystr \<Rightarrow> nat list" where
  "window_starts body = map (\<lambda>i. i * MIN_LEAK_SUBSTR_CHARS) [0..<length body div MIN_LEAK_SUBSTR_CHARS]"

fun redact_loop :: "(pystr \<Rightarrow> pystr) \<Rightarrow> pystr \<Rightarrow> verdict \<Rightarrow> source list \<Rightarrow> pystr" where
  "redact_loop lower reason v [] = reason"
| "redact_loop lower reason v ((path, n, body) # sources) =
     (if length body < MIN_LEAK_SUBSTR_CHARS then redact_loop lower reason v sources
      else if leak_at (lower body) (lower reason) (window_starts (lower body)) then safe_reason_of v
      else redact_loop lower reason v sources)"

definition redact_reason :: "(pystr \<Rightarrow> pystr) \<Rightarrow> pystr \<Rightarrow> verdict \<Rightarrow> source list \<Rightarrow> pystr" where
  "redact_reason lower reason v sources = redact_loop lower reason v sources"

section \<open>The ticket policy\<close>

definition TICKET_TRIGGERING_VERDICTS :: "verdict set" where
  "TICKET_TRIGGERING_VERDICTS = {Absent, Contradiction}"

datatype outcome = Confirmed | Refused | Indecisive

datatype panel_action = Ticketed ticket_action | NotRaised

record verification_result =
  vr_verdict :: verdict
  vr_reason :: pystr
  vr_ticket_action :: panel_action
  vr_ticket_id :: "pystr option"
  vr_outcome :: outcome

definition derive_outcome :: "verdict \<Rightarrow> bool \<Rightarrow> outcome" where
  "derive_outcome v should_raise = (if should_raise then Confirmed else if v = Present then Refused else Indecisive)"

definition NO_SOURCES_RESULT :: verification_result where
  "NO_SOURCES_RESULT = \<lparr>vr_verdict = Unclear, vr_reason = REASON_NO_SOURCES, vr_ticket_action = NotRaised,
     vr_ticket_id = None, vr_outcome = Indecisive\<rparr>"

definition with_ticket :: "verdict \<Rightarrow> pystr \<Rightarrow> bool \<Rightarrow> (db_exn + ticket_result) \<times> db \<Rightarrow> (panel_exn + verification_result) \<times> db" where
  "with_ticket v reason should_raise call =
     (case fst call of
        Inl e \<Rightarrow> (Inl (TicketRaised e), snd call)
      | Inr ticket \<Rightarrow>
          (Inr \<lparr>vr_verdict = v, vr_reason = reason, vr_ticket_action = Ticketed (tr_action ticket),
                vr_ticket_id = tr_ticket_id ticket, vr_outcome = derive_outcome v should_raise\<rparr>, snd call))"

definition judge_claim ::
  "panel_env \<Rightarrow> db \<Rightarrow> pystr \<Rightarrow> pystr \<Rightarrow> source list \<Rightarrow> bool \<Rightarrow> (panel_exn + verification_result) \<times> db" where
  "judge_claim env d claim conversation_id sources force =
     (case run_panel env claim sources of
        Inl e \<Rightarrow> (Inl e, d)
      | Inr raw_outcomes \<Rightarrow>
          (case aggregate_verdicts raw_outcomes of
             (winning, synthesized, has_majority) \<Rightarrow>
               (let safe_reason = redact_reason (pn_lower env) synthesized winning sources;
                    should_raise = (has_majority \<and> winning \<in> TICKET_TRIGGERING_VERDICTS)
                in if should_raise then
                     with_ticket winning safe_reason True
                       (create_or_increment (pn_ticket_env env) d conversation_id claim False False)
                   else if force then
                     with_ticket winning safe_reason False
                       (create_or_increment (pn_ticket_env env) d conversation_id claim True True)
                   else
                     (Inr \<lparr>vr_verdict = winning, vr_reason = safe_reason, vr_ticket_action = NotRaised,
                           vr_ticket_id = None, vr_outcome = derive_outcome winning False\<rparr>, d))))"

definition verify_contradiction ::
  "panel_env \<Rightarrow> corpus \<Rightarrow> db \<Rightarrow> pystr \<Rightarrow> pystr \<Rightarrow> citation_ref list \<Rightarrow> pystr \<Rightarrow> bool
    \<Rightarrow> (panel_exn + verification_result) \<times> db" where
  "verify_contradiction env co d claim conversation_id citations user_tier force =
     (case resolve_sources env co citations user_tier claim of
        Inl e \<Rightarrow> (Inl e, d)
      | Inr None \<Rightarrow> (Inr NO_SOURCES_RESULT, d)
      | Inr (Some sources) \<Rightarrow>
          if sources = [] then (Inr NO_SOURCES_RESULT, d)
          else judge_claim env d claim conversation_id sources force)"

section \<open>The route\<close>

definition VERIFY_TIER_TO_INTERNAL :: "pystr \<Rightarrow> pystr option" where
  "VERIFY_TIER_TO_INTERNAL t =
     (if t = lit ''anonymous'' then Some (lit ''anonymous'')
      else if t = lit ''member'' then Some (lit ''members'')
      else if t = lit ''author'' then Some (lit ''author_only'')
      else None)"

record verify_request =
  vq_claim :: pystr
  vq_conversation_id :: pystr
  vq_citations :: "citation_ref list"
  vq_request_id :: pystr
  vq_force :: bool

text \<open>\<open>validate\<close> is the schema validation of the request model: the request, or the head of each error's
  location, None for an empty one.\<close>

type_synonym validator = "payload \<Rightarrow> pystr option list + verify_request"

fun verify_error_code :: "pystr option list \<Rightarrow> pystr" where
  "verify_error_code [] = lit ''invalid_request''"
| "verify_error_code (l # ls) =
     (if l = Some (lit ''claim'') then lit ''invalid_claim''
      else if l = Some (lit ''citations'') then lit ''invalid_citations''
      else verify_error_code ls)"

definition valid_uuid_field :: "payload \<Rightarrow> string \<Rightarrow> bool" where
  "valid_uuid_field kvs k = (case map_of kvs (lit k) of Some (PStr s) \<Rightarrow> is_valid_uuid s | _ \<Rightarrow> False)"

definition parse_verify_request ::
  "validator \<Rightarrow> payload \<Rightarrow> (pystr \<Rightarrow> pystr option) \<Rightarrow> pystr + verify_request \<times> pystr \<times> pystr" where
  "parse_verify_request validate kvs headers =
     (case headers (lit ''x-user-id'') of
        None \<Rightarrow> Inl (lit ''invalid_request'')
      | Some user_id \<Rightarrow>
          if user_id = [] \<or> \<not> is_valid_uuid user_id then Inl (lit ''invalid_request'')
          else (case headers (lit ''x-user-tier'') of
                  None \<Rightarrow> Inl (lit ''invalid_request'')
                | Some raw_tier \<Rightarrow>
                    (case VERIFY_TIER_TO_INTERNAL raw_tier of
                       None \<Rightarrow> Inl (lit ''invalid_request'')
                     | Some user_tier \<Rightarrow>
                         if \<not> valid_uuid_field kvs ''request_id'' then Inl (lit ''invalid_request'')
                         else if \<not> valid_uuid_field kvs ''conversation_id'' then Inl (lit ''invalid_conversation_id'')
                         else (case validate kvs of
                                 Inl errors \<Rightarrow> Inl (verify_error_code errors)
                               | Inr parsed \<Rightarrow> Inr (parsed, user_tier, user_id)))))"

datatype verify_response = Verified verification_result | VerifyRejected int pystr | VerifyInternal panel_exn

definition post_verify_contradiction ::
  "panel_env \<Rightarrow> validator \<Rightarrow> corpus \<Rightarrow> db \<Rightarrow> payload \<Rightarrow> (pystr \<Rightarrow> pystr option) \<Rightarrow> verify_response \<times> db" where
  "post_verify_contradiction env validate co d kvs headers =
     (case parse_verify_request validate kvs headers of
        Inl code \<Rightarrow> (VerifyRejected 400 code, d)
      | Inr (parsed, user_tier, user_id) \<Rightarrow>
          (case verify_contradiction env co d (vq_claim parsed) (vq_conversation_id parsed) (vq_citations parsed)
                  user_tier (vq_force parsed) of
             (Inl e, d') \<Rightarrow> (VerifyInternal e, d')
           | (Inr result, d') \<Rightarrow> (Verified result, d')))"

section \<open>Lemmas\<close>

lemma visible_sources_iff:
  "allowed \<subseteq> KNOWN_TIERS \<Longrightarrow> (p, n, t) \<in> set (visible_sources allowed cs) \<longleftrightarrow>
     (\<exists>c\<in>set cs. rc_access_tier c \<in> allowed \<and> p = rc_source_path c \<and> n = rc_ord c \<and> t = rc_text c)"
  by (induction cs) auto

lemma search_rows:
  "search df fault co v a k = Inr cs \<Longrightarrow> c \<in> set cs \<Longrightarrow>
     \<exists>ch r. (ch, r) \<in> set (joined co) \<and> rc_source_path c = dr_source_path r \<and> rc_ord c = cr_ord ch
       \<and> rc_text c = cr_text ch \<and> rc_access_tier c = dr_access_tier r"
  by (fastforce simp: search_def Let_def to_retrieved_def dest!: in_set_takeD split: option.splits if_splits prod.splits)

text \<open>A row of the corpus the tier may see, as a source.\<close>

definition visible_row :: "corpus \<Rightarrow> pystr \<Rightarrow> source \<Rightarrow> bool" where
  "visible_row co tier s \<longleftrightarrow> (\<exists>p\<in>set (joined co). dr_access_tier (snd p) \<in> allowed_tiers tier
     \<and> s = (dr_source_path (snd p), cr_ord (fst p), cr_text (fst p)))"

lemma resolve_rows_iff:
  "s \<in> set (resolve_rows coll co paths (allowed_tiers tier)) \<longleftrightarrow> visible_row co tier s \<and> fst s \<in> paths"
  by (cases s) (fastforce simp: resolve_rows_def visible_row_def)

lemma wanted_path: "(p, n) \<in> wanted citations \<Longrightarrow> p \<in> cf_source_path ` set citations"
  by (auto simp: wanted_def)

lemma no_tier_no_row: "allowed_tiers tier = {} \<Longrightarrow> \<not> visible_row co tier s"
  by (simp add: visible_row_def)

lemma resolve_cited_iff:
  assumes "resolve_cited_sources env co citations tier = Inr ss"
  shows "s \<in> set ss \<longleftrightarrow> visible_row co tier s \<and> (fst s, fst (snd s)) \<in> wanted citations"
proof (cases "allowed_tiers tier = {} \<or> wanted citations = {}")
  case True
  with assms no_tier_no_row[of tier co s] show ?thesis by (auto simp: resolve_cited_sources_def)
next
  case False
  with assms have "ss = filter (\<lambda>s. (fst s, fst (snd s)) \<in> wanted citations)
    (resolve_rows (pn_collate env) co (cf_source_path ` set citations) (allowed_tiers tier))"
    by (auto simp: resolve_cited_sources_def split: option.splits)
  then show ?thesis using wanted_path[of "fst s" "fst (snd s)" citations] by (auto simp: resolve_rows_iff)
qed

lemma resolve_retrieved_visible:
  assumes "resolve_sources env co [] tier claim = Inr (Some ss)" "s \<in> set ss"
  shows "visible_row co tier s"
proof -
  from assms(1) obtain v cs where cs: "search (pn_distance env) (pn_search_fault env) co v (allowed_tiers tier) RETRIEVAL_TOP_K = Inr cs"
    and ss: "ss = visible_sources (allowed_tiers tier) cs"
    by (auto simp: resolve_sources_def split: sum.splits list.splits search_exn.splits embed_error.splits)
  obtain p n t where s: "s = (p, n, t)" by (cases s)
  from assms(2) ss obtain c where c: "c \<in> set cs" "rc_access_tier c \<in> allowed_tiers tier"
      "p = rc_source_path c" "n = rc_ord c" "t = rc_text c"
    unfolding s ss visible_sources_iff[OF allowed_known] by blast
  from search_rows[OF cs c(1)] c(2-5) show ?thesis unfolding visible_row_def s by force
qed

lemma gather_map: "gather (map f xs) = Inr ys \<Longrightarrow> map Inr ys = map f xs"
  by (induction xs arbitrary: ys) (auto split: sum.splits)

lemma length_run_panel: "run_panel env claim ss = Inr outcomes \<Longrightarrow> length outcomes = 3"
proof -
  assume "run_panel env claim ss = Inr outcomes"
  then have "map Inr outcomes = map (run_judge env claim ss) JUDGE_LENSES"
    unfolding run_panel_def by (rule gather_map)
  from arg_cong[OF this, of length] show ?thesis by (simp add: JUDGE_LENSES_def)
qed

definition votes :: "verdict \<Rightarrow> (verdict \<times> pystr) list \<Rightarrow> nat" where
  "votes v outcomes = length (filter (\<lambda>p. fst p = v) outcomes)"

lemma aggregate_loop_cases:
  "aggregate_loop vs outcomes = (v, reason, majority) \<Longrightarrow>
     (if majority then 2 \<le> votes v outcomes else v = Unclear \<and> (\<forall>u\<in>set vs. votes u outcomes < 2))"
proof (induction vs)
  case (Cons c vs)
  then show ?case
    by (cases "2 \<le> votes c outcomes")
      (auto simp: MAJORITY_THRESHOLD_def reasons_for_def votes_def split: if_splits)
qed simp

lemma aggregate_verdict:
  assumes "aggregate_verdicts outcomes = (v, reason, majority)"
  shows "if majority then 2 \<le> votes v outcomes else v = Unclear \<and> (\<forall>u. votes u outcomes < 2)"
proof -
  have "u \<in> set [Contradiction, Absent, Present, Unclear]" for u by (cases u) simp_all
  with aggregate_loop_cases[OF assms[unfolded aggregate_verdicts_def]] show ?thesis by (metis (full_types))
qed

text \<open>Two different verdicts cannot both have two of three votes.\<close>

lemma votes_unique:
  assumes "2 \<le> votes u outcomes" "2 \<le> votes v outcomes" "length outcomes = 3" shows "u = v"
proof (rule ccontr)
  assume "u \<noteq> v"
  then have "votes u outcomes + votes v outcomes = length (filter (\<lambda>p. fst p = u \<or> fst p = v) outcomes)"
    unfolding votes_def by (induction outcomes) auto
  also have "\<dots> \<le> length outcomes" by simp
  finally show False using assms by simp
qed

lemma aligned_window:
  assumes s: "sublist s body" and len: "47 \<le> length s"
  shows "\<exists>start\<in>set (window_starts body). sublist (take MIN_LEAK_SUBSTR_CHARS (drop start body)) s"
proof -
  obtain pre post where body: "body = pre @ s @ post" using s by (auto simp: sublist_def)
  define i where "i = (length pre + 23) div 24"
  have i: "length pre \<le> i * 24" "i * 24 < length pre + 24" unfolding i_def by linarith+
  have "i < length body div 24"
  proof -
    have "(i + 1) * 24 \<le> length body" using i len body by simp
    then have "i + 1 \<le> length body div 24" by (simp add: less_eq_div_iff_mult_less_eq)
    then show ?thesis by simp
  qed
  then have "i * 24 \<in> set (window_starts body)" by (auto simp: window_starts_def MIN_LEAK_SUBSTR_CHARS_def)
  moreover have "take MIN_LEAK_SUBSTR_CHARS (drop (i * 24) body) = take 24 (drop (i * 24 - length pre) s)"
    using i len body by (simp add: MIN_LEAK_SUBSTR_CHARS_def)
  moreover have "sublist (take 24 (drop (i * 24 - length pre) s)) s"
    by (meson sublist_drop sublist_order.order_trans sublist_take)
  ultimately show ?thesis by (metis (no_types))
qed

lemma leak_at_iff: "leak_at body reason starts \<longleftrightarrow>
    (\<exists>start\<in>set starts. sublist (take MIN_LEAK_SUBSTR_CHARS (drop start body)) reason)"
  by (induction starts) auto

lemma redact_loop_cases:
  "redact_loop lower reason v ss = safe_reason_of v \<or>
   redact_loop lower reason v ss = reason \<and>
     (\<forall>(p, n, body)\<in>set ss. MIN_LEAK_SUBSTR_CHARS \<le> length body \<longrightarrow>
        \<not> leak_at (lower body) (lower reason) (window_starts (lower body)))"
  by (induction lower reason v ss rule: redact_loop.induct) auto

lemma redact_reason_no_leak:
  assumes "(p, n, body) \<in> set ss" "24 \<le> length body" "sublist s (lower body)" "47 \<le> length s"
    "sublist s (lower (redact_reason lower reason v ss))"
  shows "redact_reason lower reason v ss = safe_reason_of v"
proof (rule ccontr)
  assume "redact_reason lower reason v ss \<noteq> safe_reason_of v"
  with redact_loop_cases[of lower reason v ss] assms(1,2)
  have kept: "redact_reason lower reason v ss = reason" "\<not> leak_at (lower body) (lower reason) (window_starts (lower body))"
    by (auto simp: redact_reason_def MIN_LEAK_SUBSTR_CHARS_def)
  from aligned_window[OF assms(3,4)] obtain start where "start \<in> set (window_starts (lower body))"
    "sublist (take MIN_LEAK_SUBSTR_CHARS (drop start (lower body))) s" by blast
  with kept assms(5) show False unfolding leak_at_iff by (metis sublist_order.order_trans)
qed

lemma create_or_increment_returns: "\<exists>t d'. create_or_increment env d cid q jnp force = (Inr t, d')"
  by (cases rule: create_or_increment_cases[of env d cid q jnp force]) auto

lemma judge_claim_reason:
  assumes "judge_claim env d claim cid ss force = (Inr res, d')"
  shows "\<exists>reason. vr_reason res = redact_reason (pn_lower env) reason (vr_verdict res) ss"
  using assms
  by (auto simp: judge_claim_def with_ticket_def Let_def split: sum.splits prod.splits if_splits)

lemma judge_claim_eq:
  assumes "run_panel env claim ss = Inr outcomes" "aggregate_verdicts outcomes = (v, reason, majority)"
  shows "judge_claim env d claim cid ss force =
    (if majority \<and> v \<in> TICKET_TRIGGERING_VERDICTS
     then with_ticket v (redact_reason (pn_lower env) reason v ss) True (create_or_increment (pn_ticket_env env) d cid claim False False)
     else if force
     then with_ticket v (redact_reason (pn_lower env) reason v ss) False (create_or_increment (pn_ticket_env env) d cid claim True True)
     else (Inr \<lparr>vr_verdict = v, vr_reason = redact_reason (pn_lower env) reason v ss, vr_ticket_action = NotRaised,
               vr_ticket_id = None, vr_outcome = derive_outcome v False\<rparr>, d))"
  unfolding judge_claim_def assms by (simp add: Let_def assms(2))

lemma with_ticket_Inr:
  "with_ticket v reason b (Inr t, d') =
     (Inr \<lparr>vr_verdict = v, vr_reason = reason, vr_ticket_action = Ticketed (tr_action t),
           vr_ticket_id = tr_ticket_id t, vr_outcome = derive_outcome v b\<rparr>, d')"
  by (simp add: with_ticket_def)

lemma judge_claim_returns:
  assumes "run_panel env claim ss = Inr outcomes"
  shows "\<exists>res d'. judge_claim env d claim cid ss force = (Inr res, d')"
proof -
  obtain v reason majority where agg: "aggregate_verdicts outcomes = (v, reason, majority)" by (metis prod_cases3)
  obtain t1 d1 where c1: "create_or_increment (pn_ticket_env env) d cid claim False False = (Inr t1, d1)"
    using create_or_increment_returns by blast
  obtain t2 d2 where c2: "create_or_increment (pn_ticket_env env) d cid claim True True = (Inr t2, d2)"
    using create_or_increment_returns by blast
  show ?thesis unfolding judge_claim_eq[OF assms agg] c1 c2 with_ticket_Inr by simp
qed

lemma verify_judged:
  assumes "resolve_sources env co citations tier claim = Inr (Some ss)" "ss \<noteq> []"
  shows "verify_contradiction env co d claim cid citations tier force = judge_claim env d claim cid ss force"
  using assms by (simp add: verify_contradiction_def)

section \<open>Properties\<close>

text \<open>C34: The sources the judges see are rows of the trusted corpus the caller's tier may read. For a request
  with citations they are exactly the visible rows among the cited (path, ord) pairs: the client supplies
  references, never text.\<close>

theorem panel_sources_visible:
  assumes "resolve_sources env co citations tier claim = Inr (Some ss)"
  shows "list_all (visible_row co tier) ss
    \<and> (citations = [] \<or> set ss = {s. visible_row co tier s \<and> (fst s, fst (snd s)) \<in> wanted citations})"
proof (cases citations)
  case Nil
  with assms show ?thesis using resolve_retrieved_visible by (auto simp: list_all_iff)
next
  case (Cons c cs)
  with assms have "resolve_cited_sources env co citations tier = Inr ss"
    by (auto simp: resolve_sources_def split: sum.splits)
  from resolve_cited_iff[OF this] show ?thesis by (auto simp: list_all_iff)
qed


text \<open>C35: The emitted reason does not quote the archives: it is the fixed sentence of the verdict, or no 47
  consecutive characters of a lowered source body of at least 24 characters occur in the lowered reason.
  The bound is the one the windows at multiples of 24 give.\<close>

theorem panel_reason_no_leak:
  assumes "verify_contradiction env co d claim cid citations tier force = (Inr res, d')"
    and "resolve_sources env co citations tier claim = Inr (Some ss)" "ss \<noteq> []"
  shows "vr_reason res = safe_reason_of (vr_verdict res)
    \<or> \<not> (\<exists>p n body s. (p, n, body) \<in> set ss \<and> 24 \<le> length body \<and> 47 \<le> length s
          \<and> sublist s (pn_lower env body) \<and> sublist s (pn_lower env (vr_reason res)))"
proof -
  obtain reason where r: "vr_reason res = redact_reason (pn_lower env) reason (vr_verdict res) ss"
    using assms judge_claim_reason by (metis verify_judged)
  show ?thesis unfolding r using redact_reason_no_leak[where lower = "pn_lower env"] by blast
qed

definition sample_body :: pystr where
  "sample_body = replicate 48 97"

definition sample_lore :: corpus where
  "sample_lore =
     \<lparr>co_documents = [\<lparr>dr_id = lit ''d'', dr_source_path = lit ''a.md'', dr_title = [], dr_tags = [],
         dr_access_tier = lit ''members'', dr_content_hash = []\<rparr>],
      co_chunks = [\<lparr>cr_id = lit ''x'', cr_document_id = lit ''d'', cr_ord = 0, cr_text = sample_body, cr_embedding = sample_vec 1\<rparr>,
        \<lparr>cr_id = lit ''y'', cr_document_id = lit ''d'', cr_ord = 1, cr_text = lit ''u'', cr_embedding = sample_vec 2\<rparr>]\<rparr>"

definition sample_citations :: "citation_ref list" where
  "sample_citations = [\<lparr>cf_source_path = lit ''a.md'', cf_chunk_ords = [0, 7]\<rparr>]"

definition sample_panel_env :: panel_env where
  "sample_panel_env = \<lparr>pn_collate = id, pn_resolve_fault = None, pn_encode = (\<lambda>ts n. Inr []), pn_distance = (\<lambda>x y. 0),
     pn_search_fault = None,
     pn_chat = (\<lambda>ms. ChatReply \<lparr>ai_content = CStr (lit ''ABSENT'' @ 10 # sample_body), ai_usage_metadata = [], ai_response_metadata = []\<rparr>),
     pn_word = ascii_word, pn_lower = id, pn_ticket_env = sample_ticket_env\<rparr>"

lemma sample_panel_sources:
  "resolve_sources sample_panel_env sample_lore sample_citations (lit ''members'') claim = Inr (Some [(lit ''a.md'', 0, sample_body)])"
proof -
  have j: "joined sample_lore = [(co_chunks sample_lore ! 0, co_documents sample_lore ! 0), (co_chunks sample_lore ! 1, co_documents sample_lore ! 0)]"
    by (simp add: joined_def find_document_def sample_lore_def map_filter_simps)
  have "allowed_tiers (lit ''members'') = {lit ''public'', lit ''members''}" by (simp add: tier_simps)
  then show ?thesis
    by (simp add: resolve_sources_def resolve_cited_sources_def resolve_rows_def j wanted_def sample_citations_def
        sample_panel_env_def) (simp add: sample_lore_def)
qed

lemma sample_panel_votes:
  "run_panel sample_panel_env claim ss = Inr [(Absent, sample_body), (Absent, sample_body), (Absent, sample_body)]"
proof -
  have "parse_verdict ascii_word (lit ''ABSENT'' @ 10 # sample_body) = Some (Absent, sample_body)"
    by (rule parse_verdict_formatted)
      (simp_all add: TOKEN_TO_VERDICT_def lit_def ascii_word_def is_reason_trim_def py_space_def sample_body_def)
  then show ?thesis
    by (simp add: run_panel_def JUDGE_LENSES_def run_judge_def sample_panel_env_def llm_invoke_def)
qed

theorem panel_sources_visible_witness:
  "list_all (visible_row sample_lore (lit ''members'')) [(lit ''a.md'', 0, sample_body)]"
  using panel_sources_visible[OF sample_panel_sources] by blast


theorem panel_reason_no_leak_witness:
  "\<exists>res d'. verify_contradiction sample_panel_env sample_lore sample_ticket_db (lit ''q'') (lit ''c1'')
      sample_citations (lit ''members'') False = (Inr res, d')
    \<and> (vr_reason res = safe_reason_of (vr_verdict res) \<or> \<not> sublist (replicate 47 97) (vr_reason res))"
proof -
  obtain res d' where v: "verify_contradiction sample_panel_env sample_lore sample_ticket_db (lit ''q'') (lit ''c1'')
      sample_citations (lit ''members'') False = (Inr res, d')"
    unfolding verify_judged[OF sample_panel_sources list.distinct(2)] using judge_claim_returns[OF sample_panel_votes] by blast
  have split: "sample_body = replicate 47 97 @ [97]" by (simp add: sample_body_def numeral_eq_Suc)
  have body: "24 \<le> length sample_body" "sublist (replicate 47 97) sample_body"
    unfolding split by (simp, rule sublist_append_rightI)
  show ?thesis
    using panel_reason_no_leak[OF v sample_panel_sources list.distinct(2)] v body
    by (auto simp: sample_panel_env_def)
qed

text \<open>A quote of 46 characters between two window boundaries is not seen.\<close>

lemma redact_reason_misses: "redact_reason id (take 46 (drop 1 (lit ''abcdefghijklmnopqrstuvwxyzABCDEFGHIJKLMNOPQRSTUVWXYZ''))) Present
    [(lit ''a.md'', 0, lit ''abcdefghijklmnopqrstuvwxyzABCDEFGHIJKLMNOPQRSTUVWXYZ'')]
    = take 46 (drop 1 (lit ''abcdefghijklmnopqrstuvwxyzABCDEFGHIJKLMNOPQRSTUVWXYZ''))"
  by (simp add: redact_reason_def MIN_LEAK_SUBSTR_CHARS_def window_starts_def lit_def upt_rec[of _ 2] sublist_Cons_right)

text \<open>A forced request whose sources cannot be read raises no ticket.\<close>

lemma force_without_sources:
  "resolve_sources env co citations tier claim \<in> {Inr None, Inr (Some [])} \<Longrightarrow>
   verify_contradiction env co d claim cid citations tier True = (Inr NO_SOURCES_RESULT, d)"
  by (auto simp: verify_contradiction_def)

end
