(* ===== verification/Frontmatter.thy ===== *)
theory Frontmatter
  imports Acl
begin

text \<open>
  \<open>workers/.../ingest/frontmatter.py\<close> and \<open>normalize.py\<close>: the head of a Markdown file, its validation and
  the normalisation of the body. The YAML loader, the Unicode normal form and the digest are parameters.
\<close>

section \<open>Splitting\<close>

text \<open>\<open>\\r?\\n\<close> at the head of a text.\<close>

fun eat_newline :: "pystr \<Rightarrow> pystr option" where
  "eat_newline (c # cs) =
     (if c = 10 then Some cs
      else if c = 13 then (case cs of d # ds \<Rightarrow> if d = 10 then Some ds else None | [] \<Rightarrow> None)
      else None)"
| "eat_newline [] = None"

definition DASHES :: pystr where
  "DASHES = [45, 45, 45]"

definition eat_dashes :: "pystr \<Rightarrow> pystr option" where
  "eat_dashes s = (if take 3 s = DASHES then Some (drop 3 s) else None)"

text \<open>\<open>\\r?\\n---\\r?\\n\<close>, the closing delimiter.\<close>

definition close_at :: "pystr \<Rightarrow> pystr option" where
  "close_at s = Option.bind (eat_newline s) (\<lambda>r. Option.bind (eat_dashes r) eat_newline)"

text \<open>\<open>(.*?)\<close> up to the first closing delimiter, then the rest.\<close>

fun scan_block :: "pystr \<Rightarrow> (pystr \<times> pystr) option" where
  "scan_block [] = None"
| "scan_block (c # cs) =
     (case close_at (c # cs) of
        Some body \<Rightarrow> Some ([], body)
      | None \<Rightarrow> map_option (\<lambda>p. (c # fst p, snd p)) (scan_block cs))"

definition split_frontmatter :: "pystr \<Rightarrow> (pystr \<times> pystr) option" where
  "split_frontmatter raw = Option.bind (Option.bind (eat_dashes raw) eat_newline) scan_block"

section \<open>Validation\<close>

text \<open>What the loader returns: a mapping by its string keys; every other scalar, a set included, is \<open>YOther\<close>.\<close>

datatype yaml_value = YStr pystr | YSeq "yaml_value list" | YMap "(pystr \<times> yaml_value) list" | YOther

datatype fm_reason = MissingDelimiters | InvalidYaml | NotMapping | TitleRequired | TagsNotStrings | BadTier

text \<open>An unhashable tier raises past the validation: TypeError.\<close>

datatype fm_error = FrontmatterError fm_reason | TierTypeError

record frontmatter =
  fm_title :: pystr
  fm_tags :: "pystr list"
  fm_access_tier :: pystr

definition ALLOWED_ACCESS_TIERS :: "pystr set" where
  "ALLOWED_ACCESS_TIERS = {lit ''public'', lit ''members'', lit ''author_only''}"

definition DEFAULT_ACCESS_TIER :: pystr where
  "DEFAULT_ACCESS_TIER = lit ''public''"

fun strings_of :: "yaml_value list \<Rightarrow> pystr list option" where
  "strings_of [] = Some []"
| "strings_of (YStr s # vs) = map_option (Cons s) (strings_of vs)"
| "strings_of (_ # vs) = None"

definition tags_of :: "yaml_value option \<Rightarrow> pystr list option" where
  "tags_of v = (case v of None \<Rightarrow> Some [] | Some (YSeq vs) \<Rightarrow> strings_of vs | Some _ \<Rightarrow> None)"

definition tier_of :: "yaml_value option \<Rightarrow> fm_error + pystr" where
  "tier_of v =
     (case v of
        None \<Rightarrow> Inr DEFAULT_ACCESS_TIER
      | Some (YStr s) \<Rightarrow> (if s \<in> ALLOWED_ACCESS_TIERS then Inr s else Inl (FrontmatterError BadTier))
      | Some YOther \<Rightarrow> Inl (FrontmatterError BadTier)
      | Some _ \<Rightarrow> Inl TierTypeError)"

definition build_frontmatter :: "(pystr \<times> yaml_value) list \<Rightarrow> fm_error + frontmatter" where
  "build_frontmatter data =
     (case map_of data (lit ''title'') of
        Some (YStr title) \<Rightarrow>
          if py_strip title = [] then Inl (FrontmatterError TitleRequired)
          else (case tags_of (map_of data (lit ''tags'')) of
                  None \<Rightarrow> Inl (FrontmatterError TagsNotStrings)
                | Some tags \<Rightarrow>
                    (case tier_of (map_of data (lit ''access_tier'')) of
                       Inl e \<Rightarrow> Inl e
                     | Inr tier \<Rightarrow> Inr \<lparr>fm_title = title, fm_tags = tags, fm_access_tier = tier\<rparr>))
      | _ \<Rightarrow> Inl (FrontmatterError TitleRequired))"

text \<open>\<open>safe_load\<close> gives None on a YAMLError.\<close>

definition parse_frontmatter :: "(pystr \<Rightarrow> yaml_value option) \<Rightarrow> pystr \<Rightarrow> fm_error + frontmatter \<times> pystr" where
  "parse_frontmatter safe_load raw =
     (case split_frontmatter raw of
        None \<Rightarrow> Inl (FrontmatterError MissingDelimiters)
      | Some (yaml_block, body) \<Rightarrow>
          (case safe_load yaml_block of
             None \<Rightarrow> Inl (FrontmatterError InvalidYaml)
           | Some (YMap data) \<Rightarrow> (case build_frontmatter data of Inl e \<Rightarrow> Inl e | Inr fm \<Rightarrow> Inr (fm, body))
           | Some _ \<Rightarrow> Inl (FrontmatterError NotMapping)))"

section \<open>Normalisation\<close>

definition is_stripped_control :: "nat \<Rightarrow> bool" where
  "is_stripped_control c \<longleftrightarrow> c \<le> 31 \<or> c = 127"

definition normalize_body :: "(pystr \<Rightarrow> pystr) \<Rightarrow> pystr \<Rightarrow> pystr" where
  "normalize_body nfkc text = filter (\<lambda>c. c \<in> {10, 9} \<or> \<not> is_stripped_control c) (nfkc text)"

text \<open>None is the UnicodeEncodeError of a lone surrogate.\<close>

definition compute_content_hash :: "(bytes \<Rightarrow> pystr) \<Rightarrow> pystr \<Rightarrow> pystr option" where
  "compute_content_hash sha256_hex body = map_option sha256_hex (py_encode body)"

section \<open>Lemmas\<close>

text \<open>A file as it is written: the block between two delimiter lines, then the body.\<close>

definition render_frontmatter :: "pystr \<Rightarrow> pystr \<Rightarrow> pystr" where
  "render_frontmatter block body = DASHES @ 10 # block @ 10 # DASHES @ 10 # body"

text \<open>No line of the block opens with three dashes and it does not end in a carriage return.\<close>

definition plain_block :: "pystr \<Rightarrow> bool" where
  "plain_block block \<longleftrightarrow> (\<forall>i. take 4 (drop i block) \<noteq> 10 # DASHES) \<and> (block = [] \<or> last block \<noteq> 13)"

lemma close_at_closing: "close_at (10 # DASHES @ 10 # body) = Some body"
  by (simp add: close_at_def eat_dashes_def DASHES_def)

lemma plain_block_Cons: "plain_block (c # cs) \<Longrightarrow> plain_block cs"
  by (auto simp: plain_block_def) (metis drop_Suc_Cons)+

lemma eat_dashes_open:
  assumes "take 3 ds \<noteq> DASHES" shows "eat_dashes (ds @ 10 # rest) = None"
proof (cases "3 \<le> length ds")
  case True
  with assms show ?thesis by (simp add: eat_dashes_def)
next
  case False
  then have "take 3 (ds @ 10 # rest) ! length ds = (ds @ 10 # rest) ! length ds" by (intro nth_take) simp
  then have "take 3 (ds @ 10 # rest) ! length ds = 10" by simp
  moreover have "DASHES ! length ds = 45" using False by (auto simp: DASHES_def less_Suc_eq numeral_3_eq_3 not_le)
  ultimately show ?thesis by (auto simp: eat_dashes_def)
qed

lemma plain_block_line: "plain_block (10 # cs) \<Longrightarrow> take 3 cs \<noteq> DASHES"
  unfolding plain_block_def by (metis drop0 numeral_eq_Suc pred_numeral_simps(2) semiring_norm(26,27) take_Suc_Cons)

lemma plain_block_line_free: "10 \<notin> set block \<Longrightarrow> 13 \<notin> set block \<Longrightarrow> plain_block block"
  unfolding plain_block_def by (metis in_set_dropD in_set_takeD last_in_set list.set_intros(1))

lemma close_at_open:
  assumes "plain_block (c # cs)" shows "close_at ((c # cs) @ 10 # rest) = None"
proof -
  consider "c = 10" | d ds where "c = 13" "cs = d # ds" "d = 10" | "c \<noteq> 10" "\<forall>ds. \<not> (c = 13 \<and> cs = 10 # ds)"
    by (cases cs) auto
  then show ?thesis
  proof cases
    case 1
    with assms plain_block_line show ?thesis by (simp add: close_at_def eat_dashes_open)
  next
    case 2
    with assms plain_block_Cons plain_block_line show ?thesis by (simp add: close_at_def eat_dashes_open)
  next
    case 3
    moreover have "cs \<noteq> []" if "c = 13" using assms that by (auto simp: plain_block_def)
    ultimately show ?thesis by (cases cs) (auto simp: close_at_def)
  qed
qed

lemma scan_block_plain: "plain_block block \<Longrightarrow> scan_block (block @ 10 # DASHES @ 10 # body) = Some (block, body)"
proof (induction block)
  case Nil
  then show ?case by (simp add: close_at_closing)
next
  case (Cons c cs)
  with plain_block_Cons close_at_open[of c cs "DASHES @ 10 # body"] show ?case by simp
qed

lemma split_render: "plain_block block \<Longrightarrow> split_frontmatter (render_frontmatter block body) = Some (block, body)"
  using scan_block_plain[of block body]
  by (simp add: split_frontmatter_def render_frontmatter_def eat_dashes_def DASHES_def)

lemma build_frontmatter_tier: "build_frontmatter data = Inr fm \<Longrightarrow> fm_access_tier fm \<in> KNOWN_TIERS"
  by (auto simp: build_frontmatter_def tier_of_def ALLOWED_ACCESS_TIERS_def DEFAULT_ACCESS_TIER_def KNOWN_TIERS_def
      split: option.splits yaml_value.splits sum.splits if_splits)

lemma parse_frontmatter_tier: "parse_frontmatter safe_load raw = Inr (fm, body) \<Longrightarrow> fm_access_tier fm \<in> KNOWN_TIERS"
  by (auto simp: parse_frontmatter_def split: option.splits prod.splits yaml_value.splits sum.splits dest: build_frontmatter_tier)

lemma normalize_body_clean: "c \<in> set (normalize_body nfkc text) \<Longrightarrow> 32 \<le> c \<and> c \<noteq> 127 \<or> c \<in> {9, 10}"
  by (auto simp: normalize_body_def is_stripped_control_def)

section \<open>Properties\<close>

text \<open>A file written with a frontmatter block between two delimiter lines is split back into exactly that
  block and that body, whatever the body contains, when no line of the block opens with three dashes and
  the block does not end in a carriage return: the first delimiter after the head closes the block.\<close>

theorem frontmatter_roundtrip:
  assumes "plain_block block" "safe_load block = Some (YMap data)" "build_frontmatter data = Inr fm"
  shows "parse_frontmatter safe_load (render_frontmatter block body) = Inr (fm, body)"
  using assms by (simp add: parse_frontmatter_def split_render)

theorem frontmatter_roundtrip_witness:
  "parse_frontmatter (\<lambda>_. Some (YMap [(lit ''title'', YStr (lit ''T''))])) (render_frontmatter (lit ''title: T'') (10 # DASHES @ [10]))
     = Inr (\<lparr>fm_title = lit ''T'', fm_tags = [], fm_access_tier = lit ''public''\<rparr>, 10 # DASHES @ [10])"
proof (rule frontmatter_roundtrip)
  show "plain_block (lit ''title: T'')" by (rule plain_block_line_free) (simp_all add: lit_def)
next
  show "build_frontmatter [(lit ''title'', YStr (lit ''T''))] = Inr \<lparr>fm_title = lit ''T'', fm_tags = [], fm_access_tier = lit ''public''\<rparr>"
    by (simp add: build_frontmatter_def tags_of_def tier_of_def DEFAULT_ACCESS_TIER_def py_eval)
qed simp

end
