(* ===== verification/Paths.thy ===== *)
theory Paths
  imports Prelude
begin

text \<open>
  Paths of the file system as the sources use them through \<open>pathlib\<close>: lists of components, in a tree
  without symbolic links.
\<close>

text \<open>A resolved path as its components below the root of the file system.\<close>

type_synonym path = "pystr list"

text \<open>The components of a text: empty and single-dot ones vanish when a path is built from it.\<close>

definition path_parts :: "pystr \<Rightarrow> path" where
  "path_parts s = filter (\<lambda>p. p \<noteq> [] \<and> p \<noteq> [46]) (split_on 47 s)"

text \<open>\<open>base / s\<close>: an absolute text replaces the base.\<close>

definition join_path :: "path \<Rightarrow> pystr \<Rightarrow> path" where
  "join_path base s = (if take 1 s = [47] then path_parts s else base @ path_parts s)"

text \<open>\<open>resolve\<close>: empty and single-dot components vanish, a double dot goes up.\<close>

fun walk :: "path \<Rightarrow> pystr list \<Rightarrow> path" where
  "walk cwd [] = cwd"
| "walk cwd (p # ps) =
     (if p = [] \<or> p = [46] then walk cwd ps
      else if p = [46, 46] then walk (butlast cwd) ps
      else walk (cwd @ [p]) ps)"

definition resolve_path :: "path \<Rightarrow> path" where
  "resolve_path p = walk [] p"

definition is_relative_to :: "path \<Rightarrow> path \<Rightarrow> bool" where
  "is_relative_to p base \<longleftrightarrow> take (length base) p = base"

definition plain_component :: "pystr \<Rightarrow> bool" where
  "plain_component p \<longleftrightarrow> p \<noteq> [] \<and> p \<noteq> [46] \<and> p \<noteq> [46, 46]"

lemma walk_plain: "list_all plain_component ps \<Longrightarrow> walk cwd ps = cwd @ ps"
  by (induction cwd ps rule: walk.induct) (auto simp: plain_component_def)

lemma join_path_plain: "plain_component s \<Longrightarrow> 47 \<notin> set s \<Longrightarrow> join_path base s = base @ [s]"
  by (cases s) (auto simp: join_path_def path_parts_def split_on_id plain_component_def)

lemma resolve_plain: "list_all plain_component p \<Longrightarrow> resolve_path p = p"
  by (simp add: resolve_path_def walk_plain)

lemma is_relative_to_append [simp]: "is_relative_to (base @ p) base"
  by (simp add: is_relative_to_def)

end
