(* ===== verification/Ingest.thy ===== *)
theory Ingest
  imports Frontmatter Retrieval Paths
begin

text \<open>
  \<open>workers/.../ingest\<close>: the persistence of a document with its chunks (\<open>repository.py\<close>), the pipeline of
  one file (\<open>pipeline.py\<close>), the run over a tree of files (\<open>cli.py\<close>) and the download of the corpus
  (\<open>download_corpus.py\<close>). The text splitter, the embedder, the file system and the generated identifiers
  are parameters.
\<close>

section \<open>Persistence\<close>

record document_record =
  do_source_path :: pystr
  do_title :: pystr
  do_tags :: "pystr list"
  do_access_tier :: pystr
  do_content_hash :: pystr

record chunk_record =
  ck_ord :: int
  ck_text :: pystr
  ck_embedding :: vec

record existing_document =
  ex_id :: pystr
  ex_content_hash :: pystr

record ingest_env =
  ig_new_document_id :: pystr
  ig_new_chunk_id :: "nat \<Rightarrow> pystr"
  ig_fetch_fault :: "db_exn option"
  ig_write_fault :: "db_exn option"
  ig_safe_load :: "pystr \<Rightarrow> yaml_value option"
  ig_nfkc :: "pystr \<Rightarrow> pystr"
  ig_sha256_hex :: "bytes \<Rightarrow> pystr"
  ig_split_text :: "pystr \<Rightarrow> pystr list"
  ig_encode :: "pystr list \<Rightarrow> int \<Rightarrow> embed_error + vec list"
  ig_batch_size :: int

definition find_by_path :: "corpus \<Rightarrow> pystr \<Rightarrow> document_row option" where
  "find_by_path co path = List.find (\<lambda>r. dr_source_path r = path) (co_documents co)"

definition fetch_existing :: "ingest_env \<Rightarrow> corpus \<Rightarrow> pystr \<Rightarrow> db_exn + existing_document option" where
  "fetch_existing env co path =
     (case ig_fetch_fault env of
        Some e \<Rightarrow> Inl e
      | None \<Rightarrow> Inr (map_option (\<lambda>r. \<lparr>ex_id = dr_id r, ex_content_hash = dr_content_hash r\<rparr>) (find_by_path co path)))"

definition new_chunk_row :: "ingest_env \<Rightarrow> pystr \<Rightarrow> nat \<times> chunk_record \<Rightarrow> chunk_row" where
  "new_chunk_row env document_id p =
     \<lparr>cr_id = ig_new_chunk_id env (fst p), cr_document_id = document_id, cr_ord = ck_ord (snd p),
      cr_text = ck_text (snd p), cr_embedding = ck_embedding (snd p)\<rparr>"

definition new_chunk_rows :: "ingest_env \<Rightarrow> pystr \<Rightarrow> chunk_record list \<Rightarrow> chunk_row list" where
  "new_chunk_rows env document_id chunks = map (new_chunk_row env document_id) (List.enumerate 0 chunks)"

text \<open>The constraints of the table: identifiers and (document, ord) pairs are unique, vectors have the width.\<close>

definition chunk_rows_ok :: "chunk_row list \<Rightarrow> bool" where
  "chunk_rows_ok rows \<longleftrightarrow> distinct (map cr_id rows) \<and> distinct (map (\<lambda>c. (cr_document_id c, cr_ord c)) rows)
     \<and> list_all (\<lambda>c. length (cr_embedding c) = EMBEDDING_DIM) rows"

definition insert_chunks :: "ingest_env \<Rightarrow> corpus \<Rightarrow> pystr \<Rightarrow> chunk_record list \<Rightarrow> db_exn + corpus" where
  "insert_chunks env co document_id chunks =
     (if chunks = [] then Inr co
      else let rows = co_chunks co @ new_chunk_rows env document_id chunks
           in if document_id \<notin> dr_id ` set (co_documents co) then Inl ForeignKeyViolationError
              else if chunk_rows_ok rows then Inr (co\<lparr>co_chunks := rows\<rparr>) else Inl PostgresError)"

definition new_document_row :: "pystr \<Rightarrow> document_record \<Rightarrow> document_row" where
  "new_document_row i doc = \<lparr>dr_id = i, dr_source_path = do_source_path doc, dr_title = do_title doc,
     dr_tags = do_tags doc, dr_access_tier = do_access_tier doc, dr_content_hash = do_content_hash doc\<rparr>"

text \<open>One transaction: a refused statement or an outside failure leaves the tables as they were.\<close>

definition insert_document_with_chunks ::
  "ingest_env \<Rightarrow> corpus \<Rightarrow> document_record \<Rightarrow> chunk_record list \<Rightarrow> db_exn + corpus" where
  "insert_document_with_chunks env co doc chunks =
     (case ig_write_fault env of
        Some e \<Rightarrow> Inl e
      | None \<Rightarrow>
          let i = ig_new_document_id env
          in if i \<in> dr_id ` set (co_documents co) \<or> do_source_path doc \<in> dr_source_path ` set (co_documents co)
             then Inl UniqueViolationError
             else if do_access_tier doc \<notin> KNOWN_TIERS then Inl PostgresError
             else insert_chunks env (co\<lparr>co_documents := co_documents co @ [new_document_row i doc]\<rparr>) i chunks)"

definition refresh_row :: "pystr \<Rightarrow> document_record \<Rightarrow> document_row \<Rightarrow> document_row" where
  "refresh_row i doc r =
     (if dr_id r = i
      then r\<lparr>dr_title := do_title doc, dr_tags := do_tags doc, dr_access_tier := do_access_tier doc,
             dr_content_hash := do_content_hash doc\<rparr>
      else r)"

definition update_document_replace_chunks ::
  "ingest_env \<Rightarrow> corpus \<Rightarrow> pystr \<Rightarrow> document_record \<Rightarrow> chunk_record list \<Rightarrow> db_exn + corpus" where
  "update_document_replace_chunks env co i doc chunks =
     (case ig_write_fault env of
        Some e \<Rightarrow> Inl e
      | None \<Rightarrow>
          if i \<in> dr_id ` set (co_documents co) \<and> do_access_tier doc \<notin> KNOWN_TIERS then Inl PostgresError
          else insert_chunks env
                 \<lparr>co_documents = map (refresh_row i doc) (co_documents co),
                  co_chunks = filter (\<lambda>c. cr_document_id c \<noteq> i) (co_chunks co)\<rparr> i chunks)"

section \<open>One file\<close>

definition MAX_FILE_SIZE_BYTES :: int where
  "MAX_FILE_SIZE_BYTES = 1 * 1024 * 1024"

datatype process_status = INSERTED | UPDATED | SKIPPED_STATUS | ERROR_STATUS

text \<open>The reason without the text of the exception it quotes.\<close>

datatype process_reason =
  NoReason | StatFailed | TooLarge | ReadFailed | BadFrontmatter fm_reason | UnchangedReason | DbErrorReason

record process_result =
  pr_relative_path :: pystr
  pr_status :: process_status
  pr_chunks_count :: nat
  pr_reason :: process_reason

text \<open>What \<open>process_file\<close> lets through: its caller has no handler for it.\<close>

datatype ingest_exn = IngestDb db_exn | IngestEmbed embed_error | IngestZipError | IngestTierError | IngestEncodeError

definition error_result :: "pystr \<Rightarrow> process_reason \<Rightarrow> process_result" where
  "error_result relative why =
     \<lparr>pr_relative_path = relative, pr_status = ERROR_STATUS, pr_chunks_count = 0, pr_reason = why\<rparr>"

definition build_chunk_records :: "ingest_env \<Rightarrow> pystr \<Rightarrow> ingest_exn + chunk_record list" where
  "build_chunk_records env normalized =
     (let texts = ig_split_text env normalized
      in if texts = [] then Inr []
         else case ig_encode env texts (ig_batch_size env) of
                Inl e \<Rightarrow> Inl (IngestEmbed e)
              | Inr embeddings \<Rightarrow>
                  if length embeddings \<noteq> length texts then Inl IngestZipError
                  else Inr (map (\<lambda>(n, t, v). \<lparr>ck_ord = int n, ck_text = t, ck_embedding = v\<rparr>)
                              (List.enumerate 0 (zip texts embeddings))))"

definition write_document ::
  "ingest_env \<Rightarrow> corpus \<Rightarrow> existing_document option \<Rightarrow> document_record \<Rightarrow> chunk_record list
    \<Rightarrow> db_exn + process_status \<times> corpus" where
  "write_document env co existing doc chunks =
     (case existing of
        None \<Rightarrow> map_sum id (Pair INSERTED) (insert_document_with_chunks env co doc chunks)
      | Some ex \<Rightarrow> map_sum id (Pair UPDATED) (update_document_replace_chunks env co (ex_id ex) doc chunks))"

definition persist ::
  "ingest_env \<Rightarrow> corpus \<Rightarrow> pystr \<Rightarrow> frontmatter \<Rightarrow> pystr \<Rightarrow> pystr \<Rightarrow> (ingest_exn + process_result) \<times> corpus" where
  "persist env co relative fm normalized content_hash =
     (let doc = \<lparr>do_source_path = relative, do_title = fm_title fm, do_tags = fm_tags fm,
                 do_access_tier = fm_access_tier fm, do_content_hash = content_hash\<rparr>
      in case fetch_existing env co relative of
           Inl e \<Rightarrow> (Inl (IngestDb e), co)
         | Inr existing \<Rightarrow>
             if map_option ex_content_hash existing = Some content_hash
             then (Inr \<lparr>pr_relative_path = relative, pr_status = SKIPPED_STATUS, pr_chunks_count = 0,
                        pr_reason = UnchangedReason\<rparr>, co)
             else (case build_chunk_records env normalized of
                     Inl e \<Rightarrow> (Inl e, co)
                   | Inr chunks \<Rightarrow>
                       (case write_document env co existing doc chunks of
                          Inl e \<Rightarrow> (if is_postgres_error e then Inr (error_result relative DbErrorReason)
                                    else Inl (IngestDb e), co)
                        | Inr (status, co') \<Rightarrow>
                            (Inr \<lparr>pr_relative_path = relative, pr_status = status,
                                  pr_chunks_count = length chunks, pr_reason = NoReason\<rparr>, co'))))"

text \<open>A file: its size or a failed stat, and its decoded text or a failed read.\<close>

record source_file =
  sf_relative :: pystr
  sf_size :: "int option"
  sf_text :: "pystr option"

definition process_file :: "ingest_env \<Rightarrow> corpus \<Rightarrow> source_file \<Rightarrow> (ingest_exn + process_result) \<times> corpus" where
  "process_file env co f =
     (case sf_size f of
        None \<Rightarrow> (Inr (error_result (sf_relative f) StatFailed), co)
      | Some n \<Rightarrow>
          if MAX_FILE_SIZE_BYTES < n then (Inr (error_result (sf_relative f) TooLarge), co)
          else (case sf_text f of
                  None \<Rightarrow> (Inr (error_result (sf_relative f) ReadFailed), co)
                | Some raw \<Rightarrow>
                    (case parse_frontmatter (ig_safe_load env) raw of
                       Inl (FrontmatterError why) \<Rightarrow> (Inr (error_result (sf_relative f) (BadFrontmatter why)), co)
                     | Inl TierTypeError \<Rightarrow> (Inl IngestTierError, co)
                     | Inr (fm, body) \<Rightarrow>
                         (let normalized = normalize_body (ig_nfkc env) body
                          in case compute_content_hash (ig_sha256_hex env) normalized of
                               None \<Rightarrow> (Inl IngestEncodeError, co)
                             | Some h \<Rightarrow> persist env co (sf_relative f) fm normalized h))))"

section \<open>A run\<close>

record run_counters =
  ru_inserted :: nat
  ru_updated :: nat
  ru_skipped :: nat
  ru_errors :: nat
  ru_results :: "process_result list"

definition NEW_COUNTERS :: run_counters where
  "NEW_COUNTERS = \<lparr>ru_inserted = 0, ru_updated = 0, ru_skipped = 0, ru_errors = 0, ru_results = []\<rparr>"

definition counters_total :: "run_counters \<Rightarrow> nat" where
  "counters_total ru = ru_inserted ru + ru_updated ru + ru_skipped ru + ru_errors ru"

definition record_result :: "run_counters \<Rightarrow> process_result \<Rightarrow> run_counters" where
  "record_result ru0 result =
     (let ru = ru0\<lparr>ru_results := ru_results ru0 @ [result]\<rparr>
      in case pr_status result of
           INSERTED \<Rightarrow> ru\<lparr>ru_inserted := ru_inserted ru + 1\<rparr>
         | UPDATED \<Rightarrow> ru\<lparr>ru_updated := ru_updated ru + 1\<rparr>
         | SKIPPED_STATUS \<Rightarrow> ru\<lparr>ru_skipped := ru_skipped ru + 1\<rparr>
         | ERROR_STATUS \<Rightarrow> ru\<lparr>ru_errors := ru_errors ru + 1\<rparr>)"

text \<open>The loop over the files; each comes with what the outside does while it is processed.\<close>

fun run_files :: "run_counters \<Rightarrow> corpus \<Rightarrow> (ingest_env \<times> source_file) list \<Rightarrow> (ingest_exn + run_counters) \<times> corpus" where
  "run_files ru co [] = (Inr ru, co)"
| "run_files ru co ((env, f) # rest) =
     (case process_file env co f of
        (Inl e, co') \<Rightarrow> (Inl e, co')
      | (Inr result, co') \<Rightarrow> run_files (record_result ru result) co' rest)"

definition EXIT_OK :: int where "EXIT_OK = 0"
definition EXIT_FILE_ERRORS :: int where "EXIT_FILE_ERRORS = 1"
definition EXIT_INIT_FAILURE :: int where "EXIT_INIT_FAILURE = 2"

text \<open>\<open>init_ok\<close>: were the embedder, the splitter and the pool built?\<close>

definition run_async :: "bool \<Rightarrow> corpus \<Rightarrow> (ingest_env \<times> source_file) list \<Rightarrow> (ingest_exn + int) \<times> corpus" where
  "run_async init_ok co files =
     (if \<not> init_ok then (Inr EXIT_INIT_FAILURE, co)
      else case run_files NEW_COUNTERS co files of
             (Inl e, co') \<Rightarrow> (Inl e, co')
           | (Inr ru, co') \<Rightarrow> (Inr (if ru_errors ru \<noteq> 0 then EXIT_FILE_ERRORS else EXIT_OK), co'))"

section \<open>Paths\<close>

text \<open>\<open>resolve_target\<close>: the strictly resolved path, None when it does not exist; a ValueError when it is outside.\<close>

datatype target_error = TargetMissing | TargetOutside

definition resolve_target :: "path option \<Rightarrow> path \<Rightarrow> target_error + path" where
  "resolve_target resolved repo_root =
     (case resolved of
        None \<Rightarrow> Inl TargetMissing
      | Some target \<Rightarrow> if take (length repo_root) target = repo_root then Inr target else Inl TargetOutside)"

text \<open>\<open>iter_markdown_files\<close>: the files and directories of a tree by their paths. A recursive match also gives directories with such a name,
  and takes a name that is only the extension, which has no suffix.\<close>

record file_tree =
  ft_files :: "path list"
  ft_dirs :: "path list"

definition ends_md :: "pystr \<Rightarrow> bool" where
  "ends_md name \<longleftrightarrow> 3 \<le> length name \<and> drop (length name - 3) name = lit ''.md''"

definition iter_markdown_files :: "file_tree \<Rightarrow> path \<Rightarrow> path list" where
  "iter_markdown_files tree target =
     (if target \<in> set (ft_files tree)
      then (if target \<noteq> [] \<and> ends_md (last target) \<and> 3 < length (last target) then [target] else [])
      else sort (filter (\<lambda>p. length target < length p \<and> take (length target) p = target \<and> ends_md (last p)) (ft_files tree @ ft_dirs tree)))"

definition ingest_main ::
  "bool \<Rightarrow> path \<Rightarrow> path option \<Rightarrow> embed_error + int \<Rightarrow> bool \<Rightarrow> corpus \<Rightarrow> (path \<Rightarrow> int \<Rightarrow> (ingest_env \<times> source_file) list)
    \<Rightarrow> (ingest_exn + int) \<times> corpus" where
  "ingest_main root_is_dir repo_root resolved batch_size init_ok co files_of =
     (if \<not> root_is_dir then (Inr EXIT_FILE_ERRORS, co)
      else case resolve_target resolved repo_root of
             Inl _ \<Rightarrow> (Inr EXIT_FILE_ERRORS, co)
           | Inr target \<Rightarrow>
               (case batch_size of
                  Inl _ \<Rightarrow> (Inr EXIT_FILE_ERRORS, co)
                | Inr n \<Rightarrow> run_async init_ok co (files_of target n)))"

text \<open>\<open>(dest_root / name).resolve()\<close> in a tree without symbolic links: an absolute name replaces the root,
  empty and single-dot components vanish, a double dot goes up.\<close>

definition join_resolve :: "path \<Rightarrow> pystr \<Rightarrow> path" where
  "join_resolve base name = walk (if take 1 name = [47] then [] else base) (split_on 47 name)"

text \<open>None is the ValueError of a name that escapes; \<open>parents\<close> are the proper prefixes.\<close>

definition safe_target :: "path \<Rightarrow> pystr \<Rightarrow> path option" where
  "safe_target dest_root name =
     (let target = join_resolve dest_root name
      in if target \<noteq> dest_root \<and> \<not> (length dest_root < length target \<and> take (length dest_root) target = dest_root)
         then None else Some target)"

text \<open>The writes of a download, in order, up to the name that is refused.\<close>

fun download_corpus :: "path \<Rightarrow> (pystr \<times> bytes) list \<Rightarrow> (path \<times> bytes) list \<times> nat option" where
  "download_corpus dest_root [] = ([], Some 0)"
| "download_corpus dest_root ((name, content) # blobs) =
     (case safe_target dest_root name of
        None \<Rightarrow> ([], None)
      | Some target \<Rightarrow>
          (case download_corpus dest_root blobs of
             (writes, n) \<Rightarrow> ((target, content) # writes, map_option Suc n)))"

section \<open>Lemmas\<close>

text \<open>The files of a run are the Markdown files below its target, each once and in order, and nothing outside it.\<close>

lemma iter_markdown_files_exact:
  assumes "target \<notin> set (ft_files tree)" "distinct (ft_files tree @ ft_dirs tree)"
  shows "sorted (iter_markdown_files tree target) \<and> distinct (iter_markdown_files tree target) \<and>
    set (iter_markdown_files tree target) =
      {p \<in> set (ft_files tree) \<union> set (ft_dirs tree). (\<exists>rest. rest \<noteq> [] \<and> p = target @ rest) \<and> ends_md (last p)}"
proof -
  have "length target < length p \<and> take (length target) p = target \<longleftrightarrow> (\<exists>rest. rest \<noteq> [] \<and> p = target @ rest)" for p :: path
    by (metis append_take_drop_id append_eq_conv_conj drop_eq_Nil length_append length_greater_0_conv less_add_same_cancel1 not_le)
  then show ?thesis using assms by (auto simp: iter_markdown_files_def)
qed

lemma iter_markdown_files_below: "p \<in> set (iter_markdown_files tree target) \<Longrightarrow> take (length target) p = target"
  by (auto simp: iter_markdown_files_def split: if_splits)

definition chunks_of :: "corpus \<Rightarrow> pystr \<Rightarrow> chunk_row list" where
  "chunks_of co i = filter (\<lambda>c. cr_document_id c = i) (co_chunks co)"

lemma new_chunk_rows_fields [simp]:
  "map cr_text (new_chunk_rows env i chunks) = map ck_text chunks"
  "map cr_ord (new_chunk_rows env i chunks) = map ck_ord chunks"
  "map cr_document_id (new_chunk_rows env i chunks) = replicate (length chunks) i"
proof -
  have snds: "map (g \<circ> snd) (List.enumerate 0 chunks) = map g chunks" for g :: "chunk_record \<Rightarrow> 'z"
    by (simp flip: map_map)
  show "map cr_text (new_chunk_rows env i chunks) = map ck_text chunks"
    "map cr_ord (new_chunk_rows env i chunks) = map ck_ord chunks"
    using snds[of ck_text] snds[of ck_ord] by (simp_all add: new_chunk_rows_def new_chunk_row_def comp_def)
  show "map cr_document_id (new_chunk_rows env i chunks) = replicate (length chunks) i"
    by (simp add: new_chunk_rows_def new_chunk_row_def comp_def map_replicate_const)
qed

lemma new_chunk_rows_owner: "c \<in> set (new_chunk_rows env i chunks) \<Longrightarrow> cr_document_id c = i"
  by (auto simp: new_chunk_rows_def new_chunk_row_def)

lemma insert_chunks_ok:
  assumes "insert_chunks env co i chunks = Inr co'"
  shows "co_documents co' = co_documents co" "co_chunks co' = co_chunks co @ new_chunk_rows env i chunks"
    and "chunks \<noteq> [] \<Longrightarrow> chunk_rows_ok (co_chunks co') \<and> i \<in> dr_id ` set (co_documents co)"
  using assms by (auto simp: insert_chunks_def Let_def new_chunk_rows_def split: if_splits)

lemma insert_chunks_wf:
  assumes "insert_chunks env co i chunks = Inr co'" "wf_corpus co"
  shows "wf_corpus co'"
proof (cases "chunks = []")
  case True
  with assms show ?thesis by (simp add: insert_chunks_def)
next
  case False
  note ok = insert_chunks_ok[OF assms(1)]
  from ok(3)[OF False] ok(1,2) assms(2) show ?thesis
    by (auto simp: wf_corpus_def chunk_rows_ok_def list_all_iff dest: new_chunk_rows_owner)
qed

lemma insert_chunks_of:
  assumes "insert_chunks env co i chunks = Inr co'" "chunks_of co i = []"
  shows "map cr_text (chunks_of co' i) = map ck_text chunks" "map cr_ord (chunks_of co' i) = map ck_ord chunks"
    and "j \<noteq> i \<Longrightarrow> chunks_of co' j = chunks_of co j"
proof -
  have own: "filter (\<lambda>c. cr_document_id c = i) (new_chunk_rows env i chunks) = new_chunk_rows env i chunks"
    by (auto simp: filter_id_conv dest: new_chunk_rows_owner)
  have other: "filter (\<lambda>c. cr_document_id c = j) (new_chunk_rows env i chunks) = []" if "j \<noteq> i"
    using that by (auto simp: filter_empty_conv dest: new_chunk_rows_owner)
  show "map cr_text (chunks_of co' i) = map ck_text chunks" "map cr_ord (chunks_of co' i) = map ck_ord chunks"
    using assms(2) own by (simp_all add: chunks_of_def insert_chunks_ok(2)[OF assms(1)])
  show "j \<noteq> i \<Longrightarrow> chunks_of co' j = chunks_of co j"
    using other by (simp add: chunks_of_def insert_chunks_ok(2)[OF assms(1)])
qed

lemma build_chunk_records_ok:
  assumes "build_chunk_records env normalized = Inr chunks"
  shows "map ck_text chunks = ig_split_text env normalized" "map ck_ord chunks = map int [0..<length chunks]"
proof -
  let ?f = "\<lambda>(n, t, v). \<lparr>ck_ord = int n, ck_text = t, ck_embedding = v\<rparr>"
  have "ck_text \<circ> ?f = fst \<circ> snd" "ck_ord \<circ> ?f = int \<circ> fst" by auto
  then have fields: "map ck_text (map ?f (List.enumerate 0 ps)) = map fst (map snd (List.enumerate 0 ps))"
    "map ck_ord (map ?f (List.enumerate 0 ps)) = map int (map fst (List.enumerate 0 ps))" for ps :: "(pystr \<times> vec) list"
    unfolding map_map by simp_all
  show "map ck_text chunks = ig_split_text env normalized" "map ck_ord chunks = map int [0..<length chunks]"
    using assms fields
    by (auto simp: build_chunk_records_def Let_def split: if_splits sum.splits)
qed

text \<open>The document of a path holds this record, and its chunks are these texts numbered from 0.\<close>

definition stored :: "corpus \<Rightarrow> document_record \<Rightarrow> pystr list \<Rightarrow> bool" where
  "stored co doc texts \<longleftrightarrow> (\<exists>row. find_by_path co (do_source_path doc) = Some row \<and> row = new_document_row (dr_id row) doc
     \<and> map cr_text (chunks_of co (dr_id row)) = texts
     \<and> map cr_ord (chunks_of co (dr_id row)) = map int [0..<length texts])"

text \<open>Every other document and its chunks are as before.\<close>

definition others_kept :: "corpus \<Rightarrow> corpus \<Rightarrow> pystr \<Rightarrow> bool" where
  "others_kept co co' path \<longleftrightarrow>
     filter (\<lambda>r. dr_source_path r \<noteq> path) (co_documents co') = filter (\<lambda>r. dr_source_path r \<noteq> path) (co_documents co)
     \<and> (\<forall>r\<in>set (co_documents co). dr_source_path r \<noteq> path \<longrightarrow> chunks_of co' (dr_id r) = chunks_of co (dr_id r))"

lemma find_by_path_Some: "find_by_path co path = Some r \<Longrightarrow> r \<in> set (co_documents co) \<and> dr_source_path r = path"
  by (auto simp: find_by_path_def find_Some_iff)

lemma find_by_path_None: "find_by_path co path = None \<longleftrightarrow> path \<notin> dr_source_path ` set (co_documents co)"
  by (auto simp: find_by_path_def find_None_iff)

lemma find_by_path_unique:
  assumes "wf_corpus co" "r \<in> set (co_documents co)" shows "find_by_path co (dr_source_path r) = Some r"
proof -
  obtain r' where r': "find_by_path co (dr_source_path r) = Some r'" using assms(2) find_by_path_None by blast
  from find_by_path_Some[OF r'] assms have "r' = r" by (auto simp: wf_corpus_def distinct_map inj_on_def)
  with r' show ?thesis by simp
qed

lemma no_orphans: "wf_corpus co \<Longrightarrow> i \<notin> dr_id ` set (co_documents co) \<Longrightarrow> chunks_of co i = []"
  by (auto simp: wf_corpus_def chunks_of_def filter_empty_conv)

lemma new_document_row_fields [simp]:
  "dr_id (new_document_row i doc) = i" "dr_source_path (new_document_row i doc) = do_source_path doc"
  "dr_access_tier (new_document_row i doc) = do_access_tier doc" "dr_content_hash (new_document_row i doc) = do_content_hash doc"
  by (simp_all add: new_document_row_def)

lemma insert_document_ok:
  assumes "insert_document_with_chunks env co doc chunks = Inr co'" "wf_corpus co"
    "map ck_ord chunks = map int [0..<length chunks]"
  shows "wf_corpus co' \<and> stored co' doc (map ck_text chunks) \<and> others_kept co co' (do_source_path doc)"
proof -
  let ?i = "ig_new_document_id env" and ?row = "new_document_row (ig_new_document_id env) doc"
  let ?co = "co\<lparr>co_documents := co_documents co @ [?row]\<rparr>"
  from assms(1) have ins: "insert_chunks env ?co ?i chunks = Inr co'" and new: "?i \<notin> dr_id ` set (co_documents co)"
    "do_source_path doc \<notin> dr_source_path ` set (co_documents co)" "do_access_tier doc \<in> KNOWN_TIERS"
    by (auto simp: insert_document_with_chunks_def Let_def split: option.splits if_splits)
  have wf: "wf_corpus ?co" using assms(2) new by (auto simp: wf_corpus_def)
  have none: "chunks_of ?co ?i = []" using no_orphans[OF assms(2) new(1)] by (simp add: chunks_of_def)
  note parts = insert_chunks_of[OF ins none]
  have wf': "wf_corpus co'" using insert_chunks_wf[OF ins wf] .
  have docs: "co_documents co' = co_documents co @ [?row]" using insert_chunks_ok(1)[OF ins] by simp
  have "find_by_path co' (do_source_path doc) = Some ?row" using find_by_path_unique[OF wf', of ?row] docs by simp
  then have "stored co' doc (map ck_text chunks)" using parts(1,2) assms(3) by (auto simp: stored_def)
  moreover have "dr_id r \<noteq> ?i" if "r \<in> set (co_documents co)" for r using that new(1) by (metis imageI)
  then have "others_kept co co' (do_source_path doc)" using docs parts(3) by (auto simp: others_kept_def chunks_of_def)
  ultimately show ?thesis using wf' by blast
qed

lemma refresh_row_fields [simp]: "dr_id (refresh_row i doc r) = dr_id r" "dr_source_path (refresh_row i doc r) = dr_source_path r"
  by (simp_all add: refresh_row_def)

lemma refreshed_wf:
  assumes "wf_corpus co" "do_access_tier doc \<in> KNOWN_TIERS"
  shows "wf_corpus \<lparr>co_documents = map (refresh_row i doc) (co_documents co),
    co_chunks = filter (\<lambda>c. cr_document_id c \<noteq> i) (co_chunks co)\<rparr>"
proof -
  have "dr_id \<circ> refresh_row i doc = dr_id" "dr_source_path \<circ> refresh_row i doc = dr_source_path" by auto
  then show ?thesis using assms
    by (auto simp: wf_corpus_def distinct_map inj_on_def image_comp refresh_row_def)
qed

lemma update_document_ok:
  assumes "update_document_replace_chunks env co (dr_id r) doc chunks = Inr co'" "wf_corpus co"
    "map ck_ord chunks = map int [0..<length chunks]"
    and "find_by_path co (do_source_path doc) = Some r"
  shows "wf_corpus co' \<and> stored co' doc (map ck_text chunks) \<and> others_kept co co' (do_source_path doc)"
proof -
  let ?i = "dr_id r"
  let ?co = "\<lparr>co_documents = map (refresh_row ?i doc) (co_documents co), co_chunks = filter (\<lambda>c. cr_document_id c \<noteq> ?i) (co_chunks co)\<rparr>"
  have r: "r \<in> set (co_documents co)" "dr_source_path r = do_source_path doc" using find_by_path_Some[OF assms(4)] by auto
  from assms(1) r(1) have ins: "insert_chunks env ?co ?i chunks = Inr co'" and tier: "do_access_tier doc \<in> KNOWN_TIERS"
    by (auto simp: update_document_replace_chunks_def split: option.splits if_splits)
  note wf = refreshed_wf[OF assms(2) tier, of ?i]
  have none: "chunks_of ?co ?i = []" by (simp add: chunks_of_def filter_empty_conv)
  note parts = insert_chunks_of[OF ins none]
  have wf': "wf_corpus co'" using insert_chunks_wf[OF ins wf] .
  have docs: "co_documents co' = map (refresh_row ?i doc) (co_documents co)" using insert_chunks_ok(1)[OF ins] by simp
  have row: "refresh_row ?i doc r = new_document_row ?i doc" using r(2) by (simp add: refresh_row_def new_document_row_def)
  have "new_document_row ?i doc \<in> set (co_documents co')" using r(1) docs row by (metis image_eqI list.set_map)
  from find_by_path_unique[OF wf' this] have "find_by_path co' (do_source_path doc) = Some (new_document_row ?i doc)" by simp
  then have st: "stored co' doc (map ck_text chunks)" using parts(1,2) assms(3) by (auto simp: stored_def)
  have other: "dr_id x \<noteq> ?i" if "x \<in> set (co_documents co)" "dr_source_path x \<noteq> do_source_path doc" for x
    using that r assms(2) by (auto simp: wf_corpus_def distinct_map inj_on_def)
  then have same: "filter (\<lambda>x. dr_source_path x \<noteq> do_source_path doc) (map (refresh_row ?i doc) xs)
      = filter (\<lambda>x. dr_source_path x \<noteq> do_source_path doc) xs" if "set xs \<subseteq> set (co_documents co)" for xs
    using that by (induction xs) (auto simp: refresh_row_def)
  have "chunks_of ?co j = chunks_of co j" if "j \<noteq> ?i" for j
    using that by (auto simp: chunks_of_def intro!: filter_cong)
  then have "others_kept co co' (do_source_path doc)"
    using same[of "co_documents co"] docs parts(3) other by (auto simp: others_kept_def)
  with wf' st show ?thesis by blast
qed

text \<open>What a file that gets as far as the tables contributes.\<close>

definition readable :: "ingest_env \<Rightarrow> source_file \<Rightarrow> document_record \<Rightarrow> pystr \<Rightarrow> bool" where
  "readable env f doc normalized \<longleftrightarrow>
     (\<exists>n raw fm body h. sf_size f = Some n \<and> n \<le> MAX_FILE_SIZE_BYTES \<and> sf_text f = Some raw
        \<and> parse_frontmatter (ig_safe_load env) raw = Inr (fm, body) \<and> normalized = normalize_body (ig_nfkc env) body
        \<and> compute_content_hash (ig_sha256_hex env) normalized = Some h
        \<and> doc = \<lparr>do_source_path = sf_relative f, do_title = fm_title fm, do_tags = fm_tags fm,
                 do_access_tier = fm_access_tier fm, do_content_hash = h\<rparr>)"

lemma process_file_reads:
  "(\<exists>e. process_file env co f = (Inl e, co)) \<or> (\<exists>why. process_file env co f = (Inr (error_result (sf_relative f) why), co))
   \<or> (\<exists>fm normalized h. readable env f \<lparr>do_source_path = sf_relative f, do_title = fm_title fm, do_tags = fm_tags fm,
          do_access_tier = fm_access_tier fm, do_content_hash = h\<rparr> normalized
        \<and> process_file env co f = persist env co (sf_relative f) fm normalized h)"
proof (cases "\<exists>n raw fm body h. sf_size f = Some n \<and> n \<le> MAX_FILE_SIZE_BYTES \<and> sf_text f = Some raw
    \<and> parse_frontmatter (ig_safe_load env) raw = Inr (fm, body)
    \<and> compute_content_hash (ig_sha256_hex env) (normalize_body (ig_nfkc env) body) = Some h")
  case True
  then obtain n raw fm body h where go: "sf_size f = Some n" "n \<le> MAX_FILE_SIZE_BYTES" "sf_text f = Some raw"
    "parse_frontmatter (ig_safe_load env) raw = Inr (fm, body)"
    "compute_content_hash (ig_sha256_hex env) (normalize_body (ig_nfkc env) body) = Some h" by blast
  then have "process_file env co f = persist env co (sf_relative f) fm (normalize_body (ig_nfkc env) body) h"
    by (simp add: process_file_def)
  moreover have "readable env f \<lparr>do_source_path = sf_relative f, do_title = fm_title fm, do_tags = fm_tags fm,
      do_access_tier = fm_access_tier fm, do_content_hash = h\<rparr> (normalize_body (ig_nfkc env) body)"
    unfolding readable_def using go by blast
  ultimately show ?thesis by blast
next
  case False
  then show ?thesis
    by (auto simp: process_file_def Let_def not_less split: option.split sum.split fm_error.split prod.split)
qed

lemma persist_cases:
  assumes "doc = \<lparr>do_source_path = path, do_title = fm_title fm, do_tags = fm_tags fm,
    do_access_tier = fm_access_tier fm, do_content_hash = h\<rparr>"
  obtains (error) e where "persist env co path fm normalized h = (Inl e, co)"
  | (reported) "persist env co path fm normalized h = (Inr (error_result path DbErrorReason), co)"
  | (skipped) ex where "find_by_path co path = Some ex" "dr_content_hash ex = h"
      "persist env co path fm normalized h = (Inr \<lparr>pr_relative_path = path, pr_status = SKIPPED_STATUS,
         pr_chunks_count = 0, pr_reason = UnchangedReason\<rparr>, co)"
  | (inserted) chunks co' where "build_chunk_records env normalized = Inr chunks" "find_by_path co path = None"
      "insert_document_with_chunks env co doc chunks = Inr co'"
      "persist env co path fm normalized h = (Inr \<lparr>pr_relative_path = path, pr_status = INSERTED,
         pr_chunks_count = length chunks, pr_reason = NoReason\<rparr>, co')"
  | (updated) chunks r co' where "build_chunk_records env normalized = Inr chunks" "find_by_path co path = Some r"
      "update_document_replace_chunks env co (dr_id r) doc chunks = Inr co'"
      "persist env co path fm normalized h = (Inr \<lparr>pr_relative_path = path, pr_status = UPDATED,
         pr_chunks_count = length chunks, pr_reason = NoReason\<rparr>, co')"
proof (cases "ig_fetch_fault env")
  case (Some e)
  then show thesis using error by (simp add: persist_def fetch_existing_def)
next
  case None
  then have fetched: "fetch_existing env co path = Inr (map_option (\<lambda>r. \<lparr>ex_id = dr_id r, ex_content_hash = dr_content_hash r\<rparr>) (find_by_path co path))"
    by (simp add: fetch_existing_def)
  show thesis
  proof (cases "map_option dr_content_hash (find_by_path co path) = Some h")
    case True
    then show thesis using skipped fetched by (auto simp: persist_def option.map_comp comp_def)
  next
    case fresh: False
    show thesis
    proof (cases "build_chunk_records env normalized")
      case (Inl e)
      then show thesis using error fetched fresh by (auto simp: persist_def option.map_comp comp_def)
    next
      case (Inr chunks)
      note eqs = persist_def Let_def fetched Inr write_document_def option.map_comp comp_def assms[symmetric]
      show thesis
      proof (cases "find_by_path co path")
        case None
        then show thesis using error reported inserted[OF Inr None] fresh
          by (cases "insert_document_with_chunks env co doc chunks";
              cases "is_postgres_error (projl (insert_document_with_chunks env co doc chunks))"; auto simp: eqs)
      next
        case (Some r)
        then show thesis using error reported updated[OF Inr Some] fresh
          by (cases "update_document_replace_chunks env co (dr_id r) doc chunks";
              cases "is_postgres_error (projl (update_document_replace_chunks env co (dr_id r) doc chunks))"; auto simp: eqs)
      qed
    qed
  qed
qed

lemma readable_path: "readable env f doc normalized \<Longrightarrow> do_source_path doc = sf_relative f"
  by (auto simp: readable_def)

lemma process_file_cases:
  obtains (error) e where "process_file env co f = (Inl e, co)"
  | (reported) why where "process_file env co f = (Inr (error_result (sf_relative f) why), co)"
  | (skipped) doc normalized ex where "readable env f doc normalized" "find_by_path co (sf_relative f) = Some ex"
      "dr_content_hash ex = do_content_hash doc"
      "process_file env co f = (Inr \<lparr>pr_relative_path = sf_relative f, pr_status = SKIPPED_STATUS, pr_chunks_count = 0,
         pr_reason = UnchangedReason\<rparr>, co)"
  | (written) doc normalized chunks status co' where "readable env f doc normalized"
      "build_chunk_records env normalized = Inr chunks" "status = INSERTED \<or> status = UPDATED"
      "find_by_path co (sf_relative f) = None \<and> insert_document_with_chunks env co doc chunks = Inr co'
       \<or> (\<exists>r. find_by_path co (sf_relative f) = Some r \<and> update_document_replace_chunks env co (dr_id r) doc chunks = Inr co')"
      "process_file env co f = (Inr \<lparr>pr_relative_path = sf_relative f, pr_status = status,
         pr_chunks_count = length chunks, pr_reason = NoReason\<rparr>, co')"
proof -
  consider "\<exists>e. process_file env co f = (Inl e, co)" | "\<exists>why. process_file env co f = (Inr (error_result (sf_relative f) why), co)"
    | fm normalized h where "readable env f \<lparr>do_source_path = sf_relative f, do_title = fm_title fm, do_tags = fm_tags fm,
          do_access_tier = fm_access_tier fm, do_content_hash = h\<rparr> normalized"
        "process_file env co f = persist env co (sf_relative f) fm normalized h"
    using process_file_reads[of env co f] by blast
  then show thesis
  proof cases
    case 3
    show thesis
      by (cases rule: persist_cases[OF refl, of env co "sf_relative f" fm normalized h])
        (use 3 error reported skipped[OF 3(1)] written[OF 3(1)] in auto)
  qed (use error reported in auto)
qed

lemma written_ok:
  assumes "wf_corpus co" "readable env f doc normalized" "build_chunk_records env normalized = Inr chunks"
    "find_by_path co (sf_relative f) = None \<and> insert_document_with_chunks env co doc chunks = Inr co'
     \<or> (\<exists>r. find_by_path co (sf_relative f) = Some r \<and> update_document_replace_chunks env co (dr_id r) doc chunks = Inr co')"
  shows "wf_corpus co' \<and> stored co' doc (ig_split_text env normalized) \<and> others_kept co co' (sf_relative f)"
  using insert_document_ok[OF _ assms(1) build_chunk_records_ok(2)[OF assms(3)]]
    update_document_ok[OF _ assms(1) build_chunk_records_ok(2)[OF assms(3)]]
    assms(4) readable_path[OF assms(2)] build_chunk_records_ok(1)[OF assms(3)]
  by metis

lemma process_file_wf: "wf_corpus co \<Longrightarrow> wf_corpus (snd (process_file env co f))"
  by (cases rule: process_file_cases[of env co f]) (auto dest: written_ok)

lemma stored_hash: "stored co doc texts \<Longrightarrow> \<exists>r. find_by_path co (do_source_path doc) = Some r \<and> dr_content_hash r = do_content_hash doc"
  by (metis stored_def new_document_row_fields(4))

lemma readable_hash: "readable env f doc normalized \<Longrightarrow> readable env f doc' normalized' \<Longrightarrow> doc = doc' \<and> normalized = normalized'"
  by (auto simp: readable_def)

lemma readable_skips:
  assumes "readable env f doc normalized" "find_by_path co (sf_relative f) = Some r" "dr_content_hash r = do_content_hash doc"
    "ig_fetch_fault env = None"
  shows "process_file env co f = (Inr \<lparr>pr_relative_path = sf_relative f, pr_status = SKIPPED_STATUS, pr_chunks_count = 0,
    pr_reason = UnchangedReason\<rparr>, co)"
  using assms by (auto simp: readable_def process_file_def persist_def fetch_existing_def Let_def)

definition run_inv :: "run_counters \<Rightarrow> bool" where
  "run_inv ru \<longleftrightarrow> counters_total ru = length (ru_results ru)
     \<and> ru_errors ru = length (filter (\<lambda>r. pr_status r = ERROR_STATUS) (ru_results ru))"

lemma record_result_inv: "run_inv ru \<Longrightarrow> run_inv (record_result ru r)"
  by (cases "pr_status r") (auto simp: run_inv_def record_result_def counters_total_def Let_def)

lemma record_result_results: "ru_results (record_result ru r) = ru_results ru @ [r]"
  by (cases "pr_status r") (auto simp: record_result_def Let_def)

lemma process_file_names: "process_file env co f = (Inr res, co') \<Longrightarrow> pr_relative_path res = sf_relative f"
  by (cases rule: process_file_cases[of env co f]) (auto simp: error_result_def)

lemma run_files_ok:
  "run_files ru co files = (Inr ru', co') \<Longrightarrow> run_inv ru \<Longrightarrow>
     run_inv ru' \<and> map pr_relative_path (ru_results ru') = map pr_relative_path (ru_results ru) @ map (sf_relative \<circ> snd) files"
proof (induction ru co files rule: run_files.induct)
  case (2 ru co env f rest)
  obtain res co1 where p: "process_file env co f = (Inr res, co1)"
    using 2(2) by (cases "process_file env co f") (auto split: sum.splits)
  with 2 record_result_inv process_file_names[OF p] show ?case by (auto simp: record_result_results)
qed simp

lemma run_files_wf: "wf_corpus co \<Longrightarrow> wf_corpus (snd (run_files ru co files))"
proof (induction ru co files rule: run_files.induct)
  case (2 ru co env f rest)
  then show ?case using process_file_wf[of co env f]
    by (cases "process_file env co f") (auto split: sum.splits)
qed simp

lemma split_on_head: "take 1 name = [47] \<Longrightarrow> hd (split_on 47 name) = []"
  by (cases name) auto

lemma safe_target_plain: "list_all plain_component (split_on 47 name) \<Longrightarrow> safe_target base name = Some (base @ split_on 47 name)"
proof -
  assume plain: "list_all plain_component (split_on 47 name)"
  then have "plain_component (hd (split_on 47 name))" using split_on_ne[of 47 name] by (cases "split_on 47 name") auto
  then have "take 1 name \<noteq> [47]" using split_on_head[of name] by (auto simp: plain_component_def)
  then have "join_resolve base name = base @ split_on 47 name" using plain by (simp add: join_resolve_def walk_plain)
  then show ?thesis using split_on_ne[of 47 name] by (simp add: safe_target_def)
qed

lemma safe_target_inside: "safe_target base name = Some target \<Longrightarrow> take (length base) target = base"
  by (auto simp: safe_target_def Let_def split: if_splits)

section \<open>Properties\<close>

text \<open>C10: Processing a file keeps the corpus well formed, and touches the path of that file only. When it
  reports an insert or an update, the document of the path holds the file's title, tags, tier and hash, its
  chunks are exactly the splitter's texts of the normalised body numbered from 0, and every other document
  and its chunks are as before; on a skip, a reported error or an exception the corpus is unchanged.\<close>

theorem process_file_effect:
  assumes "wf_corpus co" "process_file env co f = (r, co')"
  shows "wf_corpus co' \<and> others_kept co co' (sf_relative f)
    \<and> (case r of
         Inl _ \<Rightarrow> co' = co
       | Inr res \<Rightarrow>
           pr_relative_path res = sf_relative f
           \<and> (if pr_status res = INSERTED \<or> pr_status res = UPDATED
              then (\<exists>doc normalized. readable env f doc normalized \<and> stored co' doc (ig_split_text env normalized)
                      \<and> pr_chunks_count res = length (ig_split_text env normalized))
              else co' = co))"
proof (cases rule: process_file_cases[of env co f])
  case (written doc normalized chunks status co1)
  have n: "length chunks = length (ig_split_text env normalized)"
    using arg_cong[OF build_chunk_records_ok(1)[OF written(2)], of length] by simp
  from written_ok[OF assms(1) written(1,2,4)] written(1,3,5) assms(2) n show ?thesis by auto
qed (use assms in \<open>auto simp: others_kept_def error_result_def\<close>)

text \<open>C11: Ingestion is idempotent: a file that was inserted, updated or skipped is skipped when it is
  processed again, and the corpus does not change.\<close>

theorem process_file_idempotent:
  assumes "wf_corpus co" "process_file env co f = (Inr res, co')" "pr_status res \<noteq> ERROR_STATUS"
    and "ig_fetch_fault env = None"
  shows "\<exists>again. process_file env co' f = (Inr again, co') \<and> pr_status again = SKIPPED_STATUS"
proof (cases rule: process_file_cases[of env co f])
  case (skipped doc normalized ex)
  with assms show ?thesis by auto
next
  case (written doc normalized chunks status co1)
  from written_ok[OF assms(1) written(1,2,4)] have "stored co1 doc (ig_split_text env normalized)" by blast
  from stored_hash[OF this] obtain r where "find_by_path co1 (sf_relative f) = Some r" "dr_content_hash r = do_content_hash doc"
    unfolding readable_path[OF written(1)] by blast
  with readable_skips[OF written(1) _ _ assms(4)] assms(2) written(5) show ?thesis by auto
qed (use assms in \<open>auto simp: error_result_def\<close>)

text \<open>The skip decision looks at the body alone: a file whose body hash is the stored one is skipped
  whatever its frontmatter says, so a changed access tier is not stored and the document keeps its old tier.\<close>

theorem changed_tier_skipped:
  assumes "readable env f doc normalized" "find_by_path co (sf_relative f) = Some r"
    and "dr_content_hash r = do_content_hash doc" "do_access_tier doc \<noteq> dr_access_tier r" "ig_fetch_fault env = None"
  shows "\<exists>res. process_file env co f = (Inr res, co) \<and> pr_status res = SKIPPED_STATUS
    \<and> \<not> stored co doc (ig_split_text env normalized)"
proof -
  have "\<not> stored co doc (ig_split_text env normalized)"
    using assms(2,4) readable_path[OF assms(1)] unfolding stored_def by (metis new_document_row_fields(3) option.inject)
  with readable_skips[OF assms(1-3,5)] show ?thesis by auto
qed

text \<open>A run that ends accounts for every file: one result per file in order, counters that add up to the
  number of files, a well-formed corpus, and exit code 0 exactly when no file was reported as an error.\<close>

theorem run_async_accounts:
  assumes "wf_corpus co" "run_async True co files = (Inr code, co')"
  shows "wf_corpus co' \<and> (\<exists>ru. run_files NEW_COUNTERS co files = (Inr ru, co')
    \<and> map pr_relative_path (ru_results ru) = map (sf_relative \<circ> snd) files \<and> counters_total ru = length files
    \<and> (code = EXIT_OK \<longleftrightarrow> list_all (\<lambda>r. pr_status r \<noteq> ERROR_STATUS) (ru_results ru)))"
proof -
  obtain ru where run: "run_files NEW_COUNTERS co files = (Inr ru, co')"
    and code: "code = (if ru_errors ru \<noteq> 0 then EXIT_FILE_ERRORS else EXIT_OK)"
    using assms(2) by (auto simp: run_async_def split: prod.splits sum.splits)
  have inv: "run_inv ru" and names: "map pr_relative_path (ru_results ru) = map (sf_relative \<circ> snd) files"
    using run_files_ok[OF run] by (auto simp: run_inv_def NEW_COUNTERS_def counters_total_def)
  have "length (ru_results ru) = length files" using arg_cong[OF names, of length] by simp
  moreover have "code = EXIT_OK \<longleftrightarrow> list_all (\<lambda>r. pr_status r \<noteq> ERROR_STATUS) (ru_results ru)"
    using inv code by (auto simp: run_inv_def EXIT_OK_def EXIT_FILE_ERRORS_def list_all_iff filter_empty_conv)
  ultimately show ?thesis using run names inv run_files_wf[OF assms(1), of NEW_COUNTERS files] by (auto simp: run_inv_def)
qed


definition sample_ingest_env :: ingest_env where
  "sample_ingest_env = \<lparr>ig_new_document_id = lit ''d2'', ig_new_chunk_id = (\<lambda>n. [n]), ig_fetch_fault = None, ig_write_fault = None,
     ig_safe_load = (\<lambda>b. Some (YMap [(lit ''title'', YStr (lit ''T''))])), ig_nfkc = id, ig_sha256_hex = id,
     ig_split_text = (\<lambda>t. [t]), ig_encode = (\<lambda>ts n. Inr (map (\<lambda>t. sample_vec 1) ts)), ig_batch_size = 1\<rparr>"

definition sample_file :: source_file where
  "sample_file = \<lparr>sf_relative = lit ''b.md'', sf_size = Some 30, sf_text = Some (render_frontmatter (lit ''title: T'') (lit ''body''))\<rparr>"

definition sample_record :: document_record where
  "sample_record = \<lparr>do_source_path = lit ''b.md'', do_title = lit ''T'', do_tags = [], do_access_tier = lit ''public'',
     do_content_hash = lit ''body''\<rparr>"

lemma sample_parsed_file:
  "parse_frontmatter (ig_safe_load sample_ingest_env) (render_frontmatter (lit ''title: T'') (lit ''body''))
     = Inr (\<lparr>fm_title = lit ''T'', fm_tags = [], fm_access_tier = lit ''public''\<rparr>, lit ''body'')"
proof -
  have "plain_block (lit ''title: T'')" by (rule plain_block_line_free) (simp_all add: lit_def)
  then show ?thesis
    by (simp add: parse_frontmatter_def split_render sample_ingest_env_def build_frontmatter_def tags_of_def tier_of_def
        DEFAULT_ACCESS_TIER_def py_eval)
qed

lemma sample_normalized: "normalize_body (ig_nfkc sample_ingest_env) (lit ''body'') = lit ''body''"
  "compute_content_hash (ig_sha256_hex sample_ingest_env) (lit ''body'') = Some (lit ''body'')"
  by (simp_all add: normalize_body_def sample_ingest_env_def is_stripped_control_def compute_content_hash_def py_eval)

lemma sample_readable: "readable sample_ingest_env sample_file sample_record (lit ''body'')"
  unfolding readable_def sample_file_def sample_record_def
  using sample_parsed_file sample_normalized by (auto simp: MAX_FILE_SIZE_BYTES_def)

lemma sample_inserted:
  "\<exists>co'. process_file sample_ingest_env sample_corpus sample_file =
     (Inr \<lparr>pr_relative_path = lit ''b.md'', pr_status = INSERTED, pr_chunks_count = 1, pr_reason = NoReason\<rparr>, co')"
proof -
  have b: "build_chunk_records sample_ingest_env (lit ''body'') = Inr [\<lparr>ck_ord = 0, ck_text = lit ''body'', ck_embedding = sample_vec 1\<rparr>]"
    by (simp add: build_chunk_records_def sample_ingest_env_def)
  have i: "\<exists>co'. insert_document_with_chunks sample_ingest_env sample_corpus sample_record
      [\<lparr>ck_ord = 0, ck_text = lit ''body'', ck_embedding = sample_vec 1\<rparr>] = Inr co'"
    by (simp add: insert_document_with_chunks_def insert_chunks_def sample_ingest_env_def sample_corpus_def sample_record_def
        KNOWN_TIERS_def new_chunk_rows_def new_chunk_row_def new_document_row_def chunk_rows_ok_def sample_vec_def Let_def lit_def)
  have f: "fetch_existing sample_ingest_env sample_corpus (lit ''b.md'') = Inr None"
    by (simp add: fetch_existing_def find_by_path_def sample_ingest_env_def sample_corpus_def)
  have "process_file sample_ingest_env sample_corpus sample_file =
      persist sample_ingest_env sample_corpus (lit ''b.md'') \<lparr>fm_title = lit ''T'', fm_tags = [], fm_access_tier = lit ''public''\<rparr>
        (lit ''body'') (lit ''body'')"
    using sample_parsed_file by (simp add: process_file_def sample_file_def MAX_FILE_SIZE_BYTES_def sample_normalized Let_def)
  with i show ?thesis by (auto simp: persist_def f b write_document_def sample_record_def)
qed

theorem process_file_effect_witness:
  "\<exists>co' doc. process_file sample_ingest_env sample_corpus sample_file =
     (Inr \<lparr>pr_relative_path = lit ''b.md'', pr_status = INSERTED, pr_chunks_count = 1, pr_reason = NoReason\<rparr>, co')
     \<and> wf_corpus co' \<and> others_kept sample_corpus co' (lit ''b.md'') \<and> stored co' doc [lit ''body'']"
proof -
  obtain co' where p: "process_file sample_ingest_env sample_corpus sample_file =
     (Inr \<lparr>pr_relative_path = lit ''b.md'', pr_status = INSERTED, pr_chunks_count = 1, pr_reason = NoReason\<rparr>, co')"
    using sample_inserted by blast
  from process_file_effect[OF sample_corpus_wf p] obtain doc normalized where
    e: "wf_corpus co'" "others_kept sample_corpus co' (sf_relative sample_file)"
       "readable sample_ingest_env sample_file doc normalized" "stored co' doc (ig_split_text sample_ingest_env normalized)"
    by auto
  have "normalized = lit ''body''" using readable_hash[OF e(3) sample_readable] by simp
  with e p show ?thesis by (auto simp: sample_ingest_env_def sample_file_def)
qed

theorem process_file_idempotent_witness:
  "\<exists>co' again. process_file sample_ingest_env co' sample_file = (Inr again, co') \<and> pr_status again = SKIPPED_STATUS"
proof -
  obtain co' where p: "process_file sample_ingest_env sample_corpus sample_file =
     (Inr \<lparr>pr_relative_path = lit ''b.md'', pr_status = INSERTED, pr_chunks_count = 1, pr_reason = NoReason\<rparr>, co')"
    using sample_inserted by blast
  have "ig_fetch_fault sample_ingest_env = None" by (simp add: sample_ingest_env_def)
  from process_file_idempotent[OF sample_corpus_wf p _ this] show ?thesis by auto
qed

definition sample_hidden_corpus :: corpus where
  "sample_hidden_corpus = \<lparr>co_documents = [new_document_row (lit ''d'') (sample_record\<lparr>do_access_tier := lit ''author_only''\<rparr>)], co_chunks = []\<rparr>"

theorem changed_tier_skipped_witness:
  "\<exists>res. process_file sample_ingest_env sample_hidden_corpus sample_file = (Inr res, sample_hidden_corpus)
     \<and> pr_status res = SKIPPED_STATUS \<and> \<not> stored sample_hidden_corpus sample_record [lit ''body'']"
proof -
  have c: "find_by_path sample_hidden_corpus (sf_relative sample_file) =
      Some (new_document_row (lit ''d'') (sample_record\<lparr>do_access_tier := lit ''author_only''\<rparr>))"
    by (simp add: find_by_path_def sample_hidden_corpus_def sample_file_def sample_record_def)
  have "ig_fetch_fault sample_ingest_env = None" "ig_split_text sample_ingest_env (lit ''body'') = [lit ''body'']"
    by (simp_all add: sample_ingest_env_def)
  with changed_tier_skipped[OF sample_readable c] show ?thesis by (simp add: sample_record_def)
qed

theorem run_async_accounts_witness:
  "\<exists>code co' ru. run_async True sample_corpus [(sample_ingest_env, sample_file)] = (Inr code, co')
     \<and> wf_corpus co' \<and> run_files NEW_COUNTERS sample_corpus [(sample_ingest_env, sample_file)] = (Inr ru, co') \<and> counters_total ru = 1"
proof -
  obtain code co' where r: "run_async True sample_corpus [(sample_ingest_env, sample_file)] = (Inr code, co')"
    using sample_inserted by (auto simp: run_async_def)
  from run_async_accounts[OF sample_corpus_wf r] r show ?thesis by auto
qed


end
