(* ===== verification/Health.thy ===== *)
theory Health
  imports Database
begin

text \<open>
  \<open>workers/.../routers/health.py\<close>: the liveness and readiness probes. \<open>fault\<close> is what the acquisition of a
  connection or the probe statement raises, None when it answers in time.
\<close>

datatype probe = Healthy | Degraded

text \<open>The liveness answer never looks at the database.\<close>

definition healthz :: "int \<times> probe" where
  "healthz = (200, Healthy)"

text \<open>Inl is an exception that leaves the handler: the framework answers 500.\<close>

definition readyz :: "db_exn option \<Rightarrow> db_exn + int \<times> probe" where
  "readyz fault =
     (case fault of
        None \<Rightarrow> Inr (200, Healthy)
      | Some e \<Rightarrow> if e = TimeoutError \<or> is_postgres_error e \<or> e = OSError then Inr (503, Degraded) else Inl e)"

text \<open>The readiness probe answers 200 exactly when the database answered, and 503 exactly on a timeout, a
  server error or a network error; the remaining failures, the interface errors of the driver, are not
  answered but raised.\<close>

theorem readyz_exact:
  "(readyz fault = Inr (200, Healthy) \<longleftrightarrow> fault = None)
   \<and> (readyz fault = Inr (503, Degraded) \<longleftrightarrow>
        fault \<in> {Some TimeoutError, Some OSError, Some PostgresError, Some ForeignKeyViolationError, Some UniqueViolationError})
   \<and> ((\<exists>e. readyz fault = Inl e) \<longleftrightarrow> fault \<in> {Some InterfaceError, Some DataError})"
proof (cases fault)
  case (Some e)
  then show ?thesis by (cases e) (simp_all add: readyz_def is_postgres_error_def)
qed (simp add: readyz_def)

end
