(* ===== verification/Token_Provider.thy ===== *)
theory Token_Provider
  imports Prelude
begin

text \<open>
  \<open>workers/.../auth_metadata/token.py\<close>: the cached access token. A call alone is the function
  \<open>get_or_refresh\<close>; calls that overlap are tasks that move between the await points of the source, as a step
  relation. Times are seconds; the answer of the metadata server is a parameter of a fetch.
\<close>

section \<open>Fetching\<close>

definition REFRESH_AHEAD_SECONDS :: rat where
  "REFRESH_AHEAD_SECONDS = 60"

datatype token_reason = ReasonTimeout | ReasonNetwork | ReasonMetadataFailed

text \<open>A body without the two fields, or with an unreadable one, raises past the handler.\<close>

datatype token_exn = TokenFetchError token_reason | TokenBodyError

record cached_token =
  ct_bearer :: pyval
  ct_expires_at :: rat

datatype http_result = HttpTimeout | HttpNetworkError | HttpResponse int "pyval option"

text \<open>\<open>int(v)\<close>; \<open>int_of\<close> reads a numeral.\<close>

definition to_int :: "(pystr \<Rightarrow> int option) \<Rightarrow> pyval \<Rightarrow> int option" where
  "to_int int_of v =
     (case v of
        PInt n \<Rightarrow> Some n
      | PBool b \<Rightarrow> Some (if b then 1 else 0)
      | PFloat q \<Rightarrow> Some (py_int q)
      | PStr s \<Rightarrow> int_of s
      | _ \<Rightarrow> None)"

definition fetch_token :: "(pystr \<Rightarrow> int option) \<Rightarrow> http_result \<Rightarrow> rat \<Rightarrow> token_exn + cached_token" where
  "fetch_token int_of res now =
     (case res of
        HttpTimeout \<Rightarrow> Inl (TokenFetchError ReasonTimeout)
      | HttpNetworkError \<Rightarrow> Inl (TokenFetchError ReasonNetwork)
      | HttpResponse status body \<Rightarrow>
          if 400 \<le> status then Inl (TokenFetchError ReasonMetadataFailed)
          else (case body of
                  Some (PDict kvs) \<Rightarrow>
                    (case (map_of kvs (lit ''access_token''), map_of kvs (lit ''expires_in'')) of
                       (Some bearer, Some e) \<Rightarrow>
                         (case to_int int_of e of
                            None \<Rightarrow> Inl TokenBodyError
                          | Some n \<Rightarrow> Inr \<lparr>ct_bearer = bearer, ct_expires_at = now + of_int n\<rparr>)
                     | _ \<Rightarrow> Inl TokenBodyError)
                | _ \<Rightarrow> Inl TokenBodyError))"

definition is_cache_valid :: "rat \<Rightarrow> cached_token option \<Rightarrow> bool" where
  "is_cache_valid now cached =
     (case cached of None \<Rightarrow> False | Some c \<Rightarrow> now < ct_expires_at c - REFRESH_AHEAD_SECONDS)"

text \<open>A call that meets no other: \<open>now\<close> is the clock at the checks and \<open>later\<close> the clock after the answer.\<close>

definition get_or_refresh ::
  "(pystr \<Rightarrow> int option) \<Rightarrow> rat \<Rightarrow> http_result \<Rightarrow> rat \<Rightarrow> cached_token option \<Rightarrow> (token_exn + pyval) \<times> cached_token option" where
  "get_or_refresh int_of now res later cached =
     (if is_cache_valid now cached then (map_sum id ct_bearer (case cached of Some c \<Rightarrow> Inr c | None \<Rightarrow> Inl TokenBodyError), cached)
      else case fetch_token int_of res later of
             Inl e \<Rightarrow> (Inl e, cached)
           | Inr c \<Rightarrow> (Inr (ct_bearer c), Some c))"

section \<open>Overlapping calls\<close>

datatype pc = Idle | Waiting | Locked | Fetching | Returned pyval | Raised token_exn

record provider =
  pv_pc :: "nat \<Rightarrow> pc"
  pv_lock :: "nat option"
  pv_cached :: "cached_token option"
  pv_now :: rat

definition init_provider :: "rat \<Rightarrow> provider" where
  "init_provider now = \<lparr>pv_pc = (\<lambda>_. Idle), pv_lock = None, pv_cached = None, pv_now = now\<rparr>"

inductive token_step :: "(pystr \<Rightarrow> int option) \<Rightarrow> provider \<Rightarrow> provider \<Rightarrow> bool" for int_of where
  tick: "pv_now s \<le> t \<Longrightarrow> token_step int_of s (s\<lparr>pv_now := t\<rparr>)"
| hit: "pv_pc s i = Idle \<Longrightarrow> is_cache_valid (pv_now s) (Some c) \<Longrightarrow> pv_cached s = Some c \<Longrightarrow>
    token_step int_of s (s\<lparr>pv_pc := (pv_pc s)(i := Returned (ct_bearer c))\<rparr>)"
| miss: "pv_pc s i = Idle \<Longrightarrow> \<not> is_cache_valid (pv_now s) (pv_cached s) \<Longrightarrow>
    token_step int_of s (s\<lparr>pv_pc := (pv_pc s)(i := Waiting)\<rparr>)"
| acquire: "pv_pc s i = Waiting \<Longrightarrow> pv_lock s = None \<Longrightarrow>
    token_step int_of s (s\<lparr>pv_pc := (pv_pc s)(i := Locked), pv_lock := Some i\<rparr>)"
| late_hit: "pv_pc s i = Locked \<Longrightarrow> is_cache_valid (pv_now s) (Some c) \<Longrightarrow> pv_cached s = Some c \<Longrightarrow>
    token_step int_of s (s\<lparr>pv_pc := (pv_pc s)(i := Returned (ct_bearer c)), pv_lock := None\<rparr>)"
| fetch: "pv_pc s i = Locked \<Longrightarrow> \<not> is_cache_valid (pv_now s) (pv_cached s) \<Longrightarrow>
    token_step int_of s (s\<lparr>pv_pc := (pv_pc s)(i := Fetching)\<rparr>)"
| fetched: "pv_pc s i = Fetching \<Longrightarrow> fetch_token int_of res (pv_now s) = Inr c \<Longrightarrow>
    token_step int_of s (s\<lparr>pv_pc := (pv_pc s)(i := Returned (ct_bearer c)), pv_lock := None, pv_cached := Some c\<rparr>)"
| failed: "pv_pc s i = Fetching \<Longrightarrow> fetch_token int_of res (pv_now s) = Inl e \<Longrightarrow>
    token_step int_of s (s\<lparr>pv_pc := (pv_pc s)(i := Raised e), pv_lock := None\<rparr>)"
| again: "pv_pc s i = Returned b \<or> pv_pc s i = Raised e \<Longrightarrow> token_step int_of s (s\<lparr>pv_pc := (pv_pc s)(i := Idle)\<rparr>)"

inductive token_reachable :: "(pystr \<Rightarrow> int option) \<Rightarrow> provider \<Rightarrow> bool" for int_of where
  start: "token_reachable int_of (init_provider now)"
| step: "token_reachable int_of s \<Longrightarrow> token_step int_of s t \<Longrightarrow> token_reachable int_of t"

inductive_cases token_stepE: "token_step int_of s t"

section \<open>Lemmas\<close>

text \<open>The lock is held by exactly the task that is past it, and a task fetches only while the cached token is stale.\<close>

definition token_inv :: "provider \<Rightarrow> bool" where
  "token_inv s \<longleftrightarrow> (\<forall>i. pv_pc s i \<in> {Locked, Fetching} \<longleftrightarrow> pv_lock s = Some i)
     \<and> (\<forall>i. pv_pc s i = Fetching \<longrightarrow> \<not> is_cache_valid (pv_now s) (pv_cached s))"

lemma stale_later: "\<not> is_cache_valid now cached \<Longrightarrow> now \<le> t \<Longrightarrow> \<not> is_cache_valid t cached"
  by (auto simp: is_cache_valid_def split: option.splits)

lemma token_step_inv: "token_step int_of s t \<Longrightarrow> token_inv s \<Longrightarrow> token_inv t"
proof (induction rule: token_step.induct)
  case (tick s t)
  then show ?case using stale_later[of "pv_now s" "pv_cached s" t] by (auto simp: token_inv_def)
qed (auto simp: token_inv_def split: if_splits, (metis pc.distinct option.inject)+)

lemma token_reachable_inv: "token_reachable int_of s \<Longrightarrow> token_inv s"
proof (induction rule: token_reachable.induct)
  case (start now)
  show ?case by (simp add: token_inv_def init_provider_def)
next
  case (step s t)
  then show ?case by (blast intro: token_step_inv)
qed

lemma token_run_miss:
  assumes "pv_pc s i = Idle" "pv_lock s = None" "\<not> is_cache_valid (pv_now s) (pv_cached s)" "pv_now s \<le> later"
  shows "\<exists>t. (token_step int_of)\<^sup>*\<^sup>* s t \<and> pv_pc t i = Fetching \<and> pv_now t = later \<and> pv_cached t = pv_cached s"
proof -
  let ?w = "s\<lparr>pv_pc := (pv_pc s)(i := Waiting)\<rparr>"
  let ?l = "?w\<lparr>pv_pc := (pv_pc ?w)(i := Locked), pv_lock := Some i\<rparr>"
  let ?f = "?l\<lparr>pv_pc := (pv_pc ?l)(i := Fetching)\<rparr>"
  let ?t = "?f\<lparr>pv_now := later\<rparr>"
  have "token_step int_of s ?w" using assms(1,3) by (rule token_step.miss)
  moreover have "token_step int_of ?w ?l" using assms(2) by (intro token_step.acquire) simp_all
  moreover have "token_step int_of ?l ?f" using assms(3) by (intro token_step.fetch) simp_all
  moreover have "token_step int_of ?f ?t" using assms(4) by (intro token_step.tick) simp
  ultimately have "(token_step int_of)\<^sup>*\<^sup>* s ?t" by (meson converse_rtranclp_into_rtranclp rtranclp.rtrancl_refl)
  then show ?thesis by (intro exI[of _ ?t]) simp
qed

section \<open>Properties\<close>


text \<open>A call that finds the lock free can always finish, and what it then returns or raises and what it
  leaves in the cache is what the sequential description says: the cached bearer while it is valid, a
  fetched one otherwise, and on a failure the cache as it was.\<close>

theorem token_call_refines:
  assumes "pv_pc s i = Idle" "pv_lock s = None" "pv_now s \<le> later"
  shows "\<exists>t. (token_step int_of)\<^sup>*\<^sup>* s t \<and> pv_lock t = None
    \<and> pv_cached t = snd (get_or_refresh int_of (pv_now s) res later (pv_cached s))
    \<and> pv_pc t i = (case fst (get_or_refresh int_of (pv_now s) res later (pv_cached s)) of Inl e \<Rightarrow> Raised e | Inr b \<Rightarrow> Returned b)"
proof (cases "is_cache_valid (pv_now s) (pv_cached s)")
  case True
  then obtain c where c: "pv_cached s = Some c" by (auto simp: is_cache_valid_def split: option.splits)
  from token_step.hit[OF assms(1) True[unfolded c] c] show ?thesis
    using True c assms(2) by (intro exI[of _ "s\<lparr>pv_pc := (pv_pc s)(i := Returned (ct_bearer c))\<rparr>"])
      (auto simp: get_or_refresh_def intro: r_into_rtranclp)
next
  case False
  from token_run_miss[OF assms(1,2) False assms(3)] obtain t where t: "(token_step int_of)\<^sup>*\<^sup>* s t"
    "pv_pc t i = Fetching" "pv_now t = later" "pv_cached t = pv_cached s" by blast
  show ?thesis
  proof (cases "fetch_token int_of res later")
    case (Inl e)
    with token_step.failed[of t i int_of res e] t have "token_step int_of t (t\<lparr>pv_pc := (pv_pc t)(i := Raised e), pv_lock := None\<rparr>)"
      by simp
    from rtranclp.rtrancl_into_rtrancl[OF t(1) this] show ?thesis
      using False Inl t(4) by (intro exI) (auto simp: get_or_refresh_def)
  next
    case (Inr c)
    with token_step.fetched[of t i int_of res c] t
    have "token_step int_of t (t\<lparr>pv_pc := (pv_pc t)(i := Returned (ct_bearer c)), pv_lock := None, pv_cached := Some c\<rparr>)" by simp
    from rtranclp.rtrancl_into_rtrancl[OF t(1) this] show ?thesis
      using False Inr by (intro exI) (auto simp: get_or_refresh_def)
  qed
qed

definition sample_fetching :: provider where
  "sample_fetching = \<lparr>pv_pc = (\<lambda>_. Idle)(0 := Fetching), pv_lock = Some 0, pv_cached = None, pv_now = 0\<rparr>"

lemma sample_fetching_reachable: "token_reachable (\<lambda>_. None) sample_fetching"
proof -
  let ?s = "init_provider 0"
  let ?w = "?s\<lparr>pv_pc := (pv_pc ?s)(0 := Waiting)\<rparr>"
  let ?l = "?w\<lparr>pv_pc := (pv_pc ?w)(0 := Locked), pv_lock := Some 0\<rparr>"
  have "token_reachable (\<lambda>_. None) ?w"
    by (rule token_reachable.step[OF token_reachable.start token_step.miss]) (simp_all add: init_provider_def is_cache_valid_def)
  then have "token_reachable (\<lambda>_. None) ?l"
    by (rule token_reachable.step[OF _ token_step.acquire]) (simp_all add: init_provider_def)
  then have "token_reachable (\<lambda>_. None) (?l\<lparr>pv_pc := (pv_pc ?l)(0 := Fetching)\<rparr>)"
    by (rule token_reachable.step[OF _ token_step.fetch]) (simp_all add: init_provider_def is_cache_valid_def)
  then show ?thesis by (simp add: sample_fetching_def init_provider_def)
qed


theorem token_call_refines_witness:
  "\<exists>t. (token_step (\<lambda>_. None))\<^sup>*\<^sup>* (init_provider 0) t \<and> pv_lock t = None \<and> pv_pc t 0 = Raised (TokenFetchError ReasonTimeout)"
  using token_call_refines[of "init_provider 0" 0 5 "\<lambda>_. None" HttpTimeout]
  by (auto simp: init_provider_def get_or_refresh_def is_cache_valid_def fetch_token_def)

end
