(* ===== verification/Slug.thy ===== *)
theory Slug
  imports Paths
begin

text \<open>
  \<open>scripts/gdrive_export\<close>: slugs (\<open>slugify.py\<close>), local paths (\<open>paths.py\<close>) and the slugs of the tabs of a
  workbook (\<open>gsheet_renderer.py\<close>). The Unicode tables are a parameter.
\<close>

section \<open>Slugs\<close>

record unicode =
  un_nfkd :: "pystr \<Rightarrow> pystr"
  un_nfkc :: "pystr \<Rightarrow> pystr"
  un_lower :: "pystr \<Rightarrow> pystr"
  un_mark :: "nat \<Rightarrow> bool"
  un_format :: "nat \<Rightarrow> bool"

definition MAX_LEN :: nat where
  "MAX_LEN = 80"

definition translate_dash :: "nat \<Rightarrow> nat" where
  "translate_dash c = (if c \<in> {8212, 8211, 8210, 8722} then 45 else c)"

definition slug_alnum :: "nat \<Rightarrow> bool" where
  "slug_alnum c \<longleftrightarrow> 97 \<le> c \<and> c \<le> 122 \<or> 48 \<le> c \<and> c \<le> 57"

text \<open>\<open>re.sub('[^a-z0-9]+', '-', s)\<close>; the flag says that the character before was replaced.\<close>

fun replace_other :: "bool \<Rightarrow> pystr \<Rightarrow> pystr" where
  "replace_other run [] = []"
| "replace_other run (c # cs) =
     (if slug_alnum c then c # replace_other False cs
      else if run then replace_other True cs
      else 45 # replace_other True cs)"

text \<open>\<open>re.sub('-{2,}', '-', s)\<close>\<close>

fun collapse_dashes :: "bool \<Rightarrow> pystr \<Rightarrow> pystr" where
  "collapse_dashes run [] = []"
| "collapse_dashes run (c # cs) =
     (if c \<noteq> 45 then c # collapse_dashes False cs
      else if run then collapse_dashes True cs
      else 45 # collapse_dashes True cs)"

definition is_dash :: "nat \<Rightarrow> bool" where
  "is_dash c \<longleftrightarrow> c = 45"

definition slug_core :: "unicode \<Rightarrow> pystr \<Rightarrow> pystr" where
  "slug_core un text =
     (let normalized = un_nfkd un (map translate_dash text);
          lowered = un_lower un (filter (\<lambda>c. \<not> un_mark un c) normalized);
          stripped = strip_by is_dash (collapse_dashes False (replace_other False lowered))
      in strip_by is_dash (take MAX_LEN stripped))"

definition slugify :: "unicode \<Rightarrow> pystr \<Rightarrow> pystr \<Rightarrow> pystr" where
  "slugify un text fallback_id =
     (let capped = slug_core un text in if capped = [] then lit ''file-'' @ take 8 fallback_id else capped)"

section \<open>Local paths\<close>

datatype path_error = PathTraversal | PathCollision

definition assert_under_root :: "path \<Rightarrow> path \<Rightarrow> bool" where
  "assert_under_root p base \<longleftrightarrow> is_relative_to (resolve_path p) (resolve_path base)"

definition resolve_local_path ::
  "unicode \<Rightarrow> pystr list \<Rightarrow> pystr \<Rightarrow> pystr \<Rightarrow> path set \<Rightarrow> pystr \<Rightarrow> path \<Rightarrow> path_error + path" where
  "resolve_local_path un components slug ext taken file_id base =
     (let folder = foldl join_path base (map (\<lambda>part. slugify un part file_id) components);
          safe_slug = slugify un slug file_id;
          candidate = join_path folder (safe_slug @ ext)
      in if \<not> assert_under_root candidate base then Inl PathTraversal
         else if candidate \<notin> taken then Inr candidate
         else let suffixed = join_path folder (safe_slug @ lit ''-'' @ take 8 file_id @ ext)
              in if \<not> assert_under_root suffixed base then Inl PathTraversal
                 else if suffixed \<in> taken then Inl PathCollision
                 else Inr suffixed)"

section \<open>Tabs\<close>

record tab =
  tb_title :: pystr
  tb_gid :: int
  tb_index :: int

fun assign_slugs :: "unicode \<Rightarrow> pystr set \<Rightarrow> tab list \<Rightarrow> (tab \<times> pystr) list" where
  "assign_slugs un seen [] = []"
| "assign_slugs un seen (t # ts) =
     (let base_slug = slugify un (tb_title t) (py_str_int (tb_gid t))
      in if base_slug \<notin> seen then (t, base_slug) # assign_slugs un (insert base_slug seen) ts
         else (t, base_slug @ lit ''-'' @ py_str_int (tb_gid t)) # assign_slugs un seen ts)"

definition resolve_tab_collisions :: "unicode \<Rightarrow> tab list \<Rightarrow> (tab \<times> pystr) list" where
  "resolve_tab_collisions un tabs = assign_slugs un {} (sort_key tb_index tabs)"

section \<open>Lemmas\<close>

text \<open>Lower-case letters, digits and single inner dashes.\<close>

definition slug_shape :: "pystr \<Rightarrow> bool" where
  "slug_shape s \<longleftrightarrow> list_all (\<lambda>c. slug_alnum c \<or> is_dash c) s \<and> successively (\<lambda>c d. \<not> (is_dash c \<and> is_dash d)) s"

definition tidy_slug :: "pystr \<Rightarrow> bool" where
  "tidy_slug s \<longleftrightarrow> s \<noteq> [] \<and> slug_shape s \<and> \<not> is_dash (hd s) \<and> \<not> is_dash (last s) \<and> length s \<le> MAX_LEN"

lemma slug_alnum_dash: "slug_alnum c \<Longrightarrow> c \<noteq> 45"
  by (auto simp: slug_alnum_def)

lemma slug_shape_Cons:
  "slug_shape (c # s) \<longleftrightarrow> (slug_alnum c \<or> is_dash c) \<and> slug_shape s \<and> (s = [] \<or> \<not> is_dash c \<or> \<not> is_dash (hd s))"
  by (cases s) (auto simp: slug_shape_def)

lemma slug_alnum_not_dash: "slug_alnum c \<Longrightarrow> \<not> is_dash c"
  by (simp add: is_dash_def slug_alnum_dash)

lemma replace_other_shape:
  "slug_shape (replace_other run s) \<and> (run \<longrightarrow> replace_other run s = [] \<or> \<not> is_dash (hd (replace_other run s)))"
proof (induction run s rule: replace_other.induct)
  case (2 run c cs)
  show ?case
  proof (cases "slug_alnum c")
    case True
    with 2(1) slug_alnum_not_dash show ?thesis by (simp add: slug_shape_Cons)
  next
    case False
    with 2(2,3) show ?thesis by (cases run) (auto simp: slug_shape_Cons is_dash_def)
  qed
qed (simp add: slug_shape_def)

lemma collapse_dashes_id:
  "slug_shape s \<Longrightarrow> run \<longrightarrow> s = [] \<or> \<not> is_dash (hd s) \<Longrightarrow> collapse_dashes run s = s"
proof (induction run s rule: collapse_dashes.induct)
  case (2 run c cs)
  then show ?case by (cases "c = 45") (auto simp: slug_shape_Cons is_dash_def)
qed simp

lemma slug_shape_Nil [simp]: "slug_shape []"
  by (simp add: slug_shape_def)

lemma slug_shape_append: "slug_shape (s @ t) \<Longrightarrow> slug_shape s \<and> slug_shape t"
proof (induction s)
  case (Cons c s)
  then show ?case by (cases s) (auto simp: slug_shape_Cons)
qed simp

lemma slug_shape_take: "slug_shape s \<Longrightarrow> slug_shape (take n s)"
  using slug_shape_append[of "take n s" "drop n s"] by simp

lemma strip_infix: "\<exists>p q. s = p @ strip_by P s @ q"
proof -
  obtain t where "lstrip_by P s = rstrip_by P (lstrip_by P s) @ t" using rstrip_by_prefix by blast
  moreover have "s = takeWhile P s @ lstrip_by P s" by (simp add: lstrip_by_def)
  ultimately show ?thesis unfolding strip_by_def by metis
qed

lemma slug_shape_strip: "slug_shape s \<Longrightarrow> slug_shape (strip_by is_dash s)"
proof -
  assume s: "slug_shape s"
  obtain p q where "s = p @ strip_by is_dash s @ q" using strip_infix by blast
  with s have "slug_shape (p @ strip_by is_dash s @ q)" by simp
  then show ?thesis by (blast dest: slug_shape_append)
qed

lemma length_strip: "length (strip_by P s) \<le> length s"
proof -
  obtain p q where "s = p @ strip_by P s @ q" using strip_infix by blast
  from arg_cong[OF this, of length] show ?thesis by simp
qed

lemma slug_core_tidy: "slug_core un text \<noteq> [] \<Longrightarrow> tidy_slug (slug_core un text)"
proof -
  assume ne: "slug_core un text \<noteq> []"
  let ?o = "replace_other False (un_lower un (filter (\<lambda>c. \<not> un_mark un c) (un_nfkd un (map translate_dash text))))"
  define r where "r = strip_by is_dash (collapse_dashes False ?o)"
  have "slug_shape ?o" using replace_other_shape by blast
  then have "slug_shape r" using collapse_dashes_id[of ?o False] slug_shape_strip by (simp add: r_def)
  then have r: "slug_core un text = strip_by is_dash (take MAX_LEN r)" "slug_shape r"
    by (simp_all add: slug_core_def Let_def r_def)
  have "length (slug_core un text) \<le> MAX_LEN"
    using length_strip[of is_dash "take MAX_LEN r"] r(1) by simp
  moreover have "slug_shape (slug_core un text)" unfolding r(1) by (intro slug_shape_strip slug_shape_take r(2))
  moreover have "\<not> is_dash (hd (slug_core un text))" using ne unfolding r(1) by (rule strip_by_hd)
  moreover have "\<not> is_dash (last (slug_core un text))" using ne unfolding r(1) by (rule strip_by_last)
  ultimately show ?thesis using ne by (simp add: tidy_slug_def)
qed

text \<open>The tables leave slugs alone: they are ASCII, lower case and hold no combining mark.\<close>

definition ascii_stable :: "unicode \<Rightarrow> bool" where
  "ascii_stable un \<longleftrightarrow> (\<forall>s. slug_shape s \<longrightarrow> un_nfkd un s = s \<and> un_lower un s = s)
     \<and> (\<forall>c. slug_alnum c \<or> is_dash c \<longrightarrow> \<not> un_mark un c)"

lemma replace_other_id: "slug_shape s \<Longrightarrow> run \<longrightarrow> s = [] \<or> \<not> is_dash (hd s) \<Longrightarrow> replace_other run s = s"
proof (induction run s rule: replace_other.induct)
  case (2 run c cs)
  show ?case
  proof (cases "slug_alnum c")
    case True
    with 2 show ?thesis by (simp add: slug_shape_Cons)
  next
    case False
    with 2(4,5) have "is_dash c" "\<not> run" "cs = [] \<or> \<not> is_dash (hd cs)" "slug_shape cs"
      by (auto simp: slug_shape_Cons)
    with 2(3)[OF False] False show ?thesis by (simp add: is_dash_def)
  qed
qed simp

lemma translate_dash_id: "slug_shape s \<Longrightarrow> map translate_dash s = s"
  by (rule map_idI) (auto simp: slug_shape_def list_all_iff translate_dash_def slug_alnum_def is_dash_def)

lemma slug_core_id:
  assumes "ascii_stable un" "tidy_slug s" shows "slug_core un s = s"
proof -
  have sh: "slug_shape s" and ends: "s \<noteq> []" "\<not> is_dash (hd s)" "\<not> is_dash (last s)" "take MAX_LEN s = s"
    using assms(2) by (auto simp: tidy_slug_def)
  have marks: "filter (\<lambda>c. \<not> un_mark un c) s = s"
    using assms(1) sh by (auto simp: filter_id_conv ascii_stable_def slug_shape_def list_all_iff)
  have "un_nfkd un s = s" "un_lower un s = s" using assms(1) sh by (auto simp: ascii_stable_def)
  then show ?thesis
    using replace_other_id[of s False] collapse_dashes_id[of s False] strip_by_ends[OF ends(1-3)] sh ends(4) marks
    by (simp add: slug_core_def Let_def translate_dash_id)
qed

lemma tidy_plain: "tidy_slug s \<Longrightarrow> plain_component s \<and> 47 \<notin> set s \<and> plain_component (s @ t)"
proof -
  assume t: "tidy_slug s"
  then obtain c cs where s: "s = c # cs" by (cases s) (auto simp: tidy_slug_def)
  from t have "\<forall>d\<in>set s. slug_alnum d \<or> is_dash d" by (auto simp: tidy_slug_def slug_shape_def list_all_iff)
  then have "46 \<notin> set s" "47 \<notin> set s" by (auto simp: slug_alnum_def is_dash_def)
  then show ?thesis using s by (auto simp: plain_component_def)
qed

lemma slugify_plain:
  assumes "47 \<notin> set file_id"
  shows "plain_component (slugify un part file_id @ t) \<and> 47 \<notin> set (slugify un part file_id)"
proof (cases "slug_core un part = []")
  case True
  have "47 \<notin> set (take 8 file_id)" using assms in_set_takeD by fastforce
  with True show ?thesis by (auto simp: slugify_def plain_component_def lit_def)
next
  case False
  then show ?thesis using tidy_plain[OF slug_core_tidy[OF False]] by (simp add: slugify_def Let_def)
qed

lemma join_slugs:
  assumes "47 \<notin> set file_id"
  shows "foldl join_path base (map (\<lambda>part. slugify un part file_id) components) = base @ map (\<lambda>part. slugify un part file_id) components"
proof (induction components arbitrary: base)
  case (Cons c cs)
  have "plain_component (slugify un c file_id)" using slugify_plain[OF assms, of un c "[]"] by simp
  with Cons show ?case using slugify_plain[OF assms, of un c "[]"] by (simp add: join_path_plain)
qed simp

section \<open>Properties\<close>

text \<open>A slug is a file name: it is the fallback with the first eight characters of the identifier, or at
  most 80 lower-case letters, digits and dashes that neither starts nor ends with a dash nor has two in a
  row; and a slug is its own slug, so a second pass over a tree changes no name.\<close>

theorem slugify_tidy_idempotent:
  assumes "ascii_stable un"
  shows "(slugify un text file_id = lit ''file-'' @ take 8 file_id \<or> tidy_slug (slugify un text file_id))
    \<and> (tidy_slug (slugify un text file_id) \<longrightarrow> slugify un (slugify un text file_id) other_id = slugify un text file_id)"
proof -
  have "slugify un text file_id = lit ''file-'' @ take 8 file_id \<or> tidy_slug (slugify un text file_id)"
    using slug_core_tidy[of un "text"] by (auto simp: slugify_def Let_def)
  moreover have "tidy_slug s \<Longrightarrow> slugify un s other_id = s" for s
    using slug_core_id[OF assms] by (auto simp: slugify_def Let_def tidy_slug_def)
  ultimately show ?thesis by blast
qed

text \<open>Path allocation is confined and collision free: for identifiers without a slash the allocated path
  lies below the root, under the slugs of the folders, and is not one of the taken paths; allocation fails
  only when both the plain and the suffixed name are taken.\<close>

theorem resolve_local_path_exact:
  assumes "47 \<notin> set file_id" "47 \<notin> set ext" "list_all plain_component base"
  shows "let folder = base @ map (\<lambda>part. slugify un part file_id) components;
             plain = folder @ [slugify un slug file_id @ ext];
             suffixed = folder @ [slugify un slug file_id @ lit ''-'' @ take 8 file_id @ ext]
         in resolve_local_path un components slug ext taken file_id base =
              (if plain \<notin> taken then Inr plain else if suffixed \<notin> taken then Inr suffixed else Inl PathCollision)"
proof -
  let ?folder = "base @ map (\<lambda>part. slugify un part file_id) components"
  have short: "47 \<notin> set (take 8 file_id)" using assms(1) in_set_takeD by fastforce
  have plain: "plain_component (slugify un slug file_id @ t)" "47 \<notin> set (slugify un slug file_id)" for t
    using slugify_plain[OF assms(1)] by auto
  have comps: "list_all plain_component ?folder"
    using assms(3) slugify_plain[OF assms(1), of un _ "[]"] by (auto simp: list_all_iff)
  have join: "join_path ?folder (slugify un slug file_id @ ext) = ?folder @ [slugify un slug file_id @ ext]"
    "join_path ?folder (slugify un slug file_id @ lit ''-'' @ take 8 file_id @ ext)
       = ?folder @ [slugify un slug file_id @ lit ''-'' @ take 8 file_id @ ext]"
    using join_path_plain[OF plain(1), of ext ?folder] join_path_plain[OF plain(1), of "lit ''-'' @ take 8 file_id @ ext" ?folder]
      plain(2) assms(2) short by (simp_all add: lit_def)
  have under: "assert_under_root (?folder @ [n]) base" if "plain_component n" for n
    using resolve_plain[of "?folder @ [n]"] resolve_plain[OF assms(3)] comps that by (simp add: assert_under_root_def)
  show ?thesis
    using under[OF plain(1)[of ext]] under[OF plain(1)[of "lit ''-'' @ take 8 file_id @ ext"]]
    by (simp add: resolve_local_path_def join_slugs[OF assms(1)] join Let_def)
qed

definition sample_unicode :: unicode where
  "sample_unicode = \<lparr>un_nfkd = id, un_nfkc = id, un_lower = id, un_mark = (\<lambda>_. False), un_format = (\<lambda>_. False)\<rparr>"

lemmas slug_eval = slugify_def slug_core_def sample_unicode_def lit_def translate_dash_def slug_alnum_def is_dash_def
  strip_by_def lstrip_by_def rstrip_by_def MAX_LEN_def

lemma sample_unicode_stable: "ascii_stable sample_unicode"
  by (simp add: ascii_stable_def sample_unicode_def)

theorem slugify_tidy_idempotent_witness:
  "slugify sample_unicode (slugify sample_unicode (lit ''la  tour'') []) (lit ''x'') = lit ''la-tour''"
proof -
  have e: "slugify sample_unicode (lit ''la  tour'') [] = lit ''la-tour''"
    by (simp add: slug_eval)
  have "tidy_slug (lit ''la-tour'')"
    by (simp add: tidy_slug_def slug_shape_def lit_def slug_alnum_def is_dash_def MAX_LEN_def)
  with slugify_tidy_idempotent[OF sample_unicode_stable, of "lit ''la  tour''" "[]" "lit ''x''"] show ?thesis
    unfolding e by blast
qed

theorem resolve_local_path_exact_witness:
  "resolve_local_path sample_unicode [] (lit ''a'') (lit ''.md'') {[lit ''lore'', lit ''a.md'']} (lit ''1234567890'') [lit ''lore'']
     = Inr [lit ''lore'', lit ''a-12345678.md'']"
proof -
  have e: "slugify sample_unicode (lit ''a'') (lit ''1234567890'') = lit ''a''"
    by (simp add: slug_eval)
  show ?thesis
    using resolve_local_path_exact[of "lit ''1234567890''" "lit ''.md''" "[lit ''lore'']" sample_unicode "[]" "lit ''a''"
        "{[lit ''lore'', lit ''a.md'']}"]
    unfolding e by (simp add: lit_def plain_component_def)
qed

text \<open>Two tabs of one workbook can be given the same slug: a suffixed slug is not remembered.\<close>

lemma tab_slug_collision:
  "map snd (resolve_tab_collisions sample_unicode [\<lparr>tb_title = lit ''a'', tb_gid = 1, tb_index = 0\<rparr>,
      \<lparr>tb_title = lit ''a'', tb_gid = 5, tb_index = 1\<rparr>, \<lparr>tb_title = lit ''a-5'', tb_gid = 7, tb_index = 2\<rparr>])
   = [lit ''a'', lit ''a-5'', lit ''a-5'']"
  by (simp add: resolve_tab_collisions_def slug_eval py_str_int_def digits_of.simps Let_def)

end
