(* ===== verification/Sheet_Renderer.thy ===== *)
theory Sheet_Renderer
  imports Slug
begin

text \<open>
  \<open>scripts/gdrive_export/normalize.py\<close> and \<open>gsheet_renderer.py\<close>: a tab of a workbook as a Markdown table.
\<close>

section \<open>Definitions\<close>

definition export_normalize :: "unicode \<Rightarrow> pystr \<Rightarrow> pystr" where
  "export_normalize un s = filter (\<lambda>c. \<not> (c \<le> 8 \<or> 11 \<le> c \<and> c \<le> 31)) (un_nfkc un s)"

definition build_tab_source_id :: "pystr \<Rightarrow> int \<Rightarrow> pystr" where
  "build_tab_source_id file_id gid = file_id @ [35] @ py_str_int gid"

definition build_tab_title :: "pystr \<Rightarrow> pystr \<Rightarrow> pystr" where
  "build_tab_title workbook_title tab_title = workbook_title @ [32, 8212, 32] @ tab_title"

definition replace_char :: "nat \<Rightarrow> pystr \<Rightarrow> pystr \<Rightarrow> pystr" where
  "replace_char c r s = concat (map (\<lambda>x. if x = c then r else [x]) s)"

definition escape_cell :: "unicode \<Rightarrow> pystr \<Rightarrow> pystr" where
  "escape_cell un s =
     (let without_zw = filter (\<lambda>c. \<not> un_format un c) (export_normalize un s)
      in replace_char 10 (lit ''<br>'') (replace_char 124 [92, 124] without_zw))"

definition pad_row :: "pystr list \<Rightarrow> nat \<Rightarrow> pystr list" where
  "pad_row row width = row @ replicate (width - length row) []"

definition table_line :: "pystr list \<Rightarrow> pystr" where
  "table_line cells = lit ''| '' @ py_join (lit '' | '') cells @ lit '' |''"

definition row_line :: "unicode \<Rightarrow> nat \<Rightarrow> pystr list \<Rightarrow> pystr" where
  "row_line un width row = table_line (map (escape_cell un) (pad_row row width))"

definition table_width :: "pystr list list \<Rightarrow> nat" where
  "table_width values = foldr (\<lambda>r. max (length r)) values 0"

definition table_lines :: "unicode \<Rightarrow> pystr list list \<Rightarrow> pystr list" where
  "table_lines un values =
     (case values of
        [] \<Rightarrow> [lit ''*(empty sheet)*'']
      | header # rows \<Rightarrow>
          (let width = table_width values
           in row_line un width header # table_line (replicate width (lit ''---'')) # map (row_line un width) rows))"

definition trace_comment :: "pystr \<Rightarrow> int \<Rightarrow> pystr" where
  "trace_comment file_id gid = lit ''<!-- gdrive: file='' @ file_id @ lit '' tab='' @ py_str_int gid @ lit '' -->''"

text \<open>With the identifiers given, as the export calls it.\<close>

definition render_tab_markdown :: "unicode \<Rightarrow> pystr list list \<Rightarrow> pystr \<Rightarrow> int \<Rightarrow> pystr" where
  "render_tab_markdown un values file_id gid = py_join [10] (trace_comment file_id gid # [] # table_lines un values)"

section \<open>Reading a table line\<close>

text \<open>The cells of a line: a pipe separates them unless a backslash stands before it.\<close>

fun split_pipes :: "bool \<Rightarrow> pystr \<Rightarrow> pystr list" where
  "split_pipes escaped [] = [[]]"
| "split_pipes escaped (c # cs) =
     (if c = 124 \<and> \<not> escaped then [] # split_pipes False cs
      else (case split_pipes (c = 92) cs of [] \<Rightarrow> [[c]] | p # ps \<Rightarrow> (c # p) # ps))"

text \<open>Every pipe of a cell is escaped; the flag says that a backslash stands before the text.\<close>

fun pipe_safe :: "bool \<Rightarrow> pystr \<Rightarrow> bool" where
  "pipe_safe escaped [] = True"
| "pipe_safe escaped (c # cs) = ((c = 124 \<longrightarrow> escaped) \<and> pipe_safe (c = 92) cs)"

lemma split_pipes_ne: "split_pipes e s \<noteq> []"
  by (cases s) (auto split: list.splits)

lemma split_pipes_safe:
  "pipe_safe e s \<Longrightarrow> split_pipes e (s @ 32 # t) = (s @ 32 # hd (split_pipes False t)) # tl (split_pipes False t)"
proof (induction s arbitrary: e)
  case Nil
  then show ?case using split_pipes_ne[of False t] by (cases "split_pipes False t") auto
next
  case (Cons c s)
  then have "split_pipes (c = 92) (s @ 32 # t) = (s @ 32 # hd (split_pipes False t)) # tl (split_pipes False t)"
    by simp
  with Cons.prems show ?case by auto
qed

lemma split_pipes_cells:
  "cells \<noteq> [] \<Longrightarrow> \<forall>c\<in>set cells. pipe_safe False c \<Longrightarrow>
   split_pipes False (32 # py_join (lit '' | '') cells @ lit '' |'') = map (\<lambda>c. 32 # c @ [32]) cells @ [[]]"
proof (induction cells rule: induct_list012)
  case (2 c)
  then show ?case using split_pipes_safe[of False c "[124]"] by (simp add: lit_def)
next
  case (3 c d cs)
  from 3(2)[of] 3(3,4) have ih: "split_pipes False (32 # py_join (lit '' | '') (d # cs) @ lit '' |'') = map (\<lambda>c. 32 # c @ [32]) (d # cs) @ [[]]"
    by simp
  have "pipe_safe False c" using 3 by simp
  from split_pipes_safe[OF this, of "124 # 32 # py_join (lit '' | '') (d # cs) @ lit '' |''"] ih
  show ?case by (simp add: lit_def)
qed simp

lemma pipe_safe_append: "pipe_safe e s \<Longrightarrow> pipe_safe (if s = [] then e else last s = 92) t \<Longrightarrow> pipe_safe e (s @ t)"
  by (induction e s rule: pipe_safe.induct) (auto split: if_splits)

lemma pipe_safe_weaken: "pipe_safe False s \<Longrightarrow> pipe_safe e s"
  by (cases s) auto

lemma pipe_safe_free: "124 \<notin> set s \<Longrightarrow> pipe_safe e s"
  by (induction e s rule: pipe_safe.induct) auto

lemma escaped_safe: "pipe_safe False (replace_char 10 (lit ''<br>'') (replace_char 124 [92, 124] s))"
proof (induction s)
  case (Cons c s)
  let ?f = "\<lambda>s. replace_char 10 (lit ''<br>'') (replace_char 124 [92, 124] s)"
  have "?f (c # s) = (if c = 124 then [92, 124] else if c = 10 then lit ''<br>'' else [c]) @ ?f s"
    by (simp add: replace_char_def)
  moreover have "pipe_safe False (if c = 124 then [92, 124] else if c = 10 then lit ''<br>'' else [c])"
    by (simp add: lit_def)
  ultimately show ?case using Cons by (simp add: pipe_safe_append pipe_safe_weaken)
qed (simp add: replace_char_def)

lemma escaped_one_line: "10 \<notin> set (replace_char 10 (lit ''<br>'') s)"
  by (auto simp: replace_char_def lit_def split: if_splits)

lemma escape_cell_safe: "pipe_safe False (escape_cell un s)" "10 \<notin> set (escape_cell un s)"
  using escaped_safe escaped_one_line by (simp_all add: escape_cell_def Let_def)

lemma set_py_join: "set (py_join sep ps) \<subseteq> set sep \<union> \<Union> (set ` set ps)"
  by (induction sep ps rule: py_join.induct) auto

lemma table_line_one_line: "\<forall>c\<in>set cells. 10 \<notin> set c \<Longrightarrow> 10 \<notin> set (table_line cells)"
  using set_py_join[of "lit '' | ''" cells] by (auto simp: table_line_def lit_def)

lemma length_pad_row: "length row \<le> width \<Longrightarrow> length (pad_row row width) = width"
  by (simp add: pad_row_def)

lemma table_width_bound: "row \<in> set values \<Longrightarrow> length row \<le> table_width values"
  by (induction "values") (auto simp: table_width_def)

lemma row_line_one_line: "10 \<notin> set (row_line un width row)"
  unfolding row_line_def by (rule table_line_one_line) (auto simp: escape_cell_safe)

lemma table_lines_one_line:
  assumes "line \<in> set (table_lines un values)"
  shows "10 \<notin> set line"
proof -
  have "10 \<notin> set (table_line (replicate n (lit ''---'')))" for n
    by (rule table_line_one_line) (auto simp: lit_def)
  moreover have "10 \<notin> set (lit ''*(empty sheet)*'')" by (simp add: lit_def)
  ultimately show ?thesis using assms row_line_one_line
    by (cases "values") (auto simp: table_lines_def Let_def)
qed

lemma split_table_line:
  "cells \<noteq> [] \<Longrightarrow> \<forall>c\<in>set cells. pipe_safe False c \<Longrightarrow>
   split_pipes False (table_line cells) = [] # map (\<lambda>c. 32 # c @ [32]) cells @ [[]]"
  using split_pipes_cells[of cells] by (simp add: table_line_def lit_def)

text \<open>The cells a reader of the table sees: one for each column, between spaces.\<close>

definition cells_seen :: "pystr list \<Rightarrow> pystr list" where
  "cells_seen cells = [] # map (\<lambda>c. 32 # c @ [32]) cells @ [[]]"

definition padded_cells :: "unicode \<Rightarrow> nat \<Rightarrow> pystr list \<Rightarrow> pystr list" where
  "padded_cells un width row = map (escape_cell un) row @ replicate (width - length row) (escape_cell un [])"

lemma split_row_line: "0 < width \<Longrightarrow> length row \<le> width \<Longrightarrow> split_pipes False (row_line un width row) = cells_seen (padded_cells un width row)"
  using length_pad_row[of row width]
  by (subst row_line_def, subst split_table_line) (auto simp: cells_seen_def padded_cells_def pad_row_def escape_cell_safe)

lemma split_rule_line: "0 < width \<Longrightarrow> split_pipes False (table_line (replicate width (lit ''---''))) = cells_seen (replicate width (lit ''---''))"
  by (subst split_table_line) (auto simp: cells_seen_def lit_def)

lemma split_table_lines:
  assumes "0 < table_width (header # rows)"
  shows "map (split_pipes False) (table_lines un (header # rows)) =
    cells_seen (padded_cells un (table_width (header # rows)) header) # cells_seen (replicate (table_width (header # rows)) (lit ''---''))
    # map (\<lambda>row. cells_seen (padded_cells un (table_width (header # rows)) row)) rows"
proof -
  have "length row \<le> table_width (header # rows)" if "row = header \<or> row \<in> set rows" for row
    using that by (intro table_width_bound) auto
  with assms show ?thesis by (simp add: table_lines_def Let_def split_row_line split_rule_line)
qed

lemma py_str_int_no_newline: "10 \<notin> set (py_str_int i)"
  by (auto simp: py_str_int_def dest: digits_of_range)

section \<open>Properties\<close>

text \<open>A tab with at least one cell renders to a table that reads back exactly.  Its lines are
  the trace comment, a blank line, the first row, the dashes and the other rows; whatever pipes and newlines the
  cells hold, no line has more or fewer cells than the widest row, and cell \<open>i\<close> of a line is the
  escaped text of cell \<open>i\<close> of its row, the rows that are too short being padded with the empty text.\<close>

theorem sheet_table_reads_back:
  assumes "10 \<notin> set file_id" and "0 < table_width (header # rows)"
  shows "map (split_pipes False) (drop 2 (split_on 10 (render_tab_markdown un (header # rows) file_id gid))) =
    cells_seen (padded_cells un (table_width (header # rows)) header) # cells_seen (replicate (table_width (header # rows)) (lit ''---''))
    # map (\<lambda>row. cells_seen (padded_cells un (table_width (header # rows)) row)) rows"
proof -
  have "10 \<notin> set (trace_comment file_id gid)"
    using assms(1) by (simp add: trace_comment_def lit_def py_str_int_no_newline)
  then have "split_on 10 (render_tab_markdown un (header # rows) file_id gid) = trace_comment file_id gid # [] # table_lines un (header # rows)"
    unfolding render_tab_markdown_def by (intro split_on_py_join) (auto dest: table_lines_one_line)
  then show ?thesis by (simp add: split_table_lines[OF assms(2)])
qed

theorem sheet_table_reads_back_witness:
  "map (split_pipes False) (drop 2 (split_on 10 (render_tab_markdown sample_unicode [[lit ''a|b''], [lit ''c'', [100, 10, 101]]] (lit ''f'') 0))) =
    [[[], lit '' a'' @ [92] @ lit ''|b '', lit ''  '', []], [[], lit '' --- '', lit '' --- '', []], [[], lit '' c '', lit '' d<br>e '', []]]"
  by (subst sheet_table_reads_back)
     (simp_all add: table_width_def cells_seen_def padded_cells_def escape_cell_def export_normalize_def replace_char_def
        sample_unicode_def lit_def numeral_2_eq_2)

end
