(* ===== verification/Json_Access.thy ===== *)
theory Json_Access
  imports Prelude "HOL-Library.Monad_Syntax"
begin

text \<open>
  How the sources read a decoded JSON document: \<open>get\<close>, indexing, membership, iteration and truth on its
  values.  A read that raises (TypeError, KeyError, AttributeError) is \<open>None\<close>.
\<close>

definition js_get :: "pyval \<Rightarrow> string \<Rightarrow> pyval \<Rightarrow> pyval option" where
  "js_get d k dflt = (case d of PDict kvs \<Rightarrow> Some (case map_of kvs (lit k) of Some v \<Rightarrow> v | None \<Rightarrow> dflt) | _ \<Rightarrow> None)"

definition js_item :: "pyval \<Rightarrow> string \<Rightarrow> pyval option" where
  "js_item d k = (case d of PDict kvs \<Rightarrow> map_of kvs (lit k) | _ \<Rightarrow> None)"

definition js_has :: "string \<Rightarrow> pyval \<Rightarrow> bool option" where
  "js_has k d =
     (case d of
        PDict kvs \<Rightarrow> Some (map_of kvs (lit k) \<noteq> None)
      | PList xs \<Rightarrow> Some (PStr (lit k) \<in> set xs)
      | PStr s \<Rightarrow> Some (py_in (lit k) s)
      | _ \<Rightarrow> None)"

definition js_iter :: "pyval \<Rightarrow> pyval list option" where
  "js_iter v =
     (case v of
        PList xs \<Rightarrow> Some xs
      | PDict kvs \<Rightarrow> Some (map (PStr \<circ> fst) kvs)
      | PStr s \<Rightarrow> Some (map (\<lambda>c. PStr [c]) s)
      | _ \<Rightarrow> None)"

definition js_str :: "pyval \<Rightarrow> pystr option" where
  "js_str v = (case v of PStr s \<Rightarrow> Some s | _ \<Rightarrow> None)"

definition js_num :: "pyval \<Rightarrow> rat option" where
  "js_num v = (case v of PInt i \<Rightarrow> Some (of_int i) | PFloat q \<Rightarrow> Some q | PBool b \<Rightarrow> Some (if b then 1 else 0) | _ \<Rightarrow> None)"

fun py_truth :: "pyval \<Rightarrow> bool" where
  "py_truth PNone = False"
| "py_truth (PBool b) = b"
| "py_truth (PInt i) = (i \<noteq> 0)"
| "py_truth (PFloat q) = (q \<noteq> 0)"
| "py_truth (PStr s) = (s \<noteq> [])"
| "py_truth (PList xs) = (xs \<noteq> [])"
| "py_truth (PDict kvs) = (kvs \<noteq> [])"

text \<open>A comprehension whose body may raise, and one that may skip an element.\<close>

fun js_map :: "('a \<Rightarrow> 'b option) \<Rightarrow> 'a list \<Rightarrow> 'b list option" where
  "js_map f [] = Some []"
| "js_map f (x # xs) = do { y \<leftarrow> f x; ys \<leftarrow> js_map f xs; Some (y # ys) }"

fun js_collect :: "('a \<Rightarrow> 'b option option) \<Rightarrow> 'a list \<Rightarrow> 'b list option" where
  "js_collect f [] = Some []"
| "js_collect f (x # xs) =
     do { y \<leftarrow> f x; ys \<leftarrow> js_collect f xs; Some (case y of Some v \<Rightarrow> v # ys | None \<Rightarrow> ys) }"

lemmas js_eval = js_get_def js_item_def js_has_def js_iter_def js_str_def js_num_def

lemma js_map_append:
  "js_map f (xs @ ys) = do { us \<leftarrow> js_map f xs; vs \<leftarrow> js_map f ys; Some (us @ vs) }"
  by (induction xs) (auto split: bind_splits simp: Option.bind_eq_Some_conv)

lemma js_map_Some_iff: "js_map f xs = Some ys \<longleftrightarrow> list_all2 (\<lambda>x y. f x = Some y) xs ys"
  by (induction xs arbitrary: ys) (auto simp: Option.bind_eq_Some_conv list_all2_Cons1)

lemma js_map_length: "js_map f xs = Some ys \<Longrightarrow> length ys = length xs"
  by (auto simp: js_map_Some_iff dest: list_all2_lengthD)

end
