(* ===== verification/Slide_Renderer.thy ===== *)
theory Slide_Renderer
  imports Sheet_Renderer Json_Access "HOL-Library.Product_Lexorder"
begin

text \<open>
  \<open>scripts/gdrive_export/gslide_renderer.py\<close>: a presentation, as the Slides API returns it, as Markdown.
  The functions read the decoded document; a document of another shape makes them raise.
\<close>

section \<open>Definitions\<close>

definition normalize_slide_text :: "unicode \<Rightarrow> pystr \<Rightarrow> pystr" where
  "normalize_slide_text un s = filter (\<lambda>c. \<not> un_format un c) (export_normalize un s)"

text \<open>\<open>te["textRun"]["content"] for te in text_elements if "textRun" in te\<close>\<close>

definition run_content :: "pyval \<Rightarrow> pystr option option" where
  "run_content te =
     do { present \<leftarrow> js_has ''textRun'' te;
          if present then do { run \<leftarrow> js_item te ''textRun''; content \<leftarrow> js_item run ''content''; s \<leftarrow> js_str content; Some (Some s) }
          else Some None }"

definition shape_runs :: "pyval \<Rightarrow> pystr list option" where
  "shape_runs shape =
     do { text_obj \<leftarrow> js_get shape ''text'' (PDict []);
          text_elements \<leftarrow> js_get text_obj ''textElements'' (PList []);
          tes \<leftarrow> js_iter text_elements;
          js_collect run_content tes }"

definition placed_shape :: "pyval \<Rightarrow> ((rat \<times> rat) \<times> pystr) option option" where
  "placed_shape element =
     do { present \<leftarrow> js_has ''shape'' element;
          if \<not> present then Some None
          else do {
            shape \<leftarrow> js_item element ''shape'';
            runs \<leftarrow> shape_runs shape;
            if concat runs = [] then Some None
            else do {
              transform \<leftarrow> js_get element ''transform'' (PDict []);
              ty \<leftarrow> js_get transform ''translateY'' (PFloat 0);
              translate_y \<leftarrow> js_num ty;
              tx \<leftarrow> js_get transform ''translateX'' (PFloat 0);
              translate_x \<leftarrow> js_num tx;
              Some (Some ((translate_y, translate_x), concat runs)) } } }"

definition extract_slide_text :: "unicode \<Rightarrow> pyval \<Rightarrow> pystr option" where
  "extract_slide_text un slide =
     do { page_elements \<leftarrow> js_get slide ''pageElements'' (PList []);
          elements \<leftarrow> js_iter page_elements;
          shapes \<leftarrow> js_collect placed_shape elements;
          Some (py_join [10, 10] (map (\<lambda>s. normalize_slide_text un (snd s)) (sort_key fst shapes))) }"

definition note_part :: "unicode \<Rightarrow> pyval \<Rightarrow> pystr option option" where
  "note_part un element =
     do { present \<leftarrow> js_has ''shape'' element;
          if \<not> present then Some None
          else do {
            shape \<leftarrow> js_item element ''shape'';
            runs \<leftarrow> shape_runs shape;
            if py_strip (py_join [10] runs) = [] then Some None
            else Some (Some (normalize_slide_text un (py_join [10] runs))) } }"

definition extract_speaker_notes :: "unicode \<Rightarrow> pyval \<Rightarrow> pystr option" where
  "extract_speaker_notes un slide =
     do { slide_props \<leftarrow> js_get slide ''slideProperties'' (PDict []);
          notes_page \<leftarrow> js_get slide_props ''notesPage'' (PDict []);
          page_elements \<leftarrow> js_get notes_page ''pageElements'' (PList []);
          elements \<leftarrow> js_iter page_elements;
          parts \<leftarrow> js_collect (note_part un) elements;
          Some (py_join [10] parts) }"

definition notes_block :: "pystr \<Rightarrow> pystr list option" where
  "notes_block notes =
     (if notes = [] then Some []
      else case py_splitlines notes of
             [] \<Rightarrow> None
           | l # ls \<Rightarrow> Some [[], py_join [10] ((lit ''> **Notes**: '' @ l) # map (\<lambda>line. lit ''> '' @ line) ls)])"

definition slide_hidden :: "pyval \<Rightarrow> bool option" where
  "slide_hidden slide =
     do { page_props \<leftarrow> js_get slide ''pageProperties'' (PDict []);
          skip \<leftarrow> js_get page_props ''skipSlide'' PNone;
          Some (skip = PBool True) }"

text \<open>The parts a visible slide adds.\<close>

definition slide_parts :: "unicode \<Rightarrow> int \<Rightarrow> pyval \<Rightarrow> pystr list option" where
  "slide_parts un n slide =
     do { s \<leftarrow> extract_slide_text un slide;
          notes \<leftarrow> extract_speaker_notes un slide;
          block \<leftarrow> notes_block notes;
          Some ([lit ''## Slide '' @ py_str_int n, [], if s \<noteq> [] then s else lit ''*(no text content)*''] @ block @ [[]]) }"

fun render_slides :: "unicode \<Rightarrow> nat \<Rightarrow> int \<Rightarrow> pyval list \<Rightarrow> (pystr list \<times> nat list) option" where
  "render_slides un original_idx visible_count [] = Some ([], [])"
| "render_slides un original_idx visible_count (slide # slides) =
     do { hidden \<leftarrow> slide_hidden slide;
          if hidden then do {
            (parts, indices) \<leftarrow> render_slides un (original_idx + 1) visible_count slides;
            Some (parts, original_idx # indices) }
          else do {
            own \<leftarrow> slide_parts un (visible_count + 1) slide;
            (parts, indices) \<leftarrow> render_slides un (original_idx + 1) (visible_count + 1) slides;
            Some (own @ parts, indices) } }"

text \<open>With the identifier given, as the export calls it; the title is not used.\<close>

definition render_presentation_markdown :: "unicode \<Rightarrow> pyval \<Rightarrow> pystr \<Rightarrow> (pystr \<times> nat list) option" where
  "render_presentation_markdown un presentation file_id =
     do { value \<leftarrow> js_get presentation ''slides'' (PList []);
          slides \<leftarrow> js_iter value;
          (parts, hidden_indices) \<leftarrow> render_slides un 1 0 slides;
          Some (py_join [10] ((lit ''<!-- gdrive: file='' @ file_id @ lit '' -->'') # [] # parts), hidden_indices) }"

section \<open>Lemmas\<close>

lemma js_map_hidden_Cons:
  "js_map slide_hidden (s # ss) = Some flags \<longleftrightarrow> (\<exists>h hs. flags = h # hs \<and> slide_hidden s = Some h \<and> js_map slide_hidden ss = Some hs)"
  by (auto simp: Option.bind_eq_Some_conv)

text \<open>The slides whose flag is not set.\<close>

definition visible_slides :: "bool list \<Rightarrow> pyval list \<Rightarrow> pyval list" where
  "visible_slides flags slides = map fst (filter (\<lambda>p. \<not> snd p) (zip slides flags))"

lemma visible_slides_simps [simp]:
  "visible_slides [] [] = []"
  "visible_slides (True # fs) (s # ss) = visible_slides fs ss"
  "visible_slides (False # fs) (s # ss) = s # visible_slides fs ss"
  by (simp_all add: visible_slides_def)

lemma render_slides_numbered:
  "render_slides un i (int n) slides =
     do { flags \<leftarrow> js_map slide_hidden slides;
          blocks \<leftarrow> js_map (\<lambda>(k, slide). slide_parts un (int k) slide) (List.enumerate (Suc n) (visible_slides flags slides));
          Some (concat blocks, map fst (filter snd (List.enumerate i flags))) }"
proof (induction slides arbitrary: i n)
  case (Cons slide slides)
  note IH = Cons.IH[of "Suc i" n] Cons.IH[of "Suc i" "Suc n", unfolded of_nat_Suc]
  show ?case
  proof (cases "slide_hidden slide")
    case (Some h)
    show ?thesis
    proof (cases h)
      case True
      with Some show ?thesis by (cases "js_map slide_hidden slides") (simp_all add: IH)
    next
      case False
      with Some show ?thesis
        by (cases "slide_parts un (int n + 1) slide"; cases "js_map slide_hidden slides") (simp_all add: IH add.commute)
    qed
  qed simp
qed simp

text \<open>The notes stay inside one block quote, whatever line breaks they hold.\<close>

lemma splitlines_nonempty: "s \<noteq> [] \<or> cur \<noteq> [] \<Longrightarrow> splitlines_from cur s \<noteq> []"
  by (induction cur s rule: splitlines_from.induct) auto

lemma notes_block_quoted:
  assumes "notes \<noteq> []"
  obtains q where "notes_block notes = Some [[], q]" and "list_all (\<lambda>line. take 2 line = lit ''> '') (split_on 10 q)"
    and "length (split_on 10 q) = length (py_splitlines notes)"
proof -
  obtain l ls where ls: "py_splitlines notes = l # ls"
    using splitlines_nonempty[of "notes" "[]"] assms by (cases "py_splitlines notes") (auto simp: py_splitlines_def)
  let ?lines = "(lit ''> **Notes**: '' @ l) # map (\<lambda>line. lit ''> '' @ line) ls"
  have "10 \<notin> set line" if "line \<in> set (l # ls)" for line
    using splitlines_no_break[of line "[]" "notes"] that ls by (fastforce simp: py_splitlines_def py_linebreak_def)
  then have "\<forall>line\<in>set ?lines. 10 \<notin> set line" by (auto simp: lit_def)
  then have split: "split_on 10 (py_join [10] ?lines) = ?lines" by (intro split_on_py_join) auto
  show ?thesis
  proof (rule that)
    show "notes_block notes = Some [[], py_join [10] ?lines]" using ls assms by (simp add: notes_block_def)
    show "list_all (\<lambda>line. take 2 line = lit ''> '') (split_on 10 (py_join [10] ?lines))"
      unfolding split by (simp add: lit_def list_all_iff)
    show "length (split_on 10 (py_join [10] ?lines)) = length (py_splitlines notes)"
      unfolding split by (simp add: ls)
  qed
qed

section \<open>Properties\<close>

text \<open>A presentation renders to its visible slides, numbered from one without gaps in their order, and the
  list of hidden slides holds their positions in the whole presentation, counted from one. Rendering raises exactly when the flag of a slide or
  the text or notes of a visible slide cannot be read: a hidden slide is never opened.\<close>

theorem presentation_numbered:
  assumes "js_get presentation ''slides'' (PList []) = Some (PList slides)"
  shows "render_presentation_markdown un presentation file_id =
     do { flags \<leftarrow> js_map slide_hidden slides;
          blocks \<leftarrow> js_map (\<lambda>(k, slide). slide_parts un (int k) slide) (List.enumerate 1 (visible_slides flags slides));
          Some (py_join [10] ((lit ''<!-- gdrive: file='' @ file_id @ lit '' -->'') # [] # concat blocks),
                map fst (filter snd (List.enumerate 1 flags))) }"
  using assms render_slides_numbered[of un 1 0 slides]
  by (simp add: render_presentation_markdown_def js_iter_def bind_assoc)

definition sample_slide :: "string \<Rightarrow> bool \<Rightarrow> pyval" where
  "sample_slide s hidden = PDict
     [(lit ''pageProperties'', PDict [(lit ''skipSlide'', PBool hidden)]),
      (lit ''pageElements'', PList [PDict [(lit ''shape'', PDict [(lit ''text'', PDict [(lit ''textElements'', PList [PDict [(lit ''textRun'', PDict [(lit ''content'', PStr (lit s))])]])])])]])]"

lemma sample_slide_reads:
  "slide_hidden (sample_slide s hidden) = Some hidden"
  "list_all (\<lambda>c. 31 < (of_char c :: nat)) s \<Longrightarrow> s \<noteq> [] \<Longrightarrow>
   slide_parts sample_unicode n (sample_slide s hidden) = Some [lit ''## Slide '' @ py_str_int n, [], lit s, []]"
proof -
  show "slide_hidden (sample_slide s hidden) = Some hidden"
    by (simp add: slide_hidden_def sample_slide_def js_eval lit_def)
  assume s: "list_all (\<lambda>c. 31 < (of_char c :: nat)) s" "s \<noteq> []"
  have "extract_speaker_notes sample_unicode (sample_slide s hidden) = Some []"
    by (simp add: extract_speaker_notes_def sample_slide_def js_eval lit_def)
  moreover have "lit s \<noteq> []" "export_normalize sample_unicode (lit s) = lit s"
    using s by (auto simp: lit_def export_normalize_def sample_unicode_def filter_id_conv list_all_iff)
  then have "extract_slide_text sample_unicode (sample_slide s hidden) = Some (lit s)"
    by (simp add: extract_slide_text_def sample_slide_def js_eval placed_shape_def shape_runs_def run_content_def
          normalize_slide_text_def sample_unicode_def lit_def filter_id_conv)
  ultimately show "slide_parts sample_unicode n (sample_slide s hidden) = Some [lit ''## Slide '' @ py_str_int n, [], lit s, []]"
    using \<open>lit s \<noteq> []\<close> by (simp add: slide_parts_def notes_block_def)
qed

theorem presentation_numbered_witness:
  "map_option (\<lambda>r. (split_on 10 (fst r), snd r)) (render_presentation_markdown sample_unicode
       (PDict [(lit ''slides'', PList [sample_slide ''a'' False, sample_slide ''b'' True, sample_slide ''c'' False])]) (lit ''f'')) =
   Some ([lit ''<!-- gdrive: file=f -->'', [], lit ''## Slide 1'', [], lit ''a'', [], lit ''## Slide 2'', [], lit ''c'', []], [2])"
  by (subst presentation_numbered[where slides = "[sample_slide ''a'' False, sample_slide ''b'' True, sample_slide ''c'' False]"])
     (simp_all add: js_get_def sample_slide_reads py_str_int_def digits_of.simps lit_def)

end
