(* ===== verification/Docs_Renderer.thy ===== *)
theory Docs_Renderer
  imports Sheet_Renderer Json_Access
begin

text \<open>
  \<open>scripts/gdrive_export/docs_md_renderer.py\<close>: a document, as the Docs API returns it, as Markdown.
  The lines written so far are the state threaded through the renderers; a read of a value of another
  type than the API documents raises.
\<close>

section \<open>Definitions\<close>

datatype image_kind = ImageOk | ImageOversized | ImageFailed

record image_resolution =
  ir_kind :: image_kind
  ir_rel_path :: "pystr option"
  ir_alt :: "pystr option"

type_synonym resolutions = "(pystr \<times> image_resolution) list"

definition heading_prefix :: "pyval \<Rightarrow> pystr option" where
  "heading_prefix style_type =
     (case style_type of
        PStr s \<Rightarrow>
          Some (if s = lit ''HEADING_1'' \<or> s = lit ''TITLE'' then lit ''# ''
                else if s = lit ''HEADING_2'' \<or> s = lit ''SUBTITLE'' then lit ''## ''
                else if s = lit ''HEADING_3'' then lit ''### ''
                else if s = lit ''HEADING_4'' then lit ''#### ''
                else if s = lit ''HEADING_5'' then lit ''##### ''
                else if s = lit ''HEADING_6'' then lit ''###### ''
                else [])
      | PList _ \<Rightarrow> None
      | PDict _ \<Rightarrow> None
      | _ \<Rightarrow> Some [])"

text \<open>The reference to an image that was resolved.\<close>

definition shown_image :: "pystr \<Rightarrow> image_resolution \<Rightarrow> pystr" where
  "shown_image i r =
     (case (ir_kind r, ir_rel_path r) of
        (ImageOk, Some p) \<Rightarrow> lit ''!['' @ (case ir_alt r of Some alt \<Rightarrow> alt | None \<Rightarrow> []) @ lit '']('' @ p @ lit '')''
      | (ImageOversized, _) \<Rightarrow> lit ''![image trop volumineuse](#oversized-'' @ i @ lit '')''
      | _ \<Rightarrow> lit ''![image indisponible](#image-failed-'' @ i @ lit '')'')"

definition image_ref :: "resolutions \<Rightarrow> pyval \<Rightarrow> pystr option" where
  "image_ref res obj_id =
     (case obj_id of
        PStr i \<Rightarrow>
          Some (case map_of res i of
             None \<Rightarrow> []
           | Some r \<Rightarrow> shown_image i r)
      | PList _ \<Rightarrow> None
      | PDict _ \<Rightarrow> None
      | _ \<Rightarrow> Some [])"

definition render_text_run :: "pyval \<Rightarrow> pystr option" where
  "render_text_run text_run =
     do { value \<leftarrow> js_get text_run ''content'' (PStr []);
          raw \<leftarrow> js_str value;
          let content = rstrip_by (\<lambda>c. c = 10) (replace_char 11 [32, 32, 10] raw);
          if content = [] then Some []
          else do {
            style \<leftarrow> js_get text_run ''textStyle'' (PDict []);
            link \<leftarrow> js_get style ''link'' PNone;
            link_url \<leftarrow> js_get (if py_truth link then link else PDict []) ''url'' PNone;
            bold \<leftarrow> js_get style ''bold'' PNone;
            italic \<leftarrow> js_get style ''italic'' PNone;
            if py_truth link_url then do { url \<leftarrow> js_str link_url; Some (lit ''['' @ content @ lit '']('' @ url @ lit '')'') }
            else if py_truth bold \<and> py_truth italic then Some (lit ''***'' @ content @ lit ''***'')
            else if py_truth bold then Some (lit ''**'' @ content @ lit ''**'')
            else if py_truth italic then Some (lit ''*'' @ content @ lit ''*'')
            else Some content } }"

definition RULE_LINE :: pystr where
  "RULE_LINE = [10, 45, 45, 45, 10]"

definition render_element :: "resolutions \<Rightarrow> pystr list \<Rightarrow> pyval \<Rightarrow> (pystr list \<times> pystr) option" where
  "render_element res output_lines element =
     do { is_run \<leftarrow> js_has ''textRun'' element;
          if is_run then do { run \<leftarrow> js_item element ''textRun''; s \<leftarrow> render_text_run run; Some (output_lines, s) }
          else do {
            is_inline \<leftarrow> js_has ''inlineObjectElement'' element;
            if is_inline then do {
              inline \<leftarrow> js_item element ''inlineObjectElement'';
              obj_id \<leftarrow> js_get inline ''inlineObjectId'' (PStr []);
              s \<leftarrow> image_ref res obj_id;
              Some (output_lines, s) }
            else do {
              page_break \<leftarrow> js_has ''pageBreak'' element;
              rule \<leftarrow> js_has ''horizontalRule'' element;
              if page_break \<or> rule then Some (output_lines @ [RULE_LINE], []) else Some (output_lines, []) } } }"

text \<open>The loop over the elements of a paragraph: the fragments that are not empty.\<close>

fun render_elements :: "resolutions \<Rightarrow> pystr list \<Rightarrow> pyval list \<Rightarrow> (pystr list \<times> pystr list) option" where
  "render_elements res output_lines [] = Some (output_lines, [])"
| "render_elements res output_lines (el # els) =
     do { (output_lines, part) \<leftarrow> render_element res output_lines el;
          (output_lines, parts) \<leftarrow> render_elements res output_lines els;
          Some (output_lines, if part \<noteq> [] then part # parts else parts) }"

definition render_paragraph :: "resolutions \<Rightarrow> pystr list \<Rightarrow> pyval \<Rightarrow> pystr list option" where
  "render_paragraph res output_lines paragraph =
     do { pstyle \<leftarrow> js_get paragraph ''paragraphStyle'' (PDict []);
          style_type \<leftarrow> js_get pstyle ''namedStyleType'' (PStr (lit ''NORMAL_TEXT''));
          heading \<leftarrow> heading_prefix style_type;
          bullet \<leftarrow> js_get paragraph ''bullet'' PNone;
          let prefix = (if bullet \<noteq> PNone then lit ''- '' else heading);
          value \<leftarrow> js_get paragraph ''elements'' (PList []);
          els \<leftarrow> js_iter value;
          (output_lines, parts) \<leftarrow> render_elements res output_lines els;
          let t = rstrip_by (\<lambda>c. c = 10) (concat parts);
          if py_strip t \<noteq> [] then Some (output_lines @ [prefix @ t])
          else if parts = [] then Some (output_lines @ [[]])
          else Some output_lines }"

text \<open>The paragraphs of one cell.\<close>

fun render_cell :: "resolutions \<Rightarrow> pystr list \<Rightarrow> pyval list \<Rightarrow> (pystr list \<times> pystr list) option" where
  "render_cell res output_lines [] = Some (output_lines, [])"
| "render_cell res output_lines (cell_element # rest) =
     do { is_paragraph \<leftarrow> js_has ''paragraph'' cell_element;
          if is_paragraph then do {
            paragraph \<leftarrow> js_item cell_element ''paragraph'';
            value \<leftarrow> js_get paragraph ''elements'' (PList []);
            els \<leftarrow> js_iter value;
            (output_lines, para_parts) \<leftarrow> render_elements res output_lines els;
            (output_lines, cell_parts) \<leftarrow> render_cell res output_lines rest;
            Some (output_lines, py_strip (concat para_parts) # cell_parts) }
          else render_cell res output_lines rest }"

fun render_cells :: "resolutions \<Rightarrow> pystr list \<Rightarrow> pyval list \<Rightarrow> (pystr list \<times> pystr list) option" where
  "render_cells res output_lines [] = Some (output_lines, [])"
| "render_cells res output_lines (cell # cells) =
     do { value \<leftarrow> js_get cell ''content'' (PList []);
          content \<leftarrow> js_iter value;
          (output_lines, cell_parts) \<leftarrow> render_cell res output_lines content;
          (output_lines, cell_texts) \<leftarrow> render_cells res output_lines cells;
          Some (output_lines, py_strip (py_join [32] cell_parts) # cell_texts) }"

fun render_rows :: "resolutions \<Rightarrow> pystr list \<Rightarrow> bool \<Rightarrow> pyval list \<Rightarrow> pystr list option" where
  "render_rows res output_lines first [] = Some output_lines"
| "render_rows res output_lines first (row # rows) =
     do { value \<leftarrow> js_get row ''tableCells'' (PList []);
          cells \<leftarrow> js_iter value;
          (output_lines, cell_texts) \<leftarrow> render_cells res output_lines cells;
          let rule = (if first then [table_line (map (\<lambda>_. lit ''---'') cell_texts)] else []);
          render_rows res (output_lines @ [table_line cell_texts] @ rule) False rows }"

definition render_table :: "resolutions \<Rightarrow> pystr list \<Rightarrow> pyval \<Rightarrow> pystr list option" where
  "render_table res output_lines table =
     do { value \<leftarrow> js_get table ''tableRows'' (PList []);
          rows \<leftarrow> js_iter value;
          render_rows res output_lines True rows }"

definition render_structural_element :: "resolutions \<Rightarrow> pystr list \<Rightarrow> pyval \<Rightarrow> pystr list option" where
  "render_structural_element res output_lines element =
     do { is_paragraph \<leftarrow> js_has ''paragraph'' element;
          if is_paragraph then do { p \<leftarrow> js_item element ''paragraph''; render_paragraph res output_lines p }
          else do {
            is_table \<leftarrow> js_has ''table'' element;
            if is_table then do { t \<leftarrow> js_item element ''table''; render_table res output_lines t }
            else Some output_lines } }"

fun render_content :: "resolutions \<Rightarrow> pystr list \<Rightarrow> pyval list \<Rightarrow> pystr list option" where
  "render_content res output_lines [] = Some output_lines"
| "render_content res output_lines (e # es) =
     do { output_lines \<leftarrow> render_structural_element res output_lines e; render_content res output_lines es }"

fun render_positioned_objects :: "resolutions \<Rightarrow> pystr list \<Rightarrow> pyval list \<Rightarrow> pystr list option" where
  "render_positioned_objects res output_lines [] = Some output_lines"
| "render_positioned_objects res output_lines (obj_id # ids) =
     do { ref \<leftarrow> image_ref res obj_id;
          render_positioned_objects res (if ref \<noteq> [] then output_lines @ [ref] else output_lines) ids }"

definition render_doc_lines :: "resolutions \<Rightarrow> pyval \<Rightarrow> pystr list option" where
  "render_doc_lines res doc =
     do { body \<leftarrow> js_get doc ''body'' (PDict []);
          value \<leftarrow> js_get body ''content'' (PList []);
          content \<leftarrow> js_iter value;
          output_lines \<leftarrow> render_content res [] content;
          positioned \<leftarrow> js_get doc ''positionedObjects'' (PDict []);
          ids \<leftarrow> js_iter positioned;
          render_positioned_objects res output_lines ids }"

definition render_doc_markdown :: "resolutions \<Rightarrow> pyval \<Rightarrow> pystr option" where
  "render_doc_markdown res doc = map_option (\<lambda>output_lines. py_strip (py_join [10] output_lines)) (render_doc_lines res doc)"

section \<open>Every renderer appends\<close>

text \<open>A renderer only adds lines at the end, and what it adds does not depend on the lines before it; the
  second form is for the renderers that return a value as well.\<close>

named_theorems appends_intros \<open>rules for renderers that only append\<close>

definition appends :: "(pystr list \<Rightarrow> pystr list option) \<Rightarrow> bool" where
  "appends f \<longleftrightarrow> (\<forall>ls. f ls = map_option (\<lambda>new. ls @ new) (f []))"

definition appends_with :: "(pystr list \<Rightarrow> (pystr list \<times> 'a) option) \<Rightarrow> bool" where
  "appends_with f \<longleftrightarrow> (\<forall>ls. f ls = map_option (\<lambda>(new, x). (ls @ new, x)) (f []))"

lemma appends_Some [appends_intros]: "appends (\<lambda>ls. Some ls)" "appends (\<lambda>ls. Some (ls @ new))"
  by (simp_all add: appends_def)

lemma appends_with_Some [appends_intros]: "appends_with (\<lambda>ls. Some (ls, x))" "appends_with (\<lambda>ls. Some (ls @ new, x))"
  by (simp_all add: appends_with_def)

lemma appends_if [appends_intros]:
  "appends f \<Longrightarrow> appends g \<Longrightarrow> appends (\<lambda>ls. if b then f ls else g ls)"
  "appends_with f' \<Longrightarrow> appends_with g' \<Longrightarrow> appends_with (\<lambda>ls. if b then f' ls else g' ls)"
  by (cases b; simp only: if_True if_False)+

lemma appends_read [appends_intros]: "(\<And>x. appends (g x)) \<Longrightarrow> appends (\<lambda>ls. Option.bind m (\<lambda>x. g x ls))"
  by (cases m) (simp_all add: appends_def[of "\<lambda>_. None"])

lemma appends_with_read [appends_intros]:
  "(\<And>x. appends_with (g x)) \<Longrightarrow> appends_with (\<lambda>ls. Option.bind m (\<lambda>x. g x ls))"
  by (cases m) (simp_all add: appends_with_def[of "\<lambda>_. None"])

lemma appends_then:
  assumes "appends f" and "appends g"
  shows "appends (\<lambda>ls. Option.bind (f ls) g)"
  unfolding appends_def
proof
  fix ls
  show "Option.bind (f ls) g = map_option (\<lambda>new. ls @ new) (Option.bind (f []) g)"
  proof (cases "f []")
    case (Some new)
    with assms(1)[unfolded appends_def, rule_format, of ls] have "f ls = Some (ls @ new)" by simp
    moreover have "g (ls @ new) = map_option (\<lambda>n. (ls @ new) @ n) (g [])" "g new = map_option (\<lambda>n. new @ n) (g [])"
      using assms(2) unfolding appends_def by blast+
    ultimately show ?thesis using Some by (cases "g []") simp_all
  qed (use assms(1)[unfolded appends_def, rule_format, of ls] in simp)
qed

lemma appends_with_then:
  assumes "appends_with f" and "\<And>x. appends_with (g x)"
  shows "appends_with (\<lambda>ls. Option.bind (f ls) (\<lambda>(ls, x). g x ls))"
  unfolding appends_with_def
proof
  fix ls
  show "Option.bind (f ls) (\<lambda>(ls, x). g x ls) = map_option (\<lambda>(new, x). (ls @ new, x)) (Option.bind (f []) (\<lambda>(ls, x). g x ls))"
  proof (cases "f []")
    case (Some r)
    obtain new x where r: "r = (new, x)" by fastforce
    with assms(1)[unfolded appends_with_def, rule_format, of ls] Some have "f ls = Some (ls @ new, x)" by simp
    moreover have "g x (ls @ new) = map_option (\<lambda>(n, y). ((ls @ new) @ n, y)) (g x [])" "g x new = map_option (\<lambda>(n, y). (new @ n, y)) (g x [])"
      using assms(2)[of x] unfolding appends_with_def by blast+
    ultimately show ?thesis using Some r by (cases "g x []") auto
  qed (use assms(1)[unfolded appends_with_def, rule_format, of ls] in simp)
qed

lemma appends_after_with:
  assumes "appends_with f" and "\<And>x. appends (g x)"
  shows "appends (\<lambda>ls. Option.bind (f ls) (\<lambda>(ls, x). g x ls))"
  unfolding appends_def
proof
  fix ls
  show "Option.bind (f ls) (\<lambda>(ls, x). g x ls) = map_option (\<lambda>new. ls @ new) (Option.bind (f []) (\<lambda>(ls, x). g x ls))"
  proof (cases "f []")
    case (Some r)
    obtain new x where r: "r = (new, x)" by fastforce
    with assms(1)[unfolded appends_with_def, rule_format, of ls] Some have "f ls = Some (ls @ new, x)" by simp
    moreover have "g x (ls @ new) = map_option (\<lambda>n. (ls @ new) @ n) (g x [])" "g x new = map_option (\<lambda>n. new @ n) (g x [])"
      using assms(2)[of x] unfolding appends_def by blast+
    ultimately show ?thesis using Some r by (cases "g x []") auto
  qed (use assms(1)[unfolded appends_with_def, rule_format, of ls] in simp)
qed

lemma render_element_appends: "appends_with (\<lambda>ls. render_element res ls e)"
  unfolding render_element_def by (intro appends_intros)

lemma render_elements_appends: "appends_with (\<lambda>ls. render_elements res ls es)"
  by (induction es) (simp, intro appends_intros appends_with_then render_element_appends | assumption)+

lemma render_paragraph_appends: "appends (\<lambda>ls. render_paragraph res ls p)"
  unfolding render_paragraph_def Let_def by (intro appends_intros appends_after_with render_elements_appends)

lemma render_cell_appends: "appends_with (\<lambda>ls. render_cell res ls es)"
  by (induction es) (simp, intro appends_intros appends_with_then render_elements_appends | assumption)+

lemma render_cells_appends: "appends_with (\<lambda>ls. render_cells res ls cells)"
  by (induction cells) (simp, intro appends_intros appends_with_then render_cell_appends | assumption)+

lemma render_rows_appends: "appends (\<lambda>ls. render_rows res ls first rows)"
proof (induction rows arbitrary: first)
  case (Cons row rows)
  have "appends (\<lambda>ls. render_rows res (ls @ new) False rows)" for new
    using appends_then[OF appends_Some(2) Cons] by simp
  then show ?case by (simp add: Let_def) (intro appends_intros appends_after_with render_cells_appends)
qed (simp, intro appends_intros)

lemma render_structural_element_appends: "appends (\<lambda>ls. render_structural_element res ls e)"
  unfolding render_structural_element_def render_table_def
  by (intro appends_intros render_paragraph_appends render_rows_appends)

text \<open>The lines an element adds.\<close>

definition element_lines :: "resolutions \<Rightarrow> pyval \<Rightarrow> pystr list option" where
  "element_lines res e = render_structural_element res [] e"

lemma render_content_lines: "render_content res ls es = map_option (\<lambda>new. ls @ concat new) (js_map (element_lines res) es)"
proof (induction es arbitrary: ls)
  case (Cons e es)
  have "render_structural_element res ls e = map_option (\<lambda>new. ls @ new) (element_lines res e)"
    using render_structural_element_appends unfolding appends_def element_lines_def by blast
  then show ?case
    by (cases "element_lines res e"; cases "js_map (element_lines res) es") (simp_all add: Cons)
qed simp

lemma render_positioned_lines:
  "render_positioned_objects res ls ids = map_option (\<lambda>refs. ls @ filter (\<lambda>r. r \<noteq> []) refs) (js_map (image_ref res) ids)"
proof (induction ids arbitrary: ls)
  case (Cons i ids)
  then show ?case by (cases "image_ref res i"; cases "js_map (image_ref res) ids") simp_all
qed simp

lemma image_ref_shown: "image_ref res (PStr i) = Some (case map_of res i of None \<Rightarrow> [] | Some r \<Rightarrow> shown_image i r)"
  by (simp add: image_ref_def)

lemma shown_image_nonempty: "shown_image i r \<noteq> []"
  by (auto simp: shown_image_def lit_def split: image_kind.split option.split)

lemma positioned_refs:
  "map_option (filter (\<lambda>r. r \<noteq> [])) (js_map (image_ref res) (map PStr ids)) =
   Some (List.map_filter (\<lambda>i. map_option (shown_image i) (map_of res i)) ids)"
proof (induction ids)
  case (Cons i ids)
  then show ?case using shown_image_nonempty
    by (cases "map_of res i") (auto simp: image_ref_shown map_filter_simps)
qed (simp add: map_filter_simps)

text \<open>A page break stands before the whole text of its paragraph, even when it follows that text.\<close>

lemma page_break_first:
  "element_lines res (PDict [(lit ''paragraph'', PDict [(lit ''elements'', PList
      [PDict [(lit ''textRun'', PDict [(lit ''content'', PStr (lit ''a''))])], PDict [(lit ''pageBreak'', PDict [])]])])])
   = Some [RULE_LINE, lit ''a'']"
  by (simp add: element_lines_def render_structural_element_def render_paragraph_def render_element_def render_text_run_def
        heading_prefix_def replace_char_def js_eval Let_def lit_def rstrip_by_def strip_by_def lstrip_by_def py_space_def)

section \<open>Properties\<close>

text \<open>A document renders to the lines of its structural elements in their order, then one reference
  for every positioned image that has a resolution, in the order of the document; joined by newlines and stripped. What an
  element contributes does not depend on the elements around it, and the rendering raises exactly when one of them does.\<close>

theorem doc_markdown_compositional:
  assumes "js_get doc ''body'' (PDict []) = Some body" and "js_get body ''content'' (PList []) = Some (PList content)"
    and "js_get doc ''positionedObjects'' (PDict []) = Some (PDict positioned)"
  shows "render_doc_markdown res doc =
    map_option (\<lambda>blocks. py_strip (py_join [10]
        (concat blocks @ List.map_filter (\<lambda>i. map_option (shown_image i) (map_of res i)) (map fst positioned))))
      (js_map (element_lines res) content)"
proof -
  have keys: "js_iter (PDict positioned) = Some (map PStr (map fst positioned))" by (simp add: js_iter_def)
  obtain refs where refs: "js_map (image_ref res) (map PStr (map fst positioned)) = Some refs"
    "filter (\<lambda>r. r \<noteq> []) refs = List.map_filter (\<lambda>i. map_option (shown_image i) (map_of res i)) (map fst positioned)"
    using positioned_refs[of res "map fst positioned"] by (auto simp: map_option_case split: option.splits)
  show ?thesis using refs
    by (cases "js_map (element_lines res) content")
       (simp_all add: render_doc_markdown_def render_doc_lines_def assms keys render_content_lines render_positioned_lines js_iter_def[of "PList content"] del: map_map)
qed

definition sample_paragraph :: "string \<Rightarrow> pyval" where
  "sample_paragraph s = PDict [(lit ''paragraph'', PDict
     [(lit ''paragraphStyle'', PDict [(lit ''namedStyleType'', PStr (lit ''HEADING_2''))]),
      (lit ''elements'', PList [PDict [(lit ''textRun'', PDict [(lit ''content'', PStr (lit s @ [10]))])]])])]"

lemma sample_paragraph_lines: "element_lines res (sample_paragraph ''Nocilia'') = Some [lit ''## Nocilia'']"
  by (simp add: sample_paragraph_def element_lines_def render_structural_element_def render_paragraph_def render_element_def
        render_text_run_def heading_prefix_def replace_char_def js_eval Let_def lit_def rstrip_by_def strip_by_def lstrip_by_def py_space_def)

theorem doc_markdown_compositional_witness:
  "render_doc_markdown [(lit ''k'', \<lparr>ir_kind = ImageOk, ir_rel_path = Some (lit ''d.images/1.png''), ir_alt = None\<rparr>)]
     (PDict [(lit ''body'', PDict [(lit ''content'', PList [sample_paragraph ''Nocilia''])]),
             (lit ''positionedObjects'', PDict [(lit ''k'', PDict []), (lit ''x'', PDict [])])])
   = Some (lit ''## Nocilia'' @ [10] @ lit ''![](d.images/1.png)'')"
  by (subst doc_markdown_compositional[where content = "[sample_paragraph ''Nocilia'']" and body = "PDict [(lit ''content'', PList [sample_paragraph ''Nocilia''])]"
        and positioned = "[(lit ''k'', PDict []), (lit ''x'', PDict [])]"])
     (simp_all add: js_get_def sample_paragraph_lines map_filter_simps shown_image_def lit_def strip_by_def lstrip_by_def rstrip_by_def py_space_def)

end
