(* ===== verification/Lore_Files.thy ===== *)
theory Lore_Files
  imports Paths "HOL-Library.AList"
begin

text \<open>
  The file tree the export writes to, and the actions on it.  An action takes a state and returns a value
  or an exception together with the state it leaves, so what was written before an exception stays written.
  Which accesses the operating system refuses is a parameter; the listed directories are the ones that may be empty.
\<close>

section \<open>Actions\<close>

text \<open>The exceptions the export tells apart.  \<open>ShapeError\<close> stands for the TypeError, KeyError or AttributeError of
  a value of another shape than expected, \<open>Exit\<close> for \<open>sys.exit\<close>.\<close>

datatype sync_exn = DriveApiError int | OSErr | ValueErr | YamlErr | ShapeError | StateCorruptedError | Exit

type_synonym ('w, 'a) action = "'w \<Rightarrow> (sync_exn + 'a) \<times> 'w"

definition ret :: "'a \<Rightarrow> ('w, 'a) action" where
  "ret x w = (Inr x, w)"

definition raise :: "sync_exn \<Rightarrow> ('w, 'a) action" where
  "raise e w = (Inl e, w)"

definition seq :: "('w, 'a) action \<Rightarrow> ('a \<Rightarrow> ('w, 'b) action) \<Rightarrow> ('w, 'b) action" where
  "seq m k w = (case m w of (Inl e, w') \<Rightarrow> (Inl e, w') | (Inr x, w') \<Rightarrow> k x w')"

text \<open>\<open>try: m except e: h e\<close>; a handler that does not take the exception raises it again.\<close>

definition attempt :: "('w, 'a) action \<Rightarrow> (sync_exn \<Rightarrow> ('w, 'a) action) \<Rightarrow> ('w, 'a) action" where
  "attempt m h w = (case m w of (Inl e, w') \<Rightarrow> h e w' | (Inr x, w') \<Rightarrow> (Inr x, w'))"

definition modify :: "('w \<Rightarrow> 'w) \<Rightarrow> ('w, unit) action" where
  "modify f w = (Inr (), f w)"

definition gets :: "('w \<Rightarrow> 'a) \<Rightarrow> ('w, 'a) action" where
  "gets f w = (Inr (f w), w)"

definition lift_opt :: "sync_exn \<Rightarrow> 'a option \<Rightarrow> ('w, 'a) action" where
  "lift_opt e m w = (case m of None \<Rightarrow> (Inl e, w) | Some x \<Rightarrow> (Inr x, w))"

definition lift_sum :: "sync_exn + 'a \<Rightarrow> ('w, 'a) action" where
  "lift_sum m w = (m, w)"

lemmas action_defs = ret_def raise_def seq_def attempt_def modify_def gets_def lift_opt_def lift_sum_def

text \<open>What an action keeps, whether it returns or raises.\<close>

named_theorems keeps_intros \<open>rules for what an action keeps\<close>

definition keeps :: "('w \<Rightarrow> bool) \<Rightarrow> ('w, 'a) action \<Rightarrow> bool" where
  "keeps I m \<longleftrightarrow> (\<forall>w. I w \<longrightarrow> I (snd (m w)))"

lemma keepsD: "keeps I m \<Longrightarrow> I w \<Longrightarrow> I (snd (m w))"
  by (simp add: keeps_def)

lemma keeps_return [keeps_intros]: "keeps I (ret x)" "keeps I (raise e)" "keeps I (gets f)" "keeps I (lift_opt e m)" "keeps I (lift_sum r)"
  by (auto simp: keeps_def action_defs split: option.split)

lemma keeps_modify: "(\<And>w. I w \<Longrightarrow> I (f w)) \<Longrightarrow> keeps I (modify f)"
  by (simp add: keeps_def modify_def)

lemma keeps_seq [keeps_intros]: "keeps I m \<Longrightarrow> (\<And>x. keeps I (k x)) \<Longrightarrow> keeps I (seq m k)"
  unfolding keeps_def seq_def by (auto split: prod.split sum.split)

lemma keeps_attempt [keeps_intros]: "keeps I m \<Longrightarrow> (\<And>e. keeps I (h e)) \<Longrightarrow> keeps I (attempt m h)"
  unfolding keeps_def attempt_def by (auto split: prod.split sum.split)

lemma keeps_if [keeps_intros]: "(b \<Longrightarrow> keeps I m) \<Longrightarrow> (\<not> b \<Longrightarrow> keeps I n) \<Longrightarrow> keeps I (if b then m else n)"
  by simp

lemma seq_ret [simp]: "seq (ret x) k = k x"
  by (rule ext) (simp add: action_defs)

section \<open>The tree\<close>

datatype file_content = TextFile pystr | BinaryFile bytes

record lore_fs =
  fl_files :: "(path \<times> file_content) list"
  fl_dirs :: "path list"

type_synonym refusals = "lore_fs \<Rightarrow> path \<Rightarrow> bool"

definition below :: "path \<Rightarrow> path \<Rightarrow> bool" where
  "below d p \<longleftrightarrow> length d < length p \<and> take (length d) p = d"

definition fs_exists :: "path \<Rightarrow> lore_fs \<Rightarrow> bool" where
  "fs_exists p fs \<longleftrightarrow> p \<in> set (map fst (fl_files fs)) \<or> p \<in> set (fl_dirs fs) \<or> list_ex (below p) (map fst (fl_files fs))"

text \<open>Reading text turns every line ending into a newline; bytes that are not text raise UnicodeDecodeError.\<close>

fun universal_newlines :: "pystr \<Rightarrow> pystr" where
  "universal_newlines [] = []"
| "universal_newlines (c # cs) =
     (if c = 13 then 10 # (if take 1 cs = [10] then universal_newlines (tl cs) else universal_newlines cs)
      else c # universal_newlines cs)"

definition read_text :: "refusals \<Rightarrow> path \<Rightarrow> (lore_fs, pystr) action" where
  "read_text refuses p fs =
     (if refuses fs p then (Inl OSErr, fs)
      else case map_of (fl_files fs) p of
             None \<Rightarrow> (Inl OSErr, fs)
           | Some (TextFile s) \<Rightarrow> (Inr (universal_newlines s), fs)
           | Some (BinaryFile b) \<Rightarrow> (Inl ValueErr, fs))"

definition parents :: "path \<Rightarrow> path list" where
  "parents p = map (\<lambda>k. take k p) [1..<length p]"

text \<open>\<open>p.parent.mkdir(parents=True, exist_ok=True)\<close>\<close>

definition make_parents :: "refusals \<Rightarrow> path \<Rightarrow> (lore_fs, unit) action" where
  "make_parents refuses p fs =
     (if refuses fs (butlast p) then (Inl OSErr, fs)
      else (Inr (), fs\<lparr>fl_dirs := List.union (parents p) (fl_dirs fs)\<rparr>))"

definition write_file :: "refusals \<Rightarrow> path \<Rightarrow> file_content \<Rightarrow> (lore_fs, unit) action" where
  "write_file refuses p c fs =
     (if refuses fs p then (Inl OSErr, fs)
      else (Inr (), fs\<lparr>fl_files := dict_set (fl_files fs) p c\<rparr>))"

text \<open>\<open>write_text\<close> encodes first: a lone surrogate raises UnicodeEncodeError.\<close>

definition write_text :: "refusals \<Rightarrow> path \<Rightarrow> pystr \<Rightarrow> (lore_fs, unit) action" where
  "write_text refuses p s =
     (case py_encode s of None \<Rightarrow> raise ValueErr | Some _ \<Rightarrow> write_file refuses p (TextFile s))"

text \<open>\<open>old.rename(new)\<close> moves a file, or a directory with what is below it; a directory with entries is not
  replaced.\<close>

definition move_path :: "path \<Rightarrow> path \<Rightarrow> path \<Rightarrow> path" where
  "move_path old_path new_path p = (if p = old_path \<or> below old_path p then new_path @ drop (length old_path) p else p)"

definition dir_entries :: "path \<Rightarrow> lore_fs \<Rightarrow> path list" where
  "dir_entries d fs = filter (\<lambda>p. below d p \<and> length p = Suc (length d)) (map fst (fl_files fs) @ fl_dirs fs)"

definition rename_path :: "refusals \<Rightarrow> path \<Rightarrow> path \<Rightarrow> (lore_fs, unit) action" where
  "rename_path refuses old_path new_path fs =
     (if refuses fs old_path \<or> refuses fs new_path \<or> \<not> fs_exists old_path fs \<or> dir_entries new_path fs \<noteq> [] then (Inl OSErr, fs)
      else (Inr (), fs\<lparr>fl_files := map (\<lambda>(p, c). (move_path old_path new_path p, c)) (AList.delete new_path (fl_files fs)),
                       fl_dirs := map (move_path old_path new_path) (filter (\<lambda>p. p \<noteq> new_path) (fl_dirs fs))\<rparr>))"

definition unlink :: "refusals \<Rightarrow> path \<Rightarrow> (lore_fs, unit) action" where
  "unlink refuses p fs =
     (if refuses fs p \<or> map_of (fl_files fs) p = None then (Inl OSErr, fs)
      else (Inr (), fs\<lparr>fl_files := AList.delete p (fl_files fs)\<rparr>))"

text \<open>\<open>stem\<close> and \<open>suffix\<close> of a file name.\<close>

definition dot_index :: "pystr \<Rightarrow> nat option" where
  "dot_index name =
     (let k = length (takeWhile (\<lambda>c. c \<noteq> 46) (rev name))
      in if 0 < k \<and> k + 1 < length name then Some (length name - k - 1) else None)"

definition path_name :: "path \<Rightarrow> pystr" where
  "path_name p = (if p = [] then [] else last p)"

definition path_stem :: "path \<Rightarrow> pystr" where
  "path_stem p = (case dot_index (path_name p) of Some i \<Rightarrow> take i (path_name p) | None \<Rightarrow> path_name p)"

definition path_suffix :: "path \<Rightarrow> pystr" where
  "path_suffix p = (case dot_index (path_name p) of Some i \<Rightarrow> drop i (path_name p) | None \<Rightarrow> [])"

section \<open>\<open>rename.py\<close>\<close>

definition rename_local_file :: "refusals \<Rightarrow> path \<Rightarrow> path \<Rightarrow> (lore_fs, unit) action" where
  "rename_local_file refuses old_path new_path fs =
     (if \<not> fs_exists old_path fs then (Inl OSErr, fs)
      else if fs_exists new_path fs then (Inl OSErr, fs)
      else seq (make_parents refuses new_path) (\<lambda>_. rename_path refuses old_path new_path) fs)"

section \<open>Lemmas\<close>

lemma path_stem_suffix: "path_stem p @ path_suffix p = path_name p"
  by (simp add: path_stem_def path_suffix_def split: option.split)

end
