(* ===== verification/Images.thy ===== *)
theory Images
  imports Docs_Renderer Lore_Files
begin

text \<open>
  \<open>scripts/gdrive_export/images.py\<close>: finding, shrinking, placing and clearing the images of a document.
  The imaging library and the digest are parameters; the file tree is the one of \<open>Lore_Files\<close>.
\<close>

section \<open>Finding the images\<close>

definition content_uri :: "string \<Rightarrow> pyval \<Rightarrow> pyval option" where
  "content_uri props_key obj =
     do { props \<leftarrow> js_get obj props_key (PDict []);
          embedded \<leftarrow> js_get props ''embeddedObject'' (PDict []);
          props \<leftarrow> js_get embedded ''imageProperties'' (PDict []);
          js_get props ''contentUri'' (PStr []) }"

fun extract_from_items :: "string \<Rightarrow> (pystr \<times> pyval) list \<Rightarrow> (pystr \<times> pyval) list \<Rightarrow> (pystr \<times> pyval) list option" where
  "extract_from_items props_key [] result = Some result"
| "extract_from_items props_key ((obj_id, obj) # items) result =
     do { uri \<leftarrow> content_uri props_key obj;
          extract_from_items props_key items (if py_truth uri then dict_set result obj_id uri else result) }"

definition extract_from_container :: "pyval \<Rightarrow> string \<Rightarrow> (pystr \<times> pyval) list \<Rightarrow> (pystr \<times> pyval) list option" where
  "extract_from_container container props_key result =
     (case container of PDict items \<Rightarrow> extract_from_items props_key items result | _ \<Rightarrow> None)"

definition extract_inline_objects :: "pyval \<Rightarrow> (pystr \<times> pyval) list option" where
  "extract_inline_objects doc =
     do { inline \<leftarrow> js_get doc ''inlineObjects'' (PDict []);
          result \<leftarrow> extract_from_container inline ''inlineObjectProperties'' [];
          positioned \<leftarrow> js_get doc ''positionedObjects'' (PDict []);
          extract_from_container positioned ''positionedObjectProperties'' result }"

section \<open>Shrinking\<close>

definition MAX_DIM :: nat where
  "MAX_DIM = 2048"

definition MAX_BYTES_AFTER :: nat where
  "MAX_BYTES_AFTER = 5 * 1024 * 1024"

definition MIME_TO_EXT :: "(pystr \<times> pystr) list" where
  "MIME_TO_EXT =
     [(lit ''image/png'', lit ''png''), (lit ''image/jpeg'', lit ''jpg''), (lit ''image/gif'', lit ''gif''), (lit ''image/webp'', lit ''webp'')]"

text \<open>What the pipeline uses of the imaging library: decoding, the size in pixels, resizing with the encoding
  in the format of the image, and the encoding as JPEG.\<close>

record 'img pillow =
  pl_open :: "bytes \<Rightarrow> 'img option"
  pl_size :: "'img \<Rightarrow> nat \<times> nat"
  pl_resize :: "'img \<Rightarrow> nat \<times> nat \<Rightarrow> sync_exn + bytes \<times> 'img"
  pl_jpeg :: "'img \<Rightarrow> sync_exn + bytes"

datatype image_exn = ImageOversizedError nat | ImageUndecodableError | PillowError sync_exn

record compressed_image =
  ci_bytes :: bytes
  ci_mime :: pystr
  ci_ext :: pystr
  ci_md5 :: pystr

text \<open>\<open>round\<close>: to the nearest integer, ties to the even one.\<close>

definition py_round :: "rat \<Rightarrow> int" where
  "py_round q =
     (let f = \<lfloor>q\<rfloor>; d = q - of_int f
      in if d < 1/2 then f else if 1/2 < d then f + 1 else if even f then f else f + 1)"

definition scaled :: "nat \<Rightarrow> nat \<Rightarrow> nat" where
  "scaled shorter longer = nat (max 1 (py_round (of_nat (MAX_DIM * shorter) / of_nat longer)))"

definition resized_dims :: "nat \<Rightarrow> nat \<Rightarrow> nat \<times> nat" where
  "resized_dims width height =
     (if height \<le> width then (MAX_DIM, scaled height width) else (scaled width height, MAX_DIM))"

definition stage_resize :: "'img pillow \<Rightarrow> 'img \<Rightarrow> bytes \<Rightarrow> sync_exn + bytes \<times> 'img" where
  "stage_resize pl picture raw =
     (case pl_size pl picture of (width, height) \<Rightarrow>
        if max width height \<le> MAX_DIM then Inr (raw, picture)
        else pl_resize pl picture (resized_dims width height))"

definition stage_jpeg :: "'img pillow \<Rightarrow> 'img \<Rightarrow> bytes \<Rightarrow> pystr \<Rightarrow> sync_exn + bytes \<times> pystr" where
  "stage_jpeg pl picture current_bytes current_mime =
     (if length current_bytes \<le> MAX_BYTES_AFTER then Inr (current_bytes, current_mime)
      else case pl_jpeg pl picture of Inl e \<Rightarrow> Inl e | Inr b \<Rightarrow> Inr (b, lit ''image/jpeg''))"

definition compress_image :: "'img pillow \<Rightarrow> (bytes \<Rightarrow> pystr) \<Rightarrow> bytes \<Rightarrow> pystr \<Rightarrow> image_exn + compressed_image" where
  "compress_image pl md5 raw src_mime =
     (if map_of MIME_TO_EXT src_mime = None then Inl ImageUndecodableError
      else case pl_open pl raw of
             None \<Rightarrow> Inl ImageUndecodableError
           | Some img_file \<Rightarrow>
               (case stage_resize pl img_file raw of
                  Inl e \<Rightarrow> Inl (PillowError e)
                | Inr (current_bytes, picture) \<Rightarrow>
                    (case stage_jpeg pl picture current_bytes src_mime of
                       Inl e \<Rightarrow> Inl (PillowError e)
                     | Inr (final_bytes, final_mime) \<Rightarrow>
                         if MAX_BYTES_AFTER < length final_bytes then Inl (ImageOversizedError (length final_bytes))
                         else Inr \<lparr>ci_bytes = final_bytes, ci_mime = final_mime,
                                   ci_ext = (case map_of MIME_TO_EXT final_mime of Some e \<Rightarrow> e | None \<Rightarrow> lit ''jpg''),
                                   ci_md5 = take 12 (md5 final_bytes)\<rparr>)))"

section \<open>Placing\<close>

text \<open>\<open>re.match("^[0-9a-f]{12}$", s)\<close>: the dollar also matches before a final newline.\<close>

definition is_hex :: "nat \<Rightarrow> bool" where
  "is_hex c \<longleftrightarrow> 48 \<le> c \<and> c \<le> 57 \<or> 97 \<le> c \<and> c \<le> 102"

definition md5_re :: "pystr \<Rightarrow> bool" where
  "md5_re s \<longleftrightarrow> list_all is_hex (take 12 s) \<and> (length s = 12 \<or> length s = 13 \<and> last s = 10)"

definition compute_image_path :: "path \<Rightarrow> pystr list \<Rightarrow> pystr \<Rightarrow> pystr \<Rightarrow> pystr \<Rightarrow> sync_exn + path" where
  "compute_image_path lore_root drive_components doc_slug md5_hex ext =
     (if \<not> md5_re md5_hex then Inl ValueErr
      else let sidecar_dir = join_path (foldl join_path lore_root drive_components) (doc_slug @ lit ''.images'');
               image_path = join_path sidecar_dir (md5_hex @ lit ''.'' @ ext)
           in if is_relative_to (resolve_path image_path) (resolve_path lore_root) then Inr image_path else Inl ValueErr)"

text \<open>The sidecar directory beside a Markdown file.\<close>

definition sidecar_of :: "path \<Rightarrow> path" where
  "sidecar_of md_path = join_path (butlast md_path) (path_stem md_path @ lit ''.images'')"

section \<open>Clearing and moving\<close>

definition name_prefix :: "path \<Rightarrow> pystr" where
  "name_prefix p = hd (split_on 46 (path_name p))"

fun unlink_orphans :: "refusals \<Rightarrow> pystr list \<Rightarrow> bool \<Rightarrow> path list \<Rightarrow> nat \<Rightarrow> (lore_fs, nat) action" where
  "unlink_orphans refuses kept_md5s dry_run [] removed = ret removed"
| "unlink_orphans refuses kept_md5s dry_run (child # children) removed =
     (if name_prefix child \<in> set kept_md5s then unlink_orphans refuses kept_md5s dry_run children removed
      else seq (if dry_run then ret () else unlink refuses child)
               (\<lambda>_. unlink_orphans refuses kept_md5s dry_run children (removed + 1)))"

definition remove_empty_dir :: "refusals \<Rightarrow> path \<Rightarrow> (lore_fs, unit) action" where
  "remove_empty_dir refuses d fs =
     (if fs_exists d fs \<and> dir_entries d fs = []
      then (if refuses fs d then (Inl OSErr, fs) else (Inr (), fs\<lparr>fl_dirs := filter (\<lambda>p. p \<noteq> d) (fl_dirs fs)\<rparr>))
      else (Inr (), fs))"

text \<open>With the root given, as the export calls it.\<close>

definition cleanup_orphans :: "refusals \<Rightarrow> path \<Rightarrow> pystr list \<Rightarrow> bool \<Rightarrow> path \<Rightarrow> (lore_fs, nat) action" where
  "cleanup_orphans refuses sidecar_dir kept_md5s dry_run lore_root fs =
     (if \<not> is_relative_to (resolve_path sidecar_dir) (resolve_path lore_root) then (Inl ValueErr, fs)
      else if \<not> fs_exists sidecar_dir fs then (Inr 0, fs)
      else seq (unlink_orphans refuses kept_md5s dry_run (dir_entries sidecar_dir fs) 0)
               (\<lambda>removed. seq (if dry_run then ret () else remove_empty_dir refuses sidecar_dir) (\<lambda>_. ret removed)) fs)"

definition rename_sidecar :: "refusals \<Rightarrow> path \<Rightarrow> path \<Rightarrow> (lore_fs, unit) action" where
  "rename_sidecar refuses old_md_path new_md_path fs =
     (if \<not> fs_exists (sidecar_of old_md_path) fs then (Inr (), fs)
      else seq (make_parents refuses (sidecar_of new_md_path))
               (\<lambda>_. rename_path refuses (sidecar_of old_md_path) (sidecar_of new_md_path)) fs)"

section \<open>Lemmas\<close>

lemma py_round_error: "\<bar>of_int (py_round q) - q\<bar> \<le> 1/2"
proof -
  define f d where "f = \<lfloor>q\<rfloor>" and "d = q - of_int f"
  have "0 \<le> d" "d < 1" "q = of_int f + d" unfolding d_def f_def by linarith+
  then show ?thesis unfolding py_round_def Let_def f_def[symmetric] d_def[symmetric] by (auto simp: abs_if)
qed

lemma py_round_le: "q \<le> of_nat n \<Longrightarrow> py_round q \<le> int n"
proof -
  assume "q \<le> of_nat n"
  then have "\<lfloor>q\<rfloor> \<le> int n" by (simp add: floor_le_iff) 
  moreover have "\<lfloor>q\<rfloor> = int n \<Longrightarrow> q - of_int \<lfloor>q\<rfloor> \<le> 0" using \<open>q \<le> of_nat n\<close> by simp
  ultimately show ?thesis unfolding py_round_def Let_def by (cases "\<lfloor>q\<rfloor> = int n") auto
qed

lemma scaled_bounds:
  assumes "shorter \<le> longer" and "0 < longer"
  shows "1 \<le> scaled shorter longer" and "scaled shorter longer \<le> MAX_DIM"
proof -
  have "of_nat (MAX_DIM * shorter) / of_nat longer \<le> (of_nat MAX_DIM :: rat)"
    using assms by (simp add: divide_le_eq mult_left_mono)
  from py_round_le[OF this] show "scaled shorter longer \<le> MAX_DIM" unfolding scaled_def by (simp add: MAX_DIM_def)
  show "1 \<le> scaled shorter longer" by (simp add: scaled_def)
qed

text \<open>The longer side becomes the limit and the shorter one stays at least one pixel.\<close>

lemma resized_dims_bounds:
  assumes "MAX_DIM < max width height"
  shows "max (fst (resized_dims width height)) (snd (resized_dims width height)) = MAX_DIM"
    and "1 \<le> min (fst (resized_dims width height)) (snd (resized_dims width height))"
proof -
  have "scaled height width \<le> MAX_DIM" "1 \<le> scaled height width" if "height \<le> width"
    using scaled_bounds[of height width] that assms by auto
  moreover have "scaled width height \<le> MAX_DIM" "1 \<le> scaled width height" if "\<not> height \<le> width"
    using scaled_bounds[of width height] that assms by auto
  ultimately show "max (fst (resized_dims width height)) (snd (resized_dims width height)) = MAX_DIM"
    and "1 \<le> min (fst (resized_dims width height)) (snd (resized_dims width height))"
    by (auto simp: resized_dims_def MAX_DIM_def)
qed

lemma stage_resize_cases:
  assumes "stage_resize pl picture raw = Inr (b, picture')"
  shows "max (fst (pl_size pl picture)) (snd (pl_size pl picture)) \<le> MAX_DIM \<and> b = raw \<and> picture' = picture \<or>
    MAX_DIM < max (fst (pl_size pl picture)) (snd (pl_size pl picture)) \<and>
    pl_resize pl picture (resized_dims (fst (pl_size pl picture)) (snd (pl_size pl picture))) = Inr (b, picture')"
  using assms by (cases "pl_size pl picture") (auto simp: stage_resize_def split: if_splits)

lemma stage_jpeg_mime: "stage_jpeg pl picture b m = Inr (b', m') \<Longrightarrow> m' = m \<or> m' = lit ''image/jpeg''"
  by (auto simp: stage_jpeg_def split: if_splits sum.splits)

lemma jpeg_known: "map_of MIME_TO_EXT (lit ''image/jpeg'') \<noteq> None"
  by (simp add: MIME_TO_EXT_def lit_def)

lemma compress_image_result:
  assumes "compress_image pl md5 raw src_mime = Inr c"
  obtains img b picture where "map_of MIME_TO_EXT src_mime \<noteq> None" "pl_open pl raw = Some img"
    "stage_resize pl img raw = Inr (b, picture)" "stage_jpeg pl picture b src_mime = Inr (ci_bytes c, ci_mime c)"
    "length (ci_bytes c) \<le> MAX_BYTES_AFTER" "ci_md5 c = take 12 (md5 (ci_bytes c))"
    "ci_ext c = (case map_of MIME_TO_EXT (ci_mime c) of Some e \<Rightarrow> e | None \<Rightarrow> lit ''jpg'')"
  using assms unfolding compress_image_def by (auto split: if_splits option.splits sum.splits prod.splits)

definition orphans :: "pystr list \<Rightarrow> path list \<Rightarrow> path list" where
  "orphans kept children = filter (\<lambda>p. name_prefix p \<notin> set kept) children"

lemma unlink_orphans_result:
  "unlink_orphans refuses kept False children removed fs = (Inr n, fs') \<Longrightarrow>
    fl_files fs' = filter (\<lambda>e. fst e \<notin> set (orphans kept children)) (fl_files fs) \<and> fl_dirs fs' = fl_dirs fs \<and>
    n = removed + length (orphans kept children) \<and> distinct (orphans kept children) \<and>
    set (orphans kept children) \<subseteq> set (map fst (fl_files fs))"
proof (induction children arbitrary: removed fs)
  case (Cons child children)
  show ?case
  proof (cases "name_prefix child \<in> set kept")
    case True
    with Cons show ?thesis by (simp add: orphans_def)
  next
    case False
    let ?fs = "fs\<lparr>fl_files := AList.delete child (fl_files fs)\<rparr>"
    have step: "map_of (fl_files fs) child \<noteq> None" "unlink_orphans refuses kept False children (removed + 1) ?fs = (Inr n, fs')"
      using Cons.prems False by (auto simp: seq_def unlink_def split: if_splits)
    have del: "AList.delete child (fl_files fs) = filter (\<lambda>e. fst e \<noteq> child) (fl_files fs)"
      by (simp add: AList.delete_eq case_prod_beta' eq_commute)
    note IH = Cons.IH[OF step(2), unfolded lore_fs.simps del]
    have "child \<in> set (map fst (fl_files fs))" using step(1) by (force dest: map_of_SomeD)
    moreover have "orphans kept (child # children) = child # orphans kept children" using False by (simp add: orphans_def)
    ultimately show ?thesis using IH by (auto simp: conj_commute)
  qed
qed (simp add: ret_def orphans_def)

lemma dir_entry_iff: "p \<in> set (dir_entries d fs) \<longleftrightarrow> (p \<in> set (map fst (fl_files fs)) \<or> p \<in> set (fl_dirs fs)) \<and> below d p \<and> length p = Suc (length d)"
  by (auto simp: dir_entries_def)

lemma remove_empty_dir_files: "remove_empty_dir refuses d fs = (Inr u, fs') \<Longrightarrow> fl_files fs' = fl_files fs"
  by (auto simp: remove_empty_dir_def split: if_splits)

text \<open>The images of a document are placed under the folder names of the Drive, its Markdown file under their slugs:
  the file is not beside its images when a folder name is not a slug.\<close>

lemma image_path_not_sidecar:
  "\<exists>md img. resolve_local_path sample_unicode [lit ''tome 1''] (lit ''doc'') (lit ''.md'') {} (lit ''id'') [lit ''lore''] = Inr md \<and>
     compute_image_path [lit ''lore''] [lit ''tome 1''] (path_stem md) (lit ''0123456789ab'') (lit ''png'') = Inr img \<and>
     butlast img \<noteq> sidecar_of md"
proof -
  let ?md = "[lit ''lore'', lit ''tome-1'', lit ''doc.md'']" and ?img = "[lit ''lore'', lit ''tome 1'', lit ''doc.images'', lit ''0123456789ab.png'']"
  have "resolve_local_path sample_unicode [lit ''tome 1''] (lit ''doc'') (lit ''.md'') {} (lit ''id'') [lit ''lore''] = Inr ?md"
    by (simp add: resolve_local_path_def assert_under_root_def resolve_path_def is_relative_to_def join_path_def path_parts_def Let_def slug_eval)
  moreover have "path_stem ?md = lit ''doc''"
    by (simp add: path_stem_def path_name_def dot_index_def lit_def)
  moreover have "compute_image_path [lit ''lore''] [lit ''tome 1''] (lit ''doc'') (lit ''0123456789ab'') (lit ''png'') = Inr ?img"
    by (simp add: compute_image_path_def md5_re_def is_hex_def resolve_path_def is_relative_to_def join_path_def path_parts_def Let_def lit_def)
  moreover have "butlast ?img \<noteq> sidecar_of ?md"
    by (simp add: sidecar_of_def path_stem_def path_name_def dot_index_def join_path_def path_parts_def lit_def)
  ultimately show ?thesis by metis
qed

lemma compress_image_facts:
  assumes "compress_image pl md5 raw src_mime = Inr c" and "pl_open pl raw = Some picture" and "pl_size pl picture = (width, height)"
  shows "length (ci_bytes c) \<le> MAX_BYTES_AFTER"
    and "ci_md5 c = take 12 (md5 (ci_bytes c))" and "map_of MIME_TO_EXT (ci_mime c) = Some (ci_ext c)"
    and "max width height \<le> MAX_DIM \<and> length raw \<le> MAX_BYTES_AFTER \<longrightarrow> ci_bytes c = raw \<and> ci_mime c = src_mime"
    and "MAX_DIM < max width height \<longrightarrow> (\<exists>w h b small. pl_resize pl picture (w, h) = Inr (b, small) \<and> max w h = MAX_DIM \<and> 1 \<le> min w h)"
proof -
  from compress_image_result[OF assms(1)] assms(2) obtain b picture' where
    c: "map_of MIME_TO_EXT src_mime \<noteq> None" "stage_resize pl picture raw = Inr (b, picture')"
    "stage_jpeg pl picture' b src_mime = Inr (ci_bytes c, ci_mime c)" "length (ci_bytes c) \<le> MAX_BYTES_AFTER"
    "ci_md5 c = take 12 (md5 (ci_bytes c))" "ci_ext c = (case map_of MIME_TO_EXT (ci_mime c) of Some e \<Rightarrow> e | None \<Rightarrow> lit ''jpg'')"
    by (metis option.inject)
  show "length (ci_bytes c) \<le> MAX_BYTES_AFTER" "ci_md5 c = take 12 (md5 (ci_bytes c))" using c by simp_all
  have "map_of MIME_TO_EXT (ci_mime c) \<noteq> None"
    using stage_jpeg_mime[OF c(3)] c(1) jpeg_known by metis
  then show "map_of MIME_TO_EXT (ci_mime c) = Some (ci_ext c)" using c(6) by auto
  note resized = stage_resize_cases[OF c(2)] assms(3)
  show "max width height \<le> MAX_DIM \<and> length raw \<le> MAX_BYTES_AFTER \<longrightarrow> ci_bytes c = raw \<and> ci_mime c = src_mime"
    using resized c(3) by (auto simp: stage_jpeg_def split: if_splits)
  show "MAX_DIM < max width height \<longrightarrow> (\<exists>w h b small. pl_resize pl picture (w, h) = Inr (b, small) \<and> max w h = MAX_DIM \<and> 1 \<le> min w h)"
    using resized resized_dims_bounds[of width height] by (cases "resized_dims width height") auto
qed

section \<open>Properties\<close>

text \<open>An image that is kept never exceeds five mebibytes, its name carries the digest of the bytes that are
  written and the extension of their type, and an image within 2048 pixels and five mebibytes is
  written as it came.  A larger one is resized so that its longer side is exactly 2048 pixels and its shorter
  one at least one pixel, whatever its proportions.\<close>

theorem compress_image_bounded:
  assumes "compress_image pl md5 raw src_mime = Inr c" and "pl_open pl raw = Some picture" and "pl_size pl picture = (width, height)"
  shows "length (ci_bytes c) \<le> MAX_BYTES_AFTER \<and>
    ci_md5 c = take 12 (md5 (ci_bytes c)) \<and>
    map_of MIME_TO_EXT (ci_mime c) = Some (ci_ext c) \<and>
    (max width height \<le> MAX_DIM \<and> length raw \<le> MAX_BYTES_AFTER \<longrightarrow> ci_bytes c = raw \<and> ci_mime c = src_mime) \<and>
    (MAX_DIM < max width height \<longrightarrow> (\<exists>w h b small. pl_resize pl picture (w, h) = Inr (b, small) \<and> max w h = MAX_DIM \<and> 1 \<le> min w h))"
  using compress_image_facts[OF assms] by blast

text \<open>Clearing a sidecar directory removes exactly the files in it whose name does not start with the
  digest of a kept image, and reports their number.  Every other file of the tree keeps its content.\<close>

theorem cleanup_orphans_exact:
  assumes "cleanup_orphans refuses sidecar_dir kept False lore_root fs = (Inr n, fs')"
  shows "fl_files fs' = filter (\<lambda>e. \<not> (below sidecar_dir (fst e) \<and> length (fst e) = Suc (length sidecar_dir) \<and> name_prefix (fst e) \<notin> set kept)) (fl_files fs)"
    and "n = card {p \<in> set (map fst (fl_files fs)). below sidecar_dir p \<and> length p = Suc (length sidecar_dir) \<and> name_prefix p \<notin> set kept}"
proof -
  let ?orphan = "\<lambda>p. below sidecar_dir p \<and> length p = Suc (length sidecar_dir) \<and> name_prefix p \<notin> set kept"
  let ?gone = "orphans kept (dir_entries sidecar_dir fs)"
  have "fl_files fs' = filter (\<lambda>e. \<not> ?orphan (fst e)) (fl_files fs) \<and> n = card {p \<in> set (map fst (fl_files fs)). ?orphan p}"
  proof (cases "fs_exists sidecar_dir fs")
    case False
    then have "n = 0" "fs' = fs" "\<forall>e\<in>set (fl_files fs). \<not> ?orphan (fst e)"
      using assms by (auto simp: cleanup_orphans_def fs_exists_def list_ex_iff split: if_splits)
    moreover from this have "{p \<in> set (map fst (fl_files fs)). ?orphan p} = {}" by auto
    ultimately show ?thesis by (simp only: card.empty) (simp add: filter_id_conv)
  next
    case True
    then obtain fs1 where "unlink_orphans refuses kept False (dir_entries sidecar_dir fs) 0 fs = (Inr n, fs1)" "fl_files fs' = fl_files fs1"
      using assms by (auto simp: cleanup_orphans_def seq_def ret_def dest: remove_empty_dir_files split: if_splits prod.splits sum.splits)
    then have r: "fl_files fs' = filter (\<lambda>e. fst e \<notin> set ?gone) (fl_files fs)" "n = length ?gone" "distinct ?gone"
        "set ?gone \<subseteq> set (map fst (fl_files fs))"
      by (auto dest!: unlink_orphans_result)
    have gone: "p \<in> set ?gone \<longleftrightarrow> ?orphan p" if "p \<in> set (map fst (fl_files fs))" for p
      using that by (auto simp: orphans_def dir_entry_iff)
    then have "fl_files fs' = filter (\<lambda>e. \<not> ?orphan (fst e)) (fl_files fs)"
      unfolding r(1) by (intro filter_cong) auto
    moreover have "set ?gone = {p \<in> set (map fst (fl_files fs)). ?orphan p}" using gone r(4) by blast
    ultimately show ?thesis using r(2) distinct_card[OF r(3)] by simp
  qed
  then show "fl_files fs' = filter (\<lambda>e. \<not> ?orphan (fst e)) (fl_files fs)" and "n = card {p \<in> set (map fst (fl_files fs)). ?orphan p}"
    by blast+
qed

definition sample_pillow :: "bytes pillow" where
  "sample_pillow = \<lparr>pl_open = Some, pl_size = (\<lambda>_. (4096, 1)), pl_resize = (\<lambda>_ _. Inr ([7], [7])), pl_jpeg = Inr\<rparr>"

theorem compress_image_bounded_witness:
  "\<exists>c. compress_image sample_pillow (\<lambda>_. lit ''0123456789abcdef'') [1, 2] (lit ''image/png'') = Inr c \<and> length (ci_bytes c) \<le> MAX_BYTES_AFTER \<and>
     ci_md5 c = lit ''0123456789ab'' \<and> ci_ext c = lit ''png'' \<and>
     (\<exists>w h b small. pl_resize sample_pillow [1, 2] (w, h) = Inr (b, small) \<and> max w h = MAX_DIM \<and> 1 \<le> min w h)"
proof -
  let ?c = "\<lparr>ci_bytes = [7], ci_mime = lit ''image/png'', ci_ext = lit ''png'', ci_md5 = lit ''0123456789ab''\<rparr>"
  have e: "compress_image sample_pillow (\<lambda>_. lit ''0123456789abcdef'') [1, 2] (lit ''image/png'') = Inr ?c"
    by (simp add: compress_image_def sample_pillow_def stage_resize_def stage_jpeg_def MAX_DIM_def MAX_BYTES_AFTER_def MIME_TO_EXT_def lit_def)
  have "pl_open sample_pillow [1, 2] = Some [1, 2]" "pl_size sample_pillow [1, 2] = (4096, 1)" by (simp_all add: sample_pillow_def)
  note facts = compress_image_bounded[OF e this]
  have "MAX_DIM < max 4096 1" by (simp add: MAX_DIM_def)
  with e facts show ?thesis by (intro exI[of _ ?c]) simp
qed

theorem cleanup_orphans_exact_witness:
  "\<exists>fs'. cleanup_orphans (\<lambda>_ _. False) [lit ''lore'', lit ''d.images''] [lit ''ab''] False [lit ''lore'']
      \<lparr>fl_files = [([lit ''lore'', lit ''d.images'', lit ''ab.png''], BinaryFile [1]), ([lit ''lore'', lit ''d.images'', lit ''cd.png''], BinaryFile [2]),
         ([lit ''lore'', lit ''d.md''], TextFile [])], fl_dirs = [[lit ''lore'']]\<rparr> = (Inr 1, fs') \<and>
     fl_files fs' = [([lit ''lore'', lit ''d.images'', lit ''ab.png''], BinaryFile [1]), ([lit ''lore'', lit ''d.md''], TextFile [])]"
proof -
  let ?fs = "\<lparr>fl_files = [([lit ''lore'', lit ''d.images'', lit ''ab.png''], BinaryFile [1]), ([lit ''lore'', lit ''d.images'', lit ''cd.png''], BinaryFile [2]),
         ([lit ''lore'', lit ''d.md''], TextFile [])], fl_dirs = [[lit ''lore'']]\<rparr>"
  obtain fs' where e: "cleanup_orphans (\<lambda>_ _. False) [lit ''lore'', lit ''d.images''] [lit ''ab''] False [lit ''lore''] ?fs = (Inr 1, fs')"
    by (simp add: cleanup_orphans_def resolve_path_def is_relative_to_def fs_exists_def dir_entries_def below_def remove_empty_dir_def
        unlink_def name_prefix_def path_name_def action_defs lit_def)
  from cleanup_orphans_exact(1)[OF e] e show ?thesis
    by (intro exI[of _ fs']) (simp add: below_def name_prefix_def path_name_def lit_def)
qed

end
