(* ===== verification/Sync_State.thy ===== *)
theory Sync_State
  imports Lore_Files Json_Access "HOL-Library.List_Lexorder"
begin

text \<open>
  What the export remembers and how it edits a Markdown file: \<open>scripts/gdrive_export/state.py\<close> and the
  frontmatter helpers of \<open>sync.py\<close>.  The JSON and YAML codecs are parameters; a path of the state file is kept
  as its components, all of them being absolute.
\<close>

section \<open>The state file\<close>

record state_entry =
  se_local_path :: path
  se_content_signature :: pystr
  se_last_exported_at :: pystr
  se_body_hash :: pystr
  se_archived_at :: "pystr option"
  se_images :: "(pystr \<times> pystr) list"

type_synonym sync_state = "(pystr \<times> state_entry) list"

definition path_text :: "path \<Rightarrow> pystr" where
  "path_text p = 47 # py_join [47] p"

definition text_path :: "pystr \<Rightarrow> path" where
  "text_path s = path_parts s"

text \<open>A field that is missing raises StateCorruptedError; one that is not a text raises TypeError, here when
  the entry is read.\<close>

definition text_field :: "(pystr \<times> pyval) list \<Rightarrow> string \<Rightarrow> sync_exn + pystr" where
  "text_field kvs k =
     (case map_of kvs (lit k) of None \<Rightarrow> Inl StateCorruptedError | Some (PStr s) \<Rightarrow> Inr s | Some _ \<Rightarrow> Inl ShapeError)"

fun text_items :: "(pystr \<times> pyval) list \<Rightarrow> (pystr \<times> pystr) list option" where
  "text_items [] = Some []"
| "text_items ((k, v) # kvs) = do { s \<leftarrow> js_str v; rest \<leftarrow> text_items kvs; Some ((k, s) # rest) }"

definition archived_field :: "(pystr \<times> pyval) list \<Rightarrow> sync_exn + pystr option" where
  "archived_field kvs =
     (case map_of kvs (lit ''archived_at'') of
        None \<Rightarrow> Inr None | Some PNone \<Rightarrow> Inr None | Some (PStr s) \<Rightarrow> Inr (Some s) | Some _ \<Rightarrow> Inl ShapeError)"

definition images_field :: "(pystr \<times> pyval) list \<Rightarrow> sync_exn + (pystr \<times> pystr) list" where
  "images_field kvs =
     (case map_of kvs (lit ''images'') of
        None \<Rightarrow> Inr []
      | Some (PDict items) \<Rightarrow> (case text_items items of Some is \<Rightarrow> Inr is | None \<Rightarrow> Inl ShapeError)
      | Some _ \<Rightarrow> Inl ShapeError)"

definition sum_bind :: "'e + 'a \<Rightarrow> ('a \<Rightarrow> 'e + 'b) \<Rightarrow> 'e + 'b" where
  "sum_bind m k = (case m of Inl e \<Rightarrow> Inl e | Inr x \<Rightarrow> k x)"

definition entry_of :: "pyval \<Rightarrow> sync_exn + state_entry" where
  "entry_of v =
     (case v of
        PDict kvs \<Rightarrow>
          sum_bind (text_field kvs ''local_path'') (\<lambda>local_path.
          sum_bind (text_field kvs ''content_signature'') (\<lambda>content_signature.
          sum_bind (text_field kvs ''last_exported_at'') (\<lambda>last_exported_at.
          sum_bind (text_field kvs ''body_hash'') (\<lambda>body_hash.
          sum_bind (archived_field kvs) (\<lambda>archived_at.
          sum_bind (images_field kvs) (\<lambda>images.
            Inr \<lparr>se_local_path = text_path local_path, se_content_signature = content_signature,
                 se_last_exported_at = last_exported_at, se_body_hash = body_hash,
                 se_archived_at = archived_at, se_images = images\<rparr>))))))
      | _ \<Rightarrow> Inl StateCorruptedError)"

fun entries_of :: "(pystr \<times> pyval) list \<Rightarrow> sync_exn + sync_state" where
  "entries_of [] = Inr []"
| "entries_of ((file_id, v) # kvs) = sum_bind (entry_of v) (\<lambda>e. sum_bind (entries_of kvs) (\<lambda>es. Inr ((file_id, e) # es)))"

definition load_state :: "refusals \<Rightarrow> (pystr \<Rightarrow> pyval option) \<Rightarrow> path \<Rightarrow> (lore_fs, sync_state) action" where
  "load_state refuses json_loads p =
     seq (gets (fs_exists p)) (\<lambda>present.
       if \<not> present then ret []
       else seq (read_text refuses p) (\<lambda>content.
         case json_loads content of
           Some (PDict kvs) \<Rightarrow> lift_sum (entries_of kvs)
         | _ \<Rightarrow> raise StateCorruptedError))"

text \<open>\<open>asdict\<close> with sorted keys.\<close>

definition entry_doc :: "state_entry \<Rightarrow> pyval" where
  "entry_doc e = PDict
     [(lit ''archived_at'', case se_archived_at e of None \<Rightarrow> PNone | Some s \<Rightarrow> PStr s),
      (lit ''body_hash'', PStr (se_body_hash e)),
      (lit ''content_signature'', PStr (se_content_signature e)),
      (lit ''images'', PDict (map (\<lambda>(k, s). (k, PStr s)) (sort_key fst (se_images e)))),
      (lit ''last_exported_at'', PStr (se_last_exported_at e)),
      (lit ''local_path'', PStr (path_text (se_local_path e)))]"

definition state_doc :: "sync_state \<Rightarrow> pyval" where
  "state_doc st = PDict (map (\<lambda>(k, e). (k, entry_doc e)) (sort_key fst st))"

definition tmp_path :: "path \<Rightarrow> path" where
  "tmp_path p = butlast p @ [path_name p @ lit ''.tmp'']"

definition save_state :: "refusals \<Rightarrow> (pyval \<Rightarrow> pystr) \<Rightarrow> path \<Rightarrow> sync_state \<Rightarrow> (lore_fs, unit) action" where
  "save_state refuses json_dumps_indented p st =
     seq (write_text refuses (tmp_path p) (json_dumps_indented (state_doc st) @ [10]))
         (\<lambda>_. rename_path refuses (tmp_path p) p)"

section \<open>Frontmatter of an exported file\<close>

definition FM_OPEN :: pystr where
  "FM_OPEN = [45, 45, 45, 10]"

definition FM_CLOSE :: pystr where
  "FM_CLOSE = [10, 45, 45, 45, 10]"

text \<open>The text before and after the first closing delimiter.\<close>

fun find_close :: "pystr \<Rightarrow> (pystr \<times> pystr) option" where
  "find_close [] = None"
| "find_close (c # cs) =
     (if take 5 (c # cs) = FM_CLOSE then Some ([], drop 5 (c # cs))
      else map_option (\<lambda>(a, b). (c # a, b)) (find_close cs))"

definition read_existing_frontmatter :: "refusals \<Rightarrow> path \<Rightarrow> (lore_fs, pystr option) action" where
  "read_existing_frontmatter refuses local_path =
     seq (gets (fs_exists local_path)) (\<lambda>present.
       if \<not> present then ret None
       else seq (read_text refuses local_path) (\<lambda>content.
         if take 4 content \<noteq> FM_OPEN then ret None
         else ret (map_option fst (find_close (drop 4 content)))))"

definition FM_KEY_ORDER :: "pystr list" where
  "FM_KEY_ORDER = map lit [''title'', ''source'', ''source_id'', ''drive_path'', ''exported_at'', ''archived'', ''archived_at'', ''tags'', ''access_tier'']"

definition order_keys :: "payload \<Rightarrow> payload \<Rightarrow> pystr \<Rightarrow> payload \<Rightarrow> payload" where
  "order_keys script_managed existing key ordered =
     (case map_of script_managed key of
        Some v \<Rightarrow> dict_set ordered key v
      | None \<Rightarrow>
          (case map_of existing key of
             Some v \<Rightarrow> dict_set ordered key v
           | None \<Rightarrow>
               if key = lit ''tags'' then dict_set ordered key (PList [])
               else if key = lit ''access_tier'' then dict_set ordered key (PStr (lit ''public''))
               else if key = lit ''archived'' then dict_set ordered key (PBool False)
               else if key = lit ''archived_at'' then dict_set ordered key PNone
               else ordered))"

definition keep_other :: "payload \<Rightarrow> pystr \<times> pyval \<Rightarrow> payload \<Rightarrow> payload" where
  "keep_other script_managed kv ordered =
     (if map_of ordered (fst kv) = None \<and> map_of script_managed (fst kv) = None then dict_set ordered (fst kv) (snd kv) else ordered)"

definition existing_frontmatter :: "(pystr \<Rightarrow> pyval option) \<Rightarrow> pystr option \<Rightarrow> sync_exn + payload" where
  "existing_frontmatter yaml_load existing_yaml =
     (case existing_yaml of
        None \<Rightarrow> Inr []
      | Some s \<Rightarrow>
          if s = [] then Inr []
          else (case yaml_load s of None \<Rightarrow> Inl YamlErr | Some (PDict kvs) \<Rightarrow> Inr kvs | Some _ \<Rightarrow> Inr []))"

definition merged_frontmatter :: "payload \<Rightarrow> payload \<Rightarrow> payload" where
  "merged_frontmatter existing script_managed =
     (let ordered = fold (order_keys script_managed existing) FM_KEY_ORDER [];
          full = fold (keep_other script_managed) existing ordered
      in case map_of full (lit ''archived_at'') of
           None \<Rightarrow> full
         | Some v \<Rightarrow> if v = PNone then AList.delete (lit ''archived_at'') full else full)"

definition build_ordered_frontmatter :: "(pystr \<Rightarrow> pyval option) \<Rightarrow> pystr option \<Rightarrow> payload \<Rightarrow> sync_exn + payload" where
  "build_ordered_frontmatter yaml_load existing_yaml script_managed =
     sum_bind (existing_frontmatter yaml_load existing_yaml) (\<lambda>existing. Inr (merged_frontmatter existing script_managed))"

definition script_keys :: "pystr \<Rightarrow> pystr \<Rightarrow> pystr \<Rightarrow> pystr \<Rightarrow> payload" where
  "script_keys title source_id drive_path exported_at =
     [(lit ''title'', PStr title), (lit ''source'', PStr (lit ''gdrive'')), (lit ''source_id'', PStr source_id),
      (lit ''drive_path'', PStr drive_path), (lit ''exported_at'', PStr exported_at),
      (lit ''archived'', PBool False), (lit ''archived_at'', PNone)]"

definition document_text :: "pystr \<Rightarrow> pystr \<Rightarrow> pystr" where
  "document_text fm_str body = FM_OPEN @ fm_str @ FM_OPEN @ body"

definition write_gdoc ::
  "refusals \<Rightarrow> (pystr \<Rightarrow> pyval option) \<Rightarrow> (payload \<Rightarrow> pystr) \<Rightarrow> path \<Rightarrow> payload \<Rightarrow> pystr \<Rightarrow> pystr option \<Rightarrow> (lore_fs, unit) action" where
  "write_gdoc refuses yaml_load yaml_dump local_path script_managed body existing_fm_yaml =
     seq (lift_sum (build_ordered_frontmatter yaml_load existing_fm_yaml script_managed)) (\<lambda>merged.
     seq (make_parents refuses local_path) (\<lambda>_.
       write_text refuses local_path (document_text (yaml_dump merged) body)))"

definition set_archived_frontmatter ::
  "refusals \<Rightarrow> (pystr \<Rightarrow> pyval option) \<Rightarrow> (payload \<Rightarrow> pystr) \<Rightarrow> path \<Rightarrow> pystr \<Rightarrow> (lore_fs, unit) action" where
  "set_archived_frontmatter refuses yaml_load yaml_dump local_path archived_at =
     seq (read_text refuses local_path) (\<lambda>content.
       if take 4 content \<noteq> FM_OPEN then ret ()
       else case find_close (drop 4 content) of
              None \<Rightarrow> raise ValueErr
            | Some (fm_yaml, body_part) \<Rightarrow>
                (case yaml_load fm_yaml of
                   None \<Rightarrow> raise YamlErr
                 | Some v \<Rightarrow>
                     (case (if py_truth v then v else PDict []) of
                        PDict fm \<Rightarrow>
                          write_text refuses local_path (document_text
                            (yaml_dump (dict_set (dict_set fm (lit ''archived'') (PBool True)) (lit ''archived_at'') (PStr archived_at))) body_part)
                      | _ \<Rightarrow> raise ShapeError)))"

section \<open>Lemmas\<close>

lemma map_of_rekey: "\<forall>q\<in>fst ` set xs. f q = k' \<longleftrightarrow> q = k \<Longrightarrow> map_of (map (\<lambda>(p, c). (f p, c)) xs) k' = map_of xs k"
  by (induction xs) auto

lemma move_path_eq: "q \<noteq> new_path \<Longrightarrow> move_path old_path new_path q = new_path \<longleftrightarrow> q = old_path"
  by (auto simp: move_path_def below_def)

lemma rename_path_moves:
  assumes "rename_path refuses old_path new_path fs = (Inr u, fs')" and "map_of (fl_files fs) old_path = Some c" and "old_path \<noteq> new_path"
  shows "map_of (fl_files fs') new_path = Some c"
proof -
  have "fl_files fs' = map (\<lambda>(p, c). (move_path old_path new_path p, c)) (AList.delete new_path (fl_files fs))"
    using assms(1) by (auto simp: rename_path_def split: if_splits)
  moreover have "\<forall>q\<in>fst ` set (AList.delete new_path (fl_files fs)). move_path old_path new_path q = new_path \<longleftrightarrow> q = old_path"
    by (auto simp: AList.delete_eq move_path_eq)
  ultimately have "map_of (fl_files fs') new_path = map_of (AList.delete new_path (fl_files fs)) old_path"
    using map_of_rekey[of "AList.delete new_path (fl_files fs)" "move_path old_path new_path"] by simp
  then show ?thesis using assms(2,3) by (simp add: AList.delete_conv')
qed

lemma universal_newlines_id: "13 \<notin> set s \<Longrightarrow> universal_newlines s = s"
  by (induction s rule: universal_newlines.induct) auto

lemma write_text_result:
  "write_text refuses p s fs = (Inr u, fs') \<Longrightarrow> fs' = fs\<lparr>fl_files := dict_set (fl_files fs) p (TextFile s)\<rparr>"
  by (auto simp: write_text_def write_file_def raise_def split: option.splits if_splits)

lemma read_text_of: "map_of (fl_files fs) p = Some (TextFile s) \<Longrightarrow> \<not> refuses fs p \<Longrightarrow> 13 \<notin> set s \<Longrightarrow> read_text refuses p fs = (Inr s, fs)"
  by (simp add: read_text_def universal_newlines_id)

lemma fs_exists_file: "map_of (fl_files fs) p = Some c \<Longrightarrow> fs_exists p fs"
  by (force simp: fs_exists_def dest: map_of_SomeD)

definition plain_path :: "path \<Rightarrow> bool" where
  "plain_path p \<longleftrightarrow> p \<noteq> [] \<and> list_all (\<lambda>c. plain_component c \<and> 47 \<notin> set c) p"

lemma text_path_path_text: "plain_path p \<Longrightarrow> text_path (path_text p) = p"
  by (auto simp: plain_path_def text_path_def path_text_def path_parts_def split_on_py_join list_all_iff plain_component_def filter_id_conv)

lemma text_items_texts: "text_items (map (\<lambda>(k, s). (k, PStr s)) xs) = Some xs"
  by (induction xs) (auto simp: js_str_def)

text \<open>The entry with its images in the order of their keys.\<close>

definition sorted_images :: "state_entry \<Rightarrow> state_entry" where
  "sorted_images e = e\<lparr>se_images := sort_key fst (se_images e)\<rparr>"

lemma entry_of_doc: "plain_path (se_local_path e) \<Longrightarrow> entry_of (entry_doc e) = Inr (sorted_images e)"
  by (cases "se_archived_at e")
     (simp_all add: entry_of_def entry_doc_def text_field_def archived_field_def images_field_def sum_bind_def lit_def text_items_texts
        text_path_path_text sorted_images_def)

lemma entries_of_docs:
  "\<forall>e\<in>snd ` set st. plain_path (se_local_path e) \<Longrightarrow>
   entries_of (map (\<lambda>(k, e). (k, entry_doc e)) st) = Inr (map (\<lambda>(k, e). (k, sorted_images e)) st)"
  by (induction st) (auto simp: entry_of_doc sum_bind_def)

lemma find_close_first: "\<not> py_in [10, 45, 45, 45] blk \<Longrightarrow> find_close (blk @ FM_CLOSE @ body) = Some (blk, body)"
proof (induction blk)
  case (Cons c blk)
  have "take 5 (c # blk @ FM_CLOSE @ body) \<noteq> FM_CLOSE"
    using Cons.prems by (cases blk; cases "tl blk"; cases "tl (tl blk)") (auto simp: FM_CLOSE_def py_startswith_def)
  with Cons show ?case by (simp add: FM_CLOSE_def)
qed (simp add: FM_CLOSE_def)

text \<open>The value the ordered pass gives a key.\<close>

definition fm_default :: "pystr \<Rightarrow> pyval option" where
  "fm_default k =
     (if k = lit ''tags'' then Some (PList []) else if k = lit ''access_tier'' then Some (PStr (lit ''public''))
      else if k = lit ''archived'' then Some (PBool False) else if k = lit ''archived_at'' then Some PNone else None)"

definition chosen :: "payload \<Rightarrow> payload \<Rightarrow> pystr \<Rightarrow> pyval option" where
  "chosen script existing k =
     (case map_of script k of Some v \<Rightarrow> Some v | None \<Rightarrow> case map_of existing k of Some v \<Rightarrow> Some v | None \<Rightarrow> fm_default k)"

lemma order_keys_lookup:
  "map_of (order_keys script existing key d) = (case chosen script existing key of Some v \<Rightarrow> (map_of d)(key \<mapsto> v) | None \<Rightarrow> map_of d)"
  by (auto simp: order_keys_def chosen_def fm_default_def split: option.split)

lemma fold_order_keys:
  "map_of (fold (order_keys script existing) ks d) k =
   (if k \<in> set ks \<and> chosen script existing k \<noteq> None then chosen script existing k else map_of d k)"
  by (induction ks arbitrary: d) (auto simp: order_keys_lookup split: option.splits)

lemma fold_keep_other:
  "map_of (fold (keep_other script) existing d) k =
   (case map_of d k of Some v \<Rightarrow> Some v | None \<Rightarrow> if map_of script k = None then map_of existing k else None)"
  by (induction existing arbitrary: d) (auto simp: keep_other_def split: option.splits if_splits)

lemma merged_frontmatter_lookup:
  assumes "map_of script (lit ''archived_at'') = Some PNone"
  shows "map_of (merged_frontmatter existing script) k =
    (if k = lit ''archived_at'' then None
     else case map_of script k of Some v \<Rightarrow> if k \<in> set FM_KEY_ORDER then Some v else None
        | None \<Rightarrow> case map_of existing k of Some v \<Rightarrow> Some v | None \<Rightarrow> if k \<in> set FM_KEY_ORDER then fm_default k else None)"
proof -
  let ?full = "fold (keep_other script) existing (fold (order_keys script existing) FM_KEY_ORDER [])"
  have full: "map_of ?full k = (if k \<in> set FM_KEY_ORDER \<and> chosen script existing k \<noteq> None then chosen script existing k
      else if map_of script k = None then map_of existing k else None)" for k
    by (auto simp: fold_keep_other fold_order_keys split: option.split)
  have "lit ''archived_at'' \<in> set FM_KEY_ORDER" by (simp add: FM_KEY_ORDER_def)
  then have "map_of ?full (lit ''archived_at'') = Some PNone" using assms by (simp add: full chosen_def)
  then have merged: "merged_frontmatter existing script = AList.delete (lit ''archived_at'') ?full"
    by (simp add: merged_frontmatter_def Let_def)
  show ?thesis unfolding merged by (auto simp: AList.delete_conv' full chosen_def split: option.split)
qed

section \<open>Properties\<close>

text \<open>The frontmatter of an export takes the keys the script manages from the Drive and every other key from
  the file it replaces: the tags, the access tier and any further key the author set survive, a new file gets no tag and the
  public tier, and the mark of an archived file is cleared.\<close>

theorem export_frontmatter_exact:
  "map_of (merged_frontmatter existing (script_keys title source_id drive_path exported_at)) k =
    (if k = lit ''title'' then Some (PStr title)
     else if k = lit ''source'' then Some (PStr (lit ''gdrive''))
     else if k = lit ''source_id'' then Some (PStr source_id)
     else if k = lit ''drive_path'' then Some (PStr drive_path)
     else if k = lit ''exported_at'' then Some (PStr exported_at)
     else if k = lit ''archived'' then Some (PBool False)
     else if k = lit ''archived_at'' then None
     else case map_of existing k of
            Some v \<Rightarrow> Some v
          | None \<Rightarrow> if k = lit ''tags'' then Some (PList []) else if k = lit ''access_tier'' then Some (PStr (lit ''public'')) else None)"
proof -
  have script: "map_of (script_keys title source_id drive_path exported_at) (lit ''archived_at'') = Some PNone"
    by (simp add: script_keys_def lit_def)
  show ?thesis unfolding merged_frontmatter_lookup[OF script]
    by (simp add: script_keys_def FM_KEY_ORDER_def fm_default_def split: option.split)
qed


text \<open>The state that was saved is the state the next run loads, entry for entry, in the order of the keys.\<close>

theorem state_roundtrip:
  assumes "save_state refuses dumps p st fs = (Inr (), fs')" and "p \<noteq> []" and "\<not> refuses fs' p"
    and "loads (dumps (state_doc st) @ [10]) = Some (state_doc st)" and "13 \<notin> set (dumps (state_doc st))"
    and "list_all (\<lambda>(k, e). plain_path (se_local_path e)) st"
  shows "load_state refuses loads p fs' = (Inr (map (\<lambda>(k, e). (k, sorted_images e)) (sort_key fst st)), fs')"
proof -
  let ?text = "dumps (state_doc st) @ [10]"
  obtain fs1 where "write_text refuses (tmp_path p) ?text fs = (Inr (), fs1)" and ren: "rename_path refuses (tmp_path p) p fs1 = (Inr (), fs')"
    using assms(1) by (auto simp: save_state_def seq_def split: prod.splits sum.splits)
  then have "map_of (fl_files fs1) (tmp_path p) = Some (TextFile ?text)" by (auto dest: write_text_result)
  moreover have "tmp_path p \<noteq> p"
    using assms(2) by (cases p rule: rev_cases) (auto simp: tmp_path_def path_name_def lit_def)
  ultimately have stored: "map_of (fl_files fs') p = Some (TextFile ?text)" using rename_path_moves[OF ren] by simp
  have "read_text refuses p fs' = (Inr ?text, fs')" using stored assms(3,5) by (intro read_text_of) auto
  moreover have "entries_of (map (\<lambda>(k, e). (k, entry_doc e)) (sort_key fst st)) = Inr (map (\<lambda>(k, e). (k, sorted_images e)) (sort_key fst st))"
    using assms(6) by (intro entries_of_docs) (auto simp: list_all_iff)
  ultimately show ?thesis
    using fs_exists_file[OF stored] assms(4) by (simp add: load_state_def seq_def gets_def lift_sum_def state_doc_def)
qed

definition sample_merged :: payload where
  "sample_merged = merged_frontmatter [] (script_keys (lit ''t'') (lit ''i'') (lit ''p'') (lit ''d''))"

definition no_files :: lore_fs where
  "no_files = \<lparr>fl_files = [], fl_dirs = []\<rparr>"


definition sample_entry :: state_entry where
  "sample_entry = \<lparr>se_local_path = [lit ''lore'', lit ''a.png''], se_content_signature = lit ''md5:0'', se_last_exported_at = lit ''d'',
     se_body_hash = [], se_archived_at = None, se_images = []\<rparr>"

theorem state_roundtrip_witness:
  "\<exists>fs'. save_state (\<lambda>_ _. False) (\<lambda>_. lit ''x'') [lit ''s.json''] [(lit ''k'', sample_entry)] no_files = (Inr (), fs') \<and>
     load_state (\<lambda>_ _. False) (\<lambda>_. Some (state_doc [(lit ''k'', sample_entry)])) [lit ''s.json''] fs' = (Inr [(lit ''k'', sample_entry)], fs')"
proof -
  obtain fs' where w: "save_state (\<lambda>_ _. False) (\<lambda>_. lit ''x'') [lit ''s.json''] [(lit ''k'', sample_entry)] no_files = (Inr (), fs')"
    by (simp add: save_state_def tmp_path_def path_name_def action_defs write_text_def write_file_def rename_path_def fs_exists_def
          dir_entries_def below_def no_files_def py_encode_def is_surrogate_def lit_def)
  show ?thesis
    using state_roundtrip[OF w, of "\<lambda>_. Some (state_doc [(lit ''k'', sample_entry)])"] w
    by (auto simp: plain_path_def plain_component_def sorted_images_def sample_entry_def lit_def)
qed

end
