(* ===== verification/Drive_Sync.thy ===== *)
theory Drive_Sync
  imports Slide_Renderer Images Sync_State
begin

text \<open>
  \<open>scripts/gdrive_export/sync.py\<close>: one run of the export, from the listing of the Drive to the saved state.
  The Drive client, the clock, the digests and the codecs are fields of the environment; a call of the client
  or of the clock is told how many such calls came before it, so that two calls may answer differently.
  The log lines are left out.
\<close>

section \<open>Environment and state\<close>

definition DOC_MIME :: pystr where
  "DOC_MIME = lit ''application/vnd.google-apps.document''"

definition SHEET_MIME :: pystr where
  "SHEET_MIME = lit ''application/vnd.google-apps.spreadsheet''"

definition SLIDES_MIME :: pystr where
  "SLIDES_MIME = lit ''application/vnd.google-apps.presentation''"

definition ONE_MIB :: nat where
  "ONE_MIB = 1024 * 1024"

record drive_file =
  df_id :: pystr
  df_mime :: pystr
  df_name :: pystr
  df_components :: "pystr list"
  df_md5 :: "pystr option"

record 'img sync_env =
  en_unicode :: unicode
  en_refuses :: refusals
  en_yaml_load :: "pystr \<Rightarrow> pyval option"
  en_yaml_dump :: "payload \<Rightarrow> pystr"
  en_json_loads :: "pystr \<Rightarrow> pyval option"
  en_json_dumps :: "pyval \<Rightarrow> pystr"
  en_int_of :: "pystr \<Rightarrow> int option"
  en_sha256 :: "bytes \<Rightarrow> pystr"
  en_md5 :: "bytes \<Rightarrow> pystr"
  en_pillow :: "'img pillow"
  en_now :: "nat \<Rightarrow> pystr"
  en_list :: "nat \<Rightarrow> pystr \<Rightarrow> sync_exn + drive_file list"
  en_tabs :: "nat \<Rightarrow> pystr \<Rightarrow> sync_exn + tab list"
  en_values :: "nat \<Rightarrow> pystr \<Rightarrow> pystr \<Rightarrow> sync_exn + pystr list list"
  en_presentation :: "nat \<Rightarrow> pystr \<Rightarrow> sync_exn + pyval"
  en_document :: "nat \<Rightarrow> pystr \<Rightarrow> sync_exn + pyval"
  en_image :: "nat \<Rightarrow> pyval \<Rightarrow> sync_exn + bytes \<times> pystr"
  en_png :: "nat \<Rightarrow> pystr \<Rightarrow> sync_exn + bytes"
  en_lore_root :: path
  en_state_path :: path
  en_dry_run :: bool

record sync_counts =
  ct_total :: nat
  ct_created :: nat
  ct_updated :: nat
  ct_renamed :: nat
  ct_archived :: nat
  ct_unchanged :: nat
  ct_errors :: nat
  ct_images_written :: nat
  ct_images_failed :: nat
  ct_orphans_removed :: nat

definition NO_COUNTS :: sync_counts where
  "NO_COUNTS = \<lparr>ct_total = 0, ct_created = 0, ct_updated = 0, ct_renamed = 0, ct_archived = 0, ct_unchanged = 0, ct_errors = 0,
     ct_images_written = 0, ct_images_failed = 0, ct_orphans_removed = 0\<rparr>"

record sync_world =
  sw_fs :: lore_fs
  sw_new_state :: sync_state
  sw_counts :: sync_counts
  sw_taken :: "path set"
  sw_tick :: nat

type_synonym 'a sync = "(sync_world, 'a) action"

definition count_up :: "((nat \<Rightarrow> nat) \<Rightarrow> sync_counts \<Rightarrow> sync_counts) \<Rightarrow> unit sync" where
  "count_up upd = modify (\<lambda>w. w\<lparr>sw_counts := upd Suc (sw_counts w)\<rparr>)"

definition count_many :: "((nat \<Rightarrow> nat) \<Rightarrow> sync_counts \<Rightarrow> sync_counts) \<Rightarrow> nat \<Rightarrow> unit sync" where
  "count_many upd n = modify (\<lambda>w. w\<lparr>sw_counts := upd (\<lambda>k. k + n) (sw_counts w)\<rparr>)"

definition put_entry :: "pystr \<Rightarrow> state_entry \<Rightarrow> unit sync" where
  "put_entry key entry = modify (\<lambda>w. w\<lparr>sw_new_state := dict_set (sw_new_state w) key entry\<rparr>)"

definition take_path :: "path \<Rightarrow> unit sync" where
  "take_path p = modify (\<lambda>w. w\<lparr>sw_taken := insert p (sw_taken w)\<rparr>)"

definition on_fs :: "(lore_fs, 'a) action \<Rightarrow> 'a sync" where
  "on_fs m w = (case m (sw_fs w) of (r, fs) \<Rightarrow> (r, w\<lparr>sw_fs := fs\<rparr>))"

definition call :: "(nat \<Rightarrow> sync_exn + 'a) \<Rightarrow> 'a sync" where
  "call f w = (f (sw_tick w), w\<lparr>sw_tick := Suc (sw_tick w)\<rparr>)"

definition now_iso :: "'img sync_env \<Rightarrow> pystr sync" where
  "now_iso env = call (\<lambda>n. Inr (en_now env n))"

text \<open>Two steps one after the other.\<close>

definition andthen :: "('w, 'a) action \<Rightarrow> ('w, 'b) action \<Rightarrow> ('w, 'b) action" where
  "andthen m k = seq m (\<lambda>_. k)"

section \<open>Archiving\<close>

definition archive_entry :: "'img sync_env \<Rightarrow> pystr \<Rightarrow> state_entry \<Rightarrow> unit sync" where
  "archive_entry env state_key entry =
     andthen (count_up ct_total_update)
       (if se_archived_at entry \<noteq> None then andthen (put_entry state_key entry) (count_up ct_unchanged_update)
        else seq (now_iso env) (\<lambda>archived_at.
          if en_dry_run env then andthen (put_entry state_key entry) (count_up ct_archived_update)
          else seq (gets (\<lambda>w. fs_exists (se_local_path entry) (sw_fs w))) (\<lambda>present.
            andthen (if path_suffix (se_local_path entry) = lit ''.md'' \<and> present
                     then on_fs (set_archived_frontmatter (en_refuses env) (en_yaml_load env) (en_yaml_dump env) (se_local_path entry) archived_at)
                     else ret ())
            (andthen (put_entry state_key (entry\<lparr>se_archived_at := Some archived_at\<rparr>)) (count_up ct_archived_update)))))"

text \<open>The tabs of the sheets that were already listed are threaded through.\<close>

type_synonym tab_gids = "(pystr \<times> int set) list"

definition current_gids :: "'img sync_env \<Rightarrow> pystr \<Rightarrow> tab_gids \<Rightarrow> tab_gids option sync" where
  "current_gids env file_id gids =
     (if map_of gids file_id \<noteq> None then ret (Some gids)
      else attempt (seq (call (\<lambda>n. en_tabs env n file_id)) (\<lambda>tabs. ret (Some (dict_set gids file_id (tb_gid ` set tabs)))))
             (\<lambda>e. case e of DriveApiError _ \<Rightarrow> ret None | _ \<Rightarrow> raise e))"

definition handle_archived_tab ::
  "'img sync_env \<Rightarrow> pystr \<Rightarrow> pystr \<Rightarrow> int \<Rightarrow> state_entry \<Rightarrow> pystr set \<Rightarrow> pystr set \<Rightarrow> tab_gids \<Rightarrow> tab_gids sync" where
  "handle_archived_tab env state_key file_id gid entry drive_ids sheet_ids gids =
     (if file_id \<notin> drive_ids then andthen (archive_entry env state_key entry) (ret gids)
      else if file_id \<notin> sheet_ids then andthen (put_entry state_key entry) (ret gids)
      else seq (current_gids env file_id gids) (\<lambda>known.
        case known of
          None \<Rightarrow> andthen (put_entry state_key entry) (ret gids)
        | Some gids' \<Rightarrow>
            (case map_of gids' file_id of
               Some s \<Rightarrow> andthen (if gid \<notin> s then archive_entry env state_key entry else put_entry state_key entry) (ret gids')
             | None \<Rightarrow> raise ShapeError)))"

fun handle_archived :: "'img sync_env \<Rightarrow> sync_state \<Rightarrow> pystr set \<Rightarrow> pystr set \<Rightarrow> tab_gids \<Rightarrow> unit sync" where
  "handle_archived env [] drive_ids sheet_ids gids = ret ()"
| "handle_archived env ((state_key, entry) # state) drive_ids sheet_ids gids =
     (if 35 \<in> set state_key then
        seq (lift_opt ValueErr (en_int_of env (tl (dropWhile (\<lambda>c. c \<noteq> 35) state_key)))) (\<lambda>gid.
        seq (handle_archived_tab env state_key (takeWhile (\<lambda>c. c \<noteq> 35) state_key) gid entry drive_ids sheet_ids gids)
          (\<lambda>gids'. handle_archived env state drive_ids sheet_ids gids'))
      else andthen (if state_key \<in> drive_ids then ret () else archive_entry env state_key entry)
             (handle_archived env state drive_ids sheet_ids gids))"

text \<open>The archiving of the tabs of one sheet; a run does not call it, since \<open>handle_archived\<close> covers the tabs.\<close>

fun archive_removed_tabs :: "'img sync_env \<Rightarrow> sync_state \<Rightarrow> pystr \<Rightarrow> int set \<Rightarrow> unit sync" where
  "archive_removed_tabs env [] file_id current = ret ()"
| "archive_removed_tabs env ((state_key, entry) # state) file_id current =
     andthen
       (if \<not> py_startswith state_key (file_id @ [35]) then ret ()
        else seq (lift_opt ValueErr (en_int_of env (tl (dropWhile (\<lambda>c. c \<noteq> 35) state_key)))) (\<lambda>gid.
               if gid \<notin> current then archive_entry env state_key entry else ret ()))
       (archive_removed_tabs env state file_id current)"

section \<open>Writing one file\<close>

definition new_entry :: "path \<Rightarrow> pystr \<Rightarrow> pystr \<Rightarrow> pystr \<Rightarrow> (pystr \<times> pystr) list \<Rightarrow> state_entry" where
  "new_entry local_path new_sig now body_hash images =
     \<lparr>se_local_path = local_path, se_content_signature = new_sig, se_last_exported_at = now, se_body_hash = body_hash,
      se_archived_at = None, se_images = images\<rparr>"

text \<open>\<open>existing or StateEntry(...)\<close>\<close>

definition existing_or :: "state_entry option \<Rightarrow> state_entry \<Rightarrow> state_entry" where
  "existing_or existing fresh = (case existing of Some e \<Rightarrow> e | None \<Rightarrow> fresh)"

definition encoded :: "pystr \<Rightarrow> bytes sync" where
  "encoded s = lift_opt ValueErr (py_encode s)"

definition signature :: "'img sync_env \<Rightarrow> bytes \<Rightarrow> pystr" where
  "signature env b = lit ''sha256:'' @ en_sha256 env b"

definition is_rename :: "state_entry option \<Rightarrow> path \<Rightarrow> bool" where
  "is_rename existing local_path = (case existing of Some e \<Rightarrow> se_local_path e \<noteq> local_path | None \<Rightarrow> False)"

definition same_content :: "state_entry option \<Rightarrow> pystr \<Rightarrow> bool" where
  "same_content existing new_sig = (case existing of Some e \<Rightarrow> se_content_signature e = new_sig | None \<Rightarrow> False)"

definition gdoc_status_and_rename :: "'img sync_env \<Rightarrow> path \<Rightarrow> state_entry option \<Rightarrow> unit sync" where
  "gdoc_status_and_rename env local_path existing =
     (case existing of
        None \<Rightarrow> count_up ct_created_update
      | Some e \<Rightarrow>
          if se_local_path e \<noteq> local_path then
            andthen (count_up ct_renamed_update)
              (if en_dry_run env then ret () else on_fs (rename_local_file (en_refuses env) (se_local_path e) local_path))
          else count_up ct_updated_update)"

definition tab_status_and_rename :: "'img sync_env \<Rightarrow> path \<Rightarrow> state_entry option \<Rightarrow> unit sync" where
  "tab_status_and_rename env local_path existing =
     (case existing of
        None \<Rightarrow> count_up ct_created_update
      | Some e \<Rightarrow>
          if se_local_path e \<noteq> local_path then
            andthen (count_up ct_renamed_update)
              (if en_dry_run env then ret () else on_fs (rename_local_file (en_refuses env) (se_local_path e) local_path))
          else count_up ct_updated_update)"

definition write_export :: "'img sync_env \<Rightarrow> path \<Rightarrow> pystr \<Rightarrow> pystr \<Rightarrow> pystr \<Rightarrow> pystr \<Rightarrow> pystr \<Rightarrow> unit sync" where
  "write_export env local_path title source_id drive_path now body =
     seq (on_fs (read_existing_frontmatter (en_refuses env) local_path)) (\<lambda>existing_fm.
       on_fs (write_gdoc (en_refuses env) (en_yaml_load env) (en_yaml_dump env) local_path
         (script_keys title source_id drive_path now) body existing_fm))"

section \<open>Presentations\<close>

definition apply_gslide_state ::
  "'img sync_env \<Rightarrow> pystr \<Rightarrow> pystr \<Rightarrow> pystr list \<Rightarrow> path \<Rightarrow> state_entry option \<Rightarrow> pystr \<Rightarrow> unit sync" where
  "apply_gslide_state env file_id name components local_path existing body_norm =
     seq (encoded body_norm) (\<lambda>b.
       let new_sig = signature env b; new_body_hash = en_sha256 env b
       in seq (now_iso env) (\<lambda>now.
         if same_content existing new_sig \<and> \<not> is_rename existing local_path
         then andthen (put_entry file_id (existing_or existing (new_entry local_path new_sig now new_body_hash []))) (count_up ct_unchanged_update)
         else andthen (gdoc_status_and_rename env local_path existing)
           (if \<not> en_dry_run env then
              andthen (write_export env local_path name file_id (py_join [47] (components @ [name])) now body_norm)
                (put_entry file_id (new_entry local_path new_sig now new_body_hash []))
            else put_entry file_id (existing_or existing (new_entry local_path new_sig now new_body_hash [])))))"

definition process_gslide :: "'img sync_env \<Rightarrow> pystr \<Rightarrow> pystr \<Rightarrow> pystr list \<Rightarrow> path \<Rightarrow> state_entry option \<Rightarrow> unit sync" where
  "process_gslide env file_id name components local_path existing =
     seq (call (\<lambda>n. en_presentation env n file_id)) (\<lambda>presentation.
     seq (lift_opt ShapeError (render_presentation_markdown (en_unicode env) presentation file_id)) (\<lambda>(body, hidden_indices).
       let body_norm = export_normalize (en_unicode env) body
       in seq (encoded body_norm) (\<lambda>b.
         if ONE_MIB < length b then count_up ct_errors_update
         else apply_gslide_state env file_id name components local_path existing body_norm)))"

section \<open>Sheets\<close>

text \<open>\<open>except (DriveApiError, OSError)\<close>\<close>

definition api_or_os_error :: "sync_exn \<Rightarrow> bool" where
  "api_or_os_error e = (case e of DriveApiError _ \<Rightarrow> True | OSErr \<Rightarrow> True | _ \<Rightarrow> False)"

definition count_error :: "unit sync" where
  "count_error = andthen (count_up ct_total_update) (count_up ct_errors_update)"

definition fetch_tab_content :: "'img sync_env \<Rightarrow> pystr \<Rightarrow> pystr \<Rightarrow> int \<Rightarrow> pystr option sync" where
  "fetch_tab_content env file_id tab_title gid =
     attempt
       (seq (call (\<lambda>n. en_values env n file_id tab_title)) (\<lambda>values.
          ret (Some (export_normalize (en_unicode env) (render_tab_markdown (en_unicode env) values file_id gid)))))
       (\<lambda>e. if api_or_os_error e then andthen count_error (ret None) else raise e)"

definition apply_tab_state ::
  "'img sync_env \<Rightarrow> pystr \<Rightarrow> path \<Rightarrow> pystr \<Rightarrow> pystr \<Rightarrow> pystr \<Rightarrow> pystr \<Rightarrow> state_entry option \<Rightarrow> unit sync" where
  "apply_tab_state env source_id local_path body_norm tab_title name drive_path_prefix existing =
     seq (encoded body_norm) (\<lambda>b.
       let new_sig = signature env b; new_body_hash = en_sha256 env b;
           drive_path = drive_path_prefix @ lit ''/'' @ replace_char 47 [92, 47] tab_title
       in seq (now_iso env) (\<lambda>now.
         andthen (count_up ct_total_update)
         (if same_content existing new_sig \<and> \<not> is_rename existing local_path
          then andthen (put_entry source_id (existing_or existing (new_entry local_path new_sig now new_body_hash []))) (count_up ct_unchanged_update)
          else andthen (tab_status_and_rename env local_path existing)
            (if \<not> en_dry_run env then
               andthen (write_export env local_path (build_tab_title name tab_title) source_id drive_path now body_norm)
                 (put_entry source_id (new_entry local_path new_sig now new_body_hash []))
             else put_entry source_id (existing_or existing (new_entry local_path new_sig now new_body_hash []))))))"

definition process_tab ::
  "'img sync_env \<Rightarrow> sync_state \<Rightarrow> pystr \<Rightarrow> pystr \<Rightarrow> pystr list \<Rightarrow> tab \<times> pystr \<Rightarrow> unit sync" where
  "process_tab env state file_id name components pair =
     (case pair of (tab, tab_slug) \<Rightarrow>
        let gid = tb_gid tab; tab_title = tb_title tab;
            source_id = build_tab_source_id file_id gid;
            sheet_slug = slugify (en_unicode env) name file_id;
            local_path = join_path (foldl join_path (en_lore_root env) (map (\<lambda>c. slugify (en_unicode env) c file_id) components))
                           (sheet_slug @ lit ''--'' @ tab_slug @ lit ''.md'')
        in andthen (take_path local_path)
          (seq (fetch_tab_content env file_id tab_title gid) (\<lambda>content.
             case content of
               None \<Rightarrow> ret ()
             | Some body_norm \<Rightarrow>
                 seq (encoded body_norm) (\<lambda>b.
                   if ONE_MIB < length b then count_error
                   else apply_tab_state env source_id local_path body_norm tab_title name
                          (py_join [47] (components @ [name])) (map_of state source_id)))))"

fun process_tabs ::
  "'img sync_env \<Rightarrow> sync_state \<Rightarrow> pystr \<Rightarrow> pystr \<Rightarrow> pystr list \<Rightarrow> (tab \<times> pystr) list \<Rightarrow> unit sync" where
  "process_tabs env state file_id name components [] = ret ()"
| "process_tabs env state file_id name components (pair # pairs) =
     andthen (process_tab env state file_id name components pair) (process_tabs env state file_id name components pairs)"

definition process_gsheet :: "'img sync_env \<Rightarrow> sync_state \<Rightarrow> pystr \<Rightarrow> pystr \<Rightarrow> pystr list \<Rightarrow> unit sync" where
  "process_gsheet env state file_id name components =
     seq (attempt (seq (call (\<lambda>n. en_tabs env n file_id)) (\<lambda>tabs. ret (Some tabs)))
                  (\<lambda>e. if api_or_os_error e then andthen count_error (ret None) else raise e))
         (\<lambda>listed. case listed of
            None \<Rightarrow> ret ()
          | Some tabs \<Rightarrow> process_tabs env state file_id name components (resolve_tab_collisions (en_unicode env) tabs))"

section \<open>Pictures\<close>

text \<open>From the clock on.\<close>

definition write_png :: "'img sync_env \<Rightarrow> pystr \<Rightarrow> path \<Rightarrow> state_entry option \<Rightarrow> bytes \<Rightarrow> pystr \<Rightarrow> unit sync" where
  "write_png env file_id local_path existing png_bytes new_sig =
     seq (now_iso env) (\<lambda>now.
       andthen
         (case existing of
            None \<Rightarrow> count_up ct_created_update
          | Some e \<Rightarrow>
              if se_local_path e \<noteq> local_path then
                andthen (count_up ct_renamed_update)
                  (if en_dry_run env then ret () else on_fs (rename_local_file (en_refuses env) (se_local_path e) local_path))
              else count_up ct_updated_update)
         (if \<not> en_dry_run env then
            andthen (on_fs (make_parents (en_refuses env) local_path))
            (andthen (on_fs (write_file (en_refuses env) local_path (BinaryFile png_bytes)))
              (put_entry file_id (new_entry local_path new_sig now [] [])))
          else put_entry file_id (existing_or existing (new_entry local_path new_sig now [] []))))"

definition process_png :: "'img sync_env \<Rightarrow> pystr \<Rightarrow> path \<Rightarrow> state_entry option \<Rightarrow> pystr option \<Rightarrow> unit sync" where
  "process_png env file_id local_path existing drive_md5 =
     (let sig = (\<lambda>md5. lit ''md5:'' @ md5);
          unchanged = (case existing of Some e \<Rightarrow> andthen (put_entry file_id e) (count_up ct_unchanged_update) | None \<Rightarrow> ret ())
      in if (case drive_md5 of Some md5 \<Rightarrow> same_content existing (sig md5) | None \<Rightarrow> False) then unchanged
         else seq (call (\<lambda>n. en_png env n file_id)) (\<lambda>png_bytes.
           if ONE_MIB < length png_bytes then count_up ct_errors_update
           else case drive_md5 of
                  Some md5 \<Rightarrow> write_png env file_id local_path existing png_bytes (sig md5)
                | None \<Rightarrow>
                    if same_content existing (sig (en_md5 env png_bytes)) then unchanged
                    else write_png env file_id local_path existing png_bytes (sig (en_md5 env png_bytes))))"

section \<open>Documents\<close>

text \<open>What the loop over the images builds: the resolutions, the manifest and the paths given so far.\<close>

record image_tables =
  it_resolutions :: resolutions
  it_manifest :: "(pystr \<times> pystr) list"
  it_md5_to_rel :: "(pystr \<times> pystr) list"

definition resolved :: "image_kind \<Rightarrow> pystr option \<Rightarrow> image_resolution" where
  "resolved kind rel_path = \<lparr>ir_kind = kind, ir_rel_path = rel_path, ir_alt = None\<rparr>"

definition resolve_as :: "image_tables \<Rightarrow> pystr \<Rightarrow> image_resolution \<Rightarrow> image_tables" where
  "resolve_as ts obj_id r = ts\<lparr>it_resolutions := dict_set (it_resolutions ts) obj_id r\<rparr>"

definition image_failed :: "image_tables \<Rightarrow> pystr \<Rightarrow> image_kind \<Rightarrow> image_tables sync" where
  "image_failed ts obj_id kind = andthen (count_up ct_images_failed_update) (ret (resolve_as ts obj_id (resolved kind None)))"

definition relative_text :: "path \<Rightarrow> path \<Rightarrow> pystr option" where
  "relative_text p base = (if is_relative_to p base then Some (py_join [47] (drop (length base) p)) else None)"

definition compress_and_register ::
  "'img sync_env \<Rightarrow> pystr \<Rightarrow> bytes \<Rightarrow> pystr \<Rightarrow> pystr \<Rightarrow> pystr list \<Rightarrow> image_tables \<Rightarrow> image_tables sync" where
  "compress_and_register env obj_id raw content_type doc_slug components ts =
     (case compress_image (en_pillow env) (en_md5 env) raw content_type of
        Inl (ImageOversizedError _) \<Rightarrow> image_failed ts obj_id ImageOversized
      | Inl ImageUndecodableError \<Rightarrow> image_failed ts obj_id ImageFailed
      | Inl (PillowError e) \<Rightarrow> raise e
      | Inr compressed \<Rightarrow>
          (case map_of (it_md5_to_rel ts) (ci_md5 compressed) of
             Some rel_path \<Rightarrow> ret (resolve_as ts obj_id (resolved ImageOk (Some rel_path)))
           | None \<Rightarrow>
               (case compute_image_path (en_lore_root env) components doc_slug (ci_md5 compressed) (ci_ext compressed) of
                  Inl _ \<Rightarrow> image_failed ts obj_id ImageFailed
                | Inr image_path \<Rightarrow>
                    seq (attempt
                           (andthen (on_fs (make_parents (en_refuses env) image_path))
                             (andthen (on_fs (write_file (en_refuses env) image_path (BinaryFile (ci_bytes compressed)))) (ret True)))
                           (\<lambda>e. if e = OSErr then ret False else raise e))
                      (\<lambda>written.
                         if \<not> written then image_failed ts obj_id ImageFailed
                         else let rel_path = doc_slug @ lit ''.images/'' @ ci_md5 compressed @ lit ''.'' @ ci_ext compressed
                              in seq (lift_opt ValueErr (relative_text image_path (en_lore_root env))) (\<lambda>posix.
                                 andthen (count_up ct_images_written_update)
                                   (ret (resolve_as (ts\<lparr>it_md5_to_rel := dict_set (it_md5_to_rel ts) (ci_md5 compressed) rel_path,
                                                        it_manifest := dict_set (it_manifest ts) (ci_md5 compressed) posix\<rparr>)
                                          obj_id (resolved ImageOk (Some rel_path)))))))))"

text \<open>\<open>f"{image_index:04d}"\<close>\<close>

definition four_digits :: "nat \<Rightarrow> pystr" where
  "four_digits n = replicate (4 - length (digits_of n)) 48 @ digits_of n"

definition resolve_one_image ::
  "'img sync_env \<Rightarrow> pystr \<Rightarrow> nat \<Rightarrow> pyval \<Rightarrow> pystr \<Rightarrow> pystr list \<Rightarrow> image_tables \<Rightarrow> image_tables sync" where
  "resolve_one_image env obj_id image_index uri doc_slug components ts =
     (if en_dry_run env then
        ret (resolve_as ts obj_id (resolved ImageOk (Some (doc_slug @ lit ''.images/dryrun-'' @ four_digits image_index @ lit ''.png''))))
      else seq (attempt (seq (call (\<lambda>n. en_image env n uri)) (\<lambda>r. ret (Some r)))
                        (\<lambda>e. if api_or_os_error e then ret None else raise e))
             (\<lambda>downloaded. case downloaded of
                None \<Rightarrow> image_failed ts obj_id ImageFailed
              | Some (raw, content_type) \<Rightarrow> compress_and_register env obj_id raw content_type doc_slug components ts))"

fun process_doc_images ::
  "'img sync_env \<Rightarrow> pystr \<Rightarrow> pystr list \<Rightarrow> nat \<Rightarrow> (pystr \<times> pyval) list \<Rightarrow> image_tables \<Rightarrow> image_tables sync" where
  "process_doc_images env doc_slug components image_index [] ts = ret ts"
| "process_doc_images env doc_slug components image_index ((obj_id, uri) # uris) ts =
     seq (resolve_one_image env obj_id image_index uri doc_slug components ts)
         (\<lambda>ts'. process_doc_images env doc_slug components (image_index + 1) uris ts')"

text \<open>The check for a local edit reads the file and logs; only what it raises matters here.\<close>

definition check_local_drift :: "'img sync_env \<Rightarrow> path \<Rightarrow> state_entry option \<Rightarrow> unit sync" where
  "check_local_drift env local_path existing =
     seq (gets (\<lambda>w. fs_exists local_path (sw_fs w))) (\<lambda>present.
       case existing of
         None \<Rightarrow> ret ()
       | Some e \<Rightarrow>
           if \<not> present \<or> se_body_hash e = [] then ret ()
           else seq (on_fs (read_text (en_refuses env) local_path)) (\<lambda>_. ret ()))"

definition doc_unchanged :: "state_entry option \<Rightarrow> pystr \<Rightarrow> (pystr \<times> pystr) list \<Rightarrow> path \<Rightarrow> bool" where
  "doc_unchanged existing new_sig images_manifest local_path =
     (case existing of
        None \<Rightarrow> False
      | Some e \<Rightarrow> se_content_signature e = new_sig \<and> fst ` set (se_images e) = fst ` set images_manifest \<and> se_local_path e = local_path)"

definition apply_gdoc_state ::
  "'img sync_env \<Rightarrow> pystr \<Rightarrow> pystr \<Rightarrow> pystr list \<Rightarrow> path \<Rightarrow> state_entry option \<Rightarrow> pystr \<Rightarrow> bytes \<Rightarrow> (pystr \<times> pystr) list \<Rightarrow> unit sync" where
  "apply_gdoc_state env file_id name components local_path existing body b images_manifest =
     (let new_sig = signature env b; new_body_hash = en_sha256 env b
      in seq (now_iso env) (\<lambda>now.
        if doc_unchanged existing new_sig images_manifest local_path
        then andthen (put_entry file_id (existing_or existing (new_entry local_path new_sig now new_body_hash images_manifest)))
               (count_up ct_unchanged_update)
        else andthen (gdoc_status_and_rename env local_path existing)
          (if \<not> en_dry_run env then
             seq (on_fs (cleanup_orphans (en_refuses env) (sidecar_of local_path) (map fst images_manifest) False (en_lore_root env))) (\<lambda>removed.
             andthen (count_many ct_orphans_removed_update removed)
             (seq (on_fs (read_existing_frontmatter (en_refuses env) local_path)) (\<lambda>existing_fm.
             andthen (check_local_drift env local_path existing)
             (andthen (on_fs (write_gdoc (en_refuses env) (en_yaml_load env) (en_yaml_dump env) local_path
                         (script_keys name file_id (py_join [47] (components @ [name])) now) body existing_fm))
               (put_entry file_id (new_entry local_path new_sig now new_body_hash images_manifest))))))
           else
             andthen (put_entry file_id (existing_or existing (new_entry local_path new_sig now new_body_hash images_manifest)))
             (seq (gets (\<lambda>w. fs_exists (sidecar_of local_path) (sw_fs w))) (\<lambda>present.
               if present
               then count_many ct_orphans_removed_update
                      (length (filter (\<lambda>md5. md5 \<notin> fst ` set images_manifest) (case existing of Some e \<Rightarrow> map fst (se_images e) | None \<Rightarrow> [])))
               else ret ())))))"

definition process_gdoc :: "'img sync_env \<Rightarrow> pystr \<Rightarrow> pystr \<Rightarrow> pystr list \<Rightarrow> path \<Rightarrow> state_entry option \<Rightarrow> unit sync" where
  "process_gdoc env file_id name components local_path existing =
     seq (call (\<lambda>n. en_document env n file_id)) (\<lambda>doc.
     seq (lift_opt ShapeError (extract_inline_objects doc)) (\<lambda>content_uri_map.
     andthen
       (case existing of
          Some e \<Rightarrow>
            if se_local_path e \<noteq> local_path \<and> \<not> en_dry_run env
            then on_fs (rename_sidecar (en_refuses env) (se_local_path e) local_path) else ret ()
        | None \<Rightarrow> ret ())
     (seq (process_doc_images env (path_stem local_path) components 0 content_uri_map
             \<lparr>it_resolutions = [], it_manifest = [], it_md5_to_rel = []\<rparr>) (\<lambda>ts.
      seq (lift_opt ShapeError (render_doc_markdown (it_resolutions ts) doc)) (\<lambda>raw_body.
        let body = export_normalize (en_unicode env) raw_body
        in seq (encoded body) (\<lambda>b.
          if ONE_MIB < length b then count_up ct_errors_update
          else apply_gdoc_state env file_id name components local_path existing body b (it_manifest ts)))))))"

section \<open>A run\<close>

text \<open>\<open>except (DriveApiError, FrontmatterMergeError, OSError, ValueError)\<close>; nothing the run calls raises the
  second.\<close>

definition caught_per_file :: "sync_exn \<Rightarrow> bool" where
  "caught_per_file e = (case e of DriveApiError _ \<Rightarrow> True | OSErr \<Rightarrow> True | ValueErr \<Rightarrow> True | _ \<Rightarrow> False)"

definition process_drive_file :: "'img sync_env \<Rightarrow> drive_file \<Rightarrow> path \<Rightarrow> state_entry option \<Rightarrow> unit sync" where
  "process_drive_file env f local_path existing =
     attempt
       (andthen (count_up ct_total_update)
          (if df_mime f = DOC_MIME then process_gdoc env (df_id f) (df_name f) (df_components f) local_path existing
           else if df_mime f = SLIDES_MIME then process_gslide env (df_id f) (df_name f) (df_components f) local_path existing
           else process_png env (df_id f) local_path existing (df_md5 f)))
       (\<lambda>e. if caught_per_file e then count_up ct_errors_update else raise e)"

definition sync_file :: "'img sync_env \<Rightarrow> sync_state \<Rightarrow> drive_file \<Rightarrow> unit sync" where
  "sync_file env state f =
     (if df_mime f = SHEET_MIME then process_gsheet env state (df_id f) (df_name f) (df_components f)
      else seq (gets sw_taken) (\<lambda>taken.
        case resolve_local_path (en_unicode env) (df_components f) (slugify (en_unicode env) (df_name f) (df_id f))
               (if df_mime f = SLIDES_MIME \<or> df_mime f = DOC_MIME then lit ''.md'' else lit ''.png'') taken (df_id f) (en_lore_root env) of
          Inl _ \<Rightarrow> raise ValueErr
        | Inr local_path \<Rightarrow>
            andthen (take_path local_path) (process_drive_file env f local_path (map_of state (df_id f)))))"

fun sync_files :: "'img sync_env \<Rightarrow> sync_state \<Rightarrow> drive_file list \<Rightarrow> unit sync" where
  "sync_files env state [] = ret ()"
| "sync_files env state (f # fs) = andthen (sync_file env state f) (sync_files env state fs)"

definition run_sync :: "'img sync_env \<Rightarrow> pystr \<Rightarrow> sync_counts sync" where
  "run_sync env root_folder_id =
     seq (on_fs (load_state (en_refuses env) (en_json_loads env) (en_state_path env))) (\<lambda>state.
     seq (call (\<lambda>n. en_list env n root_folder_id)) (\<lambda>listed.
       let files = sort_key df_id listed;
           drive_ids = set (map df_id files);
           sheet_ids = set (map df_id (filter (\<lambda>f. df_mime f = SHEET_MIME) files))
       in andthen (handle_archived env state drive_ids sheet_ids [])
          (andthen (sync_files env state files)
          (seq (gets sw_new_state) (\<lambda>new_state.
           andthen (if en_dry_run env then ret () else on_fs (save_state (en_refuses env) (en_json_dumps env) (en_state_path env) new_state))
             (gets sw_counts))))))"

definition initial_world :: "lore_fs \<Rightarrow> sync_world" where
  "initial_world fs = \<lparr>sw_fs = fs, sw_new_state = [], sw_counts = NO_COUNTS, sw_taken = {}, sw_tick = 0\<rparr>"

text \<open>The exit code of \<open>__main__.py\<close>: an exception that escapes ends the process with code one.\<close>

definition export_exit_code :: "'img sync_env \<Rightarrow> pystr \<Rightarrow> lore_fs \<Rightarrow> nat" where
  "export_exit_code env root_folder_id fs =
     (case fst (run_sync env root_folder_id (initial_world fs)) of
        Inl _ \<Rightarrow> 1
      | Inr counts \<Rightarrow> if en_dry_run env then 0 else if ct_errors counts = 0 then 0 else 1)"

section \<open>What a run keeps\<close>

lemma andthen_eq: "andthen m k = seq m (\<lambda>_. k)"
  by (simp add: andthen_def)

lemma keeps_andthen [keeps_intros]: "keeps I m \<Longrightarrow> keeps I k \<Longrightarrow> keeps I (andthen m k)"
  by (simp add: andthen_def keeps_seq)

lemma keeps_cases [keeps_intros]:
  "(\<And>x. opt = Some x \<Longrightarrow> keeps I (f x)) \<Longrightarrow> (opt = None \<Longrightarrow> keeps I g) \<Longrightarrow> keeps I (case opt of None \<Rightarrow> g | Some x \<Rightarrow> f x)"
  "(\<And>x y. p = (x, y) \<Longrightarrow> keeps I (h x y)) \<Longrightarrow> keeps I (case p of (x, y) \<Rightarrow> h x y)"
  by (cases opt; simp) (cases p; simp)

lemma keeps_sum [keeps_intros]:
  "(\<And>x. s = Inl x \<Longrightarrow> keeps I (f x)) \<Longrightarrow> (\<And>y. s = Inr y \<Longrightarrow> keeps I (g y)) \<Longrightarrow> keeps I (case s of Inl x \<Rightarrow> f x | Inr y \<Rightarrow> g y)"
  by (cases s) simp_all

text \<open>Actions on the tree that only read it.\<close>

definition reads_only :: "(lore_fs, 'a) action \<Rightarrow> bool" where
  "reads_only m \<longleftrightarrow> (\<forall>fs. snd (m fs) = fs)"

lemma reads_only_read_text: "reads_only (read_text refuses p)"
  by (simp add: reads_only_def read_text_def split: option.split file_content.split)

lemma reads_only_seq: "reads_only m \<Longrightarrow> (\<And>x. reads_only (k x)) \<Longrightarrow> reads_only (seq m k)"
  unfolding reads_only_def seq_def by (auto split: prod.split sum.split) (metis snd_conv)+

lemma reads_only_basic: "reads_only (ret x)" "reads_only (raise e)" "reads_only (gets f)" "reads_only (lift_sum r)"
  by (simp_all add: reads_only_def action_defs)

lemma reads_only_frontmatter: "reads_only (read_existing_frontmatter refuses p)"
  unfolding read_existing_frontmatter_def
  by (intro reads_only_seq reads_only_basic) (simp add: reads_only_basic reads_only_read_text reads_only_seq)

lemma reads_only_load_state: "reads_only (load_state refuses loads p)"
  unfolding load_state_def
  by (intro reads_only_seq reads_only_basic)
     (auto simp: reads_only_basic reads_only_read_text intro!: reads_only_seq split: option.split pyval.split)

lemma on_fs_reads: "reads_only m \<Longrightarrow> snd (on_fs m w) = w"
  by (simp add: reads_only_def on_fs_def split: prod.split) (metis snd_conv sync_world.surjective sync_world.update_convs(1))

text \<open>A property of the state of a run that counting, asking the client and taking a path keep, that putting
  an entry keeps for some keys, and that changing the tree keeps unless the run is dry.\<close>

locale sync_invariant =
  fixes env :: "'img sync_env" and I :: "sync_world \<Rightarrow> bool" and K :: "pystr set"
  assumes keeps_count: "keeps I (count_up upd)" "keeps I (count_many upd n)"
    and keeps_take: "keeps I (take_path p)"
    and keeps_tick: "I w \<Longrightarrow> I (w\<lparr>sw_tick := t\<rparr>)"
    and keeps_put: "key \<in> K \<Longrightarrow> keeps I (put_entry key entry)"
    and keeps_fs: "\<not> en_dry_run env \<Longrightarrow> I w \<Longrightarrow> I (w\<lparr>sw_fs := fs\<rparr>)"
begin

lemma keeps_call: "keeps I (call f)"
  by (simp add: keeps_def call_def keeps_tick)

lemma keeps_now: "keeps I (now_iso env)"
  by (simp add: now_iso_def keeps_call)

lemma keeps_read: "reads_only m \<Longrightarrow> keeps I (on_fs m)"
  by (simp add: keeps_def on_fs_reads)

lemma keeps_write: "\<not> en_dry_run env \<Longrightarrow> keeps I (on_fs m)"
  by (simp add: keeps_def on_fs_def keeps_fs split: prod.split)

lemmas steps = keeps_intros keeps_count keeps_take keeps_call keeps_now keeps_read reads_only_frontmatter reads_only_read_text

lemma keeps_archive_entry: "key \<in> K \<Longrightarrow> keeps I (archive_entry env key entry)"
  unfolding archive_entry_def by (intro steps keeps_put keeps_write)

lemma keeps_current_gids: "keeps I (current_gids env file_id gids)"
  unfolding current_gids_def by (intro steps) (auto intro!: keeps_intros split: sync_exn.split)

lemma keeps_handle_archived_tab: "key \<in> K \<Longrightarrow> keeps I (handle_archived_tab env key file_id gid entry drive_ids sheet_ids gids)"
  unfolding handle_archived_tab_def by (intro steps keeps_put keeps_archive_entry keeps_current_gids)

lemma keeps_handle_archived:
  "\<forall>key\<in>set (map fst state). key \<in> K \<Longrightarrow> keeps I (handle_archived env state drive_ids sheet_ids gids)"
  by (induction state arbitrary: gids)
     (auto intro!: keeps_intros keeps_archive_entry keeps_handle_archived_tab)

lemma keeps_archive_removed_tabs:
  "\<forall>key\<in>set (map fst state). key \<in> K \<Longrightarrow> keeps I (archive_removed_tabs env state file_id current)"
  by (induction state) (auto intro!: keeps_intros keeps_archive_entry)

lemma keeps_gdoc_status: "keeps I (gdoc_status_and_rename env p existing)" "keeps I (tab_status_and_rename env p existing)"
  unfolding gdoc_status_and_rename_def tab_status_and_rename_def by (intro steps keeps_write; assumption)+

lemma keeps_write_export: "\<not> en_dry_run env \<Longrightarrow> keeps I (write_export env p title source_id drive_path now body)"
  unfolding write_export_def by (intro steps keeps_write)

lemma keeps_gslide: "file_id \<in> K \<Longrightarrow> keeps I (process_gslide env file_id name components p existing)"
  unfolding process_gslide_def apply_gslide_state_def Let_def encoded_def
  by (intro steps keeps_put keeps_gdoc_status keeps_write_export)

lemma keeps_count_error: "keeps I count_error"
  unfolding count_error_def by (intro steps)

lemma keeps_process_tab:
  "build_tab_source_id file_id (tb_gid (fst pair)) \<in> K \<Longrightarrow> keeps I (process_tab env state file_id name components pair)"
  unfolding process_tab_def fetch_tab_content_def apply_tab_state_def Let_def encoded_def
  by (intro steps keeps_put keeps_gdoc_status keeps_write_export keeps_count_error) auto

lemma keeps_gsheet:
  assumes "\<And>gid. build_tab_source_id file_id gid \<in> K"
  shows "keeps I (process_gsheet env state file_id name components)"
proof -
  have "keeps I (process_tabs env state file_id name components pairs)" for pairs
    by (induction pairs) (auto intro!: keeps_intros keeps_process_tab assms)
  then show ?thesis unfolding process_gsheet_def by (intro steps keeps_count_error)
qed

lemma keeps_png: "file_id \<in> K \<Longrightarrow> keeps I (process_png env file_id p existing md5)"
  unfolding process_png_def write_png_def Let_def by (intro steps keeps_put keeps_write)

lemma keeps_doc_images: "keeps I (process_doc_images env slug components i uris ts)"
proof -
  have "keeps I (image_failed ts obj_id kind)" for ts obj_id kind
    unfolding image_failed_def by (intro steps)
  moreover have "keeps I (compress_and_register env obj_id raw ct slug components ts)" if "\<not> en_dry_run env" for obj_id raw ct ts
    unfolding compress_and_register_def Let_def using calculation that
    by (auto intro!: steps keeps_write split: image_exn.split)
  ultimately have "keeps I (resolve_one_image env obj_id i uri slug components ts)" for obj_id i uri ts
    unfolding resolve_one_image_def by (intro steps) auto
  then show ?thesis by (induction uris arbitrary: i ts) (auto intro!: keeps_intros)
qed

lemma keeps_drift: "keeps I (check_local_drift env p existing)"
  unfolding check_local_drift_def by (intro steps)

lemma keeps_gdoc: "file_id \<in> K \<Longrightarrow> keeps I (process_gdoc env file_id name components p existing)"
  unfolding process_gdoc_def apply_gdoc_state_def Let_def encoded_def
  by (intro steps keeps_put keeps_gdoc_status keeps_write keeps_doc_images keeps_drift) auto

lemma keeps_sync_file:
  assumes "df_id f \<in> K" and "\<And>gid. build_tab_source_id (df_id f) gid \<in> K"
  shows "keeps I (sync_file env state f)"
  unfolding sync_file_def process_drive_file_def
  by (intro steps keeps_gdoc keeps_gslide keeps_png keeps_gsheet assms)

lemma keeps_sync_files:
  "\<forall>f\<in>set files. df_id f \<in> K \<and> (\<forall>gid. build_tab_source_id (df_id f) gid \<in> K) \<Longrightarrow> keeps I (sync_files env state files)"
  by (induction files) (auto intro!: keeps_intros keeps_sync_file)

end

lemmas sync_steps = count_up_def count_many_def put_entry_def take_path_def modify_def

interpretation dry: sync_invariant "env\<lparr>en_dry_run := True\<rparr>" "\<lambda>w. sw_fs w = fs" UNIV for env :: "'img sync_env" and fs
  by unfold_locales (auto simp: keeps_def sync_steps)

interpretation kept: sync_invariant env "\<lambda>w. map_of (sw_new_state w) k = Some e" "- {k}" for env :: "'img sync_env" and k e
  by unfold_locales (auto simp: keeps_def sync_steps map_of_dict_set)

lemma dry_run_keeps:
  assumes "en_dry_run env"
  shows "keeps (\<lambda>w. sw_fs w = fs) (run_sync env root_folder_id)"
proof -
  have env: "env\<lparr>en_dry_run := True\<rparr> = env" using assms by simp
  have "keeps (\<lambda>w. sw_fs w = fs) (handle_archived env st ids sheets gids)" "keeps (\<lambda>w. sw_fs w = fs) (sync_files env st files)"
    for st ids sheets gids files
    using dry.keeps_handle_archived[where env = env, unfolded env] dry.keeps_sync_files[where env = env, unfolded env] by simp_all
  then show ?thesis unfolding run_sync_def Let_def
    by (intro keeps_intros dry.keeps_read dry.keeps_call reads_only_load_state) (simp_all add: assms)
qed

text \<open>What archiving makes of an entry.\<close>

definition archived_as :: "'img sync_env \<Rightarrow> state_entry \<Rightarrow> state_entry \<Rightarrow> bool" where
  "archived_as env e e' \<longleftrightarrow>
     (if se_archived_at e \<noteq> None \<or> en_dry_run env then e' = e else \<exists>t. e' = e\<lparr>se_archived_at := Some t\<rparr>)"

lemma seq_Inr: "seq m k w = (Inr y, w') \<longleftrightarrow> (\<exists>x w1. m w = (Inr x, w1) \<and> k x w1 = (Inr y, w'))"
  by (auto simp: seq_def split: prod.splits sum.splits)

lemma seq_run: "m w = (Inr x, w1) \<Longrightarrow> seq m k w = k x w1"
  by (simp add: seq_def)

lemma andthen_Inr: "andthen m k w = (Inr y, w') \<longleftrightarrow> (\<exists>x w1. m w = (Inr x, w1) \<and> k w1 = (Inr y, w'))"
  by (simp add: andthen_def seq_Inr)

lemma archive_entry_puts:
  "archive_entry env k e w = (Inr u, w') \<Longrightarrow> \<exists>e'. map_of (sw_new_state w') k = Some e' \<and> archived_as env e e'"
proof (cases "se_archived_at e = None"; cases "en_dry_run env")
  assume "se_archived_at e = None" "\<not> en_dry_run env" and run: "archive_entry env k e w = (Inr u, w')"
  then obtain t w1 w2 where "put_entry k (e\<lparr>se_archived_at := Some t\<rparr>) w1 = (Inr (), w2)" "count_up ct_archived_update w2 = (Inr (), w')"
    unfolding archive_entry_def by (auto simp: andthen_Inr seq_Inr)
  with \<open>\<not> en_dry_run env\<close> \<open>se_archived_at e = None\<close> show ?thesis by (auto simp: sync_steps archived_as_def)
qed (auto simp: archive_entry_def andthen_Inr seq_Inr sync_steps archived_as_def)

lemma handle_archived_puts:
  assumes "distinct (map fst state)" "(k, e) \<in> set state" "35 \<notin> set k" "k \<notin> drive_ids"
    and "handle_archived env state drive_ids sheet_ids gids w = (Inr u, w')"
  shows "\<exists>e'. map_of (sw_new_state w') k = Some e' \<and> archived_as env e e'"
  using assms
proof (induction state arbitrary: gids w)
  case (Cons kv state)
  obtain k0 e0 where kv: "kv = (k0, e0)" by fastforce
  show ?case
  proof (cases "(k, e) = kv")
    case True
    with Cons.prems kv obtain x w1 where "archive_entry env k e w = (Inr x, w1)"
      and rest: "handle_archived env state drive_ids sheet_ids gids w1 = (Inr u, w')"
      by (auto simp: andthen_Inr)
    then obtain e' where "map_of (sw_new_state w1) k = Some e'" "archived_as env e e'" using archive_entry_puts by blast
    moreover have "\<forall>key\<in>set (map fst state). key \<in> - {k}" using Cons.prems(1) True kv by auto
    then have "keeps (\<lambda>w. map_of (sw_new_state w) k = Some e') (handle_archived env state drive_ids sheet_ids gids)"
      by (rule kept.keeps_handle_archived)
    ultimately show ?thesis using keepsD rest by fastforce
  next
    case False
    with Cons.prems kv obtain gids' w1 where "handle_archived env state drive_ids sheet_ids gids' w1 = (Inr u, w')"
      by (auto simp: andthen_Inr seq_Inr split: if_splits)
    with Cons.IH Cons.prems False show ?thesis by auto
  qed
qed simp

lemma on_fs_Inr: "on_fs m w = (Inr x, w') \<longleftrightarrow> (\<exists>fs. m (sw_fs w) = (Inr x, fs) \<and> w' = w\<lparr>sw_fs := fs\<rparr>)"
  by (auto simp: on_fs_def split: prod.splits)

lemma write_export_writes:
  assumes "write_export env p title source_id drive_path now body w = (Inr x, w')"
  shows "\<exists>fm. map_of (fl_files (sw_fs w')) p = Some (TextFile (document_text fm body))"
proof -
  from assms obtain existing_fm fs where
    "write_gdoc (en_refuses env) (en_yaml_load env) (en_yaml_dump env) p (script_keys title source_id drive_path now) body existing_fm fs = (Inr x, sw_fs w')"
    unfolding write_export_def seq_Inr on_fs_Inr by auto
  then obtain merged fs1 where "write_text (en_refuses env) p (document_text (en_yaml_dump env merged) body) fs1 = (Inr x, sw_fs w')"
    unfolding write_gdoc_def seq_Inr by blast
  from write_text_result[OF this] show ?thesis by auto
qed

section \<open>Properties\<close>

text \<open>C26: a dry run leaves the file tree as it found it, the state file included, whatever the Drive answers and even when
  the run ends with an exception.\<close>

theorem dry_run_writes_nothing:
  assumes "en_dry_run env"
  shows "sw_fs (snd (run_sync env root_folder_id (initial_world fs))) = fs"
  using keepsD[OF dry_run_keeps[OF assms], of "initial_world fs"] by (simp add: initial_world_def)


text \<open>An export that returns is recorded as it was written: the entry of the presentation names the path
  and the digests of the text, and unless nothing changed the file holds that text below its frontmatter.  Exporting the same
  text again then changes nothing in the tree.\<close>

theorem presentation_export_recorded:
  assumes "apply_gslide_state env file_id name components p existing body w = (Inr (), w')" and "\<not> en_dry_run env"
  shows "\<exists>e b. map_of (sw_new_state w') file_id = Some e \<and> py_encode body = Some b \<and>
      se_local_path e = p \<and> se_content_signature e = signature env b \<and>
      (existing = Some e \<and> sw_fs w' = sw_fs w \<or>
       (\<exists>fm. map_of (fl_files (sw_fs w')) p = Some (TextFile (document_text fm body)) \<and> se_body_hash e = en_sha256 env b)) \<and>
      sw_fs (snd (apply_gslide_state env file_id name components p (Some e) body w')) = sw_fs w'"
proof -
  obtain b where b: "py_encode body = Some b"
    using assms(1) by (auto simp: apply_gslide_state_def encoded_def seq_Inr lift_opt_def split: option.splits)
  have again: "sw_fs (snd (apply_gslide_state env file_id name components p (Some e) body w')) = sw_fs w'"
    if "se_local_path e = p" "se_content_signature e = signature env b" for e
    using that b by (simp add: apply_gslide_state_def encoded_def action_defs andthen_def now_iso_def call_def same_content_def is_rename_def
        existing_or_def sync_steps Let_def)
  show ?thesis
  proof (cases "same_content existing (signature env b) \<and> \<not> is_rename existing p")
    case True
    then obtain e where "existing = Some e" "se_local_path e = p" "se_content_signature e = signature env b"
      by (auto simp: same_content_def is_rename_def split: option.splits)
    moreover from this assms(1) b have "map_of (sw_new_state w') file_id = Some e" "sw_fs w' = sw_fs w"
      by (auto simp: apply_gslide_state_def encoded_def action_defs andthen_def now_iso_def call_def same_content_def is_rename_def
            existing_or_def sync_steps Let_def)
    ultimately show ?thesis using again b by blast
  next
    case False
    let ?e = "\<lambda>now. new_entry p (signature env b) now (en_sha256 env b) []"
    from assms b False obtain now w1 w2 x where written: "write_export env p name file_id (py_join [47] (components @ [name])) now body w1 = (Inr x, w2)"
      and put: "put_entry file_id (?e now) w2 = (Inr (), w')"
      by (auto simp: apply_gslide_state_def encoded_def seq_Inr andthen_Inr lift_opt_def Let_def)
    from put have entry: "map_of (sw_new_state w') file_id = Some (?e now)" "sw_fs w' = sw_fs w2" by (auto simp: sync_steps)
    from write_export_writes[OF written] obtain fm where "map_of (fl_files (sw_fs w2)) p = Some (TextFile (document_text fm body))" by blast
    with entry again[of "?e now"] b show ?thesis by (intro exI[of _ "?e now"] exI[of _ b]) (auto simp: new_entry_def)
  qed
qed

definition sample_env :: "bool \<Rightarrow> drive_file list \<Rightarrow> bytes sync_env" where
  "sample_env dry files =
     \<lparr>en_unicode = sample_unicode, en_refuses = (\<lambda>_ _. False), en_yaml_load = (\<lambda>_. None), en_yaml_dump = (\<lambda>_. []),
      en_json_loads = (\<lambda>_. Some (state_doc [(lit ''k'', sample_entry)])), en_json_dumps = (\<lambda>_. lit ''x''), en_int_of = (\<lambda>_. None),
      en_sha256 = (\<lambda>_. []), en_md5 = (\<lambda>_. []), en_pillow = sample_pillow, en_now = (\<lambda>_. lit ''2026''),
      en_list = (\<lambda>_ _. Inr files), en_tabs = (\<lambda>_ _. Inr []), en_values = (\<lambda>_ _ _. Inr []),
      en_presentation = (\<lambda>_ _. Inl (DriveApiError 500)), en_document = (\<lambda>_ _. Inl (DriveApiError 500)),
      en_image = (\<lambda>_ _. Inl OSErr), en_png = (\<lambda>_ _. Inr [1, 2, 3]),
      en_lore_root = [lit ''lore''], en_state_path = [lit ''s.json''], en_dry_run = dry\<rparr>"

definition sample_fs :: lore_fs where
  "sample_fs = \<lparr>fl_files = [([lit ''s.json''], TextFile [])], fl_dirs = []\<rparr>"

lemma sample_load: "load_state (\<lambda>_ _. False) (\<lambda>_. Some (state_doc [(lit ''k'', sample_entry)])) [lit ''s.json''] sample_fs = (Inr [(lit ''k'', sample_entry)], sample_fs)"
proof -
  have "plain_path (se_local_path sample_entry)" "sorted_images sample_entry = sample_entry"
    by (simp_all add: sample_entry_def plain_path_def plain_component_def sorted_images_def lit_def)
  then have "entries_of [(lit ''k'', entry_doc sample_entry)] = Inr [(lit ''k'', sample_entry)]"
    by (simp add: entry_of_doc sum_bind_def)
  then show ?thesis
    by (simp add: load_state_def sample_fs_def fs_exists_def read_text_def state_doc_def action_defs)
qed

lemma sample_archives:
  "35 \<notin> set (lit ''k'')" "path_suffix (se_local_path sample_entry) \<noteq> lit ''.md''" "se_archived_at sample_entry = None"
  by (simp_all add: sample_entry_def path_suffix_def path_name_def dot_index_def lit_def)

definition sample_picture :: drive_file where
  "sample_picture = \<lparr>df_id = lit ''f'', df_mime = lit ''image/png'', df_name = lit ''b'', df_components = [], df_md5 = None\<rparr>"

lemma sample_picture_path:
  "resolve_local_path sample_unicode [] (slugify sample_unicode (lit ''b'') (lit ''f'')) (lit ''.png'') {} (lit ''f'') [lit ''lore'']
     = Inr [lit ''lore'', lit ''b.png'']"
  by (simp add: resolve_local_path_def assert_under_root_def resolve_path_def is_relative_to_def join_path_def path_parts_def Let_def slug_eval)

lemma sample_picture_kind:
  "lit ''image/png'' \<noteq> SHEET_MIME" "lit ''image/png'' \<noteq> SLIDES_MIME" "lit ''image/png'' \<noteq> DOC_MIME" "lit ''k'' \<noteq> lit ''f''"
  by (simp_all add: SHEET_MIME_def SLIDES_MIME_def DOC_MIME_def lit_def)

lemmas run_eval = run_sync_def andthen_def action_defs on_fs_def call_def now_iso_def sync_steps initial_world_def NO_COUNTS_def
  archive_entry_def sample_load sample_archives

theorem dry_run_writes_nothing_witness:
  "\<exists>c. fst (run_sync (sample_env True [sample_picture]) (lit ''r'') (initial_world sample_fs)) = Inr c \<and> ct_created c = 1 \<and> ct_archived c = 1 \<and>
     sw_fs (snd (run_sync (sample_env True [sample_picture]) (lit ''r'') (initial_world sample_fs))) = sample_fs"
proof -
  have "\<exists>c. fst (run_sync (sample_env True [sample_picture]) (lit ''r'') (initial_world sample_fs)) = Inr c \<and> ct_created c = 1 \<and> ct_archived c = 1"
    by (simp add: run_eval sample_env_def sample_picture_def sample_picture_kind sample_picture_path sync_file_def process_drive_file_def
        process_png_def write_png_def ONE_MIB_def same_content_def Let_def)
  moreover have "en_dry_run (sample_env True [sample_picture])" by (simp add: sample_env_def)
  ultimately show ?thesis using dry_run_writes_nothing[of "sample_env True [sample_picture]"] by blast
qed


theorem presentation_export_recorded_witness:
  "\<exists>w' e. apply_gslide_state (sample_env False []) (lit ''f'') (lit ''n'') [] [lit ''lore'', lit ''n.md''] None (lit ''body'') (initial_world sample_fs) = (Inr (), w') \<and>
     map_of (sw_new_state w') (lit ''f'') = Some e \<and> se_local_path e = [lit ''lore'', lit ''n.md'']"
proof -
  let ?run = "apply_gslide_state (sample_env False []) (lit ''f'') (lit ''n'') [] [lit ''lore'', lit ''n.md''] None (lit ''body'') (initial_world sample_fs)"
  have enc: "py_encode (lit ''body'') = Some (utf8 (lit ''body''))" "py_encode (document_text [] (lit ''body'')) = Some (utf8 (document_text [] (lit ''body'')))"
    by (simp_all add: document_text_def FM_OPEN_def py_encode_def is_surrogate_def lit_def)
  have absent: "\<not> fs_exists [lit ''lore'', lit ''n.md''] sample_fs"
    by (simp add: fs_exists_def sample_fs_def below_def lit_def)
  obtain w' where run: "?run = (Inr (), w')"
    by (simp add: apply_gslide_state_def encoded_def action_defs andthen_def now_iso_def call_def on_fs_def same_content_def
        gdoc_status_and_rename_def write_export_def read_existing_frontmatter_def write_gdoc_def build_ordered_frontmatter_def
        existing_frontmatter_def sum_bind_def make_parents_def write_text_def write_file_def sync_steps initial_world_def sample_env_def enc absent Let_def)
  moreover have "\<not> en_dry_run (sample_env False [])" by (simp add: sample_env_def)
  ultimately show ?thesis using presentation_export_recorded[OF run] by blast
qed

text \<open>A file that comes back unchanged keeps the mark of the archived one, in its entry and in the tree.\<close>

lemma restored_stays_archived:
  assumes "se_archived_at e = Some t" and "se_local_path e = p" and "py_encode body = Some b" and "se_content_signature e = signature env b"
  shows "\<exists>w'. apply_gslide_state env file_id name components p (Some e) body w = (Inr (), w') \<and>
    map_of (sw_new_state w') file_id = Some e \<and> sw_fs w' = sw_fs w"
  using assms
  by (simp add: apply_gslide_state_def encoded_def action_defs andthen_def now_iso_def call_def same_content_def is_rename_def
        existing_or_def sync_steps Let_def)

text \<open>A picture that was renamed on the Drive keeps its old local path.\<close>

lemma renamed_picture_not_moved:
  assumes "se_content_signature e = lit ''md5:'' @ md5" and "se_local_path e \<noteq> p"
  shows "\<exists>w'. process_png env file_id p (Some e) (Some md5) w = (Inr (), w') \<and> map_of (sw_new_state w') file_id = Some e \<and> sw_fs w' = sw_fs w"
  using assms by (simp add: process_png_def same_content_def action_defs andthen_def sync_steps Let_def)

text \<open>A local file whose frontmatter is not valid YAML ends the whole run.\<close>

lemma yaml_error_escapes:
  assumes "m w = (Inl YamlErr, w')"
  shows "attempt m (\<lambda>e. if caught_per_file e then count_up ct_errors_update else raise e) w = (Inl YamlErr, w')"
  using assms by (simp add: action_defs caught_per_file_def)

end
