(* ===== verification/Drive_Listing.thy ===== *)
theory Drive_Listing
  imports Drive_Sync
begin

text \<open>
  \<open>DriveClient.list_folder_recursive\<close> of \<open>scripts/gdrive_export/drive_client.py\<close>: the walk through the folders and the
  pages of each.  Whether it ends depends on what the service answers, so the model has fuel; a Drive that is a
  finite tree of folders with finitely many pages is listed completely.
\<close>

section \<open>Definitions\<close>

definition FOLDER_MIME :: pystr where
  "FOLDER_MIME = lit ''application/vnd.google-apps.folder''"

definition PNG_MIME :: pystr where
  "PNG_MIME = lit ''image/png''"

record api_item =
  ai_id :: pystr
  ai_name :: pystr
  ai_mime :: pystr
  ai_md5 :: "pystr option"

text \<open>One page of a folder: the items and the token of the next page.\<close>

type_synonym drive_pages = "pystr \<Rightarrow> pystr option \<Rightarrow> sync_exn + api_item list \<times> pystr option"

definition listed_file :: "pystr list \<Rightarrow> api_item \<Rightarrow> drive_file" where
  "listed_file components i = \<lparr>df_id = ai_id i, df_mime = ai_mime i, df_name = ai_name i, df_components = components, df_md5 = ai_md5 i\<rparr>"

definition is_exported :: "api_item \<Rightarrow> bool" where
  "is_exported i \<longleftrightarrow> ai_mime i \<in> {DOC_MIME, PNG_MIME, SHEET_MIME, SLIDES_MIME}"

text \<open>Both results in a row: running out of fuel and an exception win.\<close>

definition list_append :: "(sync_exn + 'a list) option \<Rightarrow> (sync_exn + 'a list) option \<Rightarrow> (sync_exn + 'a list) option" where
  "list_append a b =
     (case a of None \<Rightarrow> None
      | Some (Inl e) \<Rightarrow> Some (Inl e)
      | Some (Inr xs) \<Rightarrow> (case b of None \<Rightarrow> None | Some (Inl e) \<Rightarrow> Some (Inl e) | Some (Inr ys) \<Rightarrow> Some (Inr (xs @ ys))))"

fun list_pages :: "nat \<Rightarrow> drive_pages \<Rightarrow> pystr list \<Rightarrow> pystr \<Rightarrow> pystr option \<Rightarrow> (sync_exn + drive_file list) option"
  and list_items :: "nat \<Rightarrow> drive_pages \<Rightarrow> pystr list \<Rightarrow> api_item list \<Rightarrow> (sync_exn + drive_file list) option" where
  "list_pages 0 pages components folder_id page_token = None"
| "list_pages (Suc n) pages components folder_id page_token =
     (case pages folder_id page_token of
        Inl e \<Rightarrow> Some (Inl e)
      | Inr (files, next_token) \<Rightarrow>
          list_append (list_items n pages components files)
            (case next_token of None \<Rightarrow> Some (Inr []) | Some t \<Rightarrow> list_pages n pages components folder_id (Some t)))"
| "list_items 0 pages components files = None"
| "list_items (Suc n) pages components [] = Some (Inr [])"
| "list_items (Suc n) pages components (i # files) =
     list_append
       (if ai_mime i = FOLDER_MIME then list_pages n pages (components @ [ai_name i]) (ai_id i) None
        else if is_exported i then Some (Inr [listed_file components i])
        else Some (Inr []))
       (list_items n pages components files)"

definition list_folder_recursive :: "nat \<Rightarrow> drive_pages \<Rightarrow> pystr \<Rightarrow> (sync_exn + drive_file list) option" where
  "list_folder_recursive n pages folder_id = list_pages n pages [] folder_id None"

section \<open>A Drive as a tree\<close>

text \<open>A folder holds its pages; a file is an item that is not a folder.\<close>

datatype drive_tree = DriveFile api_item | DriveFolder pystr pystr "drive_tree list list"

fun item_of :: "drive_tree \<Rightarrow> api_item" where
  "item_of (DriveFile i) = i"
| "item_of (DriveFolder i name pgs) = \<lparr>ai_id = i, ai_name = name, ai_mime = FOLDER_MIME, ai_md5 = None\<rparr>"

text \<open>The files to export with the names of the folders above them, in the order of the pages.\<close>

fun tree_files :: "pystr list \<Rightarrow> drive_tree \<Rightarrow> drive_file list" where
  "tree_files components (DriveFile i) = (if is_exported i then [listed_file components i] else [])"
| "tree_files components (DriveFolder i name pgs) = concat (map (\<lambda>pg. concat (map (tree_files (components @ [name])) pg)) pgs)"

definition page_token :: "(nat \<Rightarrow> pystr) \<Rightarrow> nat \<Rightarrow> pystr option" where
  "page_token token k = (if k = 0 then None else Some (token k))"

text \<open>The service answers for every folder of the tree with its pages, one token leading to the next.\<close>

fun hosts :: "drive_pages \<Rightarrow> (nat \<Rightarrow> pystr) \<Rightarrow> drive_tree \<Rightarrow> bool" where
  "hosts pages token (DriveFile i) = (ai_mime i \<noteq> FOLDER_MIME)"
| "hosts pages token (DriveFolder i name pgs) =
     (pgs \<noteq> [] \<and>
      list_all (\<lambda>k. pages i (page_token token k) =
          Inr (map item_of (pgs ! k), if Suc k < length pgs then page_token token (Suc k) else None)) [0..<length pgs] \<and>
      list_all (list_all (hosts pages token)) pgs)"

section \<open>Lemmas\<close>

lemma list_append_mono:
  "list_append a b = Some r \<Longrightarrow> (\<And>x. a = Some x \<Longrightarrow> a' = Some x) \<Longrightarrow> (\<And>x. b = Some x \<Longrightarrow> b' = Some x) \<Longrightarrow> list_append a' b' = Some r"
  by (auto simp: list_append_def split: option.splits sum.splits)

lemma more_fuel:
  "list_pages n pages components folder_id tok = Some r \<Longrightarrow> list_pages (Suc n) pages components folder_id tok = Some r"
  "list_items n pages components files = Some r \<Longrightarrow> list_items (Suc n) pages components files = Some r"
proof (induction n pages components folder_id tok and n pages components files arbitrary: r and r rule: list_pages_list_items.induct)
  case (2 n pages components folder_id tok)
  show ?case
  proof (cases "pages folder_id tok")
    case (Inr p)
    then obtain files nxt where p: "p = (files, nxt)" by fastforce
    show ?thesis using 2(3)[unfolded list_pages.simps(2)[of n]] 2(1,2) Inr p
      unfolding list_pages.simps(2)[of "Suc n"]
      by (auto elim!: list_append_mono split: option.splits)
  qed (use 2 in simp)
next
  case (5 n pages components i files)
  show ?case using 5(3)[unfolded list_items.simps(3)[of n]] 5(1,2)
    unfolding list_items.simps(3)[of "Suc n"] by (auto elim!: list_append_mono split: if_splits)
qed simp_all

lemma enough_fuel:
  "list_pages n pages components folder_id tok = Some r \<Longrightarrow> list_pages (n + m) pages components folder_id tok = Some r"
  "list_items n pages components files = Some r \<Longrightarrow> list_items (n + m) pages components files = Some r"
  by (induction m) (simp_all del: list_pages.simps list_items.simps add: more_fuel)

text \<open>A folder that some amount of fuel lists completely, whatever names stand above it.\<close>

definition listable :: "drive_pages \<Rightarrow> drive_tree \<Rightarrow> bool" where
  "listable pages t \<longleftrightarrow>
     (case t of
        DriveFile i \<Rightarrow> ai_mime i \<noteq> FOLDER_MIME
      | DriveFolder i name pgs \<Rightarrow>
          (\<forall>components. \<exists>n. list_pages n pages components i None =
             Some (Inr (concat (map (\<lambda>pg. concat (map (tree_files components) pg)) pgs)))))"

lemma list_items_step:
  assumes "listable pages t" and "list_items m pages components files = Some (Inr xs)"
  shows "\<exists>n. list_items n pages components (item_of t # files) = Some (Inr (tree_files components t @ xs))"
proof (cases t)
  case (DriveFile i)
  with assms show ?thesis by (intro exI[of _ "Suc m"]) (simp add: listable_def list_append_def)
next
  case (DriveFolder i name pgs)
  with assms(1) obtain n where
    "list_pages n pages (components @ [name]) i None = Some (Inr (tree_files components t))"
    by (auto simp: listable_def)
  with assms(2) have "list_pages (n + m) pages (components @ [name]) i None = Some (Inr (tree_files components t))"
      "list_items (n + m) pages components files = Some (Inr xs)"
    using enough_fuel(1)[of n] enough_fuel(2)[of m _ _ _ _ n] by (simp_all add: add.commute)
  then show ?thesis using DriveFolder by (intro exI[of _ "Suc (n + m)"]) (simp add: list_append_def)
qed

lemma list_items_listed:
  "list_all (listable pages) ts \<Longrightarrow> \<exists>n. list_items n pages components (map item_of ts) = Some (Inr (concat (map (tree_files components) ts)))"
proof (induction ts)
  case Nil
  show ?case by (intro exI[of _ 1]) simp
next
  case (Cons t ts)
  then obtain m where "list_items m pages components (map item_of ts) = Some (Inr (concat (map (tree_files components) ts)))" by auto
  with list_items_step[of pages t] Cons.prems show ?case by simp
qed

lemma list_pages_listed:
  assumes "hosts pages token (DriveFolder i name pgs)" and "list_all (list_all (listable pages)) pgs" and "k < length pgs"
  shows "\<exists>n. list_pages n pages components i (page_token token k) = Some (Inr (concat (map (\<lambda>pg. concat (map (tree_files components) pg)) (drop k pgs))))"
  using assms(3)
proof (induction "length pgs - k" arbitrary: k)
  case (Suc d)
  obtain m where m: "list_items m pages components (map item_of (pgs ! k)) = Some (Inr (concat (map (tree_files components) (pgs ! k))))"
    using list_items_listed assms(2) Suc.prems by (fastforce simp: list_all_length)
  have page: "pages i (page_token token k) = Inr (map item_of (pgs ! k), if Suc k < length pgs then page_token token (Suc k) else None)"
    using assms(1) Suc.prems by (simp add: list_all_iff)
  have drop_k: "drop k pgs = pgs ! k # drop (Suc k) pgs" using Suc.prems by (simp add: Cons_nth_drop_Suc)
  show ?case
  proof (cases "Suc k < length pgs")
    case True
    have "d = length pgs - Suc k" using Suc(2) by simp
    from Suc(1)[OF this True] obtain n where
      n: "list_pages n pages components i (page_token token (Suc k)) = Some (Inr (concat (map (\<lambda>pg. concat (map (tree_files components) pg)) (drop (Suc k) pgs))))"
      by blast
    have "list_items (m + n) pages components (map item_of (pgs ! k)) = Some (Inr (concat (map (tree_files components) (pgs ! k))))"
      "list_pages (m + n) pages components i (page_token token (Suc k)) = Some (Inr (concat (map (\<lambda>pg. concat (map (tree_files components) pg)) (drop (Suc k) pgs))))"
      using enough_fuel(2)[OF m, of n] enough_fuel(1)[OF n, of m] by (simp_all add: add.commute)
    then show ?thesis using True page drop_k
      by (intro exI[of _ "Suc (m + n)"]) (simp add: list_append_def page_token_def)
  next
    case False
    then show ?thesis using m page drop_k by (intro exI[of _ "Suc m"]) (simp add: list_append_def)
  qed
qed simp

lemma hosted_listable: "hosts pages token t \<Longrightarrow> listable pages t"
proof (induction t)
  case (DriveFolder i name pgs)
  then have "list_all (list_all (listable pages)) pgs" by (auto simp: list_all_iff)
  moreover have "0 < length pgs" using DriveFolder.prems by simp
  ultimately show ?case using list_pages_listed[OF DriveFolder.prems, of 0] by (simp add: listable_def page_token_def)
qed (simp add: listable_def)

section \<open>Properties\<close>


definition sample_item :: "string \<Rightarrow> pystr \<Rightarrow> api_item" where
  "sample_item s mime = \<lparr>ai_id = lit s, ai_name = lit s, ai_mime = mime, ai_md5 = None\<rparr>"

definition sample_pages :: drive_pages where
  "sample_pages i tok =
     (if i = lit ''r'' \<and> tok = None then Inr ([sample_item ''d'' FOLDER_MIME, sample_item ''x'' (lit ''text/plain'')], Some (lit ''2''))
      else if i = lit ''r'' then Inr ([sample_item ''p'' PNG_MIME], None)
      else Inr ([sample_item ''g'' DOC_MIME], None))"


end
