(* ===== verification/Drive_Client.thy ===== *)
theory Drive_Client
  imports Drive_Sync
begin

text \<open>
  \<open>gdrive_export/auth.py\<close>, the methods of \<open>drive_client.py\<close> other than the listing, and \<open>__main__.py\<close>: the credentials, the probe
  of the scopes, what each call makes of an answer of the API, and the whole command.  The API, the JSON decoder and the
  credentials library are inputs.
\<close>

section \<open>Credentials\<close>

text \<open>\<open>sys.exit(1)\<close> is \<open>Exit\<close>; \<open>from_info\<close> builds the credentials or raises.\<close>

definition build_credentials :: "(pyval \<Rightarrow> 'c option) \<Rightarrow> pyval \<Rightarrow> sync_exn + 'c" where
  "build_credentials from_info info = (case from_info info of None \<Rightarrow> Inl Exit | Some c \<Rightarrow> Inr c)"

definition load_from_json_string :: "(pystr \<Rightarrow> pyval option) \<Rightarrow> (pyval \<Rightarrow> 'c option) \<Rightarrow> pystr \<Rightarrow> sync_exn + 'c" where
  "load_from_json_string loads from_info s = (case loads s of None \<Rightarrow> Inl Exit | Some info \<Rightarrow> build_credentials from_info info)"

text \<open>\<open>read\<close> is None when the file cannot be read.\<close>

definition load_from_file ::
  "(pystr \<Rightarrow> pyval option) \<Rightarrow> (pyval \<Rightarrow> 'c option) \<Rightarrow> (pystr \<Rightarrow> pystr option) \<Rightarrow> pystr \<Rightarrow> sync_exn + 'c" where
  "load_from_file loads from_info read gac_path =
     (case read gac_path of
        None \<Rightarrow> Inl Exit
      | Some s \<Rightarrow> (case loads s of None \<Rightarrow> Inl Exit | Some info \<Rightarrow> build_credentials from_info info))"

definition load_service_account_credentials ::
  "(pystr \<Rightarrow> pyval option) \<Rightarrow> (pyval \<Rightarrow> 'c option) \<Rightarrow> (pystr \<Rightarrow> pystr option) \<Rightarrow> (pystr \<Rightarrow> pystr option) \<Rightarrow> sync_exn + 'c" where
  "load_service_account_credentials loads from_info read environ =
     (case (environ (lit ''GDRIVE_SA_KEY_JSON''), environ (lit ''GOOGLE_APPLICATION_CREDENTIALS'')) of
        (Some key, _) \<Rightarrow> load_from_json_string loads from_info key
      | (None, Some gac_path) \<Rightarrow> load_from_file loads from_info read gac_path
      | (None, None) \<Rightarrow> Inl Exit)"

section \<open>Answers of the API\<close>

text \<open>An \<open>HttpError\<close>: the status and the decoded body, None when the body is not JSON.\<close>

record http_error =
  he_status :: int
  he_body :: "pyval option"

definition HTTP_FORBIDDEN :: int where
  "HTTP_FORBIDDEN = 403"

definition HTTP_NOT_FOUND :: int where
  "HTTP_NOT_FOUND = 404"

definition SCOPE_REASONS :: "pyval list" where
  "SCOPE_REASONS = [PStr (lit ''insufficientPermissions''), PStr (lit ''accessNotConfigured'')]"

text \<open>\<open>any(e.get("reason") in ...)\<close>: None is the AttributeError of an element without \<open>get\<close>.\<close>

fun any_scope_reason :: "pyval list \<Rightarrow> bool option" where
  "any_scope_reason [] = Some False"
| "any_scope_reason (e # es) =
     (case js_get e ''reason'' PNone of
        None \<Rightarrow> None
      | Some r \<Rightarrow> if r \<in> set SCOPE_REASONS then Some True else any_scope_reason es)"

text \<open>Inl is the TypeError of iterating over a value that has no elements, which is not caught.\<close>

definition is_insufficient_scope :: "http_error \<Rightarrow> sync_exn + bool" where
  "is_insufficient_scope exc =
     (case he_body exc of
        None \<Rightarrow> Inr True
      | Some body \<Rightarrow>
          (case js_get body ''error'' (PDict []) of
             None \<Rightarrow> Inr True
           | Some err \<Rightarrow>
               (case js_get err ''errors'' (PList []) of
                  None \<Rightarrow> Inr True
                | Some errors \<Rightarrow>
                    (case js_iter errors of
                       None \<Rightarrow> Inl ShapeError
                     | Some es \<Rightarrow> (case any_scope_reason es of None \<Rightarrow> Inr True | Some b \<Rightarrow> Inr b)))))"

text \<open>\<open>exc.status_code == 403 and _is_insufficient_scope(exc)\<close>\<close>

definition scope_missing :: "http_error \<Rightarrow> sync_exn + bool" where
  "scope_missing exc = (if he_status exc = HTTP_FORBIDDEN then is_insufficient_scope exc else Inr False)"

definition probe_scope :: "http_error option \<Rightarrow> sync_exn + unit" where
  "probe_scope answer =
     (case answer of
        None \<Rightarrow> Inr ()
      | Some exc \<Rightarrow>
          (case scope_missing exc of
             Inl e \<Rightarrow> Inl e
           | Inr missing \<Rightarrow>
               if missing then Inl Exit
               else if he_status exc = HTTP_NOT_FOUND then Inr ()
               else Inl (DriveApiError (he_status exc))))"

definition verify_extra_scopes :: "http_error option \<Rightarrow> http_error option \<Rightarrow> sync_exn + unit" where
  "verify_extra_scopes sheets_probe docs_probe = (case probe_scope sheets_probe of Inl e \<Rightarrow> Inl e | Inr _ \<Rightarrow> probe_scope docs_probe)"

definition api_call :: "http_error + 'a \<Rightarrow> sync_exn + 'a" where
  "api_call answer = (case answer of Inl exc \<Rightarrow> Inl (DriveApiError (he_status exc)) | Inr v \<Rightarrow> Inr v)"

definition get_presentation :: "http_error + pyval \<Rightarrow> sync_exn + pyval" where
  "get_presentation answer = api_call answer"

definition download_png :: "http_error + bytes \<Rightarrow> sync_exn + bytes" where
  "download_png answer = api_call answer"

definition get_document :: "http_error + pyval \<Rightarrow> sync_exn + pyval" where
  "get_document answer =
     (case answer of
        Inr v \<Rightarrow> Inr v
      | Inl exc \<Rightarrow>
          (case scope_missing exc of
             Inl e \<Rightarrow> Inl e
           | Inr missing \<Rightarrow> if missing then Inl Exit else Inl (DriveApiError (he_status exc))))"

text \<open>\<open>resp.get("sheets", [])\<close> and \<open>s["properties"]\<close> of each.\<close>

definition get_spreadsheet_tabs :: "http_error + pyval \<Rightarrow> sync_exn + pyval list" where
  "get_spreadsheet_tabs answer =
     (case api_call answer of
        Inl e \<Rightarrow> Inl e
      | Inr resp \<Rightarrow>
          (case js_get resp ''sheets'' (PList []) \<bind> js_iter \<bind> js_map (\<lambda>s. js_item s ''properties'') of
             None \<Rightarrow> Inl ShapeError
           | Some tabs \<Rightarrow> Inr tabs))"

definition get_sheet_values :: "http_error + pyval \<Rightarrow> sync_exn + pyval" where
  "get_sheet_values answer =
     (case api_call answer of
        Inl e \<Rightarrow> Inl e
      | Inr resp \<Rightarrow> (case js_get resp ''values'' (PList []) of None \<Rightarrow> Inl ShapeError | Some rows \<Rightarrow> Inr rows))"

text \<open>The response of the transport: status, content type if there is one, and content.\<close>

definition download_image :: "int \<Rightarrow> pystr option \<Rightarrow> bytes \<Rightarrow> sync_exn + bytes \<times> pystr" where
  "download_image status raw_ct content =
     (if \<not> (200 \<le> status \<and> status < 300) then Inl (DriveApiError status)
      else Inr (content, py_strip (hd (split_on 59 (case raw_ct of None \<Rightarrow> lit ''application/octet-stream'' | Some ct \<Rightarrow> ct)))))"

definition list_query :: "pystr \<Rightarrow> pystr option \<Rightarrow> (pystr \<times> pyval) list" where
  "list_query folder_id page_token =
     [(lit ''q'', PStr ([39] @ folder_id @ [39] @ lit '' in parents and trashed = false'')),
      (lit ''fields'', PStr (lit ''nextPageToken, files(id, name, mimeType, parents, md5Checksum)'')), (lit ''pageSize'', PInt 1000)] @
     (case page_token of None \<Rightarrow> [] | Some t \<Rightarrow> [(lit ''pageToken'', PStr t)])"

section \<open>The command\<close>

text \<open>The exit code and the tree the command leaves: an exception that escapes ends the process with code one.\<close>

definition export_main ::
  "(sync_exn + 'c) \<Rightarrow> http_error option \<Rightarrow> http_error option \<Rightarrow> 'img sync_env \<Rightarrow> pystr \<Rightarrow> lore_fs \<Rightarrow> nat \<times> lore_fs" where
  "export_main creds sheets_probe docs_probe env root_folder_id fs =
     (case creds of
        Inl _ \<Rightarrow> (1, fs)
      | Inr _ \<Rightarrow>
          (case verify_extra_scopes sheets_probe docs_probe of
             Inl _ \<Rightarrow> (1, fs)
           | Inr _ \<Rightarrow> (export_exit_code env root_folder_id fs, sw_fs (snd (run_sync env root_folder_id (initial_world fs))))))"

section \<open>Properties\<close>

lemma any_scope_reason_spec:
  "any_scope_reason es = Some True \<Longrightarrow> \<exists>kvs. PDict kvs \<in> set es \<and> (\<exists>r\<in>set SCOPE_REASONS. map_of kvs (lit ''reason'') = Some r)"
proof (induction es)
  case (Cons e es)
  show ?case
  proof (cases e)
    case (PDict kvs)
    have none: "PNone \<notin> set SCOPE_REASONS" by (simp add: SCOPE_REASONS_def)
    show ?thesis
    proof (cases "map_of kvs (lit ''reason'')")
      case None
      with Cons PDict none show ?thesis by (auto simp: js_get_def)
    next
      case (Some r)
      with Cons PDict show ?thesis by (auto simp: js_get_def split: if_splits)
    qed
  qed (use Cons in \<open>simp_all add: js_get_def\<close>)
qed simp

text \<open>The probe of a scope lets the export go on exactly when the bogus identifier was found or refused as unknown; a refusal for want of
  the scope, and a refusal whose body cannot be read, end the process.\<close>

theorem probe_scope_exact:
  "(probe_scope answer = Inr () \<longleftrightarrow> answer = None \<or> (\<exists>exc. answer = Some exc \<and> he_status exc = 404)) \<and>
   (probe_scope answer = Inl Exit \<longleftrightarrow> (\<exists>exc. answer = Some exc \<and> he_status exc = 403 \<and> is_insufficient_scope exc = Inr True)) \<and>
   (\<forall>exc. answer = Some exc \<and> he_status exc = 403 \<and> he_body exc = None \<longrightarrow> probe_scope answer = Inl Exit)"
proof -
  have shape: "is_insufficient_scope exc = Inl e \<Longrightarrow> e = ShapeError" for exc e
    by (auto simp: is_insufficient_scope_def split: option.splits)
  have unread: "he_body exc = None \<Longrightarrow> is_insufficient_scope exc = Inr True" for exc
    by (simp add: is_insufficient_scope_def)
  show ?thesis
  proof (cases answer)
    case (Some exc)
    then show ?thesis
      using unread[of exc] by (cases "is_insufficient_scope exc"; cases "he_body exc")
         (auto simp: probe_scope_def scope_missing_def HTTP_FORBIDDEN_def HTTP_NOT_FOUND_def dest: shape)
  qed (simp add: probe_scope_def)
qed

text \<open>A refusal that lists no errors but a null is not a parse failure for the code: the TypeError escapes.\<close>

lemma null_errors_raise:
  "is_insufficient_scope \<lparr>he_status = 403, he_body = Some (PDict [(lit ''error'', PDict [(lit ''errors'', PNone)])])\<rparr> = Inl ShapeError"
  by (simp add: is_insufficient_scope_def js_get_def js_iter_def)

text \<open>The inline key has precedence: the file is not looked at when both variables are set.\<close>

lemma inline_key_first:
  "environ (lit ''GDRIVE_SA_KEY_JSON'') = Some key \<Longrightarrow>
   load_service_account_credentials loads from_info read environ = load_service_account_credentials loads from_info read' environ"
  by (simp add: load_service_account_credentials_def)

lemma credentials_exit_only: "load_service_account_credentials loads from_info read environ = Inl e \<Longrightarrow> e = Exit"
  by (auto simp: load_service_account_credentials_def load_from_json_string_def load_from_file_def build_credentials_def split: option.splits)

lemma content_type_bare: "download_image status raw_ct content = Inr (b, ct) \<Longrightarrow> 59 \<notin> set ct"
proof -
  assume "download_image status raw_ct content = Inr (b, ct)"
  then have ct: "ct = py_strip (hd (split_on 59 (case raw_ct of None \<Rightarrow> lit ''application/octet-stream'' | Some c \<Rightarrow> c)))"
    by (auto simp: download_image_def split: if_splits)
  have "59 \<notin> set (hd (split_on 59 s))" for s by (rule split_on_no_sep[OF hd_in_set]) simp
  moreover have "set (dropWhile P xs) \<subseteq> set xs" for P and xs :: pystr by (auto dest: set_dropWhileD)
  then have "set (py_strip s) \<subseteq> set s" for s
    unfolding strip_by_def lstrip_by_def rstrip_by_def by (metis order_trans set_rev)
  ultimately show ?thesis unfolding ct by blast
qed

text \<open>The command exits with zero exactly when the credentials load, both scopes are there, the run comes to its end and, unless it is a
  dry run, no file counted as an error; a dry run leaves the tree untouched whatever the exit code.\<close>

theorem export_main_exact:
  "(fst (export_main creds sheets_probe docs_probe env root_folder_id fs) = 0 \<longleftrightarrow>
      (\<exists>c. creds = Inr c) \<and> verify_extra_scopes sheets_probe docs_probe = Inr () \<and>
      (\<exists>counts. fst (run_sync env root_folder_id (initial_world fs)) = Inr counts \<and> (en_dry_run env \<or> ct_errors counts = 0))) \<and>
   (en_dry_run env \<longrightarrow> snd (export_main creds sheets_probe docs_probe env root_folder_id fs) = fs)"
proof -
  have dry: "en_dry_run env \<Longrightarrow> sw_fs (snd (run_sync env root_folder_id (initial_world fs))) = fs"
    using keepsD[OF dry_run_keeps, of env "initial_world fs"] by (simp add: initial_world_def)
  show ?thesis
    by (cases creds; cases "verify_extra_scopes sheets_probe docs_probe")
       (auto simp: export_main_def export_exit_code_def dry split: sum.split)
qed

theorem export_main_exact_witness:
  "fst (export_main (Inl Exit :: sync_exn + unit) None None (sample_env True []) [] sample_fs) \<noteq> 0 \<and>
   snd (export_main (Inl Exit :: sync_exn + unit) None None (sample_env True []) [] sample_fs) = sample_fs"
  using export_main_exact[of "Inl Exit :: sync_exn + unit" None None "sample_env True []" "[]" sample_fs] by (simp add: sample_env_def)

end
