(* ===== verification/Export_Helpers.thy ===== *)
theory Export_Helpers
  imports Docs_Renderer
begin

text \<open>
  \<open>gdrive_export/md_rewrite.py\<close> and \<open>frontmatter_merge.py\<close>: the positional rewriting of image references and the merge of a
  frontmatter, two helpers the export itself does not call.  The warnings about unsupported constructs, which only go to the
  log, are left out; the YAML library is an input.
\<close>

section \<open>Image references\<close>

text \<open>\<open>!\<close>, the bracketed alternative text and the parenthesised target: the two groups and what follows the match.\<close>

definition image_here :: "pystr \<Rightarrow> (pystr \<times> pystr \<times> pystr) option" where
  "image_here s =
     (case s of
        c1 # c2 # r \<Rightarrow>
          if c1 = 33 \<and> c2 = 91 then
            (case dropWhile (\<lambda>c. c \<noteq> 93) r of
               c3 # c4 # r2 \<Rightarrow>
                 if c4 = 40 then
                   (case dropWhile (\<lambda>c. c \<noteq> 41) r2 of
                      [] \<Rightarrow> None
                    | c5 # rest \<Rightarrow> Some (takeWhile (\<lambda>c. c \<noteq> 93) r, takeWhile (\<lambda>c. c \<noteq> 41) r2, rest))
                 else None
             | _ \<Rightarrow> None)
          else None
      | _ \<Rightarrow> None)"

definition image_markup :: "pystr \<Rightarrow> pystr \<Rightarrow> pystr" where
  "image_markup alt target = [33, 91] @ alt @ [93, 40] @ target @ [41]"

lemma image_here_text: "image_here s = Some (alt, url, rest) \<Longrightarrow> s = image_markup alt url @ rest"
proof -
  assume m: "image_here s = Some (alt, url, rest)"
  then obtain r where s: "s = 33 # 91 # r" by (auto simp: image_here_def split: list.splits if_splits)
  with m obtain c3 r2 where r: "dropWhile (\<lambda>c. c \<noteq> 93) r = c3 # 40 # r2" "alt = takeWhile (\<lambda>c. c \<noteq> 93) r"
    and m2: "(case dropWhile (\<lambda>c. c \<noteq> 41) r2 of [] \<Rightarrow> None | c5 # rest \<Rightarrow> Some (alt, takeWhile (\<lambda>c. c \<noteq> 41) r2, rest)) = Some (alt, url, rest)"
    by (auto simp: image_here_def split: list.splits if_splits)
  from m2 obtain c5 where r2: "dropWhile (\<lambda>c. c \<noteq> 41) r2 = c5 # rest" "url = takeWhile (\<lambda>c. c \<noteq> 41) r2" by (auto split: list.splits)
  have "c3 = 93" "c5 = 41" using r(1) r2(1) by (auto simp: dropWhile_eq_Cons_conv)
  moreover have "r = alt @ c3 # 40 # r2" "r2 = url @ c5 # rest"
    using takeWhile_dropWhile_id[of "\<lambda>c. c \<noteq> 93" r] takeWhile_dropWhile_id[of "\<lambda>c. c \<noteq> 41" r2] r r2 by auto
  ultimately show ?thesis using s by (simp add: image_markup_def)
qed

lemma image_here_shorter: "image_here s = Some (alt, url, rest) \<Longrightarrow> length rest < length s"
  by (drule image_here_text) (simp add: image_markup_def)

definition replace_one ::
  "pystr list \<Rightarrow> (pystr \<Rightarrow> image_resolution option) \<Rightarrow> nat \<Rightarrow> pystr \<Rightarrow> pystr \<Rightarrow> pystr" where
  "replace_one ids resolutions pos alt url =
     (if length ids \<le> pos then image_markup alt url
      else let obj_id = ids ! pos
           in case resolutions obj_id of
                None \<Rightarrow> image_markup alt url
              | Some r \<Rightarrow>
                  let shown = (if alt \<noteq> [] then alt else case ir_alt r of None \<Rightarrow> [] | Some a \<Rightarrow> a)
                  in case (ir_kind r, ir_rel_path r) of
                       (ImageOk, Some rel) \<Rightarrow> image_markup shown rel
                     | (ImageOversized, _) \<Rightarrow> image_markup (if shown = [] then lit ''image trop volumineuse'' else shown) (lit ''#oversized-'' @ obj_id)
                     | _ \<Rightarrow> image_markup (if shown = [] then lit ''image indisponible'' else shown) (lit ''#image-failed-'' @ obj_id))"

function rewrite_from :: "(nat \<Rightarrow> pystr \<Rightarrow> pystr \<Rightarrow> pystr) \<Rightarrow> nat \<Rightarrow> pystr \<Rightarrow> pystr" where
  "rewrite_from repl pos [] = []"
| "rewrite_from repl pos (c # s) =
     (case image_here (c # s) of
        None \<Rightarrow> c # rewrite_from repl pos s
      | Some (alt, url, rest) \<Rightarrow> repl pos alt url @ rewrite_from repl (pos + 1) rest)"
  by pat_completeness auto
termination by (relation "measure (\<lambda>(repl, pos, s). length s)") (auto dest: image_here_shorter)

definition rewrite_image_refs :: "pystr \<Rightarrow> pystr list \<Rightarrow> (pystr \<Rightarrow> image_resolution option) \<Rightarrow> pystr" where
  "rewrite_image_refs body_md ids resolutions = rewrite_from (replace_one ids resolutions) 0 body_md"

section \<open>Frontmatter\<close>

definition SCRIPT_MANAGED_KEYS :: "pystr set" where
  "SCRIPT_MANAGED_KEYS = set (map lit [''title'', ''source'', ''source_id'', ''drive_path'', ''exported_at'', ''archived'', ''archived_at''])"

text \<open>\<open>safe_load\<close> is None when it raises; None here is \<open>FrontmatterMergeError\<close>.\<close>

definition parse_existing :: "(pystr \<Rightarrow> pyval option) \<Rightarrow> pystr option \<Rightarrow> payload option" where
  "parse_existing safe_load existing_yaml =
     (case existing_yaml of
        None \<Rightarrow> Some []
      | Some y \<Rightarrow>
          (case safe_load y of
             Some PNone \<Rightarrow> Some []
           | Some (PDict kvs) \<Rightarrow> Some kvs
           | _ \<Rightarrow> None))"

definition set_default :: "pystr \<times> pyval \<Rightarrow> payload \<Rightarrow> payload" where
  "set_default kv d = (if map_of d (fst kv) = None then d @ [kv] else d)"

definition build_merged_dict :: "(pystr \<Rightarrow> pyval option) \<Rightarrow> pystr option \<Rightarrow> payload \<Rightarrow> payload \<Rightarrow> payload option" where
  "build_merged_dict safe_load existing_yaml script_managed defaults_user =
     map_option (\<lambda>existing. fold set_default defaults_user (fold (\<lambda>kv d. dict_set d (fst kv) (snd kv)) script_managed existing))
       (parse_existing safe_load existing_yaml)"

definition merge_frontmatter ::
  "(pystr \<Rightarrow> pyval option) \<Rightarrow> (payload \<Rightarrow> pystr) \<Rightarrow> pystr option \<Rightarrow> payload \<Rightarrow> payload \<Rightarrow> pystr option" where
  "merge_frontmatter safe_load safe_dump existing_yaml script_managed defaults_user =
     map_option safe_dump (build_merged_dict safe_load existing_yaml script_managed defaults_user)"

section \<open>Properties\<close>

lemma rewrite_identity: "rewrite_from (\<lambda>_. image_markup) pos s = s"
proof (induction "\<lambda>_ :: nat. image_markup" pos s rule: rewrite_from.induct)
  case (2 pos c s)
  show ?case
  proof (cases "image_here (c # s)")
    case None
    with 2 show ?thesis by simp
  next
    case (Some m)
    then obtain alt url rest where m: "image_here (c # s) = Some (alt, url, rest)" by (cases m) auto
    have "rewrite_from (\<lambda>_. image_markup) (pos + 1) rest = rest" using 2(2)[OF m] by simp
    with m have "rewrite_from (\<lambda>_. image_markup) pos (c # s) = image_markup alt url @ rest" by simp
    with image_here_text[OF m] show ?thesis by metis
  qed
qed simp

text \<open>Images beyond the identifiers that are known, or without a resolution, stay as they are: without any resolution the body is unchanged.\<close>

theorem rewrite_image_refs_untouched:
  "rewrite_image_refs body [] resolutions = body \<and> rewrite_image_refs body ids (\<lambda>_. None) = body"
proof -
  have "replace_one [] resolutions = (\<lambda>_. image_markup)" "replace_one ids (\<lambda>_. None) = (\<lambda>_. image_markup)"
    by (auto simp: fun_eq_iff replace_one_def Let_def)
  then show ?thesis by (simp add: rewrite_image_refs_def rewrite_identity)
qed

text \<open>Text without an exclamation mark passes through unchanged, and what follows an image is rewritten with the next identifier.\<close>

lemma rewrite_prefix: "33 \<notin> set u \<Longrightarrow> rewrite_from repl pos (u @ s) = u @ rewrite_from repl pos s"
proof (induction u)
  case (Cons c u)
  then have "image_here (c # u @ s) = None" by (auto simp: image_here_def split: list.split)
  with Cons show ?case by simp
qed simp

lemma rewrite_image:
  assumes "93 \<notin> set alt" "41 \<notin> set url"
  shows "rewrite_from repl pos (image_markup alt url @ s) = repl pos alt url @ rewrite_from repl (pos + 1) s"
proof -
  have t: "x \<notin> set w \<Longrightarrow> takeWhile (\<lambda>c. c \<noteq> x) (w @ x # v) = w \<and> dropWhile (\<lambda>c. c \<noteq> x) (w @ x # v) = x # v" for x :: nat and w v
    by (induction w) auto
  have "image_here (image_markup alt url @ s) = Some (alt, url, s)"
    using t[OF assms(1), of "40 # url @ 41 # s"] t[OF assms(2), of s] by (simp add: image_here_def image_markup_def)
  then show ?thesis by (simp add: image_markup_def)
qed

lemma map_of_updates: "map_of (fold (\<lambda>kv d. dict_set d (fst kv) (snd kv)) upd d) = map_of d ++ map_of (rev upd)"
  by (induction upd arbitrary: d) (auto simp: fun_eq_iff map_add_def split: option.splits)

lemma map_of_defaults: "map_of (fold set_default defs d) = map_of defs ++ map_of d"
proof (induction defs arbitrary: d)
  case (Cons kv defs)
  then show ?case by (auto simp: set_default_def fun_eq_iff map_add_def split: option.splits)
qed simp

text \<open>The merged frontmatter: the managed keys have the new values, every other key of the existing frontmatter keeps its own, and a
  default is used exactly for the keys that neither has.\<close>

theorem merge_frontmatter_exact:
  assumes "parse_existing safe_load existing_yaml = Some existing" and "distinct (map fst script_managed)"
  shows "\<exists>merged. build_merged_dict safe_load existing_yaml script_managed defaults_user = Some merged \<and>
    map_of merged = map_of defaults_user ++ map_of existing ++ map_of script_managed"
proof -
  have "map_of (rev script_managed) = map_of script_managed"
    by (rule map_of_inject_set[THEN iffD2]) (use assms(2) in \<open>auto simp: rev_map[symmetric]\<close>)
  with assms(1) show ?thesis by (simp add: build_merged_dict_def map_of_updates map_of_defaults)
qed

theorem merge_frontmatter_exact_witness:
  "\<exists>merged. build_merged_dict (\<lambda>_. Some (PDict [(lit ''tags'', PList [])])) (Some []) [(lit ''title'', PStr [])] [(lit ''tags'', PNone), (lit ''access_tier'', PStr (lit ''public''))]
     = Some merged \<and> map_of merged (lit ''tags'') = Some (PList []) \<and> map_of merged (lit ''access_tier'') = Some (PStr (lit ''public''))"
proof -
  let ?load = "\<lambda>_. Some (PDict [(lit ''tags'', PList [])])"
  have "parse_existing ?load (Some []) = Some [(lit ''tags'', PList [])]" by (simp add: parse_existing_def)
  from merge_frontmatter_exact[OF this, of "[(lit ''title'', PStr [])]" "[(lit ''tags'', PNone), (lit ''access_tier'', PStr (lit ''public''))]"]
  show ?thesis by (auto simp: map_add_def)
qed

end
