(* ===== verification/Evaluation.thy ===== *)
theory Evaluation
  imports Prelude
begin

text \<open>
  \<open>src/eval\<close>: the evaluation runner, its clients with their retries, the metrics of an entry, the breakdown by
  mode, the two gates and the exit code.  Figures are exact rationals or not-a-number, which the judge
  library can return; the judge, the HTTP layer, git and the database are inputs.
\<close>

section \<open>Retries\<close>

datatype http_outcome = TimeoutException | HttpFailure | Response nat "int option"

datatype entry_status = StatusOk | StatusTimeout | StatusUpstreamError | StatusMalformed

definition RETRY_MAX_ATTEMPTS :: nat where
  "RETRY_MAX_ATTEMPTS = 4"

definition RETRY_STATUSES :: "nat set" where
  "RETRY_STATUSES = {429, 500, 502, 503, 504}"

definition backoff_seconds :: "nat \<Rightarrow> int" where
  "backoff_seconds attempt = 2 ^ attempt"

text \<open>The header as whole seconds; \<open>int_of\<close> reads a numeral.\<close>

definition retry_after_seconds :: "(pystr \<Rightarrow> int option) \<Rightarrow> pystr option \<Rightarrow> int option" where
  "retry_after_seconds int_of header = (case header of None \<Rightarrow> None | Some h \<Rightarrow> int_of h)"

text \<open>\<open>_retry_after_seconds(resp) or _backoff_seconds(attempt)\<close>: a zero counts as absent.\<close>

definition wait_seconds :: "int option \<Rightarrow> nat \<Rightarrow> int" where
  "wait_seconds retry_after attempt =
     (case retry_after of Some s \<Rightarrow> if s = 0 then backoff_seconds attempt else s | None \<Rightarrow> backoff_seconds attempt)"

text \<open>What each attempt meets is a function of its number; the result comes with the waits.
  A header asking for a negative wait, on which the sleep raises, is outside the model.\<close>

function retry_loop :: "(nat \<Rightarrow> http_outcome) \<Rightarrow> nat \<Rightarrow> entry_status \<Rightarrow> int list \<Rightarrow> (entry_status + nat) \<times> nat \<times> int list" where
  "retry_loop post attempt last_error waits =
     (if RETRY_MAX_ATTEMPTS \<le> attempt then (Inl last_error, attempt, waits)
      else let is_last = (attempt = RETRY_MAX_ATTEMPTS - 1)
           in case post attempt of
                TimeoutException \<Rightarrow>
                  retry_loop post (attempt + 1) StatusTimeout (if is_last then waits else waits @ [backoff_seconds attempt])
              | HttpFailure \<Rightarrow> (Inl StatusUpstreamError, attempt + 1, waits)
              | Response code retry_after \<Rightarrow>
                  if code \<in> RETRY_STATUSES
                  then retry_loop post (attempt + 1) StatusUpstreamError (if is_last then waits else waits @ [wait_seconds retry_after attempt])
                  else (Inr code, attempt + 1, waits))"
  by pat_completeness auto
termination
  by (relation "measure (\<lambda>(post, attempt, _). RETRY_MAX_ATTEMPTS - attempt)") auto

declare retry_loop.simps [simp del]

definition post_with_retry :: "(nat \<Rightarrow> http_outcome) \<Rightarrow> (entry_status + nat) \<times> nat \<times> int list" where
  "post_with_retry post = retry_loop post 0 StatusUpstreamError []"

section \<open>Metrics of an entry\<close>

definition compute_keyword_overlap :: "(pystr \<Rightarrow> pystr) \<Rightarrow> pystr \<Rightarrow> pystr list \<Rightarrow> bool" where
  "compute_keyword_overlap lower answer keywords = list_ex (\<lambda>kw. py_in (lower kw) (lower answer)) keywords"

definition compute_context_recall_structural :: "pystr list \<Rightarrow> pystr list \<Rightarrow> rat" where
  "compute_context_recall_structural expected_contexts retrieved_contexts =
     (if expected_contexts = [] then 0
      else of_nat (length (filter (\<lambda>ctx. ctx \<in> set retrieved_contexts) expected_contexts)) / of_nat (length expected_contexts))"

datatype golden_mode = Canon | OffTopic | LoreGap | Mystery

record golden_entry =
  ge_id :: pystr
  ge_mode :: golden_mode
  ge_question :: pystr
  ge_expected_contexts :: "pystr list"
  ge_expected_answer_keywords :: "pystr list"

record eval_chunk =
  ec_source_path :: pystr
  ec_text :: pystr

record entry_result =
  er_id :: pystr
  er_mode :: golden_mode
  er_question :: pystr
  er_status :: entry_status
  er_metrics :: "(pystr \<times> rat option) list"
  er_retrieved_contexts :: "pystr list"
  er_answer :: "pystr option"
  er_citations :: "pystr list"
  er_ground_truth :: pystr
  er_retrieved_chunk_texts :: "pystr list"
  er_request_id :: pystr

text \<open>The two clients as the runner sees them: a value or the status of the failure.\<close>

record eval_clients =
  cl_search :: "pystr \<Rightarrow> pystr \<Rightarrow> entry_status + eval_chunk list"
  cl_generate :: "pystr \<Rightarrow> pystr \<Rightarrow> entry_status + pystr \<times> pystr list"

definition build_stub_answer :: "pystr list \<Rightarrow> eval_chunk list \<Rightarrow> pystr" where
  "build_stub_answer keywords chunks =
     py_join [32] keywords @ [10, 10] @ py_join [10, 10] (map (\<lambda>c. take 200 (ec_text c)) chunks)"

text \<open>\<open>str.split()\<close>\<close>

fun split_spaces :: "pystr \<Rightarrow> pystr \<Rightarrow> pystr list" where
  "split_spaces cur [] = (if cur = [] then [] else [cur])"
| "split_spaces cur (c # cs) =
     (if py_space c then (if cur = [] then split_spaces [] cs else cur # split_spaces [] cs) else split_spaces (cur @ [c]) cs)"

definition with_chunks :: "entry_result \<Rightarrow> eval_chunk list \<Rightarrow> entry_result" where
  "with_chunks e chunks = e\<lparr>er_retrieved_contexts := map ec_source_path chunks, er_retrieved_chunk_texts := map ec_text chunks\<rparr>"

definition run_entry_offline :: "eval_clients \<Rightarrow> entry_result \<Rightarrow> entry_result" where
  "run_entry_offline cl e =
     (case cl_search cl (er_question e) (er_request_id e) of
        Inl status \<Rightarrow> e\<lparr>er_status := status\<rparr>
      | Inr chunks \<Rightarrow>
          (with_chunks e chunks)\<lparr>er_answer := Some (build_stub_answer (split_spaces [] (er_ground_truth e)) chunks), er_status := StatusOk\<rparr>)"

definition run_entry_live :: "eval_clients \<Rightarrow> entry_result \<Rightarrow> entry_result" where
  "run_entry_live cl e =
     (case cl_search cl (er_question e) (er_request_id e) of
        Inl status \<Rightarrow> e\<lparr>er_status := status\<rparr>
      | Inr chunks \<Rightarrow>
          (case cl_generate cl (er_question e) (er_request_id e) of
             Inl status \<Rightarrow> (with_chunks e chunks)\<lparr>er_status := status\<rparr>
           | Inr (answer, citations) \<Rightarrow> (with_chunks e chunks)\<lparr>er_answer := Some answer, er_citations := citations, er_status := StatusOk\<rparr>))"

definition compute_entry_metrics :: "(pystr \<Rightarrow> pystr) \<Rightarrow> pystr list \<Rightarrow> pystr list \<Rightarrow> bool \<Rightarrow> entry_result \<Rightarrow> entry_result" where
  "compute_entry_metrics lower expected_keywords expected_contexts is_offline e =
     (case (er_status e, er_answer e) of
        (StatusOk, Some answer) \<Rightarrow>
          let overlap = compute_keyword_overlap lower (if is_offline then py_join [32] (er_retrieved_chunk_texts e) else answer) expected_keywords;
              m = dict_set (er_metrics e) (lit ''keyword_overlap_rate'') (Some (if overlap then 1 else 0))
          in e\<lparr>er_metrics :=
                 if er_mode e = Canon
                 then dict_set m (lit ''context_recall_structural'') (Some (compute_context_recall_structural expected_contexts (er_retrieved_contexts e)))
                 else m\<rparr>
      | _ \<Rightarrow> e\<lparr>er_metrics := [(lit ''keyword_overlap_rate'', None), (lit ''context_recall_structural'', None)]\<rparr>)"

definition new_result :: "pystr \<Rightarrow> golden_entry \<Rightarrow> entry_result" where
  "new_result request_id g =
     \<lparr>er_id = ge_id g, er_mode = ge_mode g, er_question = ge_question g, er_status = StatusOk, er_metrics = [], er_retrieved_contexts = [],
      er_answer = None, er_citations = [], er_ground_truth = py_join [32] (ge_expected_answer_keywords g), er_retrieved_chunk_texts = [],
      er_request_id = request_id\<rparr>"

definition run_entry :: "(pystr \<Rightarrow> pystr) \<Rightarrow> bool \<Rightarrow> eval_clients \<Rightarrow> pystr \<Rightarrow> golden_entry \<Rightarrow> entry_result" where
  "run_entry lower is_offline cl request_id g =
     compute_entry_metrics lower (ge_expected_answer_keywords g) (ge_expected_contexts g) is_offline
       ((if is_offline then run_entry_offline cl else run_entry_live cl) (new_result request_id g))"

text \<open>\<open>uuids\<close> are the request ids that are drawn, one per entry.\<close>

fun run_all_entries ::
  "(pystr \<Rightarrow> pystr) \<Rightarrow> bool \<Rightarrow> eval_clients \<Rightarrow> (nat \<Rightarrow> pystr) \<Rightarrow> golden_entry list \<Rightarrow> entry_result list \<times> nat" where
  "run_all_entries lower is_offline cl uuids [] = ([], 0)"
| "run_all_entries lower is_offline cl uuids (g # gs) =
     (let e = run_entry lower is_offline cl (uuids 0) g; (es, errors) = run_all_entries lower is_offline cl (uuids \<circ> Suc) gs
      in (e # es, if er_status e \<noteq> StatusOk then errors + 1 else errors))"

section \<open>Breakdown by mode\<close>

record mode_data =
  md_entries :: nat
  md_keyword_overlap_rate :: "rat option"
  md_context_recall_structural :: "rat option"

definition recall_values :: "entry_result list \<Rightarrow> rat list" where
  "recall_values es = List.map_filter (\<lambda>e. case map_of (er_metrics e) (lit ''context_recall_structural'') of Some v \<Rightarrow> v | None \<Rightarrow> None) es"

definition mode_breakdown :: "golden_mode \<Rightarrow> entry_result list \<Rightarrow> mode_data" where
  "mode_breakdown mode entries =
     (let es = filter (\<lambda>e. er_mode e = mode) entries
      in if es = [] then \<lparr>md_entries = 0, md_keyword_overlap_rate = None, md_context_recall_structural = None\<rparr>
         else \<lparr>md_entries = length es,
               md_keyword_overlap_rate =
                 Some (of_nat (length (filter (\<lambda>e. map_of (er_metrics e) (lit ''keyword_overlap_rate'') = Some (Some 1)) es)) / of_nat (length es)),
               md_context_recall_structural =
                 (if mode = Canon
                  then Some (if recall_values es = [] then 0 else sum_list (recall_values es) / of_nat (length (recall_values es)))
                  else None)\<rparr>)"

section \<open>Gates\<close>

datatype figure = Num rat | NaN

text \<open>\<open>a < b\<close> on floats is false when one side is not a number.\<close>

definition fig_less :: "figure \<Rightarrow> rat \<Rightarrow> bool" where
  "fig_less v t = (case v of Num q \<Rightarrow> q < t | NaN \<Rightarrow> False)"

definition fig_minus :: "figure \<Rightarrow> figure \<Rightarrow> figure" where
  "fig_minus a b = (case (a, b) of (Num p, Num q) \<Rightarrow> Num (p - q) | _ \<Rightarrow> NaN)"

type_synonym figures = "(pystr \<times> figure option) list"

definition figure_of :: "figures \<Rightarrow> pystr \<Rightarrow> figure option" where
  "figure_of ms k = (case map_of ms k of Some v \<Rightarrow> v | None \<Rightarrow> None)"

definition GATE_A_THRESHOLDS :: "(pystr \<times> rat) list" where
  "GATE_A_THRESHOLDS =
     [(lit ''faithfulness'', 85/100), (lit ''answer_relevancy'', 85/100), (lit ''context_precision'', 70/100), (lit ''context_recall'', 70/100)]"

definition GATE_B_TOLERANCES :: "(pystr \<times> rat) list" where
  "GATE_B_TOLERANCES =
     [(lit ''faithfulness'', 2/100), (lit ''answer_relevancy'', 2/100), (lit ''context_precision'', 3/100), (lit ''context_recall'', 3/100)]"

definition GATE_B_OFFLINE_TOLERANCES :: "(pystr \<times> rat) list" where
  "GATE_B_OFFLINE_TOLERANCES = [(lit ''context_recall_structural'', 5/100), (lit ''keyword_overlap_rate'', 5/100)]"

text \<open>The violations are the names of the metrics; their texts only go to the log.\<close>

definition apply_gate_a :: "figures \<Rightarrow> bool \<Rightarrow> pystr list" where
  "apply_gate_a metrics live =
     (if \<not> live then []
      else map fst (filter (\<lambda>(metric, threshold). case figure_of metrics metric of Some v \<Rightarrow> fig_less v threshold | None \<Rightarrow> False) GATE_A_THRESHOLDS))"

definition regressions :: "figures \<Rightarrow> figures \<Rightarrow> (pystr \<times> rat) list \<Rightarrow> pystr list" where
  "regressions current base tolerances =
     map fst (filter (\<lambda>(metric, tolerance).
       case (figure_of current metric, figure_of base metric) of
         (Some c, Some b) \<Rightarrow> fig_less (fig_minus c b) (- tolerance)
       | _ \<Rightarrow> False) tolerances)"

record baseline_run =
  bl_metrics :: figures
  bl_canon :: figures

definition canon_figures :: "mode_data \<Rightarrow> figures" where
  "canon_figures d =
     [(lit ''keyword_overlap_rate'', map_option Num (md_keyword_overlap_rate d)),
      (lit ''context_recall_structural'', map_option Num (md_context_recall_structural d))]"

definition check_offline_structural_gates :: "mode_data \<Rightarrow> baseline_run \<Rightarrow> pystr list" where
  "check_offline_structural_gates canon base = regressions (canon_figures canon) (bl_canon base) GATE_B_OFFLINE_TOLERANCES"

definition apply_gate_b :: "figures \<Rightarrow> mode_data \<Rightarrow> baseline_run option \<Rightarrow> bool \<Rightarrow> pystr list" where
  "apply_gate_b metrics canon baseline live =
     (case baseline of
        None \<Rightarrow> []
      | Some base \<Rightarrow>
          regressions metrics (bl_metrics base) GATE_B_TOLERANCES @
          (if \<not> live then check_offline_structural_gates canon base else []))"

section \<open>The runner\<close>

definition ERROR_RATE_THRESHOLD :: rat where
  "ERROR_RATE_THRESHOLD = 10/100"

definition error_rate :: "nat \<Rightarrow> nat \<Rightarrow> rat" where
  "error_rate errors entries = (if 0 < entries then of_nat errors / of_nat entries else 0)"

text \<open>What \<open>--baseline\<close> leads to.\<close>

datatype baseline_file = NotGiven | Missing | Unreadable | Loaded baseline_run

record eval_setup =
  es_live :: bool
  es_golden :: "golden_entry list option"
  es_authenticated :: bool
  es_token_ok :: bool
  es_reachable :: bool
  es_baseline :: baseline_file
  es_clients :: eval_clients
  es_lower :: "pystr \<Rightarrow> pystr"
  es_uuids :: "nat \<Rightarrow> pystr"
  es_judge :: "entry_result list \<Rightarrow> figures"
  es_persist :: bool
  es_insert_ok :: bool
  es_bump_commit :: bool

definition RAGAS_METRICS :: "pystr list" where
  "RAGAS_METRICS = map lit [''faithfulness'', ''answer_relevancy'', ''context_precision'', ''context_recall'']"

definition NULL_FIGURES :: figures where
  "NULL_FIGURES = map (\<lambda>k. (k, None)) RAGAS_METRICS"

definition resolve_ragas_metrics :: "eval_setup \<Rightarrow> entry_result list \<Rightarrow> figures" where
  "resolve_ragas_metrics s es =
     (if es_live s
      then let canon_ok = filter (\<lambda>e. er_mode e = Canon \<and> er_status e = StatusOk) es
           in if canon_ok = [] then NULL_FIGURES else es_judge s canon_ok
      else NULL_FIGURES)"

text \<open>Exit code 4, or none to go on.\<close>

definition maybe_persist :: "eval_setup \<Rightarrow> figures \<Rightarrow> nat option" where
  "maybe_persist s metrics =
     (if \<not> es_persist s then None
      else if \<not> es_live s then None
      else if list_ex (\<lambda>k. figure_of metrics k = None) RAGAS_METRICS then Some 4
      else if es_insert_ok s then None else Some 4)"

text \<open>The exit code, and whether the run became the baseline.\<close>

definition handle_auto_create_baseline :: "nat \<Rightarrow> nat \<Rightarrow> nat \<times> bool" where
  "handle_auto_create_baseline errors entries =
     (if ERROR_RATE_THRESHOLD < error_rate errors entries then (1, False) else (0, True))"

definition emit_summary_and_exit :: "eval_setup \<Rightarrow> figures \<Rightarrow> mode_data \<Rightarrow> baseline_run option \<Rightarrow> nat \<Rightarrow> nat \<Rightarrow> nat" where
  "emit_summary_and_exit s metrics canon baseline errors entries =
     (let gate_a = apply_gate_a metrics (es_live s);
          skip_gate_b = (baseline \<noteq> None \<and> es_bump_commit s);
          gate_b = apply_gate_b metrics canon (if skip_gate_b then None else baseline) (es_live s)
      in if gate_a \<noteq> [] \<or> gate_b \<noteq> [] \<or> ERROR_RATE_THRESHOLD < error_rate errors entries then 1 else 0)"

definition verdict_of_run :: "eval_setup \<Rightarrow> golden_entry list \<Rightarrow> nat \<times> bool" where
  "verdict_of_run s golden =
     (case run_all_entries (es_lower s) (\<not> es_live s) (es_clients s) (es_uuids s) golden of
        (es, errors) \<Rightarrow>
          let metrics = resolve_ragas_metrics s es; canon = mode_breakdown Canon es
          in case maybe_persist s metrics of
               Some code \<Rightarrow> (code, False)
             | None \<Rightarrow>
                 (case es_baseline s of
                    Missing \<Rightarrow> handle_auto_create_baseline errors (length es)
                  | Loaded base \<Rightarrow> (emit_summary_and_exit s metrics canon (Some base) errors (length es), False)
                  | _ \<Rightarrow> (emit_summary_and_exit s metrics canon None errors (length es), False)))"

definition eval_main :: "eval_setup \<Rightarrow> nat \<times> bool" where
  "eval_main s =
     (case es_golden s of
        None \<Rightarrow> (2, False)
      | Some golden \<Rightarrow>
          if es_authenticated s \<and> \<not> es_token_ok s then (5, False)
          else if \<not> es_reachable s then (3, False)
          else if es_baseline s = Unreadable then (2, False)
          else verdict_of_run s golden)"

section \<open>Lemmas\<close>

definition retryable :: "http_outcome \<Rightarrow> bool" where
  "retryable o1 = (case o1 of TimeoutException \<Rightarrow> True | HttpFailure \<Rightarrow> False | Response code _ \<Rightarrow> code \<in> RETRY_STATUSES)"

lemma retry_loop_stop: "retry_loop post RETRY_MAX_ATTEMPTS e w = (Inl e, RETRY_MAX_ATTEMPTS, w)"
  by (subst retry_loop.simps) simp

lemma retry_loop_result:
  assumes "retry_loop post attempt last_error waits = (r, n, waits')" and "attempt < RETRY_MAX_ATTEMPTS"
    and "length waits = attempt" and "list_all (\<lambda>k. retryable (post k)) [0..<attempt]"
  shows "attempt < n \<and> n \<le> RETRY_MAX_ATTEMPTS \<and> length waits' = n - 1 \<and> list_all (\<lambda>k. retryable (post k)) [0..<n - 1] \<and>
    (case r of Inr code \<Rightarrow> code \<notin> RETRY_STATUSES \<and> (\<exists>ra. post (n - 1) = Response code ra)
     | Inl _ \<Rightarrow> post (n - 1) = HttpFailure \<or> n = RETRY_MAX_ATTEMPTS \<and> retryable (post (n - 1)))"
  using assms
proof (induction "RETRY_MAX_ATTEMPTS - attempt" arbitrary: attempt last_error waits rule: less_induct)
  case (less attempt last_error waits)
  show ?case
  proof (cases "retryable (post attempt)")
    case True
    define last_error' where "last_error' = (case post attempt of TimeoutException \<Rightarrow> StatusTimeout | _ \<Rightarrow> StatusUpstreamError)"
    define w where "w = (case post attempt of Response _ ra \<Rightarrow> wait_seconds ra attempt | _ \<Rightarrow> backoff_seconds attempt)"
    define waits1 where "waits1 = (if attempt = RETRY_MAX_ATTEMPTS - 1 then waits else waits @ [w])"
    have step: "retry_loop post attempt last_error waits = retry_loop post (attempt + 1) last_error' waits1"
      using True less.prems(2) unfolding waits1_def w_def last_error'_def
      by (subst retry_loop.simps) (auto simp: retryable_def Let_def split: http_outcome.splits)
    have done1: "list_all (\<lambda>k. retryable (post k)) [0..<attempt + 1]" using less.prems(4) True by simp
    show ?thesis
    proof (cases "attempt + 1 < RETRY_MAX_ATTEMPTS")
      case again: True
      have len: "length waits1 = attempt + 1" using again less.prems(3) by (simp add: waits1_def)
      have shorter: "RETRY_MAX_ATTEMPTS - (attempt + 1) < RETRY_MAX_ATTEMPTS - attempt" using again by simp
      have rest: "retry_loop post (attempt + 1) last_error' waits1 = (r, n, waits')" using less.prems(1) step by simp
      note IH = less.hyps[OF shorter rest again len done1]
      then have "attempt < n" by linarith
      with IH show ?thesis by blast
    next
      case False
      then have full: "attempt + 1 = RETRY_MAX_ATTEMPTS" using less.prems(2) by simp
      from less.prems(1) step have "r = Inl last_error'" "n = RETRY_MAX_ATTEMPTS" "waits' = waits1"
        unfolding full by (simp_all add: retry_loop_stop)
      moreover have "n - 1 = attempt" "waits1 = waits" using full \<open>n = RETRY_MAX_ATTEMPTS\<close> by (simp_all add: waits1_def)
      ultimately show ?thesis using True less.prems by simp
    qed
  next
    case False
    with less.prems(1,2) have "n = attempt + 1 \<and> waits' = waits \<and>
        (r = Inl StatusUpstreamError \<and> post attempt = HttpFailure \<or> (\<exists>code ra. r = Inr code \<and> post attempt = Response code ra \<and> code \<notin> RETRY_STATUSES))"
      by (subst (asm) retry_loop.simps) (auto simp: retryable_def Let_def split: http_outcome.splits if_splits)
    with less.prems show ?thesis by auto
  qed
qed

lemma error_count: "run_all_entries lower off cl uuids gs = (es, errors) \<Longrightarrow>
    errors = length (filter (\<lambda>e. er_status e \<noteq> StatusOk) es) \<and> length es = length gs"
  by (induction gs arbitrary: uuids es errors) (auto simp: Let_def split: prod.splits)

lemma error_rate_le: "error_rate errors entries \<le> ERROR_RATE_THRESHOLD \<longleftrightarrow> entries = 0 \<or> 10 * errors \<le> entries"
proof (cases "entries = 0")
  case False
  then have "of_nat errors / of_nat entries \<le> (10/100 :: rat) \<longleftrightarrow> of_nat (10 * errors) \<le> (of_nat entries :: rat)"
    by (simp add: divide_le_eq mult.commute)
  also have "\<dots> \<longleftrightarrow> 10 * errors \<le> entries" by (rule of_nat_le_iff)
  finally show ?thesis using False by (simp add: error_rate_def ERROR_RATE_THRESHOLD_def)
qed (simp add: error_rate_def ERROR_RATE_THRESHOLD_def)

lemma fig_less_iff: "fig_less v t \<longleftrightarrow> (\<exists>q. v = Num q \<and> q < t)"
  by (cases v) (simp_all add: fig_less_def)

lemma fig_drop_iff: "fig_less (fig_minus c b) t \<longleftrightarrow> (\<exists>p q. c = Num p \<and> b = Num q \<and> p - q < t)"
  by (cases c; cases b) (simp_all add: fig_minus_def fig_less_def)

lemma case_option_False: "(case v of Some x \<Rightarrow> P x | None \<Rightarrow> False) \<longleftrightarrow> (\<exists>x. v = Some x \<and> P x)"
  by (cases v) simp_all

lemma gate_a_passes:
  "apply_gate_a metrics True = [] \<longleftrightarrow> list_all (\<lambda>(m, t). \<forall>q. figure_of metrics m = Some (Num q) \<longrightarrow> t \<le> q) GATE_A_THRESHOLDS"
  unfolding apply_gate_a_def filter_empty_conv list_all_iff case_option_False fig_less_iff
  by (auto simp add: filter_empty_conv case_prod_beta not_less)

lemma no_regression:
  "regressions current base tolerances = [] \<longleftrightarrow>
   list_all (\<lambda>(m, tol). \<forall>c b. figure_of current m = Some (Num c) \<and> figure_of base m = Some (Num b) \<longrightarrow> b - tol \<le> c) tolerances"
proof -
  have "(case (figure_of current m, figure_of base m) of (Some c, Some b) \<Rightarrow> fig_less (fig_minus c b) (- tol) | _ \<Rightarrow> False) \<longleftrightarrow>
      \<not> (\<forall>c b. figure_of current m = Some (Num c) \<and> figure_of base m = Some (Num b) \<longrightarrow> b - tol \<le> c)" for m tol
    by (cases "figure_of current m"; cases "figure_of base m") (auto simp: fig_drop_iff not_le algebra_simps)
  then show ?thesis by (auto simp: regressions_def filter_empty_conv list_all_iff)
qed

section \<open>Properties\<close>

text \<open>A request to the workers is sent between one and four times, with one wait between two attempts, and every
  attempt before the last one met a time-out or a transient status.  It yields an answer exactly when the last attempt got
  one whose status is not transient, and an error otherwise: after a transport failure, or when all four
  attempts are used up.\<close>

theorem post_with_retry_exact:
  assumes "post_with_retry post = (r, n, waits)"
  shows "1 \<le> n \<and> n \<le> 4 \<and> length waits = n - 1 \<and> list_all (\<lambda>k. retryable (post k)) [0..<n - 1] \<and>
    (case r of Inr code \<Rightarrow> code \<notin> RETRY_STATUSES \<and> (\<exists>ra. post (n - 1) = Response code ra)
     | Inl _ \<Rightarrow> post (n - 1) = HttpFailure \<or> n = 4 \<and> retryable (post (n - 1)))"
  using retry_loop_result[of post 0 StatusUpstreamError "[]" r n waits] assms
  by (cases r) (auto simp: post_with_retry_def RETRY_MAX_ATTEMPTS_def)

theorem post_with_retry_exact_witness:
  "post_with_retry (\<lambda>k. if k = 0 then TimeoutException else Response 200 None) = (Inr 200, 2, [1]) \<and>
   list_all (\<lambda>k. retryable (if k = 0 then TimeoutException else Response 200 None)) [0..<1::nat]"
proof -
  let ?post = "\<lambda>k::nat. if k = 0 then TimeoutException else Response 200 None"
  have e: "post_with_retry ?post = (Inr 200, 2, [1])"
    by (simp add: post_with_retry_def retry_loop.simps RETRY_MAX_ATTEMPTS_def RETRY_STATUSES_def backoff_seconds_def Let_def)
  from post_with_retry_exact[OF e] e show ?thesis by simp
qed



text \<open>What exit code zero of the runner promises: at most a tenth of the entries failed; unless the run became
  the first baseline, every judged metric of a live run that is a number reaches its absolute threshold, and unless
  the commit is a baseline bump no metric that is a number in both runs fell below the baseline by more than its tolerance.\<close>

theorem eval_pass_sound:
  assumes "eval_main s = (0, fresh)" and "es_golden s = Some golden"
    and "run_all_entries (es_lower s) (\<not> es_live s) (es_clients s) (es_uuids s) golden = (es, errors)"
  shows "10 * length (filter (\<lambda>e. er_status e \<noteq> StatusOk) es) \<le> length golden \<and>
    (fresh \<longleftrightarrow> es_baseline s = Missing) \<and>
    (es_live s \<and> \<not> fresh \<longrightarrow>
       list_all (\<lambda>(m, t). \<forall>q. figure_of (resolve_ragas_metrics s es) m = Some (Num q) \<longrightarrow> t \<le> q) GATE_A_THRESHOLDS) \<and>
    (\<forall>base. es_baseline s = Loaded base \<and> \<not> es_bump_commit s \<longrightarrow>
       list_all (\<lambda>(m, tol). \<forall>c b. figure_of (resolve_ragas_metrics s es) m = Some (Num c) \<and> figure_of (bl_metrics base) m = Some (Num b) \<longrightarrow> b - tol \<le> c)
         GATE_B_TOLERANCES)"
proof -
  let ?m = "resolve_ragas_metrics s es" and ?canon = "mode_breakdown Canon es"
  have counts: "errors = length (filter (\<lambda>e. er_status e \<noteq> StatusOk) es)" "length es = length golden"
    using error_count[OF assms(3)] by simp_all
  have ok: "es_baseline s \<noteq> Unreadable" "verdict_of_run s golden = (0, fresh)"
    using assms(1,2) by (auto simp: eval_main_def split: if_splits)
  then have persisted: "maybe_persist s ?m = None" using assms(3)
    by (auto simp: verdict_of_run_def maybe_persist_def Let_def split: if_splits option.splits)
  have exit0: "emit_summary_and_exit s ?m ?canon b errors (length es) = 0 \<Longrightarrow>
      10 * errors \<le> length es \<and> apply_gate_a ?m (es_live s) = [] \<and> (b \<noteq> None \<and> \<not> es_bump_commit s \<longrightarrow> apply_gate_b ?m ?canon b (es_live s) = [])" for b
    using error_rate_le[of errors "length es"] counts by (auto simp: emit_summary_and_exit_def Let_def not_less split: if_splits)
  show ?thesis
  proof (cases "es_baseline s")
    case Missing
    with ok(2) persisted assms(3) have "handle_auto_create_baseline errors (length es) = (0, fresh)" by (simp add: verdict_of_run_def Let_def)
    then have "fresh" "error_rate errors (length es) \<le> ERROR_RATE_THRESHOLD" by (auto simp: handle_auto_create_baseline_def split: if_splits)
    with Missing counts error_rate_le[of errors "length es"] show ?thesis by auto
  next
    case (Loaded base)
    with ok(2) persisted assms(3) have "emit_summary_and_exit s ?m ?canon (Some base) errors (length es) = 0" "\<not> fresh"
      by (simp_all add: verdict_of_run_def Let_def)
    with exit0[of "Some base"] Loaded counts show ?thesis
      by (auto simp: gate_a_passes[symmetric] no_regression[symmetric] apply_gate_b_def)
  next
    case NotGiven
    with ok(2) persisted assms(3) have "emit_summary_and_exit s ?m ?canon None errors (length es) = 0" "\<not> fresh"
      by (simp_all add: verdict_of_run_def Let_def)
    with exit0[of None] NotGiven counts show ?thesis by (auto simp: gate_a_passes[symmetric])
  qed (use ok in simp)
qed

definition sample_golden :: golden_entry where
  "sample_golden = \<lparr>ge_id = lit ''1'', ge_mode = Canon, ge_question = lit ''q'', ge_expected_contexts = [], ge_expected_answer_keywords = []\<rparr>"

definition sample_setup :: "baseline_file \<Rightarrow> figure \<Rightarrow> eval_setup" where
  "sample_setup base v =
     \<lparr>es_live = True,
      es_golden = Some [sample_golden],
      es_authenticated = False, es_token_ok = False, es_reachable = True, es_baseline = base,
      es_clients = \<lparr>cl_search = (\<lambda>_ _. Inr []), cl_generate = (\<lambda>_ _. Inr (lit ''a'', []))\<rparr>, es_lower = id, es_uuids = digits_of,
      es_judge = (\<lambda>_. map (\<lambda>k. (k, Some v)) RAGAS_METRICS), es_persist = False, es_insert_ok = False, es_bump_commit = False\<rparr>"

lemmas eval_eval = eval_main_def verdict_of_run_def sample_setup_def sample_golden_def run_entry_def run_entry_live_def new_result_def with_chunks_def
  compute_entry_metrics_def resolve_ragas_metrics_def maybe_persist_def handle_auto_create_baseline_def emit_summary_and_exit_def
  error_rate_def ERROR_RATE_THRESHOLD_def apply_gate_a_def apply_gate_b_def GATE_A_THRESHOLDS_def RAGAS_METRICS_def figure_of_def fig_less_def Let_def

theorem eval_pass_sound_witness:
  "eval_main (sample_setup NotGiven (Num 1)) = (0, False) \<and>
   (\<exists>es errors. run_all_entries id False (es_clients (sample_setup NotGiven (Num 1))) digits_of [sample_golden] = (es, errors) \<and>
      10 * length (filter (\<lambda>e. er_status e \<noteq> StatusOk) es) \<le> 1 \<and>
      figure_of (resolve_ragas_metrics (sample_setup NotGiven (Num 1)) es) (lit ''faithfulness'') = Some (Num 1))"
proof -
  let ?s = "sample_setup NotGiven (Num 1)"
  obtain es errors where run: "run_all_entries id False (es_clients ?s) digits_of [sample_golden] = (es, errors)" by fastforce
  have main: "eval_main ?s = (0, False)" by (simp add: eval_eval lit_def)
  have "es_golden ?s = Some [sample_golden]" "run_all_entries (es_lower ?s) (\<not> es_live ?s) (es_clients ?s) (es_uuids ?s) [sample_golden] = (es, errors)"
    using run by (simp_all add: sample_setup_def)
  note sound = eval_pass_sound[OF main this]
  have "figure_of (resolve_ragas_metrics ?s es) (lit ''faithfulness'') = Some (Num 1)"
    using run by (auto simp: eval_eval lit_def split: prod.splits)
  with main run sound show ?thesis by auto
qed

text \<open>The first baseline is written and the run passes although the absolute gate fails.\<close>

lemma bootstrap_ignores_gate_a:
  "eval_main (sample_setup Missing (Num 0)) = (0, True)"
  "apply_gate_a (es_judge (sample_setup Missing (Num 0)) []) True \<noteq> []"
  by (simp_all add: eval_eval lit_def)

text \<open>A metric that is not a number passes the absolute gate.\<close>

lemma nan_passes_gate_a: "eval_main (sample_setup NotGiven NaN) = (0, False)"
  by (simp add: eval_eval lit_def)

end
