(* ===== verification/Eval_Clients.thy ===== *)
theory Eval_Clients
  imports Evaluation Json_Access
begin

text \<open>
  The two clients of \<open>src/eval/clients.py\<close>: what \<open>RetrieveClient.search\<close> and \<open>GenerateClient.generate\<close> send,
  and what they make of an answer.  The decoded body is an input, None when it is not JSON.
\<close>

section \<open>Requests\<close>

definition RETRIEVE_TOP_K :: int where
  "RETRIEVE_TOP_K = 5"

definition EVAL_USER_TIER :: pystr where
  "EVAL_USER_TIER = lit ''anonymous''"

definition EVAL_USER_ID :: pystr where
  "EVAL_USER_ID = lit ''ec0de000-0000-4000-8000-000000000001''"

record eval_request =
  ev_url :: pystr
  ev_json :: pyval
  ev_headers :: "(pystr \<times> pystr) list"

definition with_bearer :: "pystr option \<Rightarrow> (pystr \<times> pystr) list \<Rightarrow> (pystr \<times> pystr) list" where
  "with_bearer auth_header headers =
     (case auth_header of None \<Rightarrow> headers | Some token \<Rightarrow> headers @ [(lit ''Authorization'', lit ''Bearer '' @ token)])"

definition retrieve_call :: "pystr \<Rightarrow> pystr option \<Rightarrow> pystr \<Rightarrow> pystr \<Rightarrow> eval_request" where
  "retrieve_call base_url auth_header query request_id =
     \<lparr>ev_url = base_url @ lit ''/v1/retrieve'',
      ev_json = PDict [(lit ''query'', PStr query), (lit ''top_k'', PInt RETRIEVE_TOP_K), (lit ''user_tier'', PStr EVAL_USER_TIER)],
      ev_headers = with_bearer auth_header [(lit ''X-Request-Id'', request_id)]\<rparr>"

definition generate_call :: "pystr \<Rightarrow> pystr option \<Rightarrow> pystr \<Rightarrow> pystr \<Rightarrow> eval_request" where
  "generate_call base_url auth_header query request_id =
     \<lparr>ev_url = base_url @ lit ''/v1/generate'',
      ev_json = PDict [(lit ''query'', PStr query), (lit ''request_id'', PStr request_id)],
      ev_headers = with_bearer auth_header
        [(lit ''X-Request-Id'', request_id), (lit ''X-User-Id'', EVAL_USER_ID), (lit ''X-User-Tier'', EVAL_USER_TIER)]\<rparr>"

section \<open>Answers\<close>

text \<open>The exceptions a read of the body can raise: the caught ones, and the AttributeError of a body without \<open>get\<close>.\<close>

datatype body_exn = CaughtByClient | AttributeErr

text \<open>\<open>c["source_path"]\<close> and \<open>c.get("text", c.get("chunk_text", ""))\<close>; the values are whatever the body holds.\<close>

definition body_chunk :: "pyval \<Rightarrow> body_exn + pyval \<times> pyval" where
  "body_chunk c =
     (case c of
        PDict kvs \<Rightarrow>
          (case map_of kvs (lit ''source_path'') of
             None \<Rightarrow> Inl CaughtByClient
           | Some path \<Rightarrow>
               Inr (path, case map_of kvs (lit ''text'') of
                            Some t \<Rightarrow> t
                          | None \<Rightarrow> (case map_of kvs (lit ''chunk_text'') of Some t \<Rightarrow> t | None \<Rightarrow> PStr [])))
      | _ \<Rightarrow> Inl CaughtByClient)"

fun body_chunks :: "pyval list \<Rightarrow> body_exn + (pyval \<times> pyval) list" where
  "body_chunks [] = Inr []"
| "body_chunks (c # cs) =
     (case body_chunk c of
        Inl e \<Rightarrow> Inl e
      | Inr x \<Rightarrow> (case body_chunks cs of Inl e \<Rightarrow> Inl e | Inr xs \<Rightarrow> Inr (x # xs)))"

definition chunks_body :: "pyval option \<Rightarrow> body_exn + (pyval \<times> pyval) list" where
  "chunks_body body =
     (case body of
        None \<Rightarrow> Inl CaughtByClient
      | Some data \<Rightarrow>
          (case js_get data ''chunks'' (PList []) of
             None \<Rightarrow> Inl AttributeErr
           | Some v \<Rightarrow> (case js_iter v of None \<Rightarrow> Inl CaughtByClient | Some cs \<Rightarrow> body_chunks cs)))"

definition answer_body :: "pyval option \<Rightarrow> body_exn + pyval \<times> pyval" where
  "answer_body body =
     (case body of
        Some (PDict kvs) \<Rightarrow>
          (case map_of kvs (lit ''answer'') of
             None \<Rightarrow> Inl CaughtByClient
           | Some answer \<Rightarrow> Inr (answer, case map_of kvs (lit ''citations'') of Some cs \<Rightarrow> cs | None \<Rightarrow> PList []))
      | _ \<Rightarrow> Inl CaughtByClient)"

text \<open>What a call returns: \<open>Raised\<close> is the exception no handler takes.\<close>

datatype 'a client_result = Raised | Failed entry_status | Got 'a

definition read_answer :: "(body_exn + 'a) \<Rightarrow> 'a client_result" where
  "read_answer r = (case r of Inl AttributeErr \<Rightarrow> Raised | Inl CaughtByClient \<Rightarrow> Failed StatusMalformed | Inr x \<Rightarrow> Got x)"

definition is_success :: "nat \<Rightarrow> bool" where
  "is_success code \<longleftrightarrow> 200 \<le> code \<and> code \<le> 299"

definition client_search :: "(nat \<Rightarrow> http_outcome) \<Rightarrow> pyval option \<Rightarrow> (pyval \<times> pyval) list client_result" where
  "client_search post body =
     (case fst (post_with_retry post) of
        Inl status \<Rightarrow> Failed status
      | Inr code \<Rightarrow> if is_success code then read_answer (chunks_body body) else Failed StatusUpstreamError)"

definition client_generate :: "(nat \<Rightarrow> http_outcome) \<Rightarrow> pyval option \<Rightarrow> (pyval \<times> pyval) client_result" where
  "client_generate post body =
     (case fst (post_with_retry post) of
        Inl status \<Rightarrow> Failed status
      | Inr code \<Rightarrow> if is_success code then read_answer (answer_body body) else Failed StatusUpstreamError)"

section \<open>Properties\<close>

lemma body_chunks_exact:
  "body_chunks cs = (if list_all (\<lambda>c. \<exists>x. body_chunk c = Inr x) cs then Inr (map (projr \<circ> body_chunk) cs) else Inl CaughtByClient)"
proof (induction cs)
  case (Cons c cs)
  have "body_chunk c = Inl e \<Longrightarrow> e = CaughtByClient" for e
    by (auto simp: body_chunk_def split: pyval.splits option.splits)
  with Cons show ?case by (cases "body_chunk c") auto
qed simp

text \<open>A generation call never raises: it returns an answer exactly when a non-transient success came whose body is an
  object with an answer, and a failure status otherwise.\<close>

theorem client_generate_total:
  "client_generate post body \<noteq> Raised \<and>
   ((\<exists>a c. client_generate post body = Got (a, c)) \<longleftrightarrow>
      (\<exists>code. fst (post_with_retry post) = Inr code \<and> is_success code) \<and> (\<exists>kvs. body = Some (PDict kvs) \<and> map_of kvs (lit ''answer'') \<noteq> None))"
  by (cases "fst (post_with_retry post)")
     (auto simp: client_generate_def read_answer_def answer_body_def split: option.splits pyval.splits sum.splits)

text \<open>A retrieval call raises exactly when the body of a success is JSON other than an object: a failure the runner
  does not count but dies of.\<close>

theorem client_search_raises_iff:
  "client_search post body = Raised \<longleftrightarrow>
     (\<exists>code. fst (post_with_retry post) = Inr code \<and> is_success code) \<and> (\<exists>data. body = Some data \<and> (\<forall>kvs. data \<noteq> PDict kvs))"
proof -
  have "chunks_body body = Inl AttributeErr \<longleftrightarrow> (\<exists>data. body = Some data \<and> (\<forall>kvs. data \<noteq> PDict kvs))"
    by (auto simp: chunks_body_def js_get_def body_chunks_exact split: option.splits pyval.splits)
  moreover have "read_answer r = Raised \<longleftrightarrow> r = Inl AttributeErr" for r :: "body_exn + (pyval \<times> pyval) list"
    by (auto simp: read_answer_def split: sum.splits body_exn.splits)
  ultimately show ?thesis by (auto simp: client_search_def split: sum.splits)
qed

text \<open>The request of an evaluation carries the identity the generation route demands, and the tier of an anonymous user.\<close>

lemma generate_call_identity:
  "map_of (ev_headers (generate_call base_url auth query request_id)) (lit ''X-User-Id'') = Some EVAL_USER_ID \<and>
   map_of (ev_headers (generate_call base_url auth query request_id)) (lit ''X-User-Tier'') = Some EVAL_USER_TIER"
  by (simp add: generate_call_def with_bearer_def split: option.split)

end
