(* ===== verification/Oidc.thy ===== *)
theory Oidc
  imports Prelude
begin

text \<open>
  \<open>src/eval/oidc.py\<close>: which workers URL gets an identity token, and for which audience; with the part of
  \<open>urllib.parse.urlsplit\<close> they rely on.  \<open>lower\<close> is the lower case of a host name; a URL that \<open>urlsplit\<close> refuses
  for its brackets or its normal form is outside the model.
\<close>

section \<open>URLs\<close>

definition is_alpha :: "nat \<Rightarrow> bool" where
  "is_alpha c \<longleftrightarrow> (65 \<le> c \<and> c \<le> 90) \<or> (97 \<le> c \<and> c \<le> 122)"

definition scheme_char :: "nat \<Rightarrow> bool" where
  "scheme_char c \<longleftrightarrow> is_alpha c \<or> (48 \<le> c \<and> c \<le> 57) \<or> c \<in> {43, 45, 46}"

definition ascii_lower :: "pystr \<Rightarrow> pystr" where
  "ascii_lower s = map (\<lambda>c. if 65 \<le> c \<and> c \<le> 90 then c + 32 else c) s"

text \<open>Leading control characters and spaces go, and so do tabs and line ends anywhere.\<close>

definition clean_url :: "pystr \<Rightarrow> pystr" where
  "clean_url url = filter (\<lambda>c. c \<notin> {9, 10, 13}) (dropWhile (\<lambda>c. c \<le> 32) url)"

text \<open>The scheme in lower case and what follows its colon; the empty scheme when there is none.\<close>

definition split_scheme :: "pystr \<Rightarrow> pystr \<times> pystr" where
  "split_scheme url =
     (let before = takeWhile (\<lambda>c. c \<noteq> 58) url; after = dropWhile (\<lambda>c. c \<noteq> 58) url
      in if after \<noteq> [] \<and> before \<noteq> [] \<and> is_alpha (hd before) \<and> list_all scheme_char before then (ascii_lower before, tl after) else ([], url))"

definition netloc_of :: "pystr \<Rightarrow> pystr" where
  "netloc_of rest = (if take 2 rest = [47, 47] then takeWhile (\<lambda>c. c \<notin> {47, 63, 35}) (drop 2 rest) else [])"

definition urlsplit :: "pystr \<Rightarrow> pystr \<times> pystr" where
  "urlsplit url = (case split_scheme (clean_url url) of (scheme, rest) \<Rightarrow> (scheme, netloc_of rest))"

text \<open>\<open>SplitResult.hostname\<close>: after the last \<open>@\<close>, inside the brackets if there are any, before the port; the zone of an
  address keeps its case.\<close>

definition after_at :: "pystr \<Rightarrow> pystr" where
  "after_at netloc = rev (takeWhile (\<lambda>c. c \<noteq> 64) (rev netloc))"

definition raw_host :: "pystr \<Rightarrow> pystr" where
  "raw_host hostinfo =
     (if 91 \<in> set hostinfo then takeWhile (\<lambda>c. c \<noteq> 93) (tl (dropWhile (\<lambda>c. c \<noteq> 91) hostinfo)) else takeWhile (\<lambda>c. c \<noteq> 58) hostinfo)"

definition hostname :: "(pystr \<Rightarrow> pystr) \<Rightarrow> pystr \<Rightarrow> pystr" where
  "hostname lower netloc =
     (let h = raw_host (after_at netloc) in lower (takeWhile (\<lambda>c. c \<noteq> 37) h) @ dropWhile (\<lambda>c. c \<noteq> 37) h)"

section \<open>The target\<close>

definition LOOPBACK_HOSTS :: "pystr set" where
  "LOOPBACK_HOSTS = {lit ''localhost'', lit ''127.0.0.1'', lit ''::1''}"

definition is_authenticated_target :: "(pystr \<Rightarrow> pystr) \<Rightarrow> pystr \<Rightarrow> bool" where
  "is_authenticated_target lower workers_url =
     (case urlsplit workers_url of
        (scheme, netloc) \<Rightarrow> if scheme \<noteq> lit ''https'' then False else hostname lower netloc \<notin> LOOPBACK_HOSTS)"

text \<open>\<open>urlunsplit\<close> of a scheme and a netloc alone; the schemes with a netloc keep their slashes even when it is empty.\<close>

definition derive_audience :: "pystr \<Rightarrow> pystr" where
  "derive_audience workers_url =
     (case urlsplit workers_url of
        (scheme, netloc) \<Rightarrow>
          (if scheme \<noteq> [] then scheme @ [58] else []) @
          (if netloc \<noteq> [] \<or> scheme \<in> {lit ''http'', lit ''https''} then [47, 47] @ netloc else []))"

datatype oidc_error = OidcTokenError

text \<open>The production provider: any failure of the library becomes the one error.\<close>

definition fetch_id_token :: "(pystr \<Rightarrow> pystr option) \<Rightarrow> pystr \<Rightarrow> oidc_error + pystr" where
  "fetch_id_token fetch audience = (case fetch audience of None \<Rightarrow> Inl OidcTokenError | Some token \<Rightarrow> Inr token)"

section \<open>Properties\<close>

text \<open>A host name or dotted address as it is written in a URL.\<close>

definition plain_host :: "pystr \<Rightarrow> bool" where
  "plain_host h \<longleftrightarrow> list_all (\<lambda>c. is_alpha c \<or> (48 \<le> c \<and> c \<le> 57) \<or> c \<in> {45, 46}) h"

lemma takeWhile_stop: "list_all P xs \<Longrightarrow> \<not> P y \<Longrightarrow> takeWhile P (xs @ y # ys) = xs"
  by (induction xs) auto

lemma plain_host_chars: "plain_host h \<Longrightarrow> c \<in> set h \<Longrightarrow> 45 \<le> c \<and> c \<noteq> 47 \<and> c \<noteq> 63 \<and> c \<noteq> 64 \<and> c \<noteq> 58 \<and> c \<noteq> 91 \<and> c \<le> 122"
  by (auto simp: plain_host_def list_all_iff is_alpha_def)

definition rest_chars :: "pystr \<Rightarrow> bool" where
  "rest_chars rest \<longleftrightarrow> (rest = [] \<or> hd rest \<in> {47, 63, 35}) \<and> list_all (\<lambda>c. c \<notin> {9, 10, 13}) rest"

lemma https_split:
  assumes "plain_host h" "list_all (\<lambda>c. 48 \<le> c \<and> c \<le> 57) port" "rest_chars rest"
  shows "urlsplit (lit ''https://'' @ h @ 58 # port @ rest) = (lit ''https'', h @ 58 # port)"
proof -
  have kept: "list_all (\<lambda>c. c \<notin> {9, 10, 13}) (h @ 58 # port @ rest)"
  proof -
    have "list_all (\<lambda>c. c \<notin> {9, 10, 13}) h" unfolding list_all_iff using plain_host_chars[OF assms(1)] by fastforce
    moreover have "list_all (\<lambda>c. c \<notin> {9, 10, 13}) port" using assms(2) unfolding list_all_iff by fastforce
    ultimately show ?thesis using assms(3) by (simp add: rest_chars_def)
  qed
  have clean: "clean_url (lit ''https://'' @ h @ 58 # port @ rest) = lit ''https://'' @ h @ 58 # port @ rest"
    unfolding clean_url_def using kept by (simp add: lit_def list_all_iff filter_id_conv)
  have scheme: "split_scheme (lit ''https://'' @ h @ 58 # port @ rest) = (lit ''https'', 47 # 47 # h @ 58 # port @ rest)"
    by (simp add: split_scheme_def lit_def is_alpha_def scheme_char_def ascii_lower_def Let_def)
  have stop: "list_all (\<lambda>c. c \<notin> {47, 63, 35}) (h @ 58 # port)"
  proof -
    have "list_all (\<lambda>c. c \<notin> {47, 63, 35}) h" unfolding list_all_iff using plain_host_chars[OF assms(1)] by fastforce
    moreover have "list_all (\<lambda>c. c \<notin> {47, 63, 35}) port" using assms(2) unfolding list_all_iff by fastforce
    ultimately show ?thesis by simp
  qed
  have "takeWhile (\<lambda>c. c \<notin> {47, 63, 35}) ((h @ 58 # port) @ rest) = h @ 58 # port"
  proof (cases rest)
    case Nil
    with stop show ?thesis by (simp add: list_all_iff)
  next
    case (Cons y ys)
    with assms(3) have "\<not> y \<notin> {47, 63, 35}" by (simp add: rest_chars_def)
    from takeWhile_stop[OF stop this, of ys] show ?thesis unfolding Cons .
  qed
  then show ?thesis by (simp add: urlsplit_def clean scheme netloc_of_def)
qed

text \<open>For a URL with the https scheme, a plain host name, a port and any path, the token is sent exactly when the host in lower case is
  not a loopback name, and the audience is the URL up to the port.\<close>

theorem https_target_exact:
  assumes "plain_host h" and "list_all (\<lambda>c. 48 \<le> c \<and> c \<le> 57) port" and "rest_chars rest"
  shows "(is_authenticated_target lower (lit ''https://'' @ h @ 58 # port @ rest) \<longleftrightarrow> lower h \<notin> LOOPBACK_HOSTS) \<and>
    derive_audience (lit ''https://'' @ h @ 58 # port @ rest) = lit ''https://'' @ h @ 58 # port"
proof -
  have host: "\<forall>c\<in>set h. 45 \<le> c \<and> c \<noteq> 47 \<and> c \<noteq> 63 \<and> c \<noteq> 64 \<and> c \<noteq> 58 \<and> c \<noteq> 91 \<and> c \<le> 122" using plain_host_chars[OF assms(1)] by blast
  have digits: "\<forall>c\<in>set port. 48 \<le> c \<and> c \<le> 57" using assms(2) by (simp add: list_all_iff)
  have no_at: "64 \<notin> set h" "91 \<notin> set h" "37 \<notin> set h" "58 \<notin> set h"
    by (rule notI, drule bspec[OF host], simp)+
  have no_port: "64 \<notin> set port" "91 \<notin> set port"
    by (rule notI, drule bspec[OF digits], simp)+
  have "64 \<notin> set (h @ 58 # port)" "91 \<notin> set (h @ 58 # port)" using no_at no_port by simp_all
  moreover have "list_all (\<lambda>c. c \<noteq> 58) h" unfolding list_all_iff using no_at(4) by auto
  moreover have "after_at s = s" if "64 \<notin> set s" for s
  proof -
    have "takeWhile (\<lambda>c. c \<noteq> 64) (rev s) = rev s" unfolding takeWhile_eq_all_conv using that by auto
    then show ?thesis unfolding after_at_def by (simp only: rev_rev_ident)
  qed
  ultimately have "raw_host (after_at (h @ 58 # port)) = h"
    by (simp add: raw_host_def takeWhile_stop)
  moreover have "takeWhile (\<lambda>c. c \<noteq> 37) h = h" "dropWhile (\<lambda>c. c \<noteq> 37) h = []"
    using no_at(3) by (auto simp: takeWhile_eq_all_conv dropWhile_eq_Nil_conv)
  ultimately have "hostname lower (h @ 58 # port) = lower h" unfolding hostname_def Let_def by (simp only: append_Nil2)
  then show ?thesis
    unfolding is_authenticated_target_def derive_audience_def https_split[OF assms] by (simp add: lit_def)
qed

theorem https_target_exact_witness:
  "is_authenticated_target ascii_lower (lit ''https://workers.run:443/v1?x'') \<and> \<not> is_authenticated_target ascii_lower (lit ''https://LocalHost:8000/'') \<and>
   derive_audience (lit ''https://workers.run:443/v1?x'') = lit ''https://workers.run:443''"
proof -
  have "plain_host (lit ''workers.run'')" "plain_host (lit ''LocalHost'')" by (simp_all add: plain_host_def is_alpha_def lit_def)
  moreover have "list_all (\<lambda>c. 48 \<le> c \<and> c \<le> 57) (lit ''443'')" "list_all (\<lambda>c. 48 \<le> c \<and> c \<le> 57) (lit ''8000'')" by (simp_all add: lit_def)
  moreover have "rest_chars (lit ''/v1?x'')" "rest_chars (lit ''/'')" by (simp_all add: rest_chars_def lit_def)
  ultimately show ?thesis
    using https_target_exact[of "lit ''workers.run''" "lit ''443''" "lit ''/v1?x''" ascii_lower]
      https_target_exact[of "lit ''LocalHost''" "lit ''8000''" "lit ''/''" ascii_lower]
    by (simp add: LOOPBACK_HOSTS_def ascii_lower_def lit_def)
qed

text \<open>No token goes over plain http.\<close>

lemma http_never_authenticated: "fst (urlsplit url) \<noteq> lit ''https'' \<Longrightarrow> \<not> is_authenticated_target lower url"
  by (cases "urlsplit url") (simp add: is_authenticated_target_def)

end
