(* ===== verification/Eval_Run.thy ===== *)
theory Eval_Run
  imports Eval_Clients Oidc "HOL-Library.List_Lexorder"
begin

text \<open>
  What surrounds the evaluation runner in \<open>src/eval\<close>: the golden set (\<open>loader.py\<close>), the run file and its redaction
  (\<open>run_writer.py\<close>), the exemption of baseline bumps (\<open>baseline_skip.py\<close>), the row of a live run
  (\<open>persist.py\<close>) and the choice of the judge (\<open>metrics.py\<close>).  Git, the JSON decoder, the database and the judge's
  libraries are inputs.
\<close>

section \<open>The golden set\<close>

text \<open>\<open>GoldenEntry.model_validate\<close>: no coercion, no other keys.\<close>

definition GOLDEN_FIELDS :: "pystr list" where
  "GOLDEN_FIELDS = map lit [''id'', ''mode'', ''question'', ''expected_contexts'', ''expected_answer_keywords'', ''difficulty'', ''category'']"

definition golden_mode_of :: "pyval \<Rightarrow> golden_mode option" where
  "golden_mode_of v =
     (if v = PStr (lit ''canon'') then Some Canon
      else if v = PStr (lit ''off_topic'') then Some OffTopic
      else if v = PStr (lit ''lore_gap'') then Some LoreGap
      else if v = PStr (lit ''mystery'') then Some Mystery
      else None)"

definition nonempty_str :: "pyval \<Rightarrow> pystr option" where
  "nonempty_str v = (case v of PStr s \<Rightarrow> if s = [] then None else Some s | _ \<Rightarrow> None)"

definition str_list :: "pyval \<Rightarrow> pystr list option" where
  "str_list v = (case v of PList xs \<Rightarrow> js_map js_str xs | _ \<Rightarrow> None)"

definition optional_str :: "pyval option \<Rightarrow> bool" where
  "optional_str v = (case v of None \<Rightarrow> True | Some PNone \<Rightarrow> True | Some (PStr _) \<Rightarrow> True | _ \<Rightarrow> False)"

definition golden_validate :: "pyval \<Rightarrow> golden_entry option" where
  "golden_validate data =
     (case data of
        PDict kvs \<Rightarrow>
          if set (map fst kvs) \<subseteq> set GOLDEN_FIELDS \<and> optional_str (map_of kvs (lit ''difficulty'')) \<and> optional_str (map_of kvs (lit ''category''))
          then do {
            i \<leftarrow> map_of kvs (lit ''id''); i' \<leftarrow> nonempty_str i;
            m \<leftarrow> map_of kvs (lit ''mode''); m' \<leftarrow> golden_mode_of m;
            q \<leftarrow> map_of kvs (lit ''question''); q' \<leftarrow> nonempty_str q;
            c \<leftarrow> map_of kvs (lit ''expected_contexts''); c' \<leftarrow> str_list c;
            k \<leftarrow> map_of kvs (lit ''expected_answer_keywords''); k' \<leftarrow> str_list k;
            Some \<lparr>ge_id = i', ge_mode = m', ge_question = q', ge_expected_contexts = c', ge_expected_answer_keywords = k'\<rparr>
          }
          else None
      | _ \<Rightarrow> None)"

text \<open>A text file is read with universal newlines; blank lines are skipped.\<close>

definition jsonl_lines :: "pystr \<Rightarrow> pystr list" where
  "jsonl_lines content = filter (\<lambda>l. l \<noteq> []) (map py_strip (split_on 10 (map (\<lambda>c. if c = 13 then 10 else c) content)))"

text \<open>None is the ValueError of the first line that is not JSON or the first entry that is not valid.\<close>

definition load_golden_set :: "(pystr \<Rightarrow> pyval option) \<Rightarrow> pystr \<Rightarrow> golden_entry list option" where
  "load_golden_set loads content = do { raw_entries \<leftarrow> js_map loads (jsonl_lines content); js_map golden_validate raw_entries }"

section \<open>The run file\<close>

definition SECRET_ENV_VARS :: "pystr list" where
  "SECRET_ENV_VARS = map lit [''LLM_API_KEY'', ''RAGAS_JUDGE_EMBEDDINGS_API_KEY'', ''DATABASE_URL'', ''WORKERS_URL'']"

definition collect_secret_values :: "(pystr \<Rightarrow> pystr option) \<Rightarrow> pystr list" where
  "collect_secret_values environ =
     filter (\<lambda>v. v \<noteq> []) (map (\<lambda>var. case environ var of Some v \<Rightarrow> v | None \<Rightarrow> []) SECRET_ENV_VARS)"

text \<open>\<open>str.replace\<close> for a non-empty text: the leftmost occurrences, none overlapping.\<close>

function replace_all :: "pystr \<Rightarrow> pystr \<Rightarrow> pystr \<Rightarrow> pystr" where
  "replace_all old new [] = []"
| "replace_all old new (c # s) =
     (if old \<noteq> [] \<and> py_startswith (c # s) old then new @ replace_all old new (drop (length old) (c # s))
      else c # replace_all old new s)"
  by pat_completeness auto
termination by (relation "measure (\<lambda>(old, new, s). length s)") auto

declare replace_all.simps(2) [simp del]

definition REDACTED :: pystr where
  "REDACTED = lit ''[REDACTED]''"

definition redact_raw :: "pystr \<Rightarrow> pystr list \<Rightarrow> pystr" where
  "redact_raw raw secrets = fold (\<lambda>secret r. replace_all secret REDACTED r) secrets raw"

text \<open>\<open>json.dumps\<close> with \<open>indent=2\<close>, \<open>ensure_ascii=False\<close> and \<open>sort_keys=True\<close>; \<open>fr\<close> is Python's \<open>repr\<close> of a float.\<close>

definition plain_char :: "nat \<Rightarrow> pystr" where
  "plain_char c =
     (if c = 34 then [92, 34] else if c = 92 then [92, 92]
      else if c = 10 then [92, 110] else if c = 13 then [92, 114] else if c = 9 then [92, 116]
      else if c = 8 then [92, 98] else if c = 12 then [92, 102]
      else if c < 32 then lit (CHR 0x5C # ''u00'') @ [48 + c div 16, (if c mod 16 < 10 then 48 else 87) + c mod 16]
      else [c])"

definition plain_str :: "pystr \<Rightarrow> pystr" where
  "plain_str s = [34] @ concat (map plain_char s) @ [34]"

definition line_start :: "nat \<Rightarrow> pystr" where
  "line_start depth = 10 # replicate (2 * depth) 32"

definition block_of :: "nat \<Rightarrow> pystr \<Rightarrow> pystr \<Rightarrow> pystr list \<Rightarrow> pystr" where
  "block_of depth opening closing items =
     (if items = [] then opening @ closing
      else opening @ line_start (depth + 1) @ py_join ([44] @ line_start (depth + 1)) items @ line_start depth @ closing)"

fun json_pretty :: "(rat \<Rightarrow> pystr) \<Rightarrow> nat \<Rightarrow> pyval \<Rightarrow> pystr" where
  "json_pretty fr d PNone = lit ''null''"
| "json_pretty fr d (PBool b) = (if b then lit ''true'' else lit ''false'')"
| "json_pretty fr d (PInt n) = py_str_int n"
| "json_pretty fr d (PFloat x) = fr x"
| "json_pretty fr d (PStr s) = plain_str s"
| "json_pretty fr d (PList xs) = block_of d (lit ''['') (lit '']'') (map (json_pretty fr (d + 1)) xs)"
| "json_pretty fr d (PDict kvs) =
     block_of d (lit ''{'') (lit ''}'')
       (map snd (sort_key fst (map (\<lambda>kv. (fst kv, plain_str (fst kv) @ lit '': '' @ json_pretty fr (d + 1) (snd kv))) kvs)))"

record run_totals =
  rt_entries :: nat
  rt_ok :: nat
  rt_errors :: nat

text \<open>A metric that is not a number, written \<open>NaN\<close>, is outside this model of the file.\<close>

record run_file =
  rf_mode :: pystr
  rf_started_at :: pystr
  rf_finished_at :: pystr
  rf_git_sha :: pystr
  rf_runner_mode :: pystr
  rf_totals :: run_totals
  rf_breakdown_by_mode :: "(golden_mode \<times> mode_data) list"
  rf_metrics :: "(pystr \<times> rat option) list"
  rf_entries :: "entry_result list"
  rf_judge :: "(pystr \<times> pystr) option"

definition golden_mode_name :: "golden_mode \<Rightarrow> pystr" where
  "golden_mode_name m = (case m of Canon \<Rightarrow> lit ''canon'' | OffTopic \<Rightarrow> lit ''off_topic'' | LoreGap \<Rightarrow> lit ''lore_gap'' | Mystery \<Rightarrow> lit ''mystery'')"

definition status_name :: "entry_status \<Rightarrow> pystr" where
  "status_name s = (case s of StatusOk \<Rightarrow> lit ''ok'' | StatusTimeout \<Rightarrow> lit ''timeout'' | StatusUpstreamError \<Rightarrow> lit ''upstream_error''
     | StatusMalformed \<Rightarrow> lit ''malformed'')"

definition rate_doc :: "rat option \<Rightarrow> pyval" where
  "rate_doc v = (case v of None \<Rightarrow> PNone | Some q \<Rightarrow> PFloat q)"

definition rates_doc :: "(pystr \<times> rat option) list \<Rightarrow> pyval" where
  "rates_doc ms = PDict (map (\<lambda>(k, v). (k, rate_doc v)) ms)"

definition mode_doc :: "mode_data \<Rightarrow> pyval" where
  "mode_doc d =
     PDict ([(lit ''entries'', PInt (int (md_entries d))), (lit ''keyword_overlap_rate'', rate_doc (md_keyword_overlap_rate d))] @
       (case md_context_recall_structural d of None \<Rightarrow> [] | Some q \<Rightarrow> [(lit ''context_recall_structural'', PFloat q)]))"

definition run_entry_doc :: "entry_result \<Rightarrow> pyval" where
  "run_entry_doc e =
     PDict [(lit ''id'', PStr (er_id e)), (lit ''mode'', PStr (golden_mode_name (er_mode e))), (lit ''status'', PStr (status_name (er_status e))),
            (lit ''metrics'', rates_doc (er_metrics e)), (lit ''retrieved_contexts'', PList (map PStr (er_retrieved_contexts e))),
            (lit ''answer'', case er_answer e of None \<Rightarrow> PNone | Some a \<Rightarrow> PStr a), (lit ''citations'', PList (map PStr (er_citations e))),
            (lit ''request_id'', PStr (er_request_id e))]"

definition build_run_dict :: "run_file \<Rightarrow> pyval" where
  "build_run_dict run =
     PDict ([(lit ''mode'', PStr (rf_mode run)), (lit ''started_at'', PStr (rf_started_at run)), (lit ''finished_at'', PStr (rf_finished_at run)),
             (lit ''git_sha'', PStr (rf_git_sha run)), (lit ''runner_mode'', PStr (rf_runner_mode run)),
             (lit ''totals'', PDict [(lit ''entries'', PInt (int (rt_entries (rf_totals run)))), (lit ''ok'', PInt (int (rt_ok (rf_totals run)))),
                                     (lit ''errors'', PInt (int (rt_errors (rf_totals run))))]),
             (lit ''breakdown_by_mode'', PDict (map (\<lambda>(m, d). (golden_mode_name m, mode_doc d)) (rf_breakdown_by_mode run))),
             (lit ''metrics'', rates_doc (rf_metrics run)), (lit ''entries'', PList (map run_entry_doc (rf_entries run)))] @
            (case rf_judge run of None \<Rightarrow> []
             | Some (provider, chat_model) \<Rightarrow> [(lit ''judge'', PDict [(lit ''provider'', PStr provider), (lit ''chat_model'', PStr chat_model)])]))"

text \<open>The text \<open>write_run\<close> writes.\<close>

definition write_run :: "(rat \<Rightarrow> pystr) \<Rightarrow> (pystr \<Rightarrow> pystr option) \<Rightarrow> run_file \<Rightarrow> pystr" where
  "write_run fr environ run = redact_raw (json_pretty fr 0 (build_run_dict run)) (collect_secret_values environ)"

definition MODES :: "golden_mode list" where
  "MODES = [Canon, OffTopic, LoreGap, Mystery]"

definition aggregate_breakdown :: "entry_result list \<Rightarrow> (golden_mode \<times> mode_data) list" where
  "aggregate_breakdown entries = map (\<lambda>m. (m, mode_breakdown m entries)) MODES"

definition build_run :: "pystr \<Rightarrow> pystr \<Rightarrow> pystr \<Rightarrow> pystr \<Rightarrow> run_totals \<Rightarrow> (golden_mode \<times> mode_data) list \<Rightarrow> (pystr \<times> rat option) list
    \<Rightarrow> entry_result list \<Rightarrow> (pystr \<times> pystr) option \<Rightarrow> run_file" where
  "build_run runner_mode started_at finished_at git_sha totals breakdown metrics entries judge =
     \<lparr>rf_mode = runner_mode, rf_started_at = started_at, rf_finished_at = finished_at, rf_git_sha = git_sha, rf_runner_mode = runner_mode,
      rf_totals = totals, rf_breakdown_by_mode = breakdown, rf_metrics = metrics, rf_entries = entries, rf_judge = judge\<rparr>"

section \<open>Baseline bumps\<close>

datatype git_exn = CalledProcessError | TimeoutExpired | GitOSError

text \<open>The standard output of the git commands that are run.\<close>

record git_repo =
  gt_head_subject :: "git_exn + pystr"
  gt_merge_base :: "git_exn + pystr"
  gt_head_parent :: "git_exn + pystr"
  gt_diff_names :: "pystr \<Rightarrow> git_exn + pystr"

definition BASELINE_FILE :: pystr where
  "BASELINE_FILE = lit ''eval/baseline.json''"

text \<open>A letter under \<open>re.IGNORECASE\<close> also matches its other case and the characters Python folds to it.\<close>

definition letter_matches :: "nat \<Rightarrow> nat \<Rightarrow> bool" where
  "letter_matches p c \<longleftrightarrow> c = p \<or> (97 \<le> p \<and> p \<le> 122 \<and> c + 32 = p) \<or> (p = 105 \<and> c \<in> {304, 305}) \<or> (p = 115 \<and> c = 383) \<or> (p = 107 \<and> c = 8490)"

definition bump_pattern :: "pystr \<Rightarrow> bool" where
  "bump_pattern s = list_all2 letter_matches (lit ''chore(eval): bump baseline'') s"

definition get_merge_base :: "git_repo \<Rightarrow> git_exn + pystr" where
  "get_merge_base repo =
     (case gt_merge_base repo of
        Inr sha \<Rightarrow> Inr (py_strip sha)
      | Inl CalledProcessError \<Rightarrow> (case gt_head_parent repo of Inr sha \<Rightarrow> Inr (py_strip sha) | Inl e \<Rightarrow> Inl e)
      | Inl e \<Rightarrow> Inl e)"

definition get_changed_files_since :: "git_repo \<Rightarrow> pystr \<Rightarrow> git_exn + pystr list" where
  "get_changed_files_since repo base_sha =
     (case gt_diff_names repo base_sha of
        Inl e \<Rightarrow> Inl e
      | Inr out \<Rightarrow> Inr (filter (\<lambda>f. f \<noteq> []) (map py_strip (py_splitlines (py_strip out)))))"

definition should_skip_gate_b :: "git_repo \<Rightarrow> git_exn + bool" where
  "should_skip_gate_b repo =
     (case gt_head_subject repo of
        Inl e \<Rightarrow> Inl e
      | Inr subject \<Rightarrow>
          if \<not> bump_pattern (py_strip (py_strip subject)) then Inr False
          else (case get_merge_base repo of
                  Inl e \<Rightarrow> Inl e
                | Inr base \<Rightarrow> (case get_changed_files_since repo base of Inl e \<Rightarrow> Inl e | Inr files \<Rightarrow> Inr (files = [BASELINE_FILE]))))"

section \<open>The row of a live run\<close>

record eval_run_row =
  ev_git_sha :: pystr
  ev_runner_mode :: pystr
  ev_golden_set_version :: pystr
  ev_faithfulness :: figure
  ev_answer_relevancy :: figure
  ev_context_precision :: figure
  ev_context_recall :: figure
  ev_entries_total :: nat
  ev_entries_ok :: nat
  ev_entries_errors :: nat
  ev_started_at :: pystr
  ev_finished_at :: pystr

record persist_fault =
  pf_error_class :: pystr
  pf_pgcode :: "pystr option"

datatype persist_exn = MissingDatabaseUrl | PersistError persist_fault

datatype db_handle = Connection | Cursor

text \<open>The table as other sessions see it, and the handles this process holds.\<close>

record eval_db =
  ed_rows :: "(pystr \<times> eval_run_row) list"
  ed_open :: "db_handle list"

text \<open>Which step fails; closing a handle does not.\<close>

record persist_env =
  pv_database_url :: "pystr option"
  pv_iam_auth :: "pystr option"
  pv_token :: "persist_fault + pystr"
  pv_connect :: "pystr \<Rightarrow> pystr option \<Rightarrow> persist_fault option"
  pv_cursor :: "persist_fault option"
  pv_execute :: "pystr \<times> eval_run_row \<Rightarrow> persist_fault option"
  pv_commit :: "persist_fault option"

definition db_password :: "persist_env \<Rightarrow> persist_fault + pystr option" where
  "db_password env =
     (if pv_iam_auth env = Some (lit ''true'') then (case pv_token env of Inl f \<Rightarrow> Inl f | Inr t \<Rightarrow> Inr (Some t)) else Inr None)"

text \<open>The body of the \<open>try\<close>: the outcome with the handles it opened.\<close>

definition insert_run ::
  "persist_env \<Rightarrow> pystr \<Rightarrow> pystr \<times> eval_run_row \<Rightarrow> eval_db \<Rightarrow> (persist_fault + unit) \<times> db_handle list \<times> eval_db" where
  "insert_run env url params db =
     (case db_password env of
        Inl f \<Rightarrow> (Inl f, [], db)
      | Inr password \<Rightarrow>
          (case pv_connect env url password of
             Some f \<Rightarrow> (Inl f, [], db)
           | None \<Rightarrow>
               (case pv_cursor env of
                  Some f \<Rightarrow> (Inl f, [Connection], db\<lparr>ed_open := Connection # ed_open db\<rparr>)
                | None \<Rightarrow>
                    let db2 = db\<lparr>ed_open := Cursor # Connection # ed_open db\<rparr>
                    in case pv_execute env params of
                         Some f \<Rightarrow> (Inl f, [Cursor, Connection], db2)
                       | None \<Rightarrow>
                           (case pv_commit env of
                              Some f \<Rightarrow> (Inl f, [Cursor, Connection], db2)
                            | None \<Rightarrow> (Inr (), [Cursor, Connection], db2\<lparr>ed_rows := ed_rows db2 @ [params]\<rparr>)))))"

definition close_handles :: "db_handle list \<Rightarrow> eval_db \<Rightarrow> eval_db" where
  "close_handles hs db = db\<lparr>ed_open := fold remove1 hs (ed_open db)\<rparr>"

definition persist_eval_run :: "persist_env \<Rightarrow> pystr \<Rightarrow> eval_run_row \<Rightarrow> eval_db \<Rightarrow> (persist_exn + pystr) \<times> eval_db" where
  "persist_eval_run env run_id row db =
     (case pv_database_url env of
        None \<Rightarrow> (Inl MissingDatabaseUrl, db)
      | Some url \<Rightarrow>
          (case insert_run env url (run_id, row) db of
             (Inl f, hs, db') \<Rightarrow> (Inl (PersistError f), close_handles hs db')
           | (Inr _, hs, db') \<Rightarrow> (Inr run_id, close_handles hs db')))"

definition build_eval_run_row ::
  "figures \<Rightarrow> run_totals \<Rightarrow> pystr \<Rightarrow> pystr \<Rightarrow> pystr \<Rightarrow> pystr \<Rightarrow> pystr \<Rightarrow> eval_run_row option" where
  "build_eval_run_row metrics totals git_sha runner_mode golden_set_version started_at finished_at =
     do { f \<leftarrow> figure_of metrics (lit ''faithfulness''); a \<leftarrow> figure_of metrics (lit ''answer_relevancy'');
          p \<leftarrow> figure_of metrics (lit ''context_precision''); r \<leftarrow> figure_of metrics (lit ''context_recall'');
          Some \<lparr>ev_git_sha = git_sha, ev_runner_mode = runner_mode, ev_golden_set_version = golden_set_version,
                ev_faithfulness = f, ev_answer_relevancy = a, ev_context_precision = p, ev_context_recall = r,
                ev_entries_total = rt_entries totals, ev_entries_ok = rt_ok totals, ev_entries_errors = rt_errors totals,
                ev_started_at = started_at, ev_finished_at = finished_at\<rparr> }"

text \<open>\<open>_maybe_persist\<close> with the database: \<open>row_of\<close> is the row of the run; a missing variable escapes as Inl.\<close>

definition persist_step ::
  "bool \<Rightarrow> bool \<Rightarrow> persist_env \<Rightarrow> pystr \<Rightarrow> eval_run_row option \<Rightarrow> eval_db \<Rightarrow> (persist_exn + nat option) \<times> eval_db" where
  "persist_step flag live env run_id row_of db =
     (if \<not> flag \<or> \<not> live then (Inr None, db)
      else case row_of of
             None \<Rightarrow> (Inr (Some 4), db)
           | Some row \<Rightarrow>
               (case persist_eval_run env run_id row db of
                  (Inl MissingDatabaseUrl, db') \<Rightarrow> (Inl MissingDatabaseUrl, db')
                | (Inl (PersistError _), db') \<Rightarrow> (Inr (Some 4), db')
                | (Inr _, db') \<Rightarrow> (Inr None, db')))"

section \<open>The judge\<close>

datatype judge_exn = MissingExtras | MissingModule | UnknownProvider pystr | UnknownEmbeddings pystr

text \<open>What is built: the embeddings with their provider, model and key, and the chat model.\<close>

record judge =
  jd_provider :: pystr
  jd_chat_model :: pystr
  jd_chat_key :: pystr
  jd_emb_provider :: pystr
  jd_emb_model :: pystr
  jd_emb_key :: pystr

definition environ_get :: "(pystr \<Rightarrow> pystr option) \<Rightarrow> string \<Rightarrow> string \<Rightarrow> pystr" where
  "environ_get environ k dflt = (case environ (lit k) of None \<Rightarrow> lit dflt | Some v \<Rightarrow> v)"

text \<open>\<open>installed\<close> tells which packages can be imported.\<close>

definition build_mistral_judge :: "(string \<Rightarrow> bool) \<Rightarrow> (pystr \<Rightarrow> pystr option) \<Rightarrow> pystr \<Rightarrow> judge_exn + judge" where
  "build_mistral_judge installed environ api_key =
     (if installed ''langchain_mistralai'' \<and> installed ''ragas''
      then Inr \<lparr>jd_provider = lit ''mistral'', jd_chat_model = environ_get environ ''RAGAS_JUDGE_MODEL'' ''mistral-large-2411'', jd_chat_key = api_key,
                jd_emb_provider = lit ''mistral'', jd_emb_model = environ_get environ ''RAGAS_JUDGE_EMBEDDINGS_MODEL'' ''mistral-embed'', jd_emb_key = api_key\<rparr>
      else Inl MissingExtras)"

definition build_openai_judge :: "(string \<Rightarrow> bool) \<Rightarrow> (pystr \<Rightarrow> pystr option) \<Rightarrow> pystr \<Rightarrow> judge_exn + judge" where
  "build_openai_judge installed environ api_key =
     (if installed ''langchain_openai'' \<and> installed ''ragas''
      then Inr \<lparr>jd_provider = lit ''openai'', jd_chat_model = environ_get environ ''RAGAS_JUDGE_MODEL'' ''gpt-4o'', jd_chat_key = api_key,
                jd_emb_provider = lit ''openai'', jd_emb_model = environ_get environ ''RAGAS_JUDGE_EMBEDDINGS_MODEL'' ''text-embedding-3-small'', jd_emb_key = api_key\<rparr>
      else Inl MissingExtras)"

definition build_judge_embeddings :: "(string \<Rightarrow> bool) \<Rightarrow> (pystr \<Rightarrow> pystr option) \<Rightarrow> judge_exn + pystr \<times> pystr \<times> pystr" where
  "build_judge_embeddings installed environ =
     (let provider = environ_get environ ''RAGAS_JUDGE_EMBEDDINGS_PROVIDER'' ''mistral'';
          emb_key = environ_get environ ''RAGAS_JUDGE_EMBEDDINGS_API_KEY'' []
      in if \<not> (installed ''pydantic'' \<and> installed ''ragas'') then Inl MissingExtras
         else if provider = lit ''mistral'' then
           if installed ''langchain_mistralai''
           then Inr (provider, environ_get environ ''RAGAS_JUDGE_EMBEDDINGS_MODEL'' ''mistral-embed'', emb_key) else Inl MissingModule
         else if provider = lit ''openai'' then
           if installed ''langchain_openai''
           then Inr (provider, environ_get environ ''RAGAS_JUDGE_EMBEDDINGS_MODEL'' ''text-embedding-3-small'', emb_key) else Inl MissingModule
         else Inl (UnknownEmbeddings provider))"

definition build_anthropic_judge :: "(string \<Rightarrow> bool) \<Rightarrow> (pystr \<Rightarrow> pystr option) \<Rightarrow> pystr \<Rightarrow> judge_exn + judge" where
  "build_anthropic_judge installed environ api_key =
     (if installed ''langchain_anthropic'' \<and> installed ''ragas''
      then case build_judge_embeddings installed environ of
             Inl e \<Rightarrow> Inl e
           | Inr (emb_provider, emb_model, emb_key) \<Rightarrow>
               Inr \<lparr>jd_provider = lit ''anthropic'', jd_chat_model = environ_get environ ''RAGAS_JUDGE_MODEL'' ''claude-haiku-4-5-20251001'', jd_chat_key = api_key,
                    jd_emb_provider = emb_provider, jd_emb_model = emb_model, jd_emb_key = emb_key\<rparr>
      else Inl MissingExtras)"

definition build_ragas_judge_with_identity :: "(string \<Rightarrow> bool) \<Rightarrow> (pystr \<Rightarrow> pystr option) \<Rightarrow> judge_exn + judge" where
  "build_ragas_judge_with_identity installed environ =
     (let provider = environ_get environ ''RAGAS_JUDGE_PROVIDER'' ''mistral''; api_key = environ_get environ ''LLM_API_KEY'' []
      in if \<not> installed ''pydantic'' then Inl MissingExtras
         else if provider = lit ''mistral'' then build_mistral_judge installed environ api_key
         else if provider = lit ''openai'' then build_openai_judge installed environ api_key
         else if provider = lit ''anthropic'' then build_anthropic_judge installed environ api_key
         else Inl (UnknownProvider provider))"

definition ragas_max_workers :: "(pystr \<Rightarrow> int option) \<Rightarrow> (pystr \<Rightarrow> pystr option) \<Rightarrow> int" where
  "ragas_max_workers int_of environ =
     (case int_of (environ_get environ ''RAGAS_MAX_WORKERS'' ''1'') of None \<Rightarrow> 1 | Some v \<Rightarrow> if 1 \<le> v then v else 1)"

text \<open>The row of an entry in the judged data set.\<close>

record judged_row =
  jr_question :: pystr
  jr_answer :: pystr
  jr_contexts :: "pystr list"
  jr_ground_truth :: pystr

definition judged_rows :: "entry_result list \<Rightarrow> judged_row list" where
  "judged_rows es = map (\<lambda>e. \<lparr>jr_question = er_question e, jr_answer = (case er_answer e of None \<Rightarrow> [] | Some a \<Rightarrow> a),
     jr_contexts = er_retrieved_chunk_texts e, jr_ground_truth = er_ground_truth e\<rparr>) es"

text \<open>The library gives a column of scores per metric (\<open>None\<close>: it raises). The mean of a column skips the rows without a number.\<close>

datatype ragas_exn = RagasMissing | JudgeNotBuilt judge_exn | EvaluateRaised

definition numbers :: "figure list \<Rightarrow> rat list" where
  "numbers col = List.map_filter (\<lambda>f. case f of Num q \<Rightarrow> Some q | NaN \<Rightarrow> None) col"

definition column_mean :: "figure list \<Rightarrow> figure" where
  "column_mean col = (if numbers col = [] then NaN else Num (sum_list (numbers col) / of_nat (length (numbers col))))"

definition run_ragas_evaluate ::
  "(string \<Rightarrow> bool) \<Rightarrow> (pystr \<Rightarrow> pystr option) \<Rightarrow> (judge \<Rightarrow> judged_row list \<Rightarrow> (pystr \<Rightarrow> figure list) option) \<Rightarrow> entry_result list
    \<Rightarrow> ragas_exn + figures \<times> (pystr \<times> pystr) option" where
  "run_ragas_evaluate installed environ evaluate entries =
     (if \<not> (installed ''datasets'' \<and> installed ''ragas'') then Inl RagasMissing
      else case build_ragas_judge_with_identity installed environ of
             Inl e \<Rightarrow> Inl (JudgeNotBuilt e)
           | Inr j \<Rightarrow>
               (case evaluate j (judged_rows entries) of
                  None \<Rightarrow> Inl EvaluateRaised
                | Some scores \<Rightarrow>
                    Inr (map (\<lambda>k. (k, Some (column_mean (scores k)))) RAGAS_METRICS, Some (jd_provider j, jd_chat_model j))))"

definition compute_ragas_metrics ::
  "(string \<Rightarrow> bool) \<Rightarrow> (pystr \<Rightarrow> pystr option) \<Rightarrow> (judge \<Rightarrow> judged_row list \<Rightarrow> (pystr \<Rightarrow> figure list) option) \<Rightarrow> entry_result list
    \<Rightarrow> ragas_exn + figures \<times> (pystr \<times> pystr) option" where
  "compute_ragas_metrics installed environ evaluate entries =
     (if entries = [] then Inr (NULL_FIGURES, None) else run_ragas_evaluate installed environ evaluate entries)"

section \<open>The inputs of a run\<close>

definition check_workers_reachable :: "http_outcome \<Rightarrow> bool" where
  "check_workers_reachable answer = (case answer of Response code _ \<Rightarrow> is_success code | _ \<Rightarrow> False)"

text \<open>\<open>_get_git_sha\<close>: a time-out of git is not caught.\<close>

definition get_git_sha :: "git_exn + pystr \<Rightarrow> git_exn + pystr" where
  "get_git_sha out =
     (case out of
        Inr sha \<Rightarrow> Inr (py_strip sha)
      | Inl TimeoutExpired \<Rightarrow> Inl TimeoutExpired
      | Inl _ \<Rightarrow> Inr (lit ''unknown''))"

record run_inputs =
  ri_live :: bool
  ri_workers_url :: pystr
  ri_golden :: pystr
  ri_loads :: "pystr \<Rightarrow> pyval option"
  ri_lower :: "pystr \<Rightarrow> pystr"
  ri_fetch_token :: "pystr \<Rightarrow> pystr option"
  ri_health :: http_outcome
  ri_baseline :: baseline_file
  ri_clients :: eval_clients
  ri_uuids :: "nat \<Rightarrow> pystr"
  ri_judge :: "entry_result list \<Rightarrow> figures"
  ri_persist :: bool
  ri_insert_ok :: bool
  ri_repo :: git_repo

definition setup_of :: "run_inputs \<Rightarrow> eval_setup" where
  "setup_of r =
     \<lparr>es_live = ri_live r, es_golden = load_golden_set (ri_loads r) (ri_golden r),
      es_authenticated = is_authenticated_target (ri_lower r) (ri_workers_url r),
      es_token_ok = (case fetch_id_token (ri_fetch_token r) (derive_audience (ri_workers_url r)) of Inl _ \<Rightarrow> False | Inr _ \<Rightarrow> True),
      es_reachable = check_workers_reachable (ri_health r), es_baseline = ri_baseline r, es_clients = ri_clients r, es_lower = ri_lower r,
      es_uuids = ri_uuids r, es_judge = ri_judge r, es_persist = ri_persist r, es_insert_ok = ri_insert_ok r,
      es_bump_commit = (should_skip_gate_b (ri_repo r) = Inr True)\<rparr>"

section \<open>Lemmas\<close>

lemma py_in_append: "py_in t s \<Longrightarrow> py_in t (a @ s @ b)"
proof -
  assume "py_in t s"
  then obtain c d where "s = c @ t @ d" by (auto simp: py_in_iff)
  then have "a @ s @ b = (a @ c) @ t @ (d @ b)" by simp
  then show ?thesis unfolding py_in_iff by blast
qed

lemma append_at:
  assumes "u @ x # v = a @ t @ b" and "x \<notin> set t" and "t \<noteq> []"
  shows "(\<exists>b'. u = a @ t @ b') \<or> (\<exists>a'. v = a' @ t @ b)"
proof -
  from assms(1) obtain us where "u = a @ us \<and> us @ x # v = t @ b \<or> u @ us = a \<and> x # v = us @ t @ b"
    by (auto simp: append_eq_append_conv2)
  then show ?thesis
  proof
    assume left: "u = a @ us \<and> us @ x # v = t @ b"
    then obtain ws where "us = t @ ws \<or> us @ ws = t \<and> x # v = ws @ b" by (auto simp: append_eq_append_conv2)
    moreover have "us @ ws = t \<and> x # v = ws @ b \<Longrightarrow> ws = []" using assms(2) by (cases ws) auto
    ultimately have "us = t @ ws \<or> us = t @ []" by auto
    with left show ?thesis by blast
  next
    assume right: "u @ us = a \<and> x # v = us @ t @ b"
    with assms(2,3) obtain us' where "us = x # us'" by (cases us; cases t) auto
    with right show ?thesis by auto
  qed
qed

lemma py_in_around:
  assumes "x \<notin> set t" and "t \<noteq> []"
  shows "py_in t (u @ [x] @ v) \<longleftrightarrow> py_in t u \<or> py_in t v"
proof
  assume "py_in t (u @ [x] @ v)"
  then obtain a b where "u @ x # v = a @ t @ b" by (auto simp: py_in_iff)
  from append_at[OF this assms] show "py_in t u \<or> py_in t v" by (auto simp: py_in_iff)
next
  assume "py_in t u \<or> py_in t v"
  then show "py_in t (u @ [x] @ v)" using py_in_append[of t u "[]" "[x] @ v"] py_in_append[of t v "u @ [x]" "[]"] by auto
qed

text \<open>A secret the marker cannot be part of.\<close>

definition plain_secret :: "pystr \<Rightarrow> bool" where
  "plain_secret t \<longleftrightarrow> t \<noteq> [] \<and> 91 \<notin> set t \<and> 93 \<notin> set t \<and> \<not> py_in t (lit ''REDACTED'')"

lemma around_marker:
  assumes "plain_secret t"
  shows "py_in t (u @ REDACTED @ v) \<longleftrightarrow> py_in t u \<or> py_in t v"
proof -
  have "u @ REDACTED @ v = u @ [91] @ (lit ''REDACTED'' @ [93] @ v)" by (simp add: REDACTED_def lit_def)
  then have "py_in t (u @ REDACTED @ v) \<longleftrightarrow> py_in t (u @ [91] @ (lit ''REDACTED'' @ [93] @ v))" by (rule arg_cong)
  also have "\<dots> \<longleftrightarrow> py_in t u \<or> py_in t (lit ''REDACTED'') \<or> py_in t v"
    using assms by (simp only: plain_secret_def py_in_around simp_thms)
  finally show ?thesis using assms by (simp add: plain_secret_def)
qed

text \<open>Replacing does not put a plain secret into a text that has none.\<close>

lemma replace_keeps_out:
  assumes "plain_secret t" and "\<not> py_in t (u @ s)"
  shows "\<not> py_in t (u @ replace_all old REDACTED s)"
  using assms(2)
proof (induction old REDACTED s arbitrary: u rule: replace_all.induct)
  case (2 old c s)
  show ?case
  proof (cases "old \<noteq> [] \<and> py_startswith (c # s) old")
    case True
    let ?rest = "drop (length old) (c # s)"
    have whole: "c # s = old @ ?rest" using True by (auto simp: py_startswith_iff)
    have "\<not> py_in t u" "\<not> py_in t ?rest"
      using 2(3) py_in_append[of t u "[]" "c # s"] py_in_append[of t ?rest "u @ old" "[]"] by (auto simp: whole[symmetric])
    moreover from this(2) have "\<not> py_in t (replace_all old REDACTED ?rest)" using 2(1)[OF True, of "[]"] by simp
    ultimately show ?thesis using True around_marker[OF assms(1)] by (simp add: replace_all.simps(2))
  next
    case False
    with 2(2)[OF False, of "u @ [c]"] 2(3) show ?thesis by (auto simp: replace_all.simps(2))
  qed
qed simp

text \<open>Replacing a plain secret takes it out: \<open>u\<close> is what was already written, where none begins.\<close>

lemma replace_takes_out:
  assumes "plain_secret t" and "\<forall>a b. u @ s = a @ t @ b \<longrightarrow> length u \<le> length a"
  shows "\<not> py_in t (u @ replace_all t REDACTED s)"
  using assms(2)
proof (induction s arbitrary: u rule: length_induct)
  case (1 s u)
  have t: "t \<noteq> []" using assms(1) by (simp add: plain_secret_def)
  have clean: "\<not> py_in t u"
  proof
    assume "py_in t u"
    then obtain a b where u: "u = a @ t @ b" by (auto simp: py_in_iff)
    then have "u @ s = a @ t @ (b @ s)" by simp
    with 1(2) have "length u \<le> length a" by blast
    with u t show False by simp
  qed
  show ?case
  proof (cases s)
    case Nil
    with clean show ?thesis by simp
  next
    case (Cons c s')
    show ?thesis
    proof (cases "py_startswith s t")
      case True
      have "length (drop (length t) s) < length s" using t Cons by simp
      with 1(1) have "\<not> py_in t ([] @ replace_all t REDACTED (drop (length t) s))" by (metis le0 list.size(3))
      with clean True t show ?thesis using around_marker[OF assms(1)] by (simp add: Cons replace_all.simps(2))
    next
      case False
      have later: "\<forall>a b. (u @ [c]) @ s' = a @ t @ b \<longrightarrow> length (u @ [c]) \<le> length a"
      proof (intro allI impI)
        fix a b assume eq: "(u @ [c]) @ s' = a @ t @ b"
        with 1(2) Cons have "length u \<le> length a" by auto
        moreover have "length u \<noteq> length a"
        proof
          assume "length u = length a"
          with eq Cons have "s = t @ b" by simp
          with False show False by (simp add: py_startswith_iff)
        qed
        ultimately show "length (u @ [c]) \<le> length a" by simp
      qed
      have "length s' < length s" using Cons by simp
      from 1(1)[rule_format, OF this later[rule_format]] have "\<not> py_in t ((u @ [c]) @ replace_all t REDACTED s')" by simp
      with False Cons show ?thesis by (simp add: replace_all.simps(2))
    qed
  qed
qed

lemma redact_keeps_out: "plain_secret t \<Longrightarrow> \<not> py_in t raw \<Longrightarrow> \<not> py_in t (redact_raw raw secrets)"
  unfolding redact_raw_def
proof (induction secrets arbitrary: raw)
  case (Cons s secrets)
  from replace_keeps_out[of t "[]" raw s] Cons.prems have "\<not> py_in t (replace_all s REDACTED raw)" by simp
  from Cons.IH[OF Cons.prems(1) this] show ?case by simp
qed simp

lemma redact_takes_out: "plain_secret t \<Longrightarrow> t \<in> set secrets \<Longrightarrow> \<not> py_in t (redact_raw raw secrets)"
proof (induction secrets arbitrary: raw)
  case (Cons s secrets)
  have step: "redact_raw raw (s # secrets) = redact_raw (replace_all s REDACTED raw) secrets" by (simp add: redact_raw_def)
  show ?case
  proof (cases "t = s")
    case True
    from replace_takes_out[of t "[]" raw] Cons.prems(1) have "\<not> py_in t (replace_all t REDACTED raw)" by simp
    from redact_keeps_out[OF Cons.prems(1) this] show ?thesis unfolding step True .
  next
    case False
    with Cons show ?thesis unfolding step by simp
  qed
qed simp

lemma golden_lines: "js_map golden_validate vs = Some es \<Longrightarrow> js_map loads ls = Some vs \<Longrightarrow>
    list_all2 (\<lambda>l e. \<exists>v. loads l = Some v \<and> golden_validate v = Some e) ls es"
  unfolding js_map_Some_iff by (rule list_all2_trans[where ?P1.0 = "\<lambda>l v. loads l = Some v" and ?P2.0 = "\<lambda>v e. golden_validate v = Some e"]) auto

lemma js_map_compose: "list_all2 (\<lambda>l e. \<exists>v. f l = Some v \<and> g v = Some e) ls es \<Longrightarrow> (js_map f ls \<bind> js_map g) = Some es"
  by (induction rule: list_all2_induct) (auto simp: Option.bind_eq_Some_conv)

section \<open>Properties\<close>

text \<open>The golden set is loaded whole or not at all: the entries are those of the non-blank lines, in order, and each line is
  JSON for an object with exactly the fields of the schema.\<close>

theorem load_golden_set_exact:
  "load_golden_set loads content = Some es \<longleftrightarrow>
     list_all2 (\<lambda>l e. \<exists>v. loads l = Some v \<and> golden_validate v = Some e) (jsonl_lines content) es"
  unfolding load_golden_set_def by (auto simp: Option.bind_eq_Some_conv intro: golden_lines dest: js_map_compose)

text \<open>No secret of the environment is left in a run file: whatever the run holds, the text that is written contains none of the
  values collected for redaction, provided the value has no square bracket and is not part of the marker itself.\<close>

theorem run_file_redacted:
  assumes "var \<in> set SECRET_ENV_VARS" and "environ var = Some secret" and "plain_secret secret"
  shows "\<not> py_in secret (write_run fr environ run)"
proof -
  have "secret \<in> set (collect_secret_values environ)"
    using assms by (force simp: collect_secret_values_def plain_secret_def)
  with redact_takes_out[OF assms(3)] show ?thesis by (simp add: write_run_def)
qed

definition sample_run :: run_file where
  "sample_run = build_run (lit ''live'') [] [] (lit ''hunter2'') \<lparr>rt_entries = 0, rt_ok = 0, rt_errors = 0\<rparr> [] [] [] None"

definition sample_environ :: "pystr \<Rightarrow> pystr option" where
  "sample_environ = (\<lambda>v. if v = lit ''LLM_API_KEY'' then Some (lit ''hunter2'') else None)"

theorem run_file_redacted_witness:
  "sample_environ (lit ''LLM_API_KEY'') = Some (lit ''hunter2'') \<and> rf_git_sha sample_run = lit ''hunter2'' \<and>
   \<not> py_in (lit ''hunter2'') (write_run (\<lambda>_. []) sample_environ sample_run)"
proof -
  have "plain_secret (lit ''hunter2'')" by (simp add: plain_secret_def lit_def py_startswith_def)
  then show ?thesis
    using run_file_redacted[of "lit ''LLM_API_KEY''" sample_environ "lit ''hunter2''" "\<lambda>_. []" sample_run]
    by (simp add: SECRET_ENV_VARS_def sample_environ_def sample_run_def build_run_def)
qed

text \<open>A secret with a character that JSON escapes is not found in the serialized text.\<close>

lemma escaped_secret_stays: "redact_raw (plain_str [97, 34, 98]) [[97, 34, 98]] = [34, 97, 92, 34, 98, 34]"
  by (simp add: redact_raw_def plain_str_def plain_char_def replace_all.simps(2) py_startswith_def)

text \<open>The no-regression gate is waived exactly when the subject of the last commit is the bump message and the files changed since
  the merge base (or, when there is none, since the parent commit) are the baseline file alone.\<close>

theorem skip_gate_b_exact:
  "should_skip_gate_b repo = Inr True \<longleftrightarrow>
     (\<exists>subject base out. gt_head_subject repo = Inr subject \<and> bump_pattern (py_strip subject) \<and>
        (gt_merge_base repo = Inr base \<or> gt_merge_base repo = Inl CalledProcessError \<and> gt_head_parent repo = Inr base) \<and>
        gt_diff_names repo (py_strip base) = Inr out \<and>
        filter (\<lambda>f. f \<noteq> []) (map py_strip (py_splitlines (py_strip out))) = [BASELINE_FILE])"
  by (auto simp: should_skip_gate_b_def get_merge_base_def get_changed_files_since_def split: sum.splits git_exn.splits if_splits)

text \<open>Without \<open>origin/main\<close> the exemption looks at the last commit only, whatever the commits before it changed.\<close>

lemma fallback_sees_one_commit:
  assumes "gt_head_subject repo = Inr (lit ''chore(eval): bump baseline'')" "gt_merge_base repo = Inl CalledProcessError"
    "gt_head_parent repo = Inr base" "gt_diff_names repo (py_strip base) = Inr BASELINE_FILE"
  shows "should_skip_gate_b repo = Inr True"
proof -
  have "bump_pattern (py_strip (py_strip (lit ''chore(eval): bump baseline'')))"
    by (simp add: bump_pattern_def strip_by_def lstrip_by_def rstrip_by_def py_space_def lit_def letter_matches_def)
  moreover have "filter (\<lambda>f. f \<noteq> []) (map py_strip (py_splitlines (py_strip BASELINE_FILE))) = [BASELINE_FILE]"
    by (simp add: BASELINE_FILE_def strip_by_def lstrip_by_def rstrip_by_def py_space_def py_splitlines_def py_linebreak_def lit_def)
  ultimately show ?thesis using assms by (simp add: should_skip_gate_b_def get_merge_base_def get_changed_files_since_def)
qed

text \<open>A live run is recorded atomically: the call returns its id exactly when one row with that id was added, any failure leaves the
  table as it was, and on every path the handles that were opened are closed again.\<close>

theorem persist_eval_run_atomic:
  "ed_open (snd (persist_eval_run env run_id row db)) = ed_open db \<and>
   (case fst (persist_eval_run env run_id row db) of
      Inr i \<Rightarrow> i = run_id \<and> ed_rows (snd (persist_eval_run env run_id row db)) = ed_rows db @ [(run_id, row)]
    | Inl _ \<Rightarrow> ed_rows (snd (persist_eval_run env run_id row db)) = ed_rows db)"
  by (simp add: persist_eval_run_def insert_run_def close_handles_def Let_def split: option.split sum.split)

lemma row_exists_iff:
  "build_eval_run_row metrics totals sha mode version t0 t1 = None \<longleftrightarrow> list_ex (\<lambda>k. figure_of metrics k = None) RAGAS_METRICS"
  by (auto simp: build_eval_run_row_def RAGAS_METRICS_def bind_eq_None_conv)

text \<open>The persistence step with its database refines the abstract one of the runner: with the database URL set, both give the same exit
  code, the abstract insertion succeeding exactly when the row is committed.\<close>

theorem persist_step_refines:
  assumes "pv_database_url env \<noteq> None" and "row = build_eval_run_row metrics totals sha mode version t0 t1"
    and "es_insert_ok s \<longleftrightarrow> (\<exists>r. row = Some r \<and> (\<exists>i. fst (persist_eval_run env run_id r db) = Inr i))"
  shows "fst (persist_step (es_persist s) (es_live s) env run_id row db) = Inr (maybe_persist s metrics)"
proof (cases row)
  case None
  with assms(2) row_exists_iff[of metrics totals sha mode version t0 t1]
  have "list_ex (\<lambda>k. figure_of metrics k = None) RAGAS_METRICS" by simp
  with None show ?thesis by (simp add: persist_step_def maybe_persist_def)
next
  case (Some r)
  with assms(2) row_exists_iff[of metrics totals sha mode version t0 t1]
  have some: "\<not> list_ex (\<lambda>k. figure_of metrics k = None) RAGAS_METRICS" by auto
  have "fst (persist_eval_run env run_id r db) \<noteq> Inl MissingDatabaseUrl"
    using assms(1) by (auto simp: persist_eval_run_def split: option.splits sum.splits prod.splits)
  with Some some assms(3) show ?thesis
    by (auto simp: persist_step_def maybe_persist_def split: sum.splits prod.splits persist_exn.splits)
qed

definition sample_penv :: persist_env where
  "sample_penv = \<lparr>pv_database_url = Some [], pv_iam_auth = None, pv_token = Inr [], pv_connect = (\<lambda>_ _. None), pv_cursor = None,
     pv_execute = (\<lambda>_. None), pv_commit = None\<rparr>"

definition sample_row :: "eval_run_row option" where
  "sample_row = build_eval_run_row (map (\<lambda>k. (k, Some (Num 1))) RAGAS_METRICS) \<lparr>rt_entries = 1, rt_ok = 1, rt_errors = 0\<rparr> [] [] [] [] []"

theorem persist_step_refines_witness:
  "fst (persist_step True True sample_penv [1] sample_row \<lparr>ed_rows = [], ed_open = []\<rparr>) = Inr None"
proof -
  let ?s = "(sample_setup NotGiven (Num 1))\<lparr>es_persist := True, es_insert_ok := True\<rparr>"
  let ?m = "map (\<lambda>k. (k, Some (Num 1))) RAGAS_METRICS"
  have row: "\<exists>r. sample_row = Some r"
    by (simp add: sample_row_def build_eval_run_row_def RAGAS_METRICS_def figure_of_def)
  have ok: "\<exists>i. fst (persist_eval_run sample_penv [1] r \<lparr>ed_rows = [], ed_open = []\<rparr>) = Inr i" for r
    by (simp add: persist_eval_run_def insert_run_def sample_penv_def db_password_def Let_def)
  have none: "maybe_persist ?s ?m = None"
    by (simp add: maybe_persist_def RAGAS_METRICS_def figure_of_def)
  have "fst (persist_step (es_persist ?s) (es_live ?s) sample_penv [1] sample_row \<lparr>ed_rows = [], ed_open = []\<rparr>) = Inr (maybe_persist ?s ?m)"
    by (rule persist_step_refines[OF _ sample_row_def]) (use row ok in \<open>simp_all add: sample_penv_def\<close>)
  then show ?thesis unfolding none by (simp add: sample_setup_def)
qed

text \<open>The judge is built exactly when the packages its provider needs are there and the provider is known; the identity that is recorded
  is the one that was built.\<close>

lemma judge_provider:
  "build_ragas_judge_with_identity installed environ = Inr j \<Longrightarrow>
   jd_provider j = environ_get environ ''RAGAS_JUDGE_PROVIDER'' ''mistral'' \<and> jd_provider j \<in> {lit ''mistral'', lit ''openai'', lit ''anthropic''} \<and>
   jd_chat_key j = environ_get environ ''LLM_API_KEY'' []"
  by (auto simp: build_ragas_judge_with_identity_def build_mistral_judge_def build_openai_judge_def build_anthropic_judge_def Let_def
      split: if_splits sum.splits)

text \<open>A metric that could be judged on some row is a mean within the bounds of its scores; one that could not be judged on any row is no number, and
  the run is then stored with it.\<close>

lemma mean_between:
  fixes qs :: "rat list"
  assumes "qs \<noteq> []" "\<forall>q\<in>set qs. a \<le> q \<and> q \<le> b"
  shows "a \<le> sum_list qs / of_nat (length qs) \<and> sum_list qs / of_nat (length qs) \<le> b"
proof -
  have "a * of_nat (length qs) \<le> sum_list qs \<and> sum_list qs \<le> b * of_nat (length qs)"
    using assms(2) by (induction qs) (auto simp: algebra_simps)
  then show ?thesis using assms(1) by (simp add: field_simps)
qed

lemma column_mean_bounds:
  "\<forall>q. Num q \<in> set col \<longrightarrow> a \<le> q \<and> q \<le> b \<Longrightarrow> column_mean col = Num m \<Longrightarrow> a \<le> m \<and> m \<le> b"
  using mean_between[of "numbers col" a b]
  by (auto simp: column_mean_def numbers_def map_filter_def split: if_splits figure.splits)

lemma unjudged_metric_stored:
  assumes "compute_ragas_metrics installed environ evaluate entries = Inr (metrics, who)" "entries \<noteq> []"
    "\<And>j. \<exists>scores. evaluate j (judged_rows entries) = Some scores \<and> set (scores (lit ''faithfulness'')) \<subseteq> {NaN}"
  shows "\<exists>row. build_eval_run_row metrics totals sha mode version t0 t1 = Some row \<and> ev_faithfulness row = NaN"
proof -
  obtain j scores where m: "metrics = map (\<lambda>k. (k, Some (column_mean (scores k)))) RAGAS_METRICS"
    "evaluate j (judged_rows entries) = Some scores"
    using assms(1,2) by (auto simp: compute_ragas_metrics_def run_ragas_evaluate_def split: if_splits sum.splits option.splits)
  with assms(3)[of j] have "set (scores (lit ''faithfulness'')) \<subseteq> {NaN}" by auto
  then have "numbers (scores (lit ''faithfulness'')) = []" by (auto simp: numbers_def map_filter_def filter_empty_conv)
  then have "column_mean (scores (lit ''faithfulness'')) = NaN" by (simp add: column_mean_def)
  then show ?thesis by (simp add: m build_eval_run_row_def RAGAS_METRICS_def figure_of_def lit_def)
qed

lemma ragas_max_workers_pos: "1 \<le> ragas_max_workers int_of environ"
  by (simp add: ragas_max_workers_def split: option.split)

end
