(* ===== verification/Seed_Corpus.thy ===== *)
theory Seed_Corpus
  imports Retrieval
begin

text \<open>
  \<open>src/eval/seed_test_corpus.py\<close>: the corpus of the offline evaluation.  Python's \<open>hash\<close>, the digest, the norm of a
  float vector and the value of a number printed with six decimals are inputs, and so are the identifiers the database draws.
\<close>

section \<open>Texts and embeddings\<close>

definition LORE_TEMPLATES :: "(pystr \<Rightarrow> pystr \<Rightarrow> pystr) list" where
  "LORE_TEMPLATES =
    [\<lambda>kw0 kw1. lit ''Au commencement du Quatri'' @ [232] @ lit ''me '' @ [194] @ lit ''ge, '' @ kw0 @
       lit '' franchit le seuil de la biblioth'' @ [232] @ lit ''que ancestrale. '' @ kw1 @
       lit '' leva les yeux de son grimoire de cuir noir et reconnut l'envoy'' @ [233] @
       lit ''e du conseil.'',
     \<lambda>kw0 kw1. lit ''Les annales du '' @ kw0 @ lit '' relatent que la cit'' @ [233] @ lit '' de '' @ kw1 @
       lit '' fut fond'' @ [233] @ lit ''e au cr'' @ [233] @ lit ''puscule de la premi'' @ [232] @
       lit ''re '' @ [232] @ lit ''re, sur les ruines d'un sanctuaire oubli'' @ [233] @ lit ''.'',
     \<lambda>kw0 kw1. lit ''La grande salle du '' @ kw0 @
       lit '' abritait des milliers de rouleaux. On y conservait la m'' @ [233] @
       lit ''moire de '' @ kw1 @ lit '' depuis des g'' @ [233] @ lit ''n'' @ [233] @
       lit ''rations imm'' @ [233] @ lit ''moriales.'',
     \<lambda>kw0 kw1. lit ''Le gardien du '' @ kw0 @ lit '' connaissait chaque recoin de la demeure. '' @ kw1 @
       lit '' '' @ [233] @ lit ''tait grav'' @ [233] @
       lit '' dans la pierre au-dessus de l'entr'' @ [233] @ lit ''e principale.'']"

definition LORE_FALLBACK :: "pystr \<Rightarrow> pystr" where
  "LORE_FALLBACK source_path =
     lit ''Ce fragment d'archives provient du fonds '' @ source_path @
       lit ''. Son contenu demeure partiellement illisible, rong'' @ [233] @ lit '' par les si'' @
       [232] @ lit ''cles.''"

record seed_env =
  sd_hash :: "pystr \<Rightarrow> int"
  sd_digest :: "pystr \<Rightarrow> bytes"
  sd_hexdigest :: "pystr \<Rightarrow> pystr"
  sd_norm :: "vec \<Rightarrow> rat"
  sd_printed :: "rat \<Rightarrow> rat"
  sd_fresh :: "pystr list \<Rightarrow> pystr"

definition lore_text :: "seed_env \<Rightarrow> pystr \<Rightarrow> pystr list \<Rightarrow> pystr" where
  "lore_text env source_path keywords =
     (case keywords of
        [] \<Rightarrow> LORE_FALLBACK source_path
      | kw0 # rest \<Rightarrow>
          (LORE_TEMPLATES ! nat (sd_hash env source_path mod int (length LORE_TEMPLATES))) kw0
            (case rest of [] \<Rightarrow> source_path | kw1 # _ \<Rightarrow> kw1))"

definition hash_embedding :: "seed_env \<Rightarrow> pystr \<Rightarrow> vec" where
  "hash_embedding env source_path =
     (let raw = sd_digest env source_path;
          floats = map (\<lambda>i. (of_nat (raw ! (i mod length raw)) - 255/2) / (255/2)) [0..<EMBEDDING_DIM];
          n = sd_norm env floats
      in map (sd_printed env) (if 0 < n then map (\<lambda>v. v / n) floats else floats))"

section \<open>The seed\<close>

type_synonym seed = "(pystr \<times> pystr \<times> vec) list"

record fixture_entry =
  fx_contexts :: "pystr list"
  fx_keywords :: "pystr list"

definition add_context :: "seed_env \<Rightarrow> pystr list \<Rightarrow> pystr \<Rightarrow> seed \<Rightarrow> seed" where
  "add_context env keywords ctx sd =
     (if ctx \<in> fst ` set sd then sd else sd @ [(ctx, lore_text env ctx keywords, hash_embedding env ctx)])"

definition collect_seed_data :: "seed_env \<Rightarrow> fixture_entry list \<Rightarrow> seed" where
  "collect_seed_data env entries = fold (\<lambda>e. fold (add_context env (fx_keywords e)) (fx_contexts e)) entries []"

section \<open>Insertion\<close>

text \<open>\<open>INSERT ... ON CONFLICT (source_path) DO UPDATE SET title\<close>: the id and the table.\<close>

definition upsert_document :: "seed_env \<Rightarrow> pystr \<Rightarrow> corpus \<Rightarrow> pystr \<times> corpus" where
  "upsert_document env path co =
     (case List.find (\<lambda>r. dr_source_path r = path) (co_documents co) of
        Some row \<Rightarrow>
          (dr_id row, co\<lparr>co_documents := map (\<lambda>r. if dr_source_path r = path then r\<lparr>dr_title := path\<rparr> else r) (co_documents co)\<rparr>)
      | None \<Rightarrow>
          let i = sd_fresh env (map dr_id (co_documents co))
          in (i, co\<lparr>co_documents := co_documents co @
                    [\<lparr>dr_id = i, dr_source_path = path, dr_title = path, dr_tags = [], dr_access_tier = lit ''public'',
                      dr_content_hash = sd_hexdigest env path\<rparr>]\<rparr>))"

text \<open>\<open>INSERT ... ON CONFLICT (document_id, ord) DO UPDATE SET text\<close>, with the ordinal zero.\<close>

definition upsert_chunk :: "seed_env \<Rightarrow> pystr \<Rightarrow> pystr \<Rightarrow> vec \<Rightarrow> corpus \<Rightarrow> corpus" where
  "upsert_chunk env doc_id chunk_text embedding co =
     (if (doc_id, 0) \<in> set (map (\<lambda>c. (cr_document_id c, cr_ord c)) (co_chunks co))
      then co\<lparr>co_chunks := map (\<lambda>c. if cr_document_id c = doc_id \<and> cr_ord c = 0 then c\<lparr>cr_text := chunk_text\<rparr> else c) (co_chunks co)\<rparr>
      else co\<lparr>co_chunks := co_chunks co @
              [\<lparr>cr_id = sd_fresh env (map cr_id (co_chunks co)), cr_document_id = doc_id, cr_ord = 0, cr_text = chunk_text, cr_embedding = embedding\<rparr>]\<rparr>)"

definition seed_one :: "seed_env \<Rightarrow> pystr \<times> pystr \<times> vec \<Rightarrow> corpus \<Rightarrow> corpus" where
  "seed_one env item co =
     (case item of (path, chunk_text, embedding) \<Rightarrow>
        (case upsert_document env path co of (doc_id, co1) \<Rightarrow> upsert_chunk env doc_id chunk_text embedding co1))"

text \<open>One transaction: \<open>fault\<close> is what a statement or the commit raises, and the tables are then rolled back.\<close>

definition insert_seed :: "seed_env \<Rightarrow> db_exn option \<Rightarrow> seed \<Rightarrow> corpus \<Rightarrow> db_exn option \<times> corpus" where
  "insert_seed env fault sd co = (case fault of Some e \<Rightarrow> (Some e, co) | None \<Rightarrow> (None, fold (seed_one env) sd co))"

definition seed_main :: "seed_env \<Rightarrow> db_exn option \<Rightarrow> pystr option \<Rightarrow> bool \<Rightarrow> fixture_entry list \<Rightarrow> corpus \<Rightarrow> db_exn option \<times> corpus" where
  "seed_main env fault database_url has_psycopg2 entries co =
     (case database_url of
        None \<Rightarrow> (None, co)
      | Some url \<Rightarrow>
          let sd = collect_seed_data env entries
          in if url = [] \<or> sd = [] \<or> \<not> has_psycopg2 then (None, co) else insert_seed env fault sd co)"

section \<open>Lemmas\<close>

lemma length_hash_embedding: "length (hash_embedding env p) = EMBEDDING_DIM"
  by (simp add: hash_embedding_def Let_def)

definition seed_ok :: "seed \<Rightarrow> bool" where
  "seed_ok sd \<longleftrightarrow> distinct (map fst sd) \<and> (\<forall>x\<in>set sd. length (snd (snd x)) = EMBEDDING_DIM)"

lemma add_context_ok: "seed_ok sd \<Longrightarrow> seed_ok (add_context env kws c sd)"
  by (auto simp: seed_ok_def add_context_def length_hash_embedding)

lemma add_context_keys: "fst ` set (add_context env kws c sd) = insert c (fst ` set sd)"
  by (simp add: add_context_def insert_absorb)

lemma add_contexts:
  "seed_ok sd \<Longrightarrow> seed_ok (fold (add_context env kws) ctxs sd) \<and> fst ` set (fold (add_context env kws) ctxs sd) = fst ` set sd \<union> set ctxs"
  by (induction ctxs arbitrary: sd) (simp_all add: add_context_ok add_context_keys)

lemma collect_from:
  "seed_ok sd \<Longrightarrow> seed_ok (fold (\<lambda>e. fold (add_context env (fx_keywords e)) (fx_contexts e)) es sd) \<and>
     fst ` set (fold (\<lambda>e. fold (add_context env (fx_keywords e)) (fx_contexts e)) es sd) = fst ` set sd \<union> (\<Union>e\<in>set es. set (fx_contexts e))"
  by (induction es arbitrary: sd) (simp_all add: add_contexts Un_assoc)

lemma collect_ok:
  "seed_ok (collect_seed_data env es)" "fst ` set (collect_seed_data env es) = (\<Union>e\<in>set es. set (fx_contexts e))"
  using collect_from[of "[]" env es] by (simp_all add: collect_seed_data_def seed_ok_def)

text \<open>The document of a path and its first chunk have the seeded title and text.\<close>

definition seeded :: "corpus \<Rightarrow> pystr \<Rightarrow> pystr \<Rightarrow> bool" where
  "seeded co p t \<longleftrightarrow> (\<exists>r\<in>set (co_documents co). dr_source_path r = p \<and> dr_title r = p \<and>
     (\<exists>c\<in>set (co_chunks co). cr_document_id c = dr_id r \<and> cr_ord c = 0 \<and> cr_text c = t))"

definition draws_fresh :: "seed_env \<Rightarrow> bool" where
  "draws_fresh env \<longleftrightarrow> (\<forall>used. sd_fresh env used \<notin> set used)"

text \<open>The two statements.\<close>

lemma upsert_document_spec:
  assumes "wf_corpus co" "draws_fresh env" "upsert_document env p co = (i, co1)"
  shows "wf_corpus co1" "co_chunks co1 = co_chunks co"
    "\<exists>r\<in>set (co_documents co1). dr_source_path r = p \<and> dr_title r = p \<and> dr_id r = i"
    "\<forall>r\<in>set (co_documents co). dr_source_path r \<noteq> p \<longrightarrow> r \<in> set (co_documents co1)"
proof -
  have "wf_corpus co1 \<and> co_chunks co1 = co_chunks co \<and>
    (\<exists>r\<in>set (co_documents co1). dr_source_path r = p \<and> dr_title r = p \<and> dr_id r = i) \<and>
    (\<forall>r\<in>set (co_documents co). dr_source_path r \<noteq> p \<longrightarrow> r \<in> set (co_documents co1))"
  proof (cases "List.find (\<lambda>r. dr_source_path r = p) (co_documents co)")
    case (Some row)
    let ?f = "\<lambda>r. if dr_source_path r = p then r\<lparr>dr_title := p\<rparr> else r"
    from Some assms(3) have co1: "i = dr_id row" "co1 = co\<lparr>co_documents := map ?f (co_documents co)\<rparr>" by (simp_all add: upsert_document_def)
    from Some have row: "row \<in> set (co_documents co)" "dr_source_path row = p" by (auto simp: find_Some_iff)
    have kept: "dr_id \<circ> ?f = dr_id" "dr_source_path \<circ> ?f = dr_source_path" "dr_access_tier \<circ> ?f = dr_access_tier" by (auto simp: fun_eq_iff)
    have img: "dr_id ` set (map ?f (co_documents co)) = dr_id ` set (co_documents co)"
      unfolding set_map image_comp kept(1) ..
    have tiers: "\<forall>r\<in>set (map ?f (co_documents co)). dr_access_tier r \<in> KNOWN_TIERS" using assms(1) by (auto simp: wf_corpus_def)
    have "wf_corpus co1" unfolding co1(2) wf_corpus_def using assms(1) img tiers by (simp add: wf_corpus_def kept)
    moreover have "?f row \<in> set (co_documents co1)" unfolding co1(2) using row(1) by simp
    moreover have "dr_source_path (?f row) = p \<and> dr_title (?f row) = p \<and> dr_id (?f row) = i" using row(2) co1(1) by simp
    moreover have "\<forall>r\<in>set (co_documents co). dr_source_path r \<noteq> p \<longrightarrow> r \<in> set (co_documents co1)"
    proof (intro ballI impI)
      fix r assume r: "r \<in> set (co_documents co)" "dr_source_path r \<noteq> p"
      then have "?f r \<in> set (co_documents co1)" unfolding co1(2) by simp
      with r(2) show "r \<in> set (co_documents co1)" by simp
    qed
    moreover have "co_chunks co1 = co_chunks co" by (simp add: co1(2))
    ultimately show ?thesis by blast
  next
    case None
    let ?new = "\<lparr>dr_id = i, dr_source_path = p, dr_title = p, dr_tags = [], dr_access_tier = lit ''public'', dr_content_hash = sd_hexdigest env p\<rparr>"
    from None assms(3) have co1: "i = sd_fresh env (map dr_id (co_documents co))" "co1 = co\<lparr>co_documents := co_documents co @ [?new]\<rparr>"
      by (auto simp: upsert_document_def Let_def)
    have "i \<notin> set (map dr_id (co_documents co))" using assms(2) unfolding co1(1) draws_fresh_def by blast
    moreover have "p \<notin> dr_source_path ` set (co_documents co)" using None by (auto simp: find_None_iff)
    ultimately have "wf_corpus co1" using assms(1) by (auto simp: co1(2) wf_corpus_def KNOWN_TIERS_def)
    then show ?thesis by (simp add: co1(2))
  qed
  then show "wf_corpus co1" "co_chunks co1 = co_chunks co"
    "\<exists>r\<in>set (co_documents co1). dr_source_path r = p \<and> dr_title r = p \<and> dr_id r = i"
    "\<forall>r\<in>set (co_documents co). dr_source_path r \<noteq> p \<longrightarrow> r \<in> set (co_documents co1)" by blast+
qed

lemma upsert_chunk_spec:
  assumes "wf_corpus co" "draws_fresh env" "length e = EMBEDDING_DIM" "i \<in> dr_id ` set (co_documents co)" "co1 = upsert_chunk env i t e co"
  shows "wf_corpus co1" "co_documents co1 = co_documents co"
    "\<exists>c\<in>set (co_chunks co1). cr_document_id c = i \<and> cr_ord c = 0 \<and> cr_text c = t"
    "\<forall>c\<in>set (co_chunks co). cr_document_id c \<noteq> i \<longrightarrow> c \<in> set (co_chunks co1)"
proof -
  have docs: "co_documents co1 = co_documents co" by (simp add: assms(5) upsert_chunk_def)
  have "wf_corpus co1 \<and> (\<exists>c\<in>set (co_chunks co1). cr_document_id c = i \<and> cr_ord c = 0 \<and> cr_text c = t) \<and>
    (\<forall>c\<in>set (co_chunks co). cr_document_id c \<noteq> i \<longrightarrow> c \<in> set (co_chunks co1))"
  proof (cases "(i, 0) \<in> set (map (\<lambda>c. (cr_document_id c, cr_ord c)) (co_chunks co))")
    case True
    let ?f = "\<lambda>c. if cr_document_id c = i \<and> cr_ord c = 0 then c\<lparr>cr_text := t\<rparr> else c"
    have co1: "co1 = co\<lparr>co_chunks := map ?f (co_chunks co)\<rparr>" unfolding assms(5) upsert_chunk_def using True by (simp only: if_True)
    from True obtain c where c: "c \<in> set (co_chunks co)" "cr_document_id c = i" "cr_ord c = 0" by auto
    have kept: "cr_id \<circ> ?f = cr_id" "(\<lambda>c. (cr_document_id c, cr_ord c)) \<circ> ?f = (\<lambda>c. (cr_document_id c, cr_ord c))" by (auto simp: fun_eq_iff)
    have refs: "\<forall>c\<in>set (map ?f (co_chunks co)). cr_document_id c \<in> dr_id ` set (co_documents co) \<and> length (cr_embedding c) = EMBEDDING_DIM"
      using assms(1) by (auto simp: wf_corpus_def)
    have "wf_corpus co1" unfolding co1 wf_corpus_def using assms(1) refs by (simp add: wf_corpus_def kept)
    moreover have "?f c \<in> set (co_chunks co1)" unfolding co1 using c(1) by simp
    then have "\<exists>c\<in>set (co_chunks co1). cr_document_id c = i \<and> cr_ord c = 0 \<and> cr_text c = t" using c(2,3) by (intro bexI[of _ "?f c"]) simp_all
    moreover have "\<forall>c\<in>set (co_chunks co). cr_document_id c \<noteq> i \<longrightarrow> c \<in> set (co_chunks co1)"
    proof (intro ballI impI)
      fix c assume r: "c \<in> set (co_chunks co)" "cr_document_id c \<noteq> i"
      then have "?f c \<in> set (co_chunks co1)" unfolding co1 by simp
      with r(2) show "c \<in> set (co_chunks co1)" by simp
    qed
    ultimately show ?thesis by blast
  next
    case False
    let ?new = "\<lparr>cr_id = sd_fresh env (map cr_id (co_chunks co)), cr_document_id = i, cr_ord = 0, cr_text = t, cr_embedding = e\<rparr>"
    have co1: "co1 = co\<lparr>co_chunks := co_chunks co @ [?new]\<rparr>" unfolding assms(5) upsert_chunk_def using False by (simp only: if_False)
    have "cr_id ?new \<notin> set (map cr_id (co_chunks co))" using assms(2) by (simp add: draws_fresh_def del: set_map)
    with False assms(1,3,4) have "wf_corpus co1" by (auto simp: co1 wf_corpus_def)
    then show ?thesis by (simp add: co1)
  qed
  with docs show "wf_corpus co1" "co_documents co1 = co_documents co"
    "\<exists>c\<in>set (co_chunks co1). cr_document_id c = i \<and> cr_ord c = 0 \<and> cr_text c = t"
    "\<forall>c\<in>set (co_chunks co). cr_document_id c \<noteq> i \<longrightarrow> c \<in> set (co_chunks co1)" by blast+
qed

lemma same_key: "distinct (map f xs) \<Longrightarrow> x \<in> set xs \<Longrightarrow> y \<in> set xs \<Longrightarrow> f x = f y \<Longrightarrow> x = y"
  by (simp add: distinct_map inj_on_def)

lemma seed_one_spec:
  assumes "wf_corpus co" "draws_fresh env" "length e = EMBEDDING_DIM"
  shows "wf_corpus (seed_one env (p, t, e) co)" "seeded (seed_one env (p, t, e) co) p t"
    "q \<noteq> p \<Longrightarrow> seeded co q u \<Longrightarrow> seeded (seed_one env (p, t, e) co) q u"
proof -
  obtain i co1 where up: "upsert_document env p co = (i, co1)" by fastforce
  let ?co2 = "upsert_chunk env i t e co1"
  have one: "seed_one env (p, t, e) co = ?co2" by (simp add: seed_one_def up)
  note doc = upsert_document_spec[OF assms(1,2) up]
  from doc(3) obtain r where r: "r \<in> set (co_documents co1)" "dr_source_path r = p" "dr_title r = p" "dr_id r = i" by blast
  then have "i \<in> dr_id ` set (co_documents co1)" by blast
  note chunk = upsert_chunk_spec[OF doc(1) assms(2,3) this refl]
  show "wf_corpus (seed_one env (p, t, e) co)" unfolding one by (rule chunk(1))
  show "seeded (seed_one env (p, t, e) co) p t" unfolding one seeded_def chunk(2) using r chunk(3)[of t] by blast
  show "seeded (seed_one env (p, t, e) co) q u" if "q \<noteq> p" "seeded co q u"
  proof -
    from that(2) obtain r' c where r': "r' \<in> set (co_documents co)" "dr_source_path r' = q" "dr_title r' = q"
      and c: "c \<in> set (co_chunks co)" "cr_document_id c = dr_id r'" "cr_ord c = 0" "cr_text c = u" by (auto simp: seeded_def)
    have in1: "r' \<in> set (co_documents co1)" using doc(4) r' that(1) by blast
    have "dr_id r' \<noteq> i"
    proof
      assume "dr_id r' = i"
      with r(4) have "dr_id r' = dr_id r" by simp
      with same_key[of dr_id "co_documents co1" r' r] doc(1) in1 r(1) have "r' = r" by (simp add: wf_corpus_def)
      with r' r that(1) show False by simp
    qed
    with chunk(4) c doc(2) have "c \<in> set (co_chunks ?co2)" by simp
    with in1 r' c show ?thesis unfolding one seeded_def chunk(2) by blast
  qed
qed

lemma seed_one_again:
  assumes "wf_corpus co" "seeded co p t"
  shows "seed_one env (p, t, e) co = co"
proof -
  from assms(2) obtain r c where r: "r \<in> set (co_documents co)" "dr_source_path r = p" "dr_title r = p"
    and c: "c \<in> set (co_chunks co)" "cr_document_id c = dr_id r" "cr_ord c = 0" "cr_text c = t" by (auto simp: seeded_def)
  have "List.find (\<lambda>x. dr_source_path x = p) (co_documents co) = Some r"
    using find_by_key[of dr_source_path "co_documents co" r] assms(1) r by (simp add: wf_corpus_def)
  moreover have "map (\<lambda>x. if dr_source_path x = p then x\<lparr>dr_title := p\<rparr> else x) (co_documents co) = co_documents co"
  proof (rule map_idI)
    fix x assume "x \<in> set (co_documents co)"
    with same_key[of dr_source_path "co_documents co" x r] assms(1) r have "dr_source_path x = p \<Longrightarrow> x = r" by (simp add: wf_corpus_def)
    with r(3) show "(if dr_source_path x = p then x\<lparr>dr_title := p\<rparr> else x) = x" by auto
  qed
  ultimately have doc: "upsert_document env p co = (dr_id r, co)" by (simp add: upsert_document_def)
  have "map (\<lambda>x. if cr_document_id x = dr_id r \<and> cr_ord x = 0 then x\<lparr>cr_text := t\<rparr> else x) (co_chunks co) = co_chunks co"
  proof (rule map_idI)
    fix x assume "x \<in> set (co_chunks co)"
    with same_key[of "\<lambda>c. (cr_document_id c, cr_ord c)" "co_chunks co" x c] assms(1) c
    have "cr_document_id x = dr_id r \<and> cr_ord x = 0 \<Longrightarrow> x = c" by (simp add: wf_corpus_def)
    with c(4) show "(if cr_document_id x = dr_id r \<and> cr_ord x = 0 then x\<lparr>cr_text := t\<rparr> else x) = x" by auto
  qed
  moreover have "(dr_id r, 0) \<in> set (map (\<lambda>c. (cr_document_id c, cr_ord c)) (co_chunks co))" using c(1-3) by force
  ultimately have "upsert_chunk env (dr_id r) t e co = co" unfolding upsert_chunk_def by simp
  with doc show ?thesis by (simp add: seed_one_def)
qed

lemma seed_fold:
  assumes "draws_fresh env" "wf_corpus co" "seed_ok sd" "\<forall>(q, u) \<in> Q. seeded co q u \<and> q \<notin> fst ` set sd"
  shows "wf_corpus (fold (seed_one env) sd co) \<and> (\<forall>(q, u) \<in> Q. seeded (fold (seed_one env) sd co) q u) \<and>
    (\<forall>(p, t, e) \<in> set sd. seeded (fold (seed_one env) sd co) p t)"
  using assms
proof (induction sd arbitrary: co Q)
  case (Cons x sd)
  obtain p t e where x: "x = (p, t, e)" by (cases x)
  have len: "length e = EMBEDDING_DIM" using Cons.prems(3) by (simp add: x seed_ok_def)
  have fresh: "p \<notin> fst ` set sd" using Cons.prems(3) by (auto simp: x seed_ok_def)
  note one = seed_one_spec[OF Cons.prems(2) Cons.prems(1) len]
  have ok: "seed_ok sd" using Cons.prems(3) by (simp add: seed_ok_def)
  have "\<forall>(q, u) \<in> insert (p, t) Q. seeded (seed_one env (p, t, e) co) q u \<and> q \<notin> fst ` set sd"
    using Cons.prems(4) one(2,3) fresh by (auto simp: x)
  from Cons.IH[OF Cons.prems(1) one(1) ok this] show ?case by (auto simp: x)
qed auto

lemma seed_fold_again:
  "wf_corpus co \<Longrightarrow> \<forall>(p, t, e) \<in> set sd. seeded co p t \<Longrightarrow> fold (seed_one env) sd co = co"
proof (induction sd)
  case (Cons x sd)
  then show ?case by (cases x) (auto simp: seed_one_again)
qed simp

section \<open>Properties\<close>

text \<open>Seeding the corpus is idempotent and complete: it keeps the tables well formed, gives every expected context of the fixture a document with
  its text as first chunk, and a second run changes nothing.\<close>

theorem seed_main_idempotent:
  assumes "draws_fresh env" and "wf_corpus co" and "seed_main env None (Some url) True entries co = (None, co')" and "url \<noteq> []"
  shows "wf_corpus co' \<and> (\<forall>e\<in>set entries. \<forall>p\<in>set (fx_contexts e). \<exists>t. seeded co' p t) \<and>
    seed_main env None (Some url) True entries co' = (None, co')"
proof -
  let ?sd = "collect_seed_data env entries"
  have co': "co' = fold (seed_one env) ?sd co" using assms(3,4) by (auto simp: seed_main_def insert_seed_def Let_def split: if_splits)
  note all = seed_fold[OF assms(1,2) collect_ok(1)[of env entries], of "{}", simplified, folded co']
  have again: "fold (seed_one env) ?sd co' = co'" using seed_fold_again[of co' ?sd env] all by blast
  have "\<exists>t. seeded co' p t" if "e \<in> set entries" "p \<in> set (fx_contexts e)" for e p
  proof -
    have "p \<in> fst ` set ?sd" unfolding collect_ok(2) using that by blast
    then obtain t v where "(p, t, v) \<in> set ?sd" by force
    with all show ?thesis by blast
  qed
  with all again assms(4) show ?thesis by (simp add: seed_main_def insert_seed_def Let_def)
qed

definition sample_seed_env :: seed_env where
  "sample_seed_env = \<lparr>sd_hash = (\<lambda>_. 0), sd_digest = (\<lambda>_. [0]), sd_hexdigest = id, sd_norm = (\<lambda>_. 0), sd_printed = id,
     sd_fresh = (\<lambda>used. replicate (Suc (sum_list (map length used))) 0)\<rparr>"

lemma sample_draws_fresh: "draws_fresh sample_seed_env"
proof -
  have "length u < Suc (sum_list (map length used))" if "u \<in> set used" for u :: pystr and used
    using member_le_sum_list[of "length u" "map length used"] that by simp
  then show ?thesis unfolding draws_fresh_def sample_seed_env_def by (force dest: arg_cong[of _ _ length])
qed

theorem seed_main_idempotent_witness:
  "\<exists>co'. seed_main sample_seed_env None (Some [1]) True [\<lparr>fx_contexts = [lit ''intro''], fx_keywords = []\<rparr>] \<lparr>co_documents = [], co_chunks = []\<rparr> = (None, co') \<and>
     (\<exists>t. seeded co' (lit ''intro'') t)"
proof -
  let ?es = "[\<lparr>fx_contexts = [lit ''intro''], fx_keywords = []\<rparr>]" and ?co = "\<lparr>co_documents = [], co_chunks = []\<rparr>"
  obtain co' where run: "seed_main sample_seed_env None (Some [1]) True ?es ?co = (None, co')"
    by (rule that[OF prod_eqI]) (simp_all add: seed_main_def insert_seed_def Let_def)
  have "wf_corpus ?co" by (simp add: wf_corpus_def)
  from seed_main_idempotent[OF sample_draws_fresh this run] run show ?thesis by auto
qed

end
