(* ===== verification/Startup.thy ===== *)
theory Startup
  imports Token_Provider Llm Embedder
begin

text \<open>
  \<open>workers/.../main.py\<close> and \<open>db.py\<close>: the life of the service.  The start-up opens resources in order and stops at the
  first exception that no handler takes; the shutdown releases them.  Settings, the pool library, the storage
  client and the constructors of the two model clients are inputs.
\<close>

section \<open>The connection pool\<close>

definition ASYNC_PREFIX :: pystr where
  "ASYNC_PREFIX = lit ''postgresql+asyncpg://''"

definition PG_PREFIX :: pystr where
  "PG_PREFIX = lit ''postgresql://''"

definition MAX_INACTIVE_CONNECTION_LIFETIME_SECS :: int where
  "MAX_INACTIVE_CONNECTION_LIFETIME_SECS = 45 * 60"

definition normalize_database_url :: "pystr \<Rightarrow> pystr" where
  "normalize_database_url url = (if py_startswith url ASYNC_PREFIX then PG_PREFIX @ drop (length ASYNC_PREFIX) url else url)"

record pool_args =
  pa_dsn :: pystr
  pa_min_size :: int
  pa_max_size :: int
  pa_password_callback :: bool
  pa_max_inactive :: "int option"

definition pool_args_of :: "pystr \<Rightarrow> bool \<Rightarrow> pool_args" where
  "pool_args_of database_url has_provider =
     \<lparr>pa_dsn = normalize_database_url database_url, pa_min_size = 1, pa_max_size = 2, pa_password_callback = has_provider,
      pa_max_inactive = (if has_provider then Some MAX_INACTIVE_CONNECTION_LIFETIME_SECS else None)\<rparr>"

datatype boot_exn =
    SettingsError
  | PoolToken token_exn
  | PoolPostgres
  | PoolTimeout
  | PoolNetwork
  | PoolNone
  | PoolOther
  | StorageError
  | EmbedderRaised
  | LlmConfigRaised llm_config_error
  | LlmClientRaised

text \<open>\<open>asyncpg.create_pool\<close> returns a pool (True), None (False) or raises.\<close>

definition create_pool :: "(pool_args \<Rightarrow> boot_exn + bool) \<Rightarrow> pystr \<Rightarrow> bool \<Rightarrow> boot_exn + unit" where
  "create_pool asyncpg database_url has_provider =
     (case asyncpg (pool_args_of database_url has_provider) of
        Inl e \<Rightarrow> Inl e
      | Inr created \<Rightarrow> if created then Inr () else Inl PoolNone)"

datatype reason_code = MetadataTokenFailed | CloudSqlAuthFailed | TimeoutReason | NetworkReason

definition token_reason_code :: "token_reason \<Rightarrow> reason_code" where
  "token_reason_code r = (case r of ReasonTimeout \<Rightarrow> TimeoutReason | ReasonNetwork \<Rightarrow> NetworkReason | ReasonMetadataFailed \<Rightarrow> MetadataTokenFailed)"

definition classify_pool_init_error :: "boot_exn \<Rightarrow> reason_code" where
  "classify_pool_init_error e =
     (case e of
        PoolToken (TokenFetchError r) \<Rightarrow> token_reason_code r
      | PoolPostgres \<Rightarrow> CloudSqlAuthFailed
      | PoolTimeout \<Rightarrow> TimeoutReason
      | PoolNetwork \<Rightarrow> NetworkReason
      | _ \<Rightarrow> CloudSqlAuthFailed)"

text \<open>Which exceptions of the pool are logged with their reason before they are raised again.\<close>

definition logged_at_boot :: "boot_exn \<Rightarrow> bool" where
  "logged_at_boot e \<longleftrightarrow> (\<exists>r. e = PoolToken (TokenFetchError r)) \<or> e \<in> {PoolPostgres, PoolTimeout, PoolNetwork}"

section \<open>Start-up and shutdown\<close>

datatype resource = TokenClient | DbPool | HttpClient

record boot_settings =
  bs_database_url :: pystr
  bs_cloud_sql_iam_auth :: bool

text \<open>What the constructor of a client raises; pydantic's validation errors are ValueErrors.\<close>

datatype client_exn = ClientValueError | ClientOSError | ClientOther

record boot_env =
  be_settings :: "boot_settings option"
  be_asyncpg :: "pool_args \<Rightarrow> boot_exn + bool"
  be_storage_ok :: bool
  be_environ :: "pystr \<Rightarrow> pystr option"
  be_embedder_client :: "embedder_kind \<Rightarrow> client_exn option"
  be_chat_model_ok :: bool

text \<open>ValueError and OSError are caught, an unknown provider among them.\<close>

definition start_embedder :: "boot_env \<Rightarrow> boot_exn + embedder_kind option" where
  "start_embedder env =
     (case build_embedder None (be_environ env (lit ''EMBEDDER_PROVIDER'')) of
        Inl e \<Rightarrow> if e = EmbedValueError then Inr None else Inl EmbedderRaised
      | Inr kind \<Rightarrow>
          (case be_embedder_client env kind of
             None \<Rightarrow> Inr (Some kind)
           | Some e \<Rightarrow> if e = ClientOther then Inl EmbedderRaised else Inr None))"

definition llm_client_from_env :: "boot_env \<Rightarrow> boot_exn + llm_config" where
  "llm_client_from_env env =
     (case llm_config_from_env (be_environ env) of
        Inl e \<Rightarrow> Inl (LlmConfigRaised e)
      | Inr config \<Rightarrow>
          (case build_chat_model config of
             Inl e \<Rightarrow> Inl (LlmConfigRaised e)
           | Inr _ \<Rightarrow> if be_chat_model_ok env then Inr config else Inl LlmClientRaised))"

record app_state =
  ap_token_provider :: bool
  ap_embedder :: "embedder_kind option"
  ap_llm :: llm_config

text \<open>Up to the \<open>yield\<close>: the application state or the exception, what is open then, and the reasons that were logged.\<close>

definition start_app :: "boot_env \<Rightarrow> (boot_exn + app_state) \<times> resource list \<times> reason_code list" where
  "start_app env =
     (case be_settings env of
        None \<Rightarrow> (Inl SettingsError, [], [])
      | Some st \<Rightarrow>
          let iam = bs_cloud_sql_iam_auth st; opened = (if iam then [TokenClient] else [])
          in case create_pool (be_asyncpg env) (bs_database_url st) iam of
               Inl e \<Rightarrow> (Inl e, opened, if logged_at_boot e then [classify_pool_init_error e] else [])
             | Inr _ \<Rightarrow>
                 if \<not> be_storage_ok env then (Inl StorageError, DbPool # opened, [])
                 else (case start_embedder env of
                         Inl e \<Rightarrow> (Inl e, DbPool # opened, [])
                       | Inr emb \<Rightarrow>
                           (case llm_client_from_env env of
                              Inl e \<Rightarrow> (Inl e, HttpClient # DbPool # opened, [])
                            | Inr config \<Rightarrow>
                                (Inr \<lparr>ap_token_provider = iam, ap_embedder = emb, ap_llm = config\<rparr>, HttpClient # DbPool # opened, []))))"

text \<open>The \<open>finally\<close> block: one close after the other, the first that raises ends it.\<close>

fun close_all :: "(resource \<Rightarrow> bool) \<Rightarrow> resource list \<Rightarrow> resource list \<Rightarrow> resource list" where
  "close_all close_ok [] opened = opened"
| "close_all close_ok (r # rs) opened = (if close_ok r then close_all close_ok rs (remove1 r opened) else opened)"

definition stop_app :: "(resource \<Rightarrow> bool) \<Rightarrow> app_state \<Rightarrow> resource list \<Rightarrow> resource list" where
  "stop_app close_ok app opened =
     close_all close_ok ([HttpClient, DbPool] @ (if ap_token_provider app then [TokenClient] else [])) opened"

section \<open>Properties\<close>

lemma normalize_idempotent: "normalize_database_url (normalize_database_url url) = normalize_database_url url"
proof (cases "py_startswith url ASYNC_PREFIX")
  case True
  then show ?thesis by (simp add: normalize_database_url_def py_startswith_def ASYNC_PREFIX_def PG_PREFIX_def lit_def)
qed (simp add: normalize_database_url_def)

text \<open>The service comes up exactly when the settings load, the pool and the storage client are there, the embedder raises nothing but a
  ValueError or an OSError, and the LLM configuration is complete; the embedder that is kept is the configured one, or none.\<close>

lemma start_app_up_iff:
  "(\<exists>app. fst (start_app env) = Inr app) \<longleftrightarrow>
     (\<exists>st. be_settings env = Some st \<and> be_asyncpg env (pool_args_of (bs_database_url st) (bs_cloud_sql_iam_auth st)) = Inr True) \<and>
     be_storage_ok env \<and> (\<exists>emb. start_embedder env = Inr emb) \<and> (\<exists>config. llm_config_from_env (be_environ env) = Inr config) \<and> be_chat_model_ok env"
proof -
  have chat: "build_chat_model config \<noteq> Inl e" if "llm_config_from_env (be_environ env) = Inr config" for config e
    using that by (auto simp: llm_config_from_env_def Let_def PROVIDERS_def build_chat_model_def split: if_splits)
  show ?thesis
    by (auto simp: start_app_def Let_def create_pool_def llm_client_from_env_def dest: chat split: option.splits sum.splits if_splits)
qed

text \<open>What is opened is released: after a start-up that succeeds, a shutdown whose closes do not raise leaves no resource open, and a
  failure to close the HTTP client is the only one that keeps the pool open.\<close>

theorem lifespan_releases:
  assumes "start_app env = (Inr app, opened, logged)"
  shows "((\<forall>r. close_ok r) \<longrightarrow> stop_app close_ok app opened = []) \<and>
    (DbPool \<in> set (stop_app close_ok app opened) \<longleftrightarrow> \<not> close_ok HttpClient \<or> \<not> close_ok DbPool)"
proof -
  have "opened = HttpClient # DbPool # (if ap_token_provider app then [TokenClient] else [])"
    using assms by (auto simp: start_app_def Let_def split: option.splits sum.splits if_splits)
  then show ?thesis by (auto simp: stop_app_def)
qed

definition sample_boot :: "string \<Rightarrow> boot_env" where
  "sample_boot emb =
     \<lparr>be_settings = Some \<lparr>bs_database_url = lit ''postgresql+asyncpg://db'', bs_cloud_sql_iam_auth = True\<rparr>, be_asyncpg = (\<lambda>_. Inr True), be_storage_ok = True,
      be_environ = (\<lambda>k. if k = lit ''EMBEDDER_PROVIDER'' then Some (lit emb) else Some (lit ''mistral'')),
      be_embedder_client = (\<lambda>_. None), be_chat_model_ok = True\<rparr>"

lemmas boot_eval = start_app_def sample_boot_def create_pool_def start_embedder_def build_embedder_def llm_client_from_env_def
  llm_config_from_env_def env_get_def PROVIDERS_def build_chat_model_def strip_by_def lstrip_by_def rstrip_by_def py_space_def Let_def

theorem lifespan_releases_witness:
  "\<exists>app opened. start_app (sample_boot ''mistral'') = (Inr app, opened, []) \<and> opened = [HttpClient, DbPool, TokenClient] \<and>
     stop_app (\<lambda>_. True) app opened = []"
proof -
  obtain app where up: "start_app (sample_boot ''mistral'') = (Inr app, [HttpClient, DbPool, TokenClient], [])"
    by (simp add: boot_eval lit_def)
  from lifespan_releases[OF up, of "\<lambda>_. True"] up show ?thesis by blast
qed

text \<open>An unknown embedder provider does not stop the start-up: the service runs without an embedder.\<close>

lemma unknown_embedder_boots:
  "\<exists>app opened. start_app (sample_boot ''bert'') = (Inr app, opened, []) \<and> ap_embedder app = None"
  by (simp add: boot_eval lit_def)

text \<open>When the LLM configuration is refused, what was opened before it stays open.\<close>

lemma refused_llm_leaks:
  assumes "be_settings env = Some st" "be_asyncpg env (pool_args_of (bs_database_url st) (bs_cloud_sql_iam_auth st)) = Inr True"
    "be_storage_ok env" "start_embedder env = Inr emb" "llm_config_from_env (be_environ env) = Inl e"
  shows "\<exists>opened. start_app env = (Inl (LlmConfigRaised e), opened, []) \<and> {HttpClient, DbPool} \<subseteq> set opened"
  using assms by (simp add: start_app_def Let_def create_pool_def llm_client_from_env_def)

end
