(* ===== verification/Gateway_Throttle.thy ===== *)
theory Gateway_Throttle
  imports Prelude
begin

text \<open>
  The login throttle of the gateway (\<^verbatim>\<open>gateway/src/auth/throttle.rs\<close>): the failure entry of an
  email, the three operations of \<^verbatim>\<open>ThrottleStore\<close>, and the refinement of the store by the list
  of the failures that each email has in its current window.

  The \<^verbatim>\<open>HashMap\<close> behind the mutex is a map; a poisoned lock is entered all the same, so each
  operation is one atomic step. An \<^verbatim>\<open>Instant\<close> is a rational number of seconds, read once per
  operation; \<^verbatim>\<open>elapsed\<close> saturates at zero. The SHA-256 key of an email is the parameter
  \<open>key\<close>. The 32-bit counter is a natural number: an entry starts again after fifteen minutes,
  and its handler counts no failure of a locked email.
\<close>

section \<open>Entries and operations\<close>

definition MAX_FAILURES :: nat where
  "MAX_FAILURES = 5"

definition WINDOW :: rat where
  "WINDOW = 15 * 60"

record failure_entry =
  fe_count :: nat
  fe_first_fail_at :: rat
  fe_fifth_fail_at :: "rat option"

type_synonym throttle_store = "pystr \<rightharpoonup> failure_entry"

definition elapsed :: "rat \<Rightarrow> rat \<Rightarrow> rat" where
  "elapsed now t = max 0 (now - t)"

definition is_throttled :: "(pystr \<Rightarrow> pystr) \<Rightarrow> rat \<Rightarrow> pystr \<Rightarrow> throttle_store \<Rightarrow> nat option \<times> throttle_store" where
  "is_throttled key now email m =
     (case m (key email) of
        None \<Rightarrow> (None, m)
      | Some entry \<Rightarrow>
          if elapsed now (fe_first_fail_at entry) > WINDOW then (None, m(key email := None))
          else (case fe_fifth_fail_at entry of
                  None \<Rightarrow> (None, m)
                | Some fifth \<Rightarrow>
                    if elapsed now fifth \<ge> WINDOW then (None, m(key email := None))
                    else if fe_count entry \<ge> MAX_FAILURES
                    then (Some (max 1 (nat \<lfloor>WINDOW - elapsed now fifth\<rfloor>)), m)
                    else (None, m)))"

definition fresh_entry :: "rat \<Rightarrow> failure_entry" where
  "fresh_entry now = \<lparr>fe_count = 0, fe_first_fail_at = now, fe_fifth_fail_at = None\<rparr>"

definition count_failure :: "rat \<Rightarrow> failure_entry \<Rightarrow> failure_entry" where
  "count_failure now entry0 =
     (let entry1 = (if elapsed now (fe_first_fail_at entry0) > WINDOW then fresh_entry now else entry0);
          entry2 = entry1\<lparr>fe_count := fe_count entry1 + 1\<rparr>
      in if fe_count entry2 = MAX_FAILURES then entry2\<lparr>fe_fifth_fail_at := Some now\<rparr> else entry2)"

definition record_failure :: "(pystr \<Rightarrow> pystr) \<Rightarrow> rat \<Rightarrow> pystr \<Rightarrow> throttle_store \<Rightarrow> throttle_store" where
  "record_failure key now email m =
     m(key email \<mapsto> count_failure now (case m (key email) of None \<Rightarrow> fresh_entry now | Some entry \<Rightarrow> entry))"

definition record_success :: "(pystr \<Rightarrow> pystr) \<Rightarrow> pystr \<Rightarrow> throttle_store \<Rightarrow> throttle_store" where
  "record_success key email m = m(key email := None)"


section \<open>Histories of a store\<close>

text \<open>
  What a run of the gateway does to the store is a sequence of events: a refused password, an
  accepted one, a check before a login.
\<close>

datatype throttle_event = Failed rat pystr | Succeeded pystr | Checked rat pystr

fun throttle_apply :: "(pystr \<Rightarrow> pystr) \<Rightarrow> throttle_event \<Rightarrow> throttle_store \<Rightarrow> throttle_store" where
  "throttle_apply key (Failed now email) m = record_failure key now email m"
| "throttle_apply key (Succeeded email) m = record_success key email m"
| "throttle_apply key (Checked now email) m = snd (is_throttled key now email m)"

text \<open>
  The specification keeps, for one email, the times of the failures of its current window, the
  oldest first.
\<close>

fun window_apply :: "throttle_event \<Rightarrow> rat list \<Rightarrow> rat list" where
  "window_apply (Failed now _) fs = (if fs \<noteq> [] \<and> elapsed now (hd fs) > WINDOW then [now] else fs @ [now])"
| "window_apply (Succeeded _) fs = []"
| "window_apply (Checked now _) fs =
     (if fs \<noteq> [] \<and> (elapsed now (hd fs) > WINDOW \<or> length fs \<ge> MAX_FAILURES \<and> elapsed now (fs ! 4) \<ge> WINDOW)
      then [] else fs)"

fun event_email :: "throttle_event \<Rightarrow> pystr" where
  "event_email (Failed _ email) = email"
| "event_email (Succeeded email) = email"
| "event_email (Checked _ email) = email"

definition window_failures :: "(pystr \<Rightarrow> pystr) \<Rightarrow> pystr \<Rightarrow> throttle_event list \<Rightarrow> rat list" where
  "window_failures key email evs =
     fold window_apply (filter (\<lambda>e. key (event_email e) = key email) evs) []"

definition lock_remaining :: "rat \<Rightarrow> rat list \<Rightarrow> nat option" where
  "lock_remaining now fs =
     (if length fs \<ge> MAX_FAILURES \<and> elapsed now (hd fs) \<le> WINDOW \<and> elapsed now (fs ! 4) < WINDOW
      then Some (max 1 (nat \<lfloor>WINDOW - elapsed now (fs ! 4)\<rfloor>)) else None)"

definition window_entry :: "rat list \<Rightarrow> failure_entry option" where
  "window_entry fs =
     (if fs = [] then None
      else Some \<lparr>fe_count = length fs, fe_first_fail_at = hd fs,
                 fe_fifth_fail_at = (if length fs \<ge> MAX_FAILURES then Some (fs ! 4) else None)\<rparr>)"


section \<open>The store implements the window\<close>

lemma elapsed_self [simp]: "elapsed t t = 0"
  by (simp add: elapsed_def)

lemma window_pos [simp]: "0 < WINDOW" "0 \<le> WINDOW" "\<not> WINDOW < 0"
  by (simp_all add: WINDOW_def)

lemma window_entry_eq_None [simp]: "window_entry fs = None \<longleftrightarrow> fs = []"
  by (simp add: window_entry_def)

lemma window_entry_Nil [simp]: "window_entry [] = None"
  by (simp add: window_entry_def)

lemma count_failure_entry:
  "Some (count_failure now (case window_entry fs of None \<Rightarrow> fresh_entry now | Some e \<Rightarrow> e)) =
   window_entry (window_apply (Failed now email) fs)"
  by (auto simp: window_entry_def count_failure_def fresh_entry_def Let_def MAX_FAILURES_def nth_append)

lemma is_throttled_entry:
  assumes "m (key email) = window_entry fs"
  shows "fst (is_throttled key now email m) = lock_remaining now fs"
    and "snd (is_throttled key now email m) = m(key email := window_entry (window_apply (Checked now email) fs))"
  using assms by (auto simp: is_throttled_def lock_remaining_def window_entry_def MAX_FAILURES_def fun_eq_iff not_less)

lemma throttle_apply_own:
  assumes "key (event_email e) = k" "m k = window_entry fs"
  shows "throttle_apply key e m k = window_entry (window_apply e fs)"
  using assms
  by (cases e) (auto simp: record_failure_def record_success_def is_throttled_entry(2)
    count_failure_entry simp del: window_apply.simps(1,3))

lemma throttle_apply_other:
  "key (event_email e) \<noteq> k \<Longrightarrow> throttle_apply key e m k = m k"
  by (cases e) (auto simp: record_failure_def record_success_def is_throttled_def split: option.splits)

lemma throttle_run_window:
  "m (key email) = window_entry fs \<Longrightarrow>
   fold (throttle_apply key) evs m (key email) =
   window_entry (fold window_apply (filter (\<lambda>e. key (event_email e) = key email) evs) fs)"
  by (induct evs arbitrary: m fs) (simp_all add: throttle_apply_own throttle_apply_other)


text \<open>
  What a check answers at one time, in the terms of the clock: a lock needs five failures in the
  window, and it lasts while the first of them is at most fifteen minutes old and the fifth less.
\<close>

lemma lock_remaining_bounds:
  assumes "lock_remaining now fs = Some r"
  shows "1 \<le> r" "of_nat r \<le> WINDOW"
proof -
  let ?w = "nat \<lfloor>WINDOW - elapsed now (fs ! 4)\<rfloor>"
  have r: "r = max 1 ?w"
    using assms by (simp add: lock_remaining_def split: if_splits)
  show "1 \<le> r"
    unfolding r by simp
  have "\<lfloor>WINDOW - elapsed now (fs ! 4)\<rfloor> \<le> \<lfloor>WINDOW\<rfloor>"
    by (rule floor_mono) (simp add: elapsed_def)
  also have "\<lfloor>WINDOW\<rfloor> = 900"
    by (simp add: WINDOW_def)
  finally have "?w \<le> 900"
    by linarith
  then have "r \<le> 900"
    unfolding r by simp
  then have "of_nat r \<le> (of_nat 900 :: rat)"
    by (simp only: of_nat_le_iff)
  then show "of_nat r \<le> WINDOW"
    by (simp add: WINDOW_def)
qed

lemma lock_remaining_fresh:
  assumes "\<forall>f\<in>set fs. elapsed now f < WINDOW"
  shows "lock_remaining now fs = None \<longleftrightarrow> length fs < 5"
proof (cases "length fs < 5")
  case False
  then have "fs \<noteq> []" and fifth: "fs ! 4 \<in> set fs"
    by (auto intro!: nth_mem)
  with hd_in_set[OF this(1)] assms False show ?thesis
    by (auto simp: lock_remaining_def MAX_FAILURES_def less_imp_le)
qed (simp add: lock_remaining_def MAX_FAILURES_def)

lemma window_apply_fresh:
  assumes "\<forall>f\<in>set fs. elapsed now f < WINDOW"
  shows "window_apply (Checked now email) fs = fs" "window_apply (Failed now email) fs = fs @ [now]"
proof -
  have "\<not> elapsed now (hd fs) > WINDOW" if "fs \<noteq> []"
    using assms hd_in_set[OF that] by force
  moreover have "\<not> elapsed now (fs ! 4) \<ge> WINDOW" if "length fs \<ge> 5"
  proof -
    have "fs ! 4 \<in> set fs"
      using that by (intro nth_mem) simp
    with assms show ?thesis by force
  qed
  ultimately show "window_apply (Checked now email) fs = fs" "window_apply (Failed now email) fs = fs @ [now]"
    by (auto simp: MAX_FAILURES_def)
qed

lemma five_failures_window:
  assumes "t1 \<le> t2" "t2 \<le> t3" "t3 \<le> t4" "t4 \<le> t5" "t5 \<le> t1 + WINDOW"
  shows "window_failures key email (map (\<lambda>t. Failed t email) [t1, t2, t3, t4, t5]) = [t1, t2, t3, t4, t5]"
  using assms by (simp add: window_failures_def elapsed_def)


section \<open>Properties\<close>


text \<open>
  The documentation of the store keeps an email locked until fifteen minutes after its fifth
  failure. The check forgets the entry as soon as the \<^emph>\<open>first\<close> failure is older than fifteen
  minutes, so the lock ends before that whenever the five failures are spread over time.
\<close>

lemma lock_ends_with_first_failure:
  assumes "t1 \<le> t2" "t2 \<le> t3" "t3 \<le> t4" "t4 \<le> t5" "t5 \<le> t1 + WINDOW" "t1 + WINDOW < now"
  shows "is_throttled key now email
           (fold (throttle_apply key) (map (\<lambda>t. Failed t email) [t1, t2, t3, t4, t5]) Map.empty) =
         (None, Map.empty)"
proof -
  let ?evs = "map (\<lambda>t. Failed t email) [t1, t2, t3, t4, t5]"
  let ?m = "fold (throttle_apply key) ?evs Map.empty"
  have "?m (key email) = window_entry (window_failures key email ?evs)"
    unfolding window_failures_def by (rule throttle_run_window) simp
  then have own: "?m (key email) = window_entry [t1, t2, t3, t4, t5]"
    by (simp only: five_failures_window[OF assms(1-5)])
  have other: "?m k = None" if "k \<noteq> key email" for k
    using that by (simp add: record_failure_def)
  have "elapsed now t1 > WINDOW"
    using assms(6) by (simp add: elapsed_def)
  then show ?thesis
    using is_throttled_entry[of ?m key email "[t1, t2, t3, t4, t5]" now, OF own] other
    by (auto simp: lock_remaining_def prod_eq_iff fun_eq_iff simp del: fold.simps list.map)
qed

lemma lock_cut_short:
  "fst (is_throttled id 901 (lit ''a@b.c'')
         (fold (throttle_apply id) (map (\<lambda>t. Failed t (lit ''a@b.c'')) [0, 896, 897, 898, 899]) Map.empty)) = None"
  using lock_ends_with_first_failure[of 0 896 897 898 899 901 id "lit ''a@b.c''"]
  by (simp add: WINDOW_def del: fold.simps list.map)

end
