(* ===== verification/Gateway_Auth.thy ===== *)
theory Gateway_Auth
  imports Gateway_Throttle
begin

text \<open>
  Authentication in the gateway (\<^verbatim>\<open>gateway/src/auth\<close>, \<^verbatim>\<open>gateway/src/routes/auth.rs\<close>,
  \<^verbatim>\<open>gateway/src/routes/me.rs\<close> and the identity middleware of \<^verbatim>\<open>gateway/src/lib.rs\<close>): session
  rows, user rows, JSON web tokens, the two ways a request is authenticated and the anonymous
  identity. The routes that change accounts and sessions are in \<open>Gateway_Login\<close>.

  The state is the two tables and the throttle store. The crates the gateway calls are fields of
  \<open>gateway_env\<close>: Unicode normalisation and lower case, SHA-256, argon2, \<^verbatim>\<open>jsonwebtoken\<close>, the
  textual form of a UUID, UUID version 5, and \<^verbatim>\<open>LOWER\<close> of the database. What differs from request
  to request (the clocks, the random UUID, token and salt, the statements the database fails) is a
  \<open>gw_call\<close>; a login reads the monotonic clock when it checks the throttle and again when it records a
  failure, after the password hash.
  A UUID is its 128-bit number. Log lines, failure counters and latencies are left out, and so is
  the dummy password hash, which is run for its duration only.
\<close>

section \<open>Data\<close>

type_synonym uuid = nat

datatype user_tier = Anonymous | Member | Author

fun as_str :: "user_tier \<Rightarrow> pystr" where
  "as_str Anonymous = lit ''anonymous''"
| "as_str Member = lit ''member''"
| "as_str Author = lit ''author''"

definition from_claim :: "pystr \<Rightarrow> user_tier option" where
  "from_claim s =
     (if s = lit ''member'' then Some Member else if s = lit ''author'' then Some Author else None)"

record claims =
  cl_sub :: pystr
  cl_tier :: pystr
  cl_sid :: pystr
  cl_iat :: int
  cl_exp :: int
  cl_iss :: pystr
  cl_aud :: pystr

text \<open>The settings the code hands to the decoder of \<^verbatim>\<open>jsonwebtoken\<close>.\<close>

datatype algorithm = EdDSA | OtherAlg

record validation =
  va_alg :: algorithm
  va_issuer :: "pystr list"
  va_audience :: "pystr list"
  va_leeway :: int
  va_validate_exp :: bool

record user_row =
  ur_id :: uuid
  ur_email :: "pystr option"
  ur_password_hash :: "pystr option"
  ur_tier :: pystr

record session_row =
  sn_id :: uuid
  sn_user_id :: uuid
  sn_token_hash :: pystr
  sn_expires_at :: rat
  sn_revoked_at :: "rat option"

record gateway_state =
  ap_users :: "user_row list"
  ap_sessions :: "session_row list"
  ap_throttle :: throttle_store

record gateway_env =
  ge_nfkc :: "pystr \<Rightarrow> pystr"
  ge_lowercase :: "pystr \<Rightarrow> pystr"
  ge_sql_lower :: "pystr \<Rightarrow> pystr"
  ge_email_key :: "pystr \<Rightarrow> pystr"
  ge_hash_password :: "pystr \<Rightarrow> pystr \<Rightarrow> pystr option"
  ge_verify_password :: "pystr \<Rightarrow> pystr \<Rightarrow> bool option"
  ge_decode_header :: "pystr \<Rightarrow> algorithm option"
  ge_decode :: "validation \<Rightarrow> rat \<Rightarrow> pystr \<Rightarrow> claims option"
  ge_encode :: "algorithm \<Rightarrow> pystr \<Rightarrow> claims \<Rightarrow> pystr option"
  ge_parse_uuid :: "pystr \<Rightarrow> uuid option"
  ge_uuid_str :: "uuid \<Rightarrow> pystr"
  ge_uuid5 :: "uuid \<Rightarrow> uuid \<Rightarrow> uuid"
  ge_jwt_kid :: pystr
  ge_public_key_ok :: bool
  ge_private_key_ok :: bool
  ge_db_pool :: bool
  ge_user_lookup :: bool
  ge_session_creator :: bool
  ge_session_revoker :: bool

record gw_call =
  gc_now :: rat
  gc_instant :: rat
  gc_fail_instant :: rat
  gc_salt :: pystr
  gc_uuid :: uuid
  gc_raw_token :: pystr
  gc_lookup_ok :: bool
  gc_insert_user_ok :: bool
  gc_insert_session_ok :: bool
  gc_check_ok :: bool
  gc_revoke_ok :: bool


section \<open>User rows\<close>

definition email_is_taken :: "gateway_env \<Rightarrow> gw_call \<Rightarrow> pystr \<Rightarrow> gateway_state \<Rightarrow> bool option" where
  "email_is_taken env call email st =
     (if gc_lookup_ok call
      then Some (list_ex (\<lambda>u. map_option (ge_sql_lower env) (ur_email u) = Some (ge_sql_lower env email)) (ap_users st))
      else None)"

definition member_row :: "gateway_env \<Rightarrow> pystr \<Rightarrow> user_row list \<Rightarrow> user_row option" where
  "member_row env email users =
     find (\<lambda>u. map_option (ge_sql_lower env) (ur_email u) = Some (ge_sql_lower env email) \<and>
               ur_tier u \<noteq> lit ''anonymous'') users"

definition find_member :: "gateway_env \<Rightarrow> gw_call \<Rightarrow> pystr \<Rightarrow> gateway_state \<Rightarrow> (uuid \<times> pystr \<times> pystr) option option" where
  "find_member env call email st =
     (if gc_lookup_ok call
      then Some (case member_row env email (ap_users st) of
                   None \<Rightarrow> None
                 | Some u \<Rightarrow> map_option (\<lambda>h. (ur_id u, h, ur_tier u)) (ur_password_hash u))
      else None)"

definition new_member :: "uuid \<Rightarrow> pystr \<Rightarrow> pystr \<Rightarrow> user_row" where
  "new_member user_id email password_hash =
     \<lparr>ur_id = user_id, ur_email = Some email, ur_password_hash = Some password_hash, ur_tier = lit ''member''\<rparr>"

text \<open>The insertion fails when the database does, and on the primary key and the unique index over the lower-case email.\<close>

definition create_member :: "gateway_env \<Rightarrow> gw_call \<Rightarrow> pystr \<Rightarrow> pystr \<Rightarrow> gateway_state \<Rightarrow> uuid option \<times> gateway_state" where
  "create_member env call email password_hash st =
     (let user_id = gc_uuid call;
          clash = list_ex (\<lambda>u. ur_id u = user_id \<or>
                    map_option (ge_sql_lower env) (ur_email u) = Some (ge_sql_lower env email)) (ap_users st)
      in if gc_insert_user_ok call \<and> \<not> clash
         then (Some user_id, st\<lparr>ap_users := ap_users st @
                [new_member user_id email password_hash]\<rparr>)
         else (None, st))"

definition find_email_by_id :: "gw_call \<Rightarrow> uuid \<Rightarrow> gateway_state \<Rightarrow> pystr option option" where
  "find_email_by_id call user_id st =
     (if gc_lookup_ok call
      then (case find (\<lambda>u. ur_id u = user_id) (ap_users st) of
              None \<Rightarrow> Some None
            | Some u \<Rightarrow> (case ur_email u of None \<Rightarrow> None | Some email \<Rightarrow> Some (Some email)))
      else None)"


section \<open>Session rows\<close>

datatype session_error = Revoked | Unavailable

definition SESSION_TTL_SECS :: rat where
  "SESSION_TTL_SECS = 7 * 24 * 60 * 60"

text \<open>The insertion fails when the database does, on the primary key and on the foreign key to the user.\<close>

definition create_session :: "gateway_env \<Rightarrow> gw_call \<Rightarrow> uuid \<Rightarrow> gateway_state \<Rightarrow> (session_error + uuid \<times> pystr) \<times> gateway_state" where
  "create_session env call user_id st =
     (case ge_hash_password env (gc_salt call) (gc_raw_token call) of
        None \<Rightarrow> (Inl Unavailable, st)
      | Some token_hash \<Rightarrow>
          let sid = gc_uuid call;
              row = \<lparr>sn_id = sid, sn_user_id = user_id, sn_token_hash = token_hash,
                     sn_expires_at = gc_now call + SESSION_TTL_SECS, sn_revoked_at = None\<rparr>
          in if gc_insert_session_ok call \<and> \<not> list_ex (\<lambda>r. sn_id r = sid) (ap_sessions st)
                \<and> list_ex (\<lambda>u. ur_id u = user_id) (ap_users st)
             then (Inr (sid, gc_raw_token call), st\<lparr>ap_sessions := ap_sessions st @ [row]\<rparr>)
             else (Inl Unavailable, st))"

definition revoke_row :: "uuid \<Rightarrow> rat \<Rightarrow> session_row \<Rightarrow> session_row" where
  "revoke_row sid t r = (if sn_id r = sid then r\<lparr>sn_revoked_at := Some t\<rparr> else r)"

definition revoke :: "gw_call \<Rightarrow> uuid \<Rightarrow> gateway_state \<Rightarrow> (session_error + unit) \<times> gateway_state" where
  "revoke call sid st =
     (if gc_revoke_ok call
      then (Inr (), st\<lparr>ap_sessions :=
             map (revoke_row sid (gc_now call)) (ap_sessions st)\<rparr>)
      else (Inl Unavailable, st))"

definition check_session :: "gw_call \<Rightarrow> uuid \<Rightarrow> gateway_state \<Rightarrow> session_error + unit" where
  "check_session call sid st =
     (if \<not> gc_check_ok call then Inl Unavailable
      else (case find (\<lambda>r. sn_id r = sid) (ap_sessions st) of
              None \<Rightarrow> Inl Revoked
            | Some r \<Rightarrow> if sn_revoked_at r \<noteq> None \<or> sn_expires_at r < gc_now call then Inl Revoked else Inr ()))"


section \<open>JSON web tokens\<close>

definition JWT_ISSUER_AUDIENCE :: pystr where
  "JWT_ISSUER_AUDIENCE = lit ''archiviste-gateway''"

definition JWT_TTL_SECS :: int where
  "JWT_TTL_SECS = 7 * 24 * 60 * 60"

definition gateway_validation :: validation where
  "gateway_validation = \<lparr>va_alg = EdDSA, va_issuer = [JWT_ISSUER_AUDIENCE], va_audience = [JWT_ISSUER_AUDIENCE],
     va_leeway = 60, va_validate_exp = True\<rparr>"

definition jwt_verify :: "gateway_env \<Rightarrow> gw_call \<Rightarrow> pystr \<Rightarrow> claims option" where
  "jwt_verify env call token =
     (if length (split_on 46 token) \<noteq> 3 then None
      else if ge_decode_header env token \<noteq> Some EdDSA then None
      else if \<not> ge_public_key_ok env then None
      else ge_decode env gateway_validation (gc_now call) token)"

definition jwt_sign :: "gateway_env \<Rightarrow> claims \<Rightarrow> pystr option" where
  "jwt_sign env c = (if ge_private_key_ok env then ge_encode env EdDSA (ge_jwt_kid env) c else None)"


section \<open>Tokens and cookies of a request\<close>

text \<open>The first value of a header; \<open>Opaque\<close> is a value that \<^verbatim>\<open>to_str\<close> refuses.\<close>

datatype header_value = Ascii pystr | Opaque

record req_headers =
  rh_cookie :: "header_value option"
  rh_authorization :: "header_value option"

text \<open>The class \<^verbatim>\<open>White_Space\<close> of Unicode, which \<^verbatim>\<open>str::trim\<close> removes and \<open>\\s\<close> matches.\<close>

definition rust_space :: "nat \<Rightarrow> bool" where
  "rust_space c \<longleftrightarrow> (9 \<le> c \<and> c \<le> 13) \<or> c = 32 \<or> c = 133 \<or> c = 160 \<or> c = 5760
     \<or> (8192 \<le> c \<and> c \<le> 8202) \<or> c = 8232 \<or> c = 8233 \<or> c = 8239 \<or> c = 8287 \<or> c = 12288"

definition strip_prefix :: "pystr \<Rightarrow> pystr \<Rightarrow> pystr option" where
  "strip_prefix s p = (if py_startswith s p then Some (drop (length p) s) else None)"

definition SESSION_PREFIX :: pystr where
  "SESSION_PREFIX = lit ''archiviste_session=''"

fun session_value :: "pystr list \<Rightarrow> pystr option" where
  "session_value [] = None"
| "session_value (part # parts) =
     (case strip_prefix (strip_by rust_space part) SESSION_PREFIX of
        Some val \<Rightarrow> if val \<noteq> [] then Some val else session_value parts
      | None \<Rightarrow> session_value parts)"

definition extract_bearer_token :: "req_headers \<Rightarrow> pystr option" where
  "extract_bearer_token h =
     (case (case rh_cookie h of Some (Ascii s) \<Rightarrow> session_value (split_on 59 s) | _ \<Rightarrow> None) of
        Some val \<Rightarrow> Some val
      | None \<Rightarrow> (case rh_authorization h of
                   Some (Ascii a) \<Rightarrow> strip_prefix a (lit ''Bearer '')
                 | _ \<Rightarrow> None))"

definition extract_session_token :: "req_headers \<Rightarrow> pystr option" where
  "extract_session_token h =
     (case (case rh_cookie h of Some (Ascii s) \<Rightarrow> session_value (split_on 59 s) | _ \<Rightarrow> None) of
        Some val \<Rightarrow> Some val
      | None \<Rightarrow> (case rh_authorization h of
                   None \<Rightarrow> None
                 | Some Opaque \<Rightarrow> None
                 | Some (Ascii a) \<Rightarrow> strip_prefix a (lit ''Bearer '')))"

fun anon_value :: "gateway_env \<Rightarrow> pystr list \<Rightarrow> uuid option" where
  "anon_value env [] = None"
| "anon_value env (part # parts) =
     (case strip_prefix (strip_by rust_space part) (lit ''archiviste_anon='') of
        Some val \<Rightarrow> (case ge_parse_uuid env val of Some u \<Rightarrow> Some u | None \<Rightarrow> anon_value env parts)
      | None \<Rightarrow> anon_value env parts)"

definition parse_anon_cookie :: "gateway_env \<Rightarrow> req_headers \<Rightarrow> uuid option" where
  "parse_anon_cookie env h =
     (case rh_cookie h of Some (Ascii s) \<Rightarrow> anon_value env (split_on 59 s) | _ \<Rightarrow> None)"


section \<open>The authenticated caller\<close>

record auth_user =
  au_user_id :: uuid
  au_tier :: user_tier
  au_sid :: uuid

datatype auth_error = InvalidToken | SessionRevoked | Upstream | AuthorRequired

definition auth_from_request :: "gateway_env \<Rightarrow> gw_call \<Rightarrow> req_headers \<Rightarrow> gateway_state \<Rightarrow> auth_error + auth_user" where
  "auth_from_request env call h st =
     (case extract_bearer_token h of None \<Rightarrow> Inl InvalidToken
      | Some token \<Rightarrow>
     (case jwt_verify env call token of None \<Rightarrow> Inl InvalidToken
      | Some c \<Rightarrow>
     (case ge_parse_uuid env (cl_sub c) of None \<Rightarrow> Inl InvalidToken
      | Some user_id \<Rightarrow>
     (case ge_parse_uuid env (cl_sid c) of None \<Rightarrow> Inl InvalidToken
      | Some sid \<Rightarrow>
     (case from_claim (cl_tier c) of None \<Rightarrow> Inl InvalidToken
      | Some tier \<Rightarrow>
          if ge_db_pool env
          then (case check_session call sid st of
                  Inr _ \<Rightarrow> Inr \<lparr>au_user_id = user_id, au_tier = tier, au_sid = sid\<rparr>
                | Inl Revoked \<Rightarrow> Inl SessionRevoked
                | Inl Unavailable \<Rightarrow> Inl Upstream)
          else Inr \<lparr>au_user_id = user_id, au_tier = tier, au_sid = sid\<rparr>)))))"

definition require_author :: "gateway_env \<Rightarrow> gw_call \<Rightarrow> req_headers \<Rightarrow> gateway_state \<Rightarrow> auth_error + auth_user" where
  "require_author env call h st =
     (case auth_from_request env call h st of
        Inl e \<Rightarrow> Inl e
      | Inr auth \<Rightarrow> if au_tier auth \<noteq> Author then Inl AuthorRequired else Inr auth)"

fun auth_error_status :: "auth_error \<Rightarrow> nat \<times> pystr" where
  "auth_error_status InvalidToken = (401, lit ''invalid_token'')"
| "auth_error_status SessionRevoked = (401, lit ''session_revoked'')"
| "auth_error_status Upstream = (503, lit ''upstream_unavailable'')"
| "auth_error_status AuthorRequired = (403, lit ''author_required'')"


section \<open>The identity middleware\<close>

text \<open>The one error of the middleware's own attempt, and the identity it attaches to the request.\<close>

datatype jwt_auth_error = DbUnavailable

record anon_identity =
  ai_user_id :: uuid
  ai_tier :: user_tier
  ai_fingerprint :: "pystr option"

definition try_authenticate_jwt :: "gateway_env \<Rightarrow> gw_call \<Rightarrow> req_headers \<Rightarrow> gateway_state \<Rightarrow> jwt_auth_error + auth_user option" where
  "try_authenticate_jwt env call h st =
     (case extract_session_token h of None \<Rightarrow> Inr None
      | Some token \<Rightarrow>
     (case jwt_verify env call token of None \<Rightarrow> Inr None
      | Some c \<Rightarrow>
     (case ge_parse_uuid env (cl_sub c) of None \<Rightarrow> Inr None
      | Some user_id \<Rightarrow>
     (case ge_parse_uuid env (cl_sid c) of None \<Rightarrow> Inr None
      | Some sid \<Rightarrow>
     (case from_claim (cl_tier c) of None \<Rightarrow> Inr None
      | Some tier \<Rightarrow>
          if \<not> ge_db_pool env then Inr (Some \<lparr>au_user_id = user_id, au_tier = tier, au_sid = sid\<rparr>)
          else (case check_session call sid st of
                  Inr _ \<Rightarrow> Inr (Some \<lparr>au_user_id = user_id, au_tier = tier, au_sid = sid\<rparr>)
                | Inl Revoked \<Rightarrow> Inr None
                | Inl Unavailable \<Rightarrow> Inl DbUnavailable))))))"

definition cookie_uuid_to_user_id :: "gateway_env \<Rightarrow> uuid \<Rightarrow> uuid" where
  "cookie_uuid_to_user_id env cookie_uuid = ge_uuid5 env 0 cookie_uuid"

definition anonymous_identity :: "gateway_env \<Rightarrow> gw_call \<Rightarrow> req_headers \<Rightarrow> anon_identity \<times> pystr option" where
  "anonymous_identity env call h =
     (let (cookie_uuid, to_set) =
            (case parse_anon_cookie env h of
               Some existing \<Rightarrow> (existing, None)
             | None \<Rightarrow> (gc_uuid call, Some (ge_uuid_str env (gc_uuid call))))
      in (\<lparr>ai_user_id = cookie_uuid_to_user_id env cookie_uuid, ai_tier = Anonymous,
           ai_fingerprint = Some (ge_uuid_str env cookie_uuid)\<rparr>,
          map_option (\<lambda>v. lit ''archiviste_anon='' @ v @
            lit ''; HttpOnly; Secure; SameSite=Lax; Path=/; Max-Age=31536000'') to_set))"

text \<open>\<open>None\<close> is the answer 503; otherwise the identity and the anonymous cookie the response sets.\<close>

definition resolve_identity :: "gateway_env \<Rightarrow> gw_call \<Rightarrow> req_headers \<Rightarrow> gateway_state \<Rightarrow> (anon_identity \<times> pystr option) option" where
  "resolve_identity env call h st =
     (case try_authenticate_jwt env call h st of
        Inl DbUnavailable \<Rightarrow> None
      | Inr (Some auth) \<Rightarrow>
          Some (\<lparr>ai_user_id = au_user_id auth, ai_tier = au_tier auth, ai_fingerprint = None\<rparr>, None)
      | Inr None \<Rightarrow> Some (anonymous_identity env call h))"

record me_response =
  mr_user_id :: pystr
  mr_tier :: pystr
  mr_fingerprint :: "pystr option"
  mr_email :: "pystr option"

definition resolve_email :: "gateway_env \<Rightarrow> gw_call \<Rightarrow> anon_identity \<Rightarrow> gateway_state \<Rightarrow> pystr option" where
  "resolve_email env call identity st =
     (if ai_tier identity = Anonymous then None
      else if \<not> ge_user_lookup env then None
      else (case find_email_by_id call (ai_user_id identity) st of Some found \<Rightarrow> found | None \<Rightarrow> None))"

definition me :: "gateway_env \<Rightarrow> gw_call \<Rightarrow> anon_identity \<Rightarrow> gateway_state \<Rightarrow> me_response" where
  "me env call identity st =
     \<lparr>mr_user_id = ge_uuid_str env (ai_user_id identity), mr_tier = as_str (ai_tier identity),
      mr_fingerprint = ai_fingerprint identity, mr_email = resolve_email env call identity st\<rparr>"


section \<open>Two readings of one request\<close>

lemma extract_tokens_agree: "extract_session_token h = extract_bearer_token h"
  by (simp add: extract_session_token_def extract_bearer_token_def split: option.splits header_value.splits)

lemma try_authenticate_agrees:
  "try_authenticate_jwt env call h st =
     (case auth_from_request env call h st of Inr auth \<Rightarrow> Inr (Some auth) | Inl Upstream \<Rightarrow> Inl DbUnavailable | Inl _ \<Rightarrow> Inr None)"
  by (simp add: try_authenticate_jwt_def auth_from_request_def extract_tokens_agree
    split: option.splits sum.splits session_error.splits)

lemma resolve_identity_authenticated:
  assumes "resolve_identity env call h st = Some (identity, cookie)" "ai_tier identity \<noteq> Anonymous"
  shows "\<exists>auth. auth_from_request env call h st = Inr auth \<and> au_tier auth = ai_tier identity \<and> au_user_id auth = ai_user_id identity"
  using assms
  by (auto simp: resolve_identity_def try_authenticate_agrees anonymous_identity_def Let_def
    split: sum.splits auth_error.splits prod.splits)

lemma auth_from_request_session:
  assumes "auth_from_request env call h st = Inr auth" "ge_db_pool env"
  shows "check_session call (au_sid auth) st = Inr ()"
  using assms by (auto simp: auth_from_request_def split: option.splits sum.splits session_error.splits if_splits)

text \<open>The middleware and the extractor read a request alike: the middleware authenticates exactly the requests the extractor accepts, as the same
  user and tier and without an anonymous cookie; it answers 503 exactly when the extractor does, so a valid token is never served as anonymous because
  the database is down; and what the extractor answers 401 gets the anonymous identity of its cookie.\<close>

theorem identity_agrees_with_extractor:
  "resolve_identity env call h st =
     (case auth_from_request env call h st of
        Inr auth \<Rightarrow> Some (\<lparr>ai_user_id = au_user_id auth, ai_tier = au_tier auth, ai_fingerprint = None\<rparr>, None)
      | Inl Upstream \<Rightarrow> None
      | Inl _ \<Rightarrow> Some (anonymous_identity env call h))"
  by (simp add: resolve_identity_def try_authenticate_agrees split: sum.splits auth_error.splits)

text \<open>
  Without a pool the session is not looked up at all, by either of the two: a token that verifies is
  accepted even after its session was revoked. The documentation of \<^verbatim>\<open>AppState::db_pool\<close> says
  that such a check answers 401 \<^verbatim>\<open>session_revoked\<close>.
\<close>

lemma no_pool_accepts_revoked:
  assumes "\<not> ge_db_pool env" "extract_bearer_token h = Some token" "jwt_verify env call token = Some c"
    and "ge_parse_uuid env (cl_sub c) = Some user_id" "ge_parse_uuid env (cl_sid c) = Some sid" "from_claim (cl_tier c) = Some tier"
  shows "auth_from_request env call h st = Inr \<lparr>au_user_id = user_id, au_tier = tier, au_sid = sid\<rparr>"
  using assms by (simp add: auth_from_request_def)

section \<open>An environment for the concrete instances\<close>

definition sample_claims :: "uuid \<Rightarrow> claims" where
  "sample_claims sid = \<lparr>cl_sub = digits_of 7, cl_tier = lit ''member'', cl_sid = digits_of sid, cl_iat = 1000,
     cl_exp = 605800, cl_iss = JWT_ISSUER_AUDIENCE, cl_aud = JWT_ISSUER_AUDIENCE\<rparr>"

definition gw_sample_env :: gateway_env where
  "gw_sample_env = \<lparr>ge_nfkc = id, ge_lowercase = id, ge_sql_lower = id, ge_email_key = id, ge_hash_password = (\<lambda>salt p. Some p),
     ge_verify_password = (\<lambda>password h. Some (password = h)),
     ge_decode_header = (\<lambda>t. if t = lit ''h.p.s'' \<or> t = lit ''h.p.t'' then Some EdDSA else None),
     ge_decode = (\<lambda>v now t. if va_alg v = EdDSA \<and> JWT_ISSUER_AUDIENCE \<in> set (va_issuer v) \<and>
        JWT_ISSUER_AUDIENCE \<in> set (va_audience v) \<and> now \<le> 605800
        then (if t = lit ''h.p.s'' then Some (sample_claims 9) else if t = lit ''h.p.t'' then Some (sample_claims 10) else None)
        else None),
     ge_encode = (\<lambda>alg kid c. if alg \<noteq> EdDSA then None
        else if c = sample_claims 9 then Some (lit ''h.p.s'') else if c = sample_claims 10 then Some (lit ''h.p.t'') else None),
     ge_parse_uuid = (\<lambda>s. Some (num_of_digits s)), ge_uuid_str = digits_of, ge_uuid5 = (\<lambda>ns u. u + 1),
     ge_jwt_kid = lit ''k1'', ge_public_key_ok = True, ge_private_key_ok = True, ge_db_pool = True,
     ge_user_lookup = True, ge_session_creator = True, ge_session_revoker = True\<rparr>"

definition sample_call :: "rat \<Rightarrow> uuid \<Rightarrow> gw_call" where
  "sample_call now u = \<lparr>gc_now = now, gc_instant = now, gc_fail_instant = now, gc_salt = [], gc_uuid = u, gc_raw_token = lit ''raw'', gc_lookup_ok = True,
     gc_insert_user_ok = True, gc_insert_session_ok = True, gc_check_ok = True, gc_revoke_ok = True\<rparr>"

end
