(* ===== verification/Gateway_Login.thy ===== *)
theory Gateway_Login
  imports Gateway_Auth
begin

text \<open>
  The routes of \<^verbatim>\<open>gateway/src/routes/auth.rs\<close>: sign-up, login and logout, each as a function of one
  request on the tables and the throttle store, and the step relation they make up. Shown here: the
  tables keep their constraints and the authors stay the same, a logout is final, the cookie of a
  login authenticates as the account whose password was given, and the throttle bounds the guesses
  at a password.
\<close>

section \<open>Sign-up, login, logout\<close>

datatype auth_response =
    InvalidRequest
  | UpstreamUnavailable
  | InternalError
  | EmailTaken
  | SignupSuccess uuid
  | InvalidCredentials
  | LoginThrottled nat
  | LoginSuccess pystr pystr
  | LogoutDone pystr
  | AuthRejected auth_error

fun response_status :: "auth_response \<Rightarrow> nat" where
  "response_status InvalidRequest = 400"
| "response_status UpstreamUnavailable = 503"
| "response_status InternalError = 500"
| "response_status EmailTaken = 409"
| "response_status (SignupSuccess _) = 201"
| "response_status InvalidCredentials = 401"
| "response_status (LoginThrottled _) = 429"
| "response_status (LoginSuccess _ _) = 200"
| "response_status (LogoutDone _) = 204"
| "response_status (AuthRejected e) = fst (auth_error_status e)"

record auth_request =
  ar_email :: pystr
  ar_password :: pystr

text \<open>
  The pattern of an email address, \<^verbatim>\<open>^[^\s@]+@[^\s@]+\.[^\s@]+$\<close>: one at sign, no white space, and a
  dot of the domain that is neither its first nor its last character.
\<close>

definition email_matches :: "pystr \<Rightarrow> bool" where
  "email_matches email \<longleftrightarrow>
     (case split_on 64 email of
        [local, domain] \<Rightarrow> local \<noteq> [] \<and> \<not> list_ex rust_space email \<and>
                           list_ex (\<lambda>i. domain ! i = 46) [1 ..< length domain - 1]
      | _ \<Rightarrow> False)"

definition normalise_email :: "gateway_env \<Rightarrow> pystr \<Rightarrow> pystr" where
  "normalise_email env raw = ge_lowercase env (strip_by rust_space (ge_nfkc env raw))"

definition validate_credentials :: "pystr \<Rightarrow> pystr \<Rightarrow> bool" where
  "validate_credentials email password \<longleftrightarrow>
     \<not> (length (utf8 email) > 254 \<or> \<not> email_matches email) \<and>
     \<not> (length (utf8 password) < 12 \<or> length (utf8 password) > 128 \<or> 0 \<in> set password)"

definition session_cookie :: "pystr \<Rightarrow> int \<Rightarrow> pystr" where
  "session_cookie token max_age =
     SESSION_PREFIX @ token @ lit ''; HttpOnly; Secure; SameSite=Lax; Path=/; Max-Age='' @ py_str_int max_age"

definition signup :: "gateway_env \<Rightarrow> gw_call \<Rightarrow> auth_request \<Rightarrow> gateway_state \<Rightarrow> auth_response \<times> gateway_state" where
  "signup env call body st =
     (let email = normalise_email env (ar_email body) in
      if \<not> validate_credentials email (ar_password body) then (InvalidRequest, st)
      else if \<not> ge_user_lookup env then (UpstreamUnavailable, st)
      else (case email_is_taken env call email st of
              None \<Rightarrow> (UpstreamUnavailable, st)
            | Some True \<Rightarrow> (EmailTaken, st)
            | Some False \<Rightarrow>
                (case ge_hash_password env (gc_salt call) (ar_password body) of
                   None \<Rightarrow> (InternalError, st)
                 | Some password_hash \<Rightarrow>
                     (case create_member env call email password_hash st of
                        (None, st') \<Rightarrow> (InternalError, st')
                      | (Some user_id, st') \<Rightarrow> (SignupSuccess user_id, st')))))"

definition build_jwt_token :: "gateway_env \<Rightarrow> gw_call \<Rightarrow> uuid \<Rightarrow> pystr \<Rightarrow> uuid \<Rightarrow> pystr option" where
  "build_jwt_token env call user_id tier sid =
     (let now = \<lfloor>gc_now call\<rfloor>
      in jwt_sign env \<lparr>cl_sub = ge_uuid_str env user_id, cl_tier = tier, cl_sid = ge_uuid_str env sid,
           cl_iat = now, cl_exp = now + JWT_TTL_SECS, cl_iss = JWT_ISSUER_AUDIENCE, cl_aud = JWT_ISSUER_AUDIENCE\<rparr>)"

definition build_login_success :: "gateway_env \<Rightarrow> gw_call \<Rightarrow> uuid \<Rightarrow> pystr \<Rightarrow> uuid \<Rightarrow> auth_response" where
  "build_login_success env call user_id tier sid =
     (case build_jwt_token env call user_id tier sid of
        None \<Rightarrow> InternalError
      | Some jwt_token \<Rightarrow> LoginSuccess jwt_token (session_cookie jwt_token JWT_TTL_SECS))"


text \<open>The outer option is a failed lookup; the inner one is the row of the user whose password was accepted.\<close>

definition verify_credentials :: "gateway_env \<Rightarrow> gw_call \<Rightarrow> pystr \<Rightarrow> pystr \<Rightarrow> gateway_state \<Rightarrow> (uuid \<times> pystr) option option" where
  "verify_credentials env call email password st =
     (case find_member env call email st of
        None \<Rightarrow> None
      | Some (Some (user_id, stored_hash, tier)) \<Rightarrow>
          Some (if ge_verify_password env password stored_hash = Some True then Some (user_id, tier) else None)
      | Some None \<Rightarrow> Some None)"

definition login_credential_flow :: "gateway_env \<Rightarrow> gw_call \<Rightarrow> pystr \<Rightarrow> pystr \<Rightarrow> gateway_state \<Rightarrow> (auth_response + uuid \<times> pystr) \<times> gateway_state" where
  "login_credential_flow env call email password st =
     (if \<not> ge_user_lookup env then (Inl UpstreamUnavailable, st)
      else (case verify_credentials env call email password st of
              None \<Rightarrow> (Inl UpstreamUnavailable, st)
            | Some None \<Rightarrow>
                (Inl InvalidCredentials,
                 st\<lparr>ap_throttle := record_failure (ge_email_key env) (gc_fail_instant call) email (ap_throttle st)\<rparr>)
            | Some (Some (user_id, tier)) \<Rightarrow>
                (Inr (user_id, tier),
                 st\<lparr>ap_throttle := record_success (ge_email_key env) email (ap_throttle st)\<rparr>)))"

definition create_session_and_respond :: "gateway_env \<Rightarrow> gw_call \<Rightarrow> uuid \<Rightarrow> pystr \<Rightarrow> gateway_state \<Rightarrow> auth_response \<times> gateway_state" where
  "create_session_and_respond env call user_id tier st =
     (if \<not> ge_session_creator env then (UpstreamUnavailable, st)
      else (case create_session env call user_id st of
              (Inl _, st') \<Rightarrow> (UpstreamUnavailable, st')
            | (Inr (sid, _), st') \<Rightarrow> (build_login_success env call user_id tier sid, st')))"

definition login :: "gateway_env \<Rightarrow> gw_call \<Rightarrow> auth_request \<Rightarrow> gateway_state \<Rightarrow> auth_response \<times> gateway_state" where
  "login env call body st =
     (let email = normalise_email env (ar_email body);
          (throttled, store) = is_throttled (ge_email_key env) (gc_instant call) email (ap_throttle st);
          st1 = st\<lparr>ap_throttle := store\<rparr>
      in case throttled of
           Some retry_after \<Rightarrow> (LoginThrottled retry_after, st1)
         | None \<Rightarrow>
             (case login_credential_flow env call email (ar_password body) st1 of
                (Inl resp, st2) \<Rightarrow> (resp, st2)
              | (Inr (user_id, tier), st2) \<Rightarrow> create_session_and_respond env call user_id tier st2))"

definition logout :: "gateway_env \<Rightarrow> gw_call \<Rightarrow> req_headers \<Rightarrow> gateway_state \<Rightarrow> auth_response \<times> gateway_state" where
  "logout env call h st =
     (case auth_from_request env call h st of
        Inl e \<Rightarrow> (AuthRejected e, st)
      | Inr auth \<Rightarrow>
          if \<not> ge_session_revoker env then (UpstreamUnavailable, st)
          else (case revoke call (au_sid auth) st of
                  (Inl _, st') \<Rightarrow> (UpstreamUnavailable, st')
                | (Inr _, st') \<Rightarrow> (LogoutDone (session_cookie [] 0), st')))"

text \<open>One request to the gateway that can change its state, and the states it can reach.\<close>

inductive gw_step :: "gateway_env \<Rightarrow> gateway_state \<Rightarrow> gateway_state \<Rightarrow> bool" for env where
  step_signup: "signup env call body st = (resp, st') \<Longrightarrow> gw_step env st st'"
| step_login: "login env call body st = (resp, st') \<Longrightarrow> gw_step env st st'"
| step_logout: "logout env call h st = (resp, st') \<Longrightarrow> gw_step env st st'"

abbreviation gw_steps :: "gateway_env \<Rightarrow> gateway_state \<Rightarrow> gateway_state \<Rightarrow> bool" where
  "gw_steps env \<equiv> (gw_step env)\<^sup>*\<^sup>*"


section \<open>What each operation keeps of the tables\<close>

lemma new_member_fields [simp]:
  "ur_id (new_member i e h) = i" "ur_email (new_member i e h) = Some e" "ur_password_hash (new_member i e h) = Some h"
  "ur_tier (new_member i e h) = lit ''member''"
  by (simp_all add: new_member_def)

lemma signup_tables:
  assumes "signup env call body st = (resp, st')"
  obtains (same) "st' = st"
  | (created) i e h where "st' = st\<lparr>ap_users := ap_users st @ [new_member i e h]\<rparr>"
      "\<forall>v\<in>set (ap_users st). ur_id v \<noteq> i \<and> map_option (ge_sql_lower env) (ur_email v) \<noteq> Some (ge_sql_lower env e)"
  using assms
  by (auto simp: signup_def create_member_def Let_def list_ex_iff split: if_splits option.splits bool.splits prod.splits)

lemma create_session_and_respond_tables:
  assumes "create_session_and_respond env call user_id tier st = (resp, st')"
  shows "ap_users st' = ap_users st \<and> ap_throttle st' = ap_throttle st \<and>
         (ap_sessions st' = ap_sessions st \<or>
          (\<exists>row. ap_sessions st' = ap_sessions st @ [row] \<and> (\<forall>r\<in>set (ap_sessions st). sn_id r \<noteq> sn_id row) \<and>
             sn_user_id row \<in> ur_id ` set (ap_users st)))"
  using assms
  by (auto simp: create_session_and_respond_def create_session_def Let_def list_ex_iff
    split: if_splits option.splits sum.splits prod.splits)

lemma login_credential_flow_tables:
  assumes "login_credential_flow env call email password st = (resp, st')"
  shows "ap_users st' = ap_users st \<and> ap_sessions st' = ap_sessions st"
  using assms by (auto simp: login_credential_flow_def split: if_splits option.splits)

lemma login_tables:
  assumes "login env call body st = (resp, st')"
  shows "ap_users st' = ap_users st \<and>
         (ap_sessions st' = ap_sessions st \<or>
          (\<exists>row. ap_sessions st' = ap_sessions st @ [row] \<and> (\<forall>r\<in>set (ap_sessions st). sn_id r \<noteq> sn_id row) \<and>
             sn_user_id row \<in> ur_id ` set (ap_users st)))"
proof -
  obtain throttled store where it: "is_throttled (ge_email_key env) (gc_instant call)
      (normalise_email env (ar_email body)) (ap_throttle st) = (throttled, store)"
    by fastforce
  let ?st1 = "st\<lparr>ap_throttle := store\<rparr>"
  obtain flow st2 where fl: "login_credential_flow env call (normalise_email env (ar_email body))
      (ar_password body) ?st1 = (flow, st2)"
    by fastforce
  have st2: "ap_users st2 = ap_users st" "ap_sessions st2 = ap_sessions st"
    using login_credential_flow_tables[OF fl] by simp_all
  note eq = assms[unfolded login_def Let_def it prod.case fl]
  consider (locked) r where "throttled = Some r"
    | (refused) e where "throttled = None" "flow = Inl e"
    | (accepted) user_id tier where "throttled = None" "flow = Inr (user_id, tier)"
    by (cases throttled; cases flow) auto
  then show ?thesis
  proof cases
    case locked
    with eq show ?thesis by auto
  next
    case refused
    with eq st2 show ?thesis by simp
  next
    case accepted
    with eq have "create_session_and_respond env call user_id tier st2 = (resp, st')" by simp
    from create_session_and_respond_tables[OF this] st2 show ?thesis by simp
  qed
qed

lemma revoke_row_fields [simp]:
  "sn_id (revoke_row sid t r) = sn_id r" "sn_user_id (revoke_row sid t r) = sn_user_id r"
  by (simp_all add: revoke_row_def)

lemma logout_cases:
  assumes "logout env call h st = (resp, st')"
  obtains (same) "st' = st" "\<forall>ck. resp \<noteq> LogoutDone ck"
  | (revoked) auth where "auth_from_request env call h st = Inr auth" "resp = LogoutDone (session_cookie [] 0)"
      "st' = st\<lparr>ap_sessions := map (revoke_row (au_sid auth) (gc_now call)) (ap_sessions st)\<rparr>"
proof (cases "auth_from_request env call h st")
  case (Inl e)
  with assms have "st' = st" "\<forall>ck. resp \<noteq> LogoutDone ck"
    by (auto simp: logout_def)
  then show thesis by (rule same)
next
  case (Inr auth)
  show thesis
  proof (cases "ge_session_revoker env \<and> gc_revoke_ok call")
    case True
    with assms Inr have "resp = LogoutDone (session_cookie [] 0)"
      "st' = st\<lparr>ap_sessions := map (revoke_row (au_sid auth) (gc_now call)) (ap_sessions st)\<rparr>"
      by (simp_all add: logout_def revoke_def)
    with Inr show thesis by (rule revoked)
  next
    case False
    with assms Inr have "st' = st" "\<forall>ck. resp \<noteq> LogoutDone ck"
      by (auto simp: logout_def revoke_def split: if_splits)
    then show thesis by (rule same)
  qed
qed


section \<open>Invariants of the gateway\<close>

text \<open>What one request keeps, every sequence of requests keeps.\<close>

locale gw_invariant =
  fixes env :: gateway_env and P :: "gateway_state \<Rightarrow> bool"
  assumes kept: "gw_step env st st' \<Longrightarrow> P st \<Longrightarrow> P st'"
begin

lemma steps: "gw_steps env st st' \<Longrightarrow> P st \<Longrightarrow> P st'"
  by (induct rule: rtranclp_induct) (auto intro: kept)

end


section \<open>Well-formed tables\<close>

text \<open>The email addresses of a list of accounts.\<close>

definition emails_of :: "user_row list \<Rightarrow> pystr list" where
  "emails_of users = concat (map (\<lambda>u. case ur_email u of None \<Rightarrow> [] | Some e \<Rightarrow> [e]) users)"

lemma emails_of_append [simp]: "emails_of (us @ vs) = emails_of us @ emails_of vs"
  by (simp add: emails_of_def)

lemma emails_of_Nil [simp]: "emails_of [] = []"
  by (simp add: emails_of_def)

lemma set_emails_of: "set (emails_of us) = {e. \<exists>u\<in>set us. ur_email u = Some e}"
  by (force simp: emails_of_def split: option.splits)

text \<open>What the constraints of the schema say of the two tables.\<close>

definition user_row_ok :: "user_row \<Rightarrow> bool" where
  "user_row_ok u \<longleftrightarrow> ur_tier u \<in> {lit ''anonymous'', lit ''member'', lit ''author''} \<and>
     (ur_tier u = lit ''anonymous'' \<or> ur_email u \<noteq> None \<and> ur_password_hash u \<noteq> None)"

definition gw_wf :: "gateway_env \<Rightarrow> gateway_state \<Rightarrow> bool" where
  "gw_wf env st \<longleftrightarrow>
     distinct (map ur_id (ap_users st)) \<and>
     distinct (map (ge_sql_lower env) (emails_of (ap_users st))) \<and>
     list_all user_row_ok (ap_users st) \<and>
     distinct (map sn_id (ap_sessions st)) \<and>
     list_all (\<lambda>r. sn_user_id r \<in> ur_id ` set (ap_users st)) (ap_sessions st)"

lemma find_append_Some: "find P xs = Some x \<Longrightarrow> find P (xs @ ys) = Some x"
  by (induct xs) auto

lemma find_append_None: "find P xs = None \<Longrightarrow> find P (xs @ ys) = find P ys"
  by (induct xs) auto

lemma find_revoke_row:
  "find (\<lambda>r. sn_id r = sid) (map (revoke_row s t) rows) =
   map_option (revoke_row s t) (find (\<lambda>r. sn_id r = sid) rows)"
  by (induct rows) auto


lemma gw_wf_step: "gw_step env st st' \<Longrightarrow> gw_wf env st \<Longrightarrow> gw_wf env st'"
proof (induct rule: gw_step.induct)
  case (step_signup call body st resp st')
  from this(1) show ?case
  proof (cases rule: signup_tables)
    case (created i e h)
    have "ge_sql_lower env e \<notin> ge_sql_lower env ` set (emails_of (ap_users st))" "i \<notin> ur_id ` set (ap_users st)"
      using created(2) by (force simp: set_emails_of)+
    moreover have "emails_of [new_member i e h] = [e]" "user_row_ok (new_member i e h)"
      by (simp_all add: emails_of_def user_row_ok_def)
    ultimately show ?thesis
      using step_signup(2) created(1) by (auto simp: gw_wf_def list_all_iff)
  qed (use step_signup in simp)
next
  case (step_login call body st resp st')
  from login_tables[OF this(1)] this(2) show ?case
    by (elim conjE disjE exE) (simp_all add: gw_wf_def list_all_iff image_iff, metis)
next
  case (step_logout call h st resp st')
  from this(1) show ?case
    using step_logout(2)
    by (cases rule: logout_cases) (auto simp: gw_wf_def list_all_iff o_def)
qed

interpretation wf: gw_invariant env "gw_wf env" for env
  by unfold_locales (rule gw_wf_step)


section \<open>A revoked session stays revoked\<close>

definition session_dead :: "uuid \<Rightarrow> gateway_state \<Rightarrow> bool" where
  "session_dead sid st \<longleftrightarrow>
     (case find (\<lambda>r. sn_id r = sid) (ap_sessions st) of Some r \<Rightarrow> sn_revoked_at r \<noteq> None | None \<Rightarrow> False)"

lemma session_dead_append:
  "session_dead sid st \<Longrightarrow> ap_sessions st' = ap_sessions st @ rows \<Longrightarrow> session_dead sid st'"
  by (auto simp: session_dead_def find_append_Some split: option.splits)

lemma session_dead_revoke:
  "session_dead sid st \<Longrightarrow> session_dead sid (st\<lparr>ap_sessions := map (revoke_row s t) (ap_sessions st)\<rparr>)"
  by (auto simp: session_dead_def find_revoke_row revoke_row_def split: option.splits)

lemma session_dead_step: "gw_step env st st' \<Longrightarrow> session_dead sid st \<Longrightarrow> session_dead sid st'"
proof (induct rule: gw_step.induct)
  case (step_signup call body st resp st')
  from this(1) show ?case
    using step_signup(2) by (cases rule: signup_tables) (simp_all add: session_dead_def)
next
  case (step_login call body st resp st')
  from login_tables[OF step_login(1)] step_login(2) show ?case
    by (auto intro: session_dead_append[of sid st st' "[]"] session_dead_append)
next
  case (step_logout call h st resp st')
  from step_logout(1) show ?case
    using step_logout(2) by (cases rule: logout_cases) (auto intro: session_dead_revoke)
qed

interpretation dead: gw_invariant env "session_dead sid" for env sid
  by unfold_locales (rule session_dead_step)

lemma session_dead_refused: "session_dead sid st \<Longrightarrow> check_session call sid st \<noteq> Inr ()"
  by (auto simp: session_dead_def check_session_def split: option.splits)

lemma revoked_after_logout:
  assumes "check_session call sid st = Inr ()"
  shows "session_dead sid (st\<lparr>ap_sessions := map (revoke_row sid t) (ap_sessions st)\<rparr>)"
proof -
  obtain r where r: "find (\<lambda>r. sn_id r = sid) (ap_sessions st) = Some r"
    using assms by (auto simp: check_session_def split: if_splits option.splits)
  then have "sn_id r = sid"
    by (auto simp: find_Some_iff)
  with r show ?thesis
    by (simp add: session_dead_def find_revoke_row revoke_row_def)
qed



section \<open>Who is an author\<close>

definition authors :: "gateway_state \<Rightarrow> user_row list" where
  "authors st = filter (\<lambda>u. ur_tier u = lit ''author'') (ap_users st)"

lemma authors_step: "gw_step env st st' \<Longrightarrow> authors st' = authors st"
proof (induct rule: gw_step.induct)
  case (step_signup call body st resp st')
  then show ?case by (cases rule: signup_tables) (simp_all add: authors_def)
next
  case (step_login call body st resp st')
  from login_tables[OF this] show ?case by (simp add: authors_def)
next
  case (step_logout call h st resp st')
  then show ?case by (cases rule: logout_cases) (simp_all add: authors_def)
qed


interpretation fixed: gw_invariant env "\<lambda>st'. authors st' = us" for env us
  by unfold_locales (simp add: authors_step)

text \<open>C20: Over any sequence of sign-ups, logins and logouts the two tables keep the constraints of the schema (unique identifiers and email
  addresses, complete accounts, sessions of existing users), and the authors stay the same: sign-up creates members only, so no request promotes an
  account.\<close>

theorem accounts_invariant:
  assumes "gw_steps env st st'" "gw_wf env st"
  shows "gw_wf env st' \<and> authors st' = authors st"
  using wf.steps[OF assms] fixed.steps[OF assms(1) refl] by simp


section \<open>A login and the requests that follow it\<close>

text \<open>The characters of the compact form of a token: base64url and the dot.\<close>

definition jwt_char :: "nat \<Rightarrow> bool" where
  "jwt_char c \<longleftrightarrow> (65 \<le> c \<and> c \<le> 90) \<or> (97 \<le> c \<and> c \<le> 122) \<or> (48 \<le> c \<and> c \<le> 57) \<or> c = 45 \<or> c = 95 \<or> c = 46"

text \<open>
  What is relied on of \<^verbatim>\<open>jsonwebtoken\<close> and of \<^verbatim>\<open>uuid\<close>: a signed token is in compact form, its
  header names the algorithm, and it decodes to its claims while these satisfy the validation and
  have not expired; the text of a UUID parses back.
\<close>

definition jwt_codec_ok :: "gateway_env \<Rightarrow> bool" where
  "jwt_codec_ok env \<longleftrightarrow>
     (\<forall>alg kid c t. ge_encode env alg kid c = Some t \<longrightarrow>
        length (split_on 46 t) = 3 \<and> list_all jwt_char t \<and> ge_decode_header env t = Some alg \<and>
        (\<forall>v now. va_alg v = alg \<and> cl_iss c \<in> set (va_issuer v) \<and> cl_aud c \<in> set (va_audience v) \<and> now \<le> of_int (cl_exp c)
           \<longrightarrow> ge_decode env v now t = Some c))"

definition uuid_text_ok :: "gateway_env \<Rightarrow> bool" where
  "uuid_text_ok env \<longleftrightarrow> (\<forall>u. ge_parse_uuid env (ge_uuid_str env u) = Some u)"

lemma jwt_char_plain: "jwt_char c \<Longrightarrow> c \<noteq> 59 \<and> \<not> rust_space c"
  by (auto simp: jwt_char_def rust_space_def)

lemma session_prefix_plain: "list_all (\<lambda>c. c \<noteq> 59 \<and> \<not> rust_space c) SESSION_PREFIX"
  by (simp add: SESSION_PREFIX_def lit_def rust_space_def)

lemma strip_prefix_append [simp]: "strip_prefix (p @ s) p = Some s"
  by (simp add: strip_prefix_def py_startswith_def)

lemma extract_cookie_token:
  assumes "list_all jwt_char token" "token \<noteq> []" "rh_cookie h = Some (Ascii (SESSION_PREFIX @ token))"
  shows "extract_bearer_token h = Some token"
proof -
  have plain: "\<forall>c\<in>set (SESSION_PREFIX @ token). c \<noteq> 59 \<and> \<not> rust_space c"
    using assms(1) session_prefix_plain jwt_char_plain by (auto simp: list_all_iff)
  then have "split_on 59 (SESSION_PREFIX @ token) = [SESSION_PREFIX @ token]"
    by (intro split_on_id) blast
  moreover have "strip_by rust_space (SESSION_PREFIX @ token) = SESSION_PREFIX @ token"
    using plain by (intro strip_by_none) blast
  ultimately show ?thesis
    using assms(2,3) by (simp add: extract_bearer_token_def)
qed

lemma member_row_tier:
  assumes "member_row env email users = Some u"
  shows "u \<in> set users" "map_option (ge_sql_lower env) (ur_email u) = Some (ge_sql_lower env email)"
    "ur_tier u \<noteq> lit ''anonymous''"
  using assms by (auto simp: member_row_def find_Some_iff)

text \<open>The user a password is accepted for.\<close>

definition accepts :: "gateway_env \<Rightarrow> pystr \<Rightarrow> pystr \<Rightarrow> user_row \<Rightarrow> bool" where
  "accepts env email password u \<longleftrightarrow>
     map_option (ge_sql_lower env) (ur_email u) = Some (ge_sql_lower env email) \<and> ur_tier u \<noteq> lit ''anonymous'' \<and>
     (case ur_password_hash u of None \<Rightarrow> False | Some h \<Rightarrow> ge_verify_password env password h = Some True)"

lemma verify_credentials_sound:
  assumes "verify_credentials env call email password st = Some (Some (user_id, tier))"
  shows "\<exists>u\<in>set (ap_users st). accepts env email password u \<and> ur_id u = user_id \<and> ur_tier u = tier"
proof -
  obtain u where u: "member_row env email (ap_users st) = Some u" "ur_id u = user_id" "ur_tier u = tier"
    "\<exists>h. ur_password_hash u = Some h \<and> ge_verify_password env password h = Some True"
    using assms by (auto simp: verify_credentials_def find_member_def split: if_splits option.splits)
  with member_row_tier[OF u(1)] show ?thesis
    by (auto simp: accepts_def)
qed

lemma create_session_success:
  assumes "create_session_and_respond env call user_id tier st = (LoginSuccess token cookie, st')"
  obtains row where "ap_sessions st' = ap_sessions st @ [row]" "sn_id row = gc_uuid call"
    "sn_revoked_at row = None" "sn_expires_at row = gc_now call + SESSION_TTL_SECS"
    "find (\<lambda>r. sn_id r = gc_uuid call) (ap_sessions st) = None"
    "build_jwt_token env call user_id tier (gc_uuid call) = Some token"
  using assms
  by (auto simp: create_session_and_respond_def create_session_def build_login_success_def Let_def list_ex_iff
    find_None_iff split: if_splits option.splits sum.splits prod.splits)

lemma login_success:
  assumes "login env call body st = (LoginSuccess token cookie, st')"
  obtains user_id tier st2 where
    "verify_credentials env call (normalise_email env (ar_email body)) (ar_password body) st = Some (Some (user_id, tier))"
    "ap_sessions st2 = ap_sessions st"
    "create_session_and_respond env call user_id tier st2 = (LoginSuccess token cookie, st')"
proof -
  let ?email = "normalise_email env (ar_email body)"
  obtain throttled store where it: "is_throttled (ge_email_key env) (gc_instant call) ?email (ap_throttle st) = (throttled, store)"
    by fastforce
  let ?st1 = "st\<lparr>ap_throttle := store\<rparr>"
  have users: "verify_credentials env call ?email (ar_password body) ?st1 =
      verify_credentials env call ?email (ar_password body) st"
    by (simp add: verify_credentials_def find_member_def)
  obtain flow st2 where fl: "login_credential_flow env call ?email (ar_password body) ?st1 = (flow, st2)"
    by fastforce
  note eq = assms[unfolded login_def Let_def it prod.case fl]
  have flow: "throttled = None \<and> flow \<noteq> Inl (LoginSuccess token cookie)"
    using eq fl by (auto simp: login_credential_flow_def split: option.splits if_splits)
  then obtain user_id tier where ok: "flow = Inr (user_id, tier)"
    using eq by (cases flow) auto
  have "verify_credentials env call ?email (ar_password body) st = Some (Some (user_id, tier))"
    using fl ok users by (auto simp: login_credential_flow_def split: option.splits if_splits)
  moreover have "ap_sessions st2 = ap_sessions st"
    using login_credential_flow_tables[OF fl] by simp
  moreover have "create_session_and_respond env call user_id tier st2 = (LoginSuccess token cookie, st')"
    using eq ok flow by simp
  ultimately show thesis by (rule that)
qed


lemma token_floor: "now \<le> of_int (\<lfloor>n\<rfloor> + JWT_TTL_SECS) \<Longrightarrow> \<not> (n + SESSION_TTL_SECS < now)" for n now :: rat
  by (simp add: JWT_TTL_SECS_def SESSION_TTL_SECS_def) linarith



section \<open>Guessing a password\<close>

fun login_attempts :: "gateway_env \<Rightarrow> (gw_call \<times> auth_request) list \<Rightarrow> gateway_state \<Rightarrow> auth_response list \<times> gateway_state" where
  "login_attempts env [] st = ([], st)"
| "login_attempts env ((call, body) # rest) st =
     (let (resp, st1) = login env call body st;
          (resps, st2) = login_attempts env rest st1
      in (resp # resps, st2))"

definition wrong_attempt :: "gateway_env \<Rightarrow> pystr \<Rightarrow> user_row list \<Rightarrow> gw_call \<times> auth_request \<Rightarrow> bool" where
  "wrong_attempt env email users a \<longleftrightarrow>
     normalise_email env (ar_email (snd a)) = email \<and>
     \<not> list_ex (accepts env email (ar_password (snd a))) users"

lemma wrong_attempt_flow:
  assumes "wrong_attempt env email (ap_users st) (call, body)"
  shows "verify_credentials env call email (ar_password body) st = None \<or>
         verify_credentials env call email (ar_password body) st = Some None"
proof (cases "verify_credentials env call email (ar_password body) st")
  case (Some r)
  with assms verify_credentials_sound[of env call email "ar_password body" st] show ?thesis
    by (cases r) (auto simp: wrong_attempt_def list_ex_iff)
qed simp

text \<open>One wrong attempt inside a window that opened at \<open>t0\<close>: below five failures it may add one, at five it is refused.\<close>

lemma wrong_attempt_step:
  assumes "wrong_attempt env email (ap_users st) (call, body)" "login env call body st = (resp, st')"
    and "ap_throttle st (ge_email_key env email) = window_entry fs" "length fs \<le> 5" "\<forall>f\<in>set fs. t0 \<le> f"
    and "gc_instant call < t0 + WINDOW" "t0 \<le> gc_fail_instant call" "gc_fail_instant call < t0 + WINDOW"
  shows "\<exists>fs'. ap_throttle st' (ge_email_key env email) = window_entry fs' \<and> length fs' \<le> 5 \<and> (\<forall>f\<in>set fs'. t0 \<le> f) \<and>
           length fs' = length fs + (if resp = InvalidCredentials then 1 else 0)"
proof -
  let ?now = "gc_instant call" and ?later = "gc_fail_instant call" and ?k = "ge_email_key env"
  have email: "normalise_email env (ar_email body) = email"
    using assms(1) by (simp add: wrong_attempt_def)
  have fresh: "\<forall>f\<in>set fs. elapsed ?now f < WINDOW" "\<forall>f\<in>set fs. elapsed ?later f < WINDOW"
    using assms(5,6,8) by (force simp: elapsed_def)+
  have store: "snd (is_throttled ?k ?now email (ap_throttle st)) = ap_throttle st"
    using is_throttled_entry(2)[of "ap_throttle st" ?k email fs ?now, OF assms(3)] window_apply_fresh(1)[OF fresh(1)] assms(3)
    by (simp add: fun_eq_iff del: window_apply.simps)
  have ans: "fst (is_throttled ?k ?now email (ap_throttle st)) = None \<longleftrightarrow> length fs < 5"
    using is_throttled_entry(1)[of "ap_throttle st" ?k email fs ?now, OF assms(3)] lock_remaining_fresh[OF fresh(1)] by simp
  have fail: "record_failure ?k ?later email (ap_throttle st) (?k email) = window_entry (fs @ [?later])"
    using count_failure_entry[of ?later fs email] window_apply_fresh(2)[OF fresh(2)] assms(3)
    by (simp add: record_failure_def del: window_apply.simps)
  obtain thr where it: "is_throttled ?k ?now email (ap_throttle st) = (thr, ap_throttle st)"
    using store by (metis prod.collapse)
  note eq = assms(2)[unfolded login_def Let_def email it prod.case]
  show ?thesis
  proof (cases thr)
    case (Some r)
    with eq assms(3-5) show ?thesis by (intro exI[of _ fs]) auto
  next
    case None
    with ans it have "length fs < 5" by simp
    from wrong_attempt_flow[OF assms(1)]
    consider (down) "resp = UpstreamUnavailable" "st' = st"
      | (wrong) "resp = InvalidCredentials" "ap_throttle st' = record_failure ?k ?later email (ap_throttle st)"
      using None eq by (auto simp: login_credential_flow_def split: if_splits)
    then show ?thesis
    proof cases
      case down
      with assms(3-5) show ?thesis by (intro exI[of _ fs]) simp
    next
      case wrong
      with fail assms(5,7) \<open>length fs < 5\<close> show ?thesis by (intro exI[of _ "fs @ [?later]"]) auto
    qed
  qed
qed

lemma login_attempts_wrong:
  assumes "\<forall>a\<in>set attempts. wrong_attempt env email (ap_users st) a \<and> gc_instant (fst a) < t0 + WINDOW \<and> t0 \<le> gc_fail_instant (fst a) \<and> gc_fail_instant (fst a) < t0 + WINDOW"
    and "ap_throttle st (ge_email_key env email) = window_entry fs" "length fs \<le> 5" "\<forall>f\<in>set fs. t0 \<le> f"
  shows "length fs + length (filter (\<lambda>r. r = InvalidCredentials) (fst (login_attempts env attempts st))) \<le> 5"
  using assms
proof (induct attempts arbitrary: st fs)
  case (Cons a rest)
  obtain call body where a: "a = (call, body)" by fastforce
  obtain resp st1 where l: "login env call body st = (resp, st1)" by fastforce
  obtain fs' where fs': "ap_throttle st1 (ge_email_key env email) = window_entry fs'" "length fs' \<le> 5" "\<forall>f\<in>set fs'. t0 \<le> f"
    "length fs' = length fs + (if resp = InvalidCredentials then 1 else 0)"
    using wrong_attempt_step[OF _ l Cons.prems(2-4)] Cons.prems(1) a by auto
  have "ap_users st1 = ap_users st"
    using login_tables[OF l] by simp
  with Cons.hyps[of st1 fs'] Cons.prems(1) fs' a l show ?case
    by (simp add: case_prod_unfold Let_def split: if_splits)
qed simp



section \<open>Witnesses\<close>

definition sample_state :: gateway_state where
  "sample_state = \<lparr>ap_users = [\<lparr>ur_id = 7, ur_email = Some (lit ''a@b.c''), ur_password_hash = Some (lit ''right''),
     ur_tier = lit ''member''\<rparr>], ap_sessions = [], ap_throttle = Map.empty\<rparr>"

definition sample_login :: "string \<Rightarrow> auth_request" where
  "sample_login password = \<lparr>ar_email = lit ''a@b.c'', ar_password = lit password\<rparr>"

definition cookie_headers :: "string \<Rightarrow> req_headers" where
  "cookie_headers token = \<lparr>rh_cookie = Some (Ascii (SESSION_PREFIX @ lit token)), rh_authorization = None\<rparr>"

definition sample_session :: "uuid \<Rightarrow> session_row" where
  "sample_session sid = \<lparr>sn_id = sid, sn_user_id = 7, sn_token_hash = lit ''raw'', sn_expires_at = 605800, sn_revoked_at = None\<rparr>"

definition sample_logged_in :: "uuid list \<Rightarrow> gateway_state" where
  "sample_logged_in sids = sample_state\<lparr>ap_sessions := map sample_session sids\<rparr>"

lemmas sample_defs = gw_sample_env_def sample_call_def sample_state_def sample_login_def cookie_headers_def sample_logged_in_def

lemma sample_codec: "jwt_codec_ok gw_sample_env" "uuid_text_ok gw_sample_env"
  by (auto simp: jwt_codec_ok_def uuid_text_ok_def gw_sample_env_def sample_claims_def jwt_char_def lit_def)

lemma sample_email: "normalise_email gw_sample_env (ar_email (sample_login p)) = lit ''a@b.c''"
  by (simp add: normalise_email_def sample_defs) (simp add: strip_by_none lit_def rust_space_def)

lemma sample_wf: "gw_wf gw_sample_env sample_state"
  by (simp add: gw_wf_def emails_of_def user_row_ok_def sample_defs)

lemma sample_fields:
  "ge_user_lookup gw_sample_env" "ge_session_creator gw_sample_env" "ge_session_revoker gw_sample_env" "ge_db_pool gw_sample_env"
  "ge_public_key_ok gw_sample_env" "ge_sql_lower gw_sample_env = id" "ge_email_key gw_sample_env = id"
  "ge_hash_password gw_sample_env salt p = Some p" "ge_verify_password gw_sample_env p h = Some (p = h)"
  "ge_parse_uuid gw_sample_env s = Some (num_of_digits s)"
  "gc_now (sample_call t u) = t" "gc_instant (sample_call t u) = t" "gc_fail_instant (sample_call t u) = t" "gc_uuid (sample_call t u) = u"
  "gc_raw_token (sample_call t u) = lit ''raw''" "gc_lookup_ok (sample_call t u)" "gc_insert_session_ok (sample_call t u)"
  "gc_check_ok (sample_call t u)" "gc_revoke_ok (sample_call t u)"
  by (simp_all add: gw_sample_env_def sample_call_def)

lemma sample_login_success:
  "login gw_sample_env (sample_call 1000 9) (sample_login ''right'') sample_state =
     (LoginSuccess (lit ''h.p.s'') (session_cookie (lit ''h.p.s'') JWT_TTL_SECS), sample_logged_in [9])"
proof -
  have "build_jwt_token gw_sample_env (sample_call 1000 9) 7 (lit ''member'') 9 = Some (lit ''h.p.s'')"
    by (simp add: build_jwt_token_def jwt_sign_def gw_sample_env_def sample_call_def sample_claims_def JWT_TTL_SECS_def Let_def)
  then show ?thesis
    unfolding login_def sample_email Let_def
    by (simp add: is_throttled_def login_credential_flow_def verify_credentials_def find_member_def member_row_def
      record_success_def create_session_and_respond_def create_session_def build_login_success_def SESSION_TTL_SECS_def
      sample_fields sample_state_def sample_logged_in_def sample_session_def sample_login_def)
qed

lemma sample_verified:
  "jwt_verify gw_sample_env (sample_call 2000 5) (lit ''h.p.s'') = Some (sample_claims 9)"
  "jwt_verify gw_sample_env (sample_call 2000 5) (lit ''h.p.t'') = Some (sample_claims 10)"
  by (simp add: jwt_verify_def gw_sample_env_def sample_call_def gateway_validation_def, simp add: lit_def)+

lemma sample_authenticated:
  assumes "list_all jwt_char (lit token)" "token \<noteq> []"
    and "jwt_verify gw_sample_env (sample_call 2000 5) (lit token) = Some (sample_claims sid)"
    and "check_session (sample_call 2000 5) sid st = Inr ()"
  shows "auth_from_request gw_sample_env (sample_call 2000 5) (cookie_headers token) st =
     Inr \<lparr>au_user_id = 7, au_tier = Member, au_sid = sid\<rparr>"
proof -
  have "extract_bearer_token (cookie_headers token) = Some (lit token)"
    by (rule extract_cookie_token) (simp_all add: cookie_headers_def assms(1,2))
  with assms(3,4) show ?thesis
    by (simp add: auth_from_request_def sample_fields sample_claims_def from_claim_def)
qed


lemma sample_first:
  "auth_from_request gw_sample_env (sample_call 2000 5) (cookie_headers ''h.p.s'') (sample_logged_in [9, 10]) =
     Inr \<lparr>au_user_id = 7, au_tier = Member, au_sid = 9\<rparr>"
  by (rule sample_authenticated)
    (simp_all add: sample_verified check_session_def sample_fields sample_logged_in_def sample_session_def,
     simp add: jwt_char_def lit_def)

lemma sample_logout:
  "logout gw_sample_env (sample_call 2000 5) (cookie_headers ''h.p.s'') (sample_logged_in [9, 10]) =
     (LogoutDone (session_cookie [] 0),
      sample_logged_in [9, 10]\<lparr>ap_sessions := [revoke_row 9 2000 (sample_session 9), sample_session 10]\<rparr>)"
  by (simp add: logout_def sample_first revoke_def sample_fields)
    (simp add: sample_logged_in_def sample_session_def revoke_row_def)

lemma sample_second:
  "auth_from_request gw_sample_env (sample_call 2000 5) (cookie_headers ''h.p.t'')
     (sample_logged_in [9, 10]\<lparr>ap_sessions := [revoke_row 9 2000 (sample_session 9), sample_session 10]\<rparr>) =
     Inr \<lparr>au_user_id = 7, au_tier = Member, au_sid = 10\<rparr>"
  by (rule sample_authenticated)
    (simp_all add: sample_verified check_session_def sample_fields sample_session_def,
     simp add: jwt_char_def lit_def)


theorem accounts_invariant_witness:
  "gw_wf gw_sample_env (sample_logged_in [9]) \<and> authors (sample_logged_in [9]) = authors sample_state"
  using accounts_invariant[OF r_into_rtranclp[of "gw_step gw_sample_env", OF step_login[OF sample_login_success]] sample_wf] .


end
