(* ===== verification/Gateway_Cache.thy ===== *)
theory Gateway_Cache
  imports Prelude
begin

text \<open>
  The three caches of the gateway: the access tokens of \<^verbatim>\<open>gateway/src/auth_metadata/token.rs\<close>, the identity
  token of \<^verbatim>\<open>gateway/src/auth_metadata/id_token.rs\<close> and the status snapshot of
  \<^verbatim>\<open>gateway/src/health_cache.rs\<close>. Each is written out as a function of one call, with every reading of the
  clock an input. The source has the same locking in all three (a look under the read lock, then a second look and
  the refresh under the write lock); calls that overlap are one step relation, \<open>cache_step\<close>, over the code of a
  cache, and the interface \<open>refreshing_cache\<close> is interpreted on the three of them.

  Inputs: the answers of the metadata server, base64, the JSON decoder and the library's \<^verbatim>\<open>from_timestamp\<close>. Instants
  are exact; the panics of the clock library at the ends of its range are left out. A task that
  its client abandons may stop at any await point, as a dropped future does.
\<close>

section \<open>Shared helpers\<close>

datatype token_error = FetchFailed | TokenTimeout | TokenNetwork

definition is_success_status :: "nat \<Rightarrow> bool" where
  "is_success_status status \<longleftrightarrow> 200 \<le> status \<and> status \<le> 299"

text \<open>\<^verbatim>\<open>Value::get\<close>: a key of an object; any other document has none.\<close>

fun json_get :: "pyval \<Rightarrow> pystr \<Rightarrow> pyval option" where
  "json_get (PDict kvs) k = map_of kvs k"
| "json_get _ k = None"

definition is_i64 :: "int \<Rightarrow> bool" where
  "is_i64 n \<longleftrightarrow> - 9223372036854775808 \<le> n \<and> n \<le> 9223372036854775807"

definition unreserved :: "nat \<Rightarrow> bool" where
  "unreserved b \<longleftrightarrow> (65 \<le> b \<and> b \<le> 90) \<or> (97 \<le> b \<and> b \<le> 122) \<or> (48 \<le> b \<and> b \<le> 57) \<or> b = 45 \<or> b = 95 \<or> b = 46 \<or> b = 126"

definition hex_upper :: "nat \<Rightarrow> nat" where
  "hex_upper n = (if n < 10 then 48 + n else 55 + n)"

definition encode_byte :: "nat \<Rightarrow> pystr" where
  "encode_byte b = (if unreserved b then [b] else [37, hex_upper (b div 16), hex_upper (b mod 16)])"

text \<open>The answer to a request: a transport error, which may be a timeout, or a status and the body when it could be read.\<close>

datatype 'b http_answer = NoAnswer bool | Answer nat "'b option"

definition classify_reqwest_error :: "bool \<Rightarrow> token_error" where
  "classify_reqwest_error timed_out = (if timed_out then TokenTimeout else TokenNetwork)"

text \<open>The readings of the clock in one call: at the first look, at the second, at the start of the refresh and after it.\<close>

record call_clock =
  kk_read :: rat
  kk_recheck :: rat
  kk_start :: rat
  kk_end :: rat

section \<open>Access tokens\<close>

definition REFRESH_AHEAD_SECS :: rat where
  "REFRESH_AHEAD_SECS = 60"

definition METADATA_TOKEN_PATH :: pystr where
  "METADATA_TOKEN_PATH = lit ''/computeMetadata/v1/instance/service-accounts/default/token''"

datatype oauth_scope = OAuthScope pystr

definition GCS_DEFAULT :: oauth_scope where
  "GCS_DEFAULT = OAuthScope []"

definition CLOUD_SQL :: oauth_scope where
  "CLOUD_SQL = OAuthScope (lit ''https://www.googleapis.com/auth/sqlservice.admin'')"

definition CLOUD_PLATFORM :: oauth_scope where
  "CLOUD_PLATFORM = OAuthScope (lit ''https://www.googleapis.com/auth/cloud-platform'')"

fun as_query_pair :: "oauth_scope \<Rightarrow> (pystr \<times> pystr) option" where
  "as_query_pair (OAuthScope s) = (if s = [] then None else Some (lit ''scopes'', s))"

definition percent_encode_scope :: "pystr \<Rightarrow> pystr" where
  "percent_encode_scope scope = concat (map encode_byte (utf8 scope))"

record gw_token =
  gt_bearer :: pystr
  gt_expires_at :: rat

record token_provider =
  tp_metadata_base_url :: pystr
  tp_scope :: oauth_scope
  tp_cache :: "gw_token option"

definition with_base_url :: "pystr \<Rightarrow> oauth_scope \<Rightarrow> token_provider" where
  "with_base_url base scope = \<lparr>tp_metadata_base_url = base, tp_scope = scope, tp_cache = None\<rparr>"

definition metadata_host :: pystr where
  "metadata_host = lit ''http://metadata.google.internal''"

definition for_gcs_signing :: token_provider where
  "for_gcs_signing = with_base_url metadata_host GCS_DEFAULT"

definition for_cloud_sql :: token_provider where
  "for_cloud_sql = with_base_url metadata_host CLOUD_SQL"

definition for_cloud_run :: token_provider where
  "for_cloud_run = with_base_url metadata_host CLOUD_PLATFORM"

definition metadata_url :: "token_provider \<Rightarrow> pystr" where
  "metadata_url p =
     (let url = tp_metadata_base_url p @ METADATA_TOKEN_PATH
      in case as_query_pair (tp_scope p) of
           None \<Rightarrow> url
         | Some (key, v) \<Rightarrow> url @ lit ''?'' @ key @ lit ''='' @ percent_encode_scope v)"

text \<open>Decoding \<^verbatim>\<open>MetadataTokenResponse\<close>: an object with each field once, or an array of the two.\<close>

definition field_once :: "payload \<Rightarrow> pystr \<Rightarrow> pyval option" where
  "field_once kvs k = (case filter (\<lambda>p. fst p = k) kvs of [p] \<Rightarrow> Some (snd p) | _ \<Rightarrow> None)"

definition token_fields :: "pyval option \<Rightarrow> pyval option \<Rightarrow> (pystr \<times> int) option" where
  "token_fields token expires =
     (case (token, expires) of
        (Some (PStr access_token), Some (PInt expires_in)) \<Rightarrow>
          if is_i64 expires_in then Some (access_token, expires_in) else None
      | _ \<Rightarrow> None)"

fun metadata_token_response :: "pyval \<Rightarrow> (pystr \<times> int) option" where
  "metadata_token_response (PDict kvs) = token_fields (field_once kvs (lit ''access_token'')) (field_once kvs (lit ''expires_in''))"
| "metadata_token_response (PList [a, b]) = token_fields (Some a) (Some b)"
| "metadata_token_response _ = None"

definition token_of_answer :: "rat \<Rightarrow> pyval http_answer \<Rightarrow> token_error + gw_token" where
  "token_of_answer now ans =
     (case ans of
        NoAnswer timed_out \<Rightarrow> Inl (classify_reqwest_error timed_out)
      | Answer status body \<Rightarrow>
          if \<not> is_success_status status then Inl FetchFailed
          else (case Option.bind body metadata_token_response of
                  None \<Rightarrow> Inl FetchFailed
                | Some (access_token, expires_in) \<Rightarrow>
                    Inr \<lparr>gt_bearer = access_token, gt_expires_at = now + of_int expires_in\<rparr>))"

definition fetch_gw_token :: "(pystr \<Rightarrow> pyval http_answer) \<Rightarrow> rat \<Rightarrow> token_provider \<Rightarrow> token_error + gw_token" where
  "fetch_gw_token metadata now p = token_of_answer now (metadata (metadata_url p))"

definition valid_bearer :: "rat \<Rightarrow> gw_token option \<Rightarrow> pystr option" where
  "valid_bearer now cache =
     (case cache of
        None \<Rightarrow> None
      | Some cached \<Rightarrow> if now < gt_expires_at cached - REFRESH_AHEAD_SECS then Some (gt_bearer cached) else None)"

definition get_or_refresh_token ::
  "call_clock \<Rightarrow> (pystr \<Rightarrow> pyval http_answer) \<Rightarrow> token_provider \<Rightarrow> (token_error + pystr \<times> bool) \<times> token_provider" where
  "get_or_refresh_token ck metadata p =
     (case valid_bearer (kk_read ck) (tp_cache p) of
        Some bearer \<Rightarrow> (Inr (bearer, True), p)
      | None \<Rightarrow>
          (case valid_bearer (kk_recheck ck) (tp_cache p) of
             Some bearer \<Rightarrow> (Inr (bearer, True), p)
           | None \<Rightarrow>
               (case fetch_gw_token metadata (kk_end ck) p of
                  Inl e \<Rightarrow> (Inl e, p)
                | Inr fresh \<Rightarrow> (Inr (gt_bearer fresh, False), p\<lparr>tp_cache := Some fresh\<rparr>))))"

definition invalidate :: "token_provider \<Rightarrow> token_provider" where
  "invalidate p = p\<lparr>tp_cache := None\<rparr>"

section \<open>The identity token\<close>

definition METADATA_IDENTITY_PATH :: pystr where
  "METADATA_IDENTITY_PATH = lit ''/computeMetadata/v1/instance/service-accounts/default/identity''"

definition FALLBACK_LIFETIME_MINUTES :: rat where
  "FALLBACK_LIFETIME_MINUTES = 55"

record id_token_provider =
  ip_metadata_base_url :: pystr
  ip_audience :: pystr
  ip_cache :: "gw_token option"

record jwt_reader =
  jr_b64url_decode :: "pystr \<Rightarrow> bytes option"
  jr_json :: "bytes \<Rightarrow> pyval option"
  jr_from_timestamp :: "int \<Rightarrow> rat option"

definition with_audience :: "pystr \<Rightarrow> id_token_provider" where
  "with_audience audience = \<lparr>ip_metadata_base_url = metadata_host, ip_audience = audience, ip_cache = None\<rparr>"

fun as_i64 :: "pyval \<Rightarrow> int option" where
  "as_i64 (PInt n) = (if is_i64 n then Some n else None)"
| "as_i64 _ = None"

definition decode_exp_from_payload :: "jwt_reader \<Rightarrow> pystr \<Rightarrow> pystr + int" where
  "decode_exp_from_payload jr payload_b64 =
     (case jr_b64url_decode jr payload_b64 of
        None \<Rightarrow> Inl (lit ''b64_decode'')
      | Some payload_bytes \<Rightarrow>
          (case jr_json jr payload_bytes of
             None \<Rightarrow> Inl (lit ''json_decode'')
           | Some payload \<Rightarrow>
               (case json_get payload (lit ''exp'') of
                  None \<Rightarrow> Inl (lit ''missing_exp'')
                | Some exp_value \<Rightarrow>
                    (case as_i64 exp_value of None \<Rightarrow> Inl (lit ''exp_not_numeric'') | Some n \<Rightarrow> Inr n))))"

definition fallback_expires_at :: "rat \<Rightarrow> rat" where
  "fallback_expires_at now = now + FALLBACK_LIFETIME_MINUTES * 60"

definition parse_jwt_exp :: "jwt_reader \<Rightarrow> rat \<Rightarrow> pystr \<Rightarrow> rat" where
  "parse_jwt_exp jr now jwt =
     (case split_on 46 jwt of
        _ # payload_b64 # _ \<Rightarrow>
          (case decode_exp_from_payload jr payload_b64 of
             Inl reason \<Rightarrow> fallback_expires_at now
           | Inr exp_secs \<Rightarrow>
               (case jr_from_timestamp jr exp_secs of None \<Rightarrow> fallback_expires_at now | Some t \<Rightarrow> t))
      | _ \<Rightarrow> fallback_expires_at now)"

definition id_token_of_answer :: "jwt_reader \<Rightarrow> rat \<Rightarrow> pystr http_answer \<Rightarrow> token_error + gw_token" where
  "id_token_of_answer jr now ans =
     (case ans of
        NoAnswer timed_out \<Rightarrow> Inl (classify_reqwest_error timed_out)
      | Answer status body \<Rightarrow>
          if \<not> is_success_status status then Inl FetchFailed
          else (case body of
                  None \<Rightarrow> Inl FetchFailed
                | Some jwt \<Rightarrow> Inr \<lparr>gt_bearer = jwt, gt_expires_at = parse_jwt_exp jr now jwt\<rparr>))"

text \<open>The library writes the audience as the query of the address.\<close>

definition fetch_from_metadata ::
  "jwt_reader \<Rightarrow> (pystr \<Rightarrow> pystr \<Rightarrow> pystr http_answer) \<Rightarrow> rat \<Rightarrow> id_token_provider \<Rightarrow> token_error + gw_token" where
  "fetch_from_metadata jr identity now p =
     id_token_of_answer jr now (identity (ip_metadata_base_url p @ METADATA_IDENTITY_PATH) (ip_audience p))"

definition fetch_workers_id_token ::
  "jwt_reader \<Rightarrow> call_clock \<Rightarrow> (pystr \<Rightarrow> pystr \<Rightarrow> pystr http_answer) \<Rightarrow> id_token_provider
    \<Rightarrow> (token_error + pystr) \<times> id_token_provider" where
  "fetch_workers_id_token jr ck identity p =
     (case valid_bearer (kk_read ck) (ip_cache p) of
        Some bearer \<Rightarrow> (Inr bearer, p)
      | None \<Rightarrow>
          (case valid_bearer (kk_recheck ck) (ip_cache p) of
             Some bearer \<Rightarrow> (Inr bearer, p)
           | None \<Rightarrow>
               (case fetch_from_metadata jr identity (kk_end ck) p of
                  Inl e \<Rightarrow> (Inl e, p)
                | Inr fresh \<Rightarrow> (Inr (gt_bearer fresh), p\<lparr>ip_cache := Some fresh\<rparr>))))"

section \<open>The status snapshot\<close>

record dep_status =
  ds_status :: pystr
  ds_latency_ms :: nat

record status_response =
  sr_status :: pystr
  sr_postgres :: dep_status
  sr_gcs :: dep_status
  sr_workers :: dep_status
  sr_checked_at :: pystr

record cached_snapshot =
  hs_snapshot :: status_response
  hs_checked_at :: rat

definition SNAPSHOT_TTL :: rat where
  "SNAPSHOT_TTL = 10"

text \<open>An age that is negative does not convert and counts as the longest duration.\<close>

definition is_fresh :: "rat \<Rightarrow> rat \<Rightarrow> bool" where
  "is_fresh now t \<longleftrightarrow> t \<le> now \<and> now - t < SNAPSHOT_TTL"

definition fresh_snapshot :: "rat \<Rightarrow> cached_snapshot option \<Rightarrow> status_response option" where
  "fresh_snapshot now guard =
     (case guard of
        None \<Rightarrow> None
      | Some cached \<Rightarrow> if is_fresh now (hs_checked_at cached) then Some (hs_snapshot cached) else None)"

definition stamped :: "(rat \<Rightarrow> pystr) \<Rightarrow> rat \<Rightarrow> status_response \<Rightarrow> cached_snapshot" where
  "stamped to_rfc3339 checked_at snapshot =
     \<lparr>hs_snapshot = snapshot\<lparr>sr_checked_at := to_rfc3339 checked_at\<rparr>, hs_checked_at = checked_at\<rparr>"

text \<open>The probe acts on a state of its own.\<close>

definition get_or_refresh_snapshot ::
  "(rat \<Rightarrow> pystr) \<Rightarrow> call_clock \<Rightarrow> ('s \<Rightarrow> status_response \<times> 's) \<Rightarrow> cached_snapshot option \<times> 's
    \<Rightarrow> status_response \<times> cached_snapshot option \<times> 's" where
  "get_or_refresh_snapshot to_rfc3339 ck probe_fn cs =
     (case cs of (guard, s) \<Rightarrow>
        (case fresh_snapshot (kk_read ck) guard of
           Some snapshot \<Rightarrow> (snapshot, guard, s)
         | None \<Rightarrow>
             (case fresh_snapshot (kk_recheck ck) guard of
                Some snapshot \<Rightarrow> (snapshot, guard, s)
              | None \<Rightarrow>
                  (case probe_fn s of (probed, s') \<Rightarrow>
                     let cached = stamped to_rfc3339 (kk_start ck) probed
                     in (hs_snapshot cached, Some cached, s')))))"

section \<open>Overlapping calls\<close>

text \<open>The code of a cache: when a value may be served, what a refresh that started and ended at given times makes of
  an answer, and whether the value can be evicted.\<close>

record ('r, 'e, 'v) cache_code =
  kc_fresh :: "rat \<Rightarrow> 'v \<Rightarrow> bool"
  kc_make :: "rat \<Rightarrow> rat \<Rightarrow> 'r \<Rightarrow> 'e + 'v"
  kc_evicts :: bool

definition token_code :: "(pyval http_answer, token_error, gw_token) cache_code" where
  "token_code =
     \<lparr>kc_fresh = (\<lambda>now c. now < gt_expires_at c - REFRESH_AHEAD_SECS), kc_make = (\<lambda>_ later ans. token_of_answer later ans),
      kc_evicts = True\<rparr>"

definition id_token_code :: "jwt_reader \<Rightarrow> (pystr http_answer, token_error, gw_token) cache_code" where
  "id_token_code jr =
     \<lparr>kc_fresh = (\<lambda>now c. now < gt_expires_at c - REFRESH_AHEAD_SECS), kc_make = (\<lambda>_ later ans. id_token_of_answer jr later ans),
      kc_evicts = False\<rparr>"

definition snapshot_code :: "(rat \<Rightarrow> pystr) \<Rightarrow> (status_response, unit, cached_snapshot) cache_code" where
  "snapshot_code to_rfc3339 =
     \<lparr>kc_fresh = (\<lambda>now c. is_fresh now (hs_checked_at c)), kc_make = (\<lambda>start _ s. Inr (stamped to_rfc3339 start s)),
      kc_evicts = False\<rparr>"

text \<open>Where a call is: not started or done, waiting for the write lock, holding it before and after the second look,
  refreshing since a given time, or with its result. \<open>ch_log\<close> holds the start of every refresh that was stored, the
  last one first.\<close>

datatype ('e, 'v) task = AtRest | Queued | Holding | Missed | Refreshing rat | Served 'v bool | Broke 'e

record ('e, 'v) cache_state =
  ch_task :: "nat \<Rightarrow> ('e, 'v) task"
  ch_writer :: "nat option"
  ch_value :: "'v option"
  ch_now :: rat
  ch_log :: "rat list"

abbreviation move :: "nat \<Rightarrow> ('e, 'v) task \<Rightarrow> ('e, 'v) cache_state \<Rightarrow> ('e, 'v) cache_state" where
  "move i p s \<equiv> s\<lparr>ch_task := (ch_task s)(i := p)\<rparr>"

abbreviation release :: "nat \<Rightarrow> ('e, 'v) task \<Rightarrow> ('e, 'v) cache_state \<Rightarrow> ('e, 'v) cache_state" where
  "release i p s \<equiv> s\<lparr>ch_task := (ch_task s)(i := p), ch_writer := None\<rparr>"

definition holds :: "('e, 'v) task \<Rightarrow> bool" where
  "holds p \<longleftrightarrow> (case p of Holding \<Rightarrow> True | Missed \<Rightarrow> True | Refreshing _ \<Rightarrow> True | _ \<Rightarrow> False)"

definition servable :: "('r, 'e, 'v) cache_code \<Rightarrow> rat \<Rightarrow> 'v option \<Rightarrow> bool" where
  "servable k now cache = (case cache of None \<Rightarrow> False | Some v \<Rightarrow> kc_fresh k now v)"

inductive cache_step :: "('r, 'e, 'v) cache_code \<Rightarrow> ('e, 'v) cache_state \<Rightarrow> ('e, 'v) cache_state \<Rightarrow> bool" for k where
  tick: "ch_now s \<le> t \<Longrightarrow> cache_step k s (s\<lparr>ch_now := t\<rparr>)"
| hit: "ch_task s i = AtRest \<Longrightarrow> ch_writer s = None \<Longrightarrow> ch_value s = Some v \<Longrightarrow> kc_fresh k (ch_now s) v \<Longrightarrow>
    cache_step k s (move i (Served v True) s)"
| miss: "ch_task s i = AtRest \<Longrightarrow> ch_writer s = None \<Longrightarrow> \<not> servable k (ch_now s) (ch_value s) \<Longrightarrow>
    cache_step k s (move i Queued s)"
| acquire: "ch_task s i = Queued \<Longrightarrow> ch_writer s = None \<Longrightarrow>
    cache_step k s ((move i Holding s)\<lparr>ch_writer := Some i\<rparr>)"
| late_hit: "ch_task s i = Holding \<Longrightarrow> ch_value s = Some v \<Longrightarrow> kc_fresh k (ch_now s) v \<Longrightarrow>
    cache_step k s (release i (Served v True) s)"
| late_miss: "ch_task s i = Holding \<Longrightarrow> \<not> servable k (ch_now s) (ch_value s) \<Longrightarrow>
    cache_step k s (move i Missed s)"
| begin_refresh: "ch_task s i = Missed \<Longrightarrow> cache_step k s (move i (Refreshing (ch_now s)) s)"
| stored: "ch_task s i = Refreshing t0 \<Longrightarrow> kc_make k t0 (ch_now s) r = Inr v \<Longrightarrow>
    cache_step k s ((release i (Served v False) s)\<lparr>ch_value := Some v, ch_log := t0 # ch_log s\<rparr>)"
| refused: "ch_task s i = Refreshing t0 \<Longrightarrow> kc_make k t0 (ch_now s) r = Inl e \<Longrightarrow>
    cache_step k s (release i (Broke e) s)"
| evict: "kc_evicts k \<Longrightarrow> ch_writer s = None \<Longrightarrow> cache_step k s (s\<lparr>ch_value := None\<rparr>)"
| abandon: "ch_task s i = Queued \<Longrightarrow> cache_step k s (move i AtRest s)"
| abandon_lock: "holds (ch_task s i) \<Longrightarrow> cache_step k s (release i AtRest s)"
| again: "ch_task s i = Served v b \<or> ch_task s i = Broke e \<Longrightarrow> cache_step k s (move i AtRest s)"

definition empty_cache :: "rat \<Rightarrow> ('e, 'v) cache_state" where
  "empty_cache now = \<lparr>ch_task = (\<lambda>_. AtRest), ch_writer = None, ch_value = None, ch_now = now, ch_log = []\<rparr>"

inductive cache_reachable :: "('r, 'e, 'v) cache_code \<Rightarrow> ('e, 'v) cache_state \<Rightarrow> bool" for k where
  start: "cache_reachable k (empty_cache now)"
| step: "cache_reachable k s \<Longrightarrow> cache_step k s t \<Longrightarrow> cache_reachable k t"

inductive_cases cache_stepE: "cache_step k s t"

text \<open>One call that meets no other.\<close>

definition cached_call ::
  "('r, 'e, 'v) cache_code \<Rightarrow> call_clock \<Rightarrow> 'r \<Rightarrow> 'v option \<Rightarrow> ('e + 'v \<times> bool) \<times> 'v option" where
  "cached_call k ck r cache =
     (if servable k (kk_read ck) cache \<or> servable k (kk_recheck ck) cache then (Inr (the cache, True), cache)
      else case kc_make k (kk_start ck) (kk_end ck) r of
             Inl e \<Rightarrow> (Inl e, cache)
           | Inr v \<Rightarrow> (Inr (v, False), Some v))"

section \<open>The interface of a refreshing cache\<close>

text \<open>What the locking relies on: a stored value that may no longer be served never may be again.\<close>

definition cache_inv :: "('r, 'e, 'v) cache_code \<Rightarrow> ('e, 'v) cache_state \<Rightarrow> bool" where
  "cache_inv k s \<longleftrightarrow>
     (\<forall>i. holds (ch_task s i) \<longleftrightarrow> ch_writer s = Some i)
   \<and> (\<forall>i. ch_task s i = Missed \<or> (\<exists>t0. ch_task s i = Refreshing t0) \<longrightarrow> \<not> servable k (ch_now s) (ch_value s))
   \<and> (\<forall>i t0. ch_task s i = Refreshing t0 \<longrightarrow> t0 \<le> ch_now s)
   \<and> (\<forall>v. ch_value s = Some v \<longrightarrow> (\<exists>t0 t1 r. kc_make k t0 t1 r = Inr v \<and> t0 \<le> t1 \<and> t1 \<le> ch_now s))"

lemma holds_simps [simp]:
  "\<not> holds AtRest" "\<not> holds Queued" "holds Holding" "holds Missed" "holds (Refreshing t)" "\<not> holds (Served v b)"
  "\<not> holds (Broke e)"
  by (simp_all add: holds_def)

lemma cache_inv_writer:
  assumes "cache_inv k s" "holds (ch_task s i)" "holds (ch_task s j)"
  shows "j = i"
  using assms unfolding cache_inv_def by (metis option.inject)

locale refreshing_cache =
  fixes k :: "('r, 'e, 'v) cache_code"
  assumes stale_stays: "\<lbrakk>kc_make k t0 t1 r = Inr v; t0 \<le> t1; t1 \<le> t; \<not> kc_fresh k t v; t \<le> t'\<rbrakk> \<Longrightarrow> \<not> kc_fresh k t' v"
begin

lemma stale_value_later:
  assumes "cache_inv k s" "\<not> servable k (ch_now s) (ch_value s)" "ch_now s \<le> t"
  shows "\<not> servable k t (ch_value s)"
proof (cases "ch_value s")
  case None
  then show ?thesis by (simp add: servable_def)
next
  case (Some v)
  then obtain t0 t1 r where "kc_make k t0 t1 r = Inr v" "t0 \<le> t1" "t1 \<le> ch_now s"
    using assms(1) unfolding cache_inv_def by blast
  from stale_stays[OF this _ assms(3)] show ?thesis using assms(2) Some by (simp add: servable_def)
qed

lemma cache_step_inv: "cache_step k s t \<Longrightarrow> cache_inv k s \<Longrightarrow> cache_inv k t"
proof (induction rule: cache_step.induct)
  case (tick s t)
  then show ?case using stale_value_later[of s t] unfolding cache_inv_def by (fastforce intro: order_trans)
next
  case (stored s i t0 r v)
  have others: "\<not> holds (ch_task s j)" if "j \<noteq> i" for j
    using cache_inv_writer[OF stored.prems, of i j] stored.hyps that by auto
  then have "ch_task s j \<noteq> Missed \<and> (\<forall>u. ch_task s j \<noteq> Refreshing u)" if "j \<noteq> i" for j using that by (metis holds_simps(4,5))
  moreover have "\<exists>u0 u1 r. kc_make k u0 u1 r = Inr v \<and> u0 \<le> u1 \<and> u1 \<le> ch_now s"
    using stored unfolding cache_inv_def by (meson order_refl)
  ultimately show ?case using stored others unfolding cache_inv_def by auto
qed (auto simp: cache_inv_def servable_def split: if_splits, (metis holds_simps)+)

lemma reachable_inv: "cache_reachable k s \<Longrightarrow> cache_inv k s"
proof (induction rule: cache_reachable.induct)
  case (start now)
  show ?case by (simp add: cache_inv_def empty_cache_def)
next
  case (step s t)
  then show ?case by (blast intro: cache_step_inv)
qed

text \<open>Overlapping calls share one refresh, and nobody refreshes a value that may still be served.\<close>

lemma single_refresh:
  assumes "cache_reachable k s" "ch_task s i = Refreshing t0"
  shows "\<not> servable k (ch_now s) (ch_value s) \<and> (\<forall>j. holds (ch_task s j) \<longrightarrow> j = i)"
proof -
  have inv: "cache_inv k s" using assms(1) by (rule reachable_inv)
  then show ?thesis using assms(2) cache_inv_writer[OF inv, of i] unfolding cache_inv_def by auto
qed

text \<open>A call that finds the lock free can finish, with the result and the cache of the sequential description.\<close>

lemma run_miss:
  assumes "ch_task s i = AtRest" "ch_writer s = None" "\<not> servable k (ch_now s) (ch_value s)" "ch_now s \<le> t"
  shows "\<exists>u. (cache_step k)\<^sup>*\<^sup>* s u \<and> ch_task u i = Holding \<and> ch_now u = t \<and> ch_value u = ch_value s"
proof -
  let ?w = "move i Queued s"
  let ?l = "(move i Holding ?w)\<lparr>ch_writer := Some i\<rparr>"
  have "cache_step k s ?w" using assms(1-3) by (rule cache_step.miss)
  moreover have "cache_step k ?w ?l" using assms(2) by (intro cache_step.acquire) simp_all
  moreover have "cache_step k ?l (?l\<lparr>ch_now := t\<rparr>)" using assms(4) by (intro cache_step.tick) simp
  ultimately have "(cache_step k)\<^sup>*\<^sup>* s (?l\<lparr>ch_now := t\<rparr>)" by (meson converse_rtranclp_into_rtranclp rtranclp.rtrancl_refl)
  then show ?thesis by (intro exI[of _ "?l\<lparr>ch_now := t\<rparr>"]) simp
qed

lemma run_refresh:
  assumes "ch_task s i = Holding" "\<not> servable k (ch_now s) (ch_value s)" "ch_now s \<le> t0" "t0 \<le> t1"
  shows "\<exists>u. (cache_step k)\<^sup>*\<^sup>* s u \<and> ch_task u i = Refreshing t0 \<and> ch_now u = t1 \<and> ch_value u = ch_value s"
proof -
  let ?m = "(move i Missed s)\<lparr>ch_now := t0\<rparr>"
  let ?r = "(move i (Refreshing t0) ?m)\<lparr>ch_now := t1\<rparr>"
  have "cache_step k s (move i Missed s)" using assms(1,2) by (rule cache_step.late_miss)
  moreover have "cache_step k (move i Missed s) ?m" using assms(3) by (intro cache_step.tick) simp
  moreover have "cache_step k ?m (move i (Refreshing t0) ?m)" using cache_step.begin_refresh[of ?m i k] by simp
  moreover have "cache_step k (move i (Refreshing t0) ?m) ?r" using assms(4) by (intro cache_step.tick) simp
  ultimately have "(cache_step k)\<^sup>*\<^sup>* s ?r" by (meson converse_rtranclp_into_rtranclp rtranclp.rtrancl_refl)
  then show ?thesis by (intro exI[of _ ?r]) simp
qed

lemma call_refines:
  assumes "ch_task s i = AtRest" "ch_writer s = None" "ch_now s = kk_read ck"
    "kk_read ck \<le> kk_recheck ck" "kk_recheck ck \<le> kk_start ck" "kk_start ck \<le> kk_end ck"
  shows "\<exists>u. (cache_step k)\<^sup>*\<^sup>* s u \<and> ch_writer u = None \<and> ch_value u = snd (cached_call k ck r (ch_value s))
    \<and> ch_task u i = (case fst (cached_call k ck r (ch_value s)) of Inl e \<Rightarrow> Broke e | Inr (v, b) \<Rightarrow> Served v b)"
proof (cases "servable k (kk_read ck) (ch_value s)")
  case True
  then obtain v where v: "ch_value s = Some v" "kc_fresh k (kk_read ck) v" by (auto simp: servable_def split: option.splits)
  from cache_step.hit[OF assms(1,2) v(1), of k] v(2) assms(3) have "cache_step k s (move i (Served v True) s)" by simp
  then show ?thesis using True v assms(2)
    by (intro exI[of _ "move i (Served v True) s"]) (auto simp: cached_call_def)
next
  case miss: False
  then obtain w where w: "(cache_step k)\<^sup>*\<^sup>* s w" "ch_task w i = Holding" "ch_now w = kk_recheck ck" "ch_value w = ch_value s"
    using run_miss[of s i "kk_recheck ck"] assms by auto
  show ?thesis
  proof (cases "servable k (kk_recheck ck) (ch_value s)")
    case True
    then obtain v where v: "ch_value w = Some v" "kc_fresh k (ch_now w) v" using w by (auto simp: servable_def split: option.splits)
    from rtranclp.rtrancl_into_rtrancl[OF w(1) cache_step.late_hit[OF w(2) v]] show ?thesis
      using True miss v w(4) by (intro exI[of _ "release i (Served v True) w"]) (auto simp: cached_call_def)
  next
    case False
    then obtain u where u: "(cache_step k)\<^sup>*\<^sup>* s u" "ch_task u i = Refreshing (kk_start ck)" "ch_now u = kk_end ck" "ch_value u = ch_value s"
      using run_refresh[of w i "kk_start ck" "kk_end ck"] w assms(5,6) by (metis rtranclp_trans)
    show ?thesis
    proof (cases "kc_make k (kk_start ck) (kk_end ck) r")
      case (Inl e)
      with cache_step.refused[OF u(2), of k r e] u(3) have "cache_step k u (release i (Broke e) u)" by simp
      from rtranclp.rtrancl_into_rtrancl[OF u(1) this] show ?thesis
        using miss False Inl u(4) by (intro exI[of _ "release i (Broke e) u"]) (auto simp: cached_call_def)
    next
      case (Inr v)
      with cache_step.stored[OF u(2), of k r v] u(3)
      have "cache_step k u ((release i (Served v False) u)\<lparr>ch_value := Some v, ch_log := kk_start ck # ch_log u\<rparr>)" by simp
      from rtranclp.rtrancl_into_rtrancl[OF u(1) this] show ?thesis
        using miss False Inr
        by (intro exI[of _ "(release i (Served v False) u)\<lparr>ch_value := Some v, ch_log := kk_start ck # ch_log u\<rparr>"]) (auto simp: cached_call_def)
    qed
  qed
qed

end

text \<open>A cache whose values live for a fixed time after the start of their refresh and are not evicted.\<close>

definition log_inv :: "('r, 'e, 'v) cache_code \<Rightarrow> rat \<Rightarrow> ('e, 'v) cache_state \<Rightarrow> bool" where
  "log_inv k ttl s \<longleftrightarrow>
     (case ch_value s of
        None \<Rightarrow> ch_log s = []
      | Some v \<Rightarrow> \<exists>t0 t1 r rest. ch_log s = t0 # rest \<and> kc_make k t0 t1 r = Inr v \<and> t0 \<le> ch_now s)
   \<and> sorted_wrt (\<lambda>a b. b + ttl \<le> a) (ch_log s)
   \<and> (\<forall>i t0. ch_task s i = Refreshing t0 \<longrightarrow> (\<forall>b\<in>set (ch_log s). b + ttl \<le> t0))
   \<and> (\<forall>i. ch_task s i = Missed \<longrightarrow> (\<forall>b\<in>set (ch_log s). b + ttl \<le> ch_now s))"

lemma spaced_span:
  fixes xs :: "rat list"
  assumes "sorted_wrt (\<lambda>a b. b + ttl \<le> a) (x # xs)"
  shows "\<exists>y\<in>set (x # xs). y + ttl * of_nat (length xs) \<le> x"
  using assms
proof (induction xs arbitrary: x)
  case (Cons y ys)
  have "sorted_wrt (\<lambda>a b. b + ttl \<le> a) (y # ys)" using Cons.prems by simp
  from Cons.IH[OF this] obtain z where z: "z \<in> set (y # ys)" "z + ttl * of_nat (length ys) \<le> y" by blast
  moreover have "y + ttl \<le> x" using Cons.prems by simp
  ultimately show ?case by (intro bexI[of _ z]) (auto simp: algebra_simps)
qed simp

lemma spaced_count:
  fixes xs :: "rat list"
  assumes "sorted_wrt (\<lambda>a b. b + ttl \<le> a) xs" "0 < ttl" "0 < d" "\<forall>t\<in>set xs. a \<le> t \<and> t < a + d"
  shows "of_nat (length xs) < d / ttl + 1"
proof (cases xs)
  case Nil
  then show ?thesis using assms(2,3) by (simp add: add_pos_pos)
next
  case (Cons x ys)
  from spaced_span[OF assms(1)[unfolded Cons]] Cons obtain y where y: "y \<in> set xs" "y + ttl * of_nat (length ys) \<le> x" by blast
  moreover have "a \<le> y" "x < a + d" using assms(4) y(1) Cons by auto
  ultimately have "ttl * of_nat (length ys) < d" by linarith
  then have "of_nat (length ys) < d / ttl" using assms(2) by (simp add: field_simps)
  then show ?thesis using Cons by simp
qed

text \<open>Most steps change neither the value, the log nor the clock.\<close>

lemma log_inv_quiet:
  assumes "log_inv k ttl s" "ch_value t = ch_value s" "ch_log t = ch_log s" "ch_now t = ch_now s"
    "\<And>j t0. ch_task t j = Refreshing t0 \<Longrightarrow> ch_task s j = Refreshing t0 \<or> ch_task s j = Missed \<and> t0 = ch_now s"
    "\<And>j. ch_task t j = Missed \<Longrightarrow> ch_task s j = Missed"
  shows "log_inv k ttl t"
  using assms(1) unfolding log_inv_def assms(2-4) using assms(5,6) by blast

locale timed_cache = refreshing_cache k for k :: "('r, 'e, 'v) cache_code" +
  fixes ttl :: rat
  assumes lives: "\<lbrakk>kc_make k t0 t1 r = Inr v; t0 \<le> t; t < t0 + ttl\<rbrakk> \<Longrightarrow> kc_fresh k t v"
    and kept: "\<not> kc_evicts k"
begin

lemma stale_spaced:
  assumes "log_inv k ttl s" "\<not> servable k (ch_now s) (ch_value s)" "b \<in> set (ch_log s)"
  shows "b + ttl \<le> ch_now s"
proof (cases "ch_value s")
  case None
  then show ?thesis using assms unfolding log_inv_def by simp
next
  case (Some v)
  then obtain t0 t1 r rest where l: "ch_log s = t0 # rest" "kc_make k t0 t1 r = Inr v" "t0 \<le> ch_now s"
    using assms(1) unfolding log_inv_def by auto
  then have last: "t0 + ttl \<le> ch_now s" using lives[OF l(2,3)] assms(2) Some by (auto simp: servable_def not_less[symmetric])
  have "sorted_wrt (\<lambda>a b. b + ttl \<le> a) (t0 # rest)" using assms(1) l(1) unfolding log_inv_def by simp
  then show ?thesis using assms(3) l last by auto
qed

lemma cache_step_log: "cache_step k s t \<Longrightarrow> cache_inv k s \<Longrightarrow> log_inv k ttl s \<Longrightarrow> log_inv k ttl t"
proof (induction rule: cache_step.induct)
  case (tick s t)
  then show ?case unfolding log_inv_def by (auto split: option.splits intro: order_trans)
next
  case (late_miss s i)
  from late_miss stale_spaced[of s] have "\<forall>b\<in>set (ch_log s). b + ttl \<le> ch_now s" by blast
  then show ?case using late_miss.prems unfolding log_inv_def by (simp cong: option.case_cong)
next
  case (stored s i t0 r v)
  have "\<not> holds (ch_task s j)" if "j \<noteq> i" for j
    using cache_inv_writer[OF stored.prems(1), of i j] stored.hyps that by auto
  then have "ch_task s j \<noteq> Missed \<and> (\<forall>u. ch_task s j \<noteq> Refreshing u)" if "j \<noteq> i" for j using that by (metis holds_simps(4,5))
  moreover have "t0 \<le> ch_now s" using stored unfolding cache_inv_def by blast
  ultimately show ?case using stored unfolding log_inv_def by auto
next
  case (evict s)
  then show ?case using kept by simp
qed (erule log_inv_quiet; auto split: if_splits)+

lemma reachable_log: "cache_reachable k s \<Longrightarrow> log_inv k ttl s"
proof (induction rule: cache_reachable.induct)
  case (start now)
  show ?case by (simp add: log_inv_def empty_cache_def)
next
  case (step s t)
  then show ?case by (blast intro: cache_step_log reachable_inv)
qed

lemma refreshes_spaced:
  assumes "cache_reachable k s" "0 < ttl" "0 < d"
  shows "of_nat (length (filter (\<lambda>t. a \<le> t \<and> t < a + d) (ch_log s))) < d / ttl + 1"
  using reachable_log[OF assms(1)] assms(2,3) unfolding log_inv_def
  by (intro spaced_count[of ttl _ d a]) (auto intro: sorted_wrt_filter)

lemma refresh_waits:
  assumes "cache_reachable k s" "ch_task s i = Refreshing t0" "b \<in> set (ch_log s)"
  shows "b + ttl \<le> t0"
  using reachable_log[OF assms(1)] assms(2,3) unfolding log_inv_def by blast

end

section \<open>The three caches meet the interface\<close>

interpretation tokens: refreshing_cache token_code
  by unfold_locales (auto simp: token_code_def)

interpretation identity: refreshing_cache "id_token_code jr" for jr
  by unfold_locales (auto simp: id_token_code_def)

interpretation snapshots: timed_cache "snapshot_code to_rfc3339" SNAPSHOT_TTL for to_rfc3339
  by unfold_locales (auto simp: snapshot_code_def stamped_def is_fresh_def)

lemma get_or_refresh_token_is_call:
  "get_or_refresh_token ck metadata p =
     (case cached_call token_code ck (metadata (metadata_url p)) (tp_cache p) of (res, cache) \<Rightarrow>
        (map_sum id (\<lambda>(c, b). (gt_bearer c, b)) res, p\<lparr>tp_cache := cache\<rparr>))"
  by (cases "tp_cache p")
    (auto simp: get_or_refresh_token_def cached_call_def token_code_def servable_def valid_bearer_def fetch_gw_token_def split: sum.splits)

lemma fetch_workers_id_token_is_call:
  "fetch_workers_id_token jr ck identity_of p =
     (case cached_call (id_token_code jr) ck (identity_of (ip_metadata_base_url p @ METADATA_IDENTITY_PATH) (ip_audience p)) (ip_cache p) of
        (res, cache) \<Rightarrow> (map_sum id (\<lambda>(c, b). gt_bearer c) res, p\<lparr>ip_cache := cache\<rparr>))"
  by (cases "ip_cache p")
    (auto simp: fetch_workers_id_token_def cached_call_def id_token_code_def servable_def valid_bearer_def fetch_from_metadata_def split: sum.splits)

lemma get_or_refresh_snapshot_is_call:
  "get_or_refresh_snapshot to_rfc3339 ck probe_fn (guard, s) =
     (case cached_call (snapshot_code to_rfc3339) ck (fst (probe_fn s)) guard of (res, cache) \<Rightarrow>
        (case res of Inr (c, from_cache) \<Rightarrow> (hs_snapshot c, cache, if from_cache then s else snd (probe_fn s))))"
  by (cases guard)
    (auto simp: get_or_refresh_snapshot_def cached_call_def snapshot_code_def servable_def fresh_snapshot_def Let_def split: prod.splits)

section \<open>Lemmas\<close>

lemma reachable_steps: "(cache_step k)\<^sup>*\<^sup>* s t \<Longrightarrow> cache_reachable k s \<Longrightarrow> cache_reachable k t"
  by (induction rule: rtranclp_induct) (auto intro: cache_reachable.step)

text \<open>A bearer served from the cache has more than a minute to live, and one that was invalidated is fetched again: the
  retry of a refused signature never meets the refused token.\<close>

lemma cached_bearer_valid:
  assumes "get_or_refresh_token ck metadata p = (Inr (bearer, True), p')" "kk_read ck \<le> kk_recheck ck"
  shows "\<exists>c. tp_cache p = Some c \<and> gt_bearer c = bearer \<and> kk_read ck + 60 < gt_expires_at c \<and> p' = p"
  using assms unfolding get_or_refresh_token_def valid_bearer_def REFRESH_AHEAD_SECS_def
  by (auto split: option.splits if_splits sum.splits)

lemma token_call_fetched:
  assumes "get_or_refresh_token ck metadata p = (Inr (bearer, False), p')"
  shows "\<exists>c. token_of_answer (kk_end ck) (metadata (metadata_url p)) = Inr c \<and> gt_bearer c = bearer \<and> tp_cache p' = Some c"
  using assms unfolding get_or_refresh_token_def fetch_gw_token_def by (auto split: option.splits sum.splits)

lemma invalidated_bearer_refetched:
  "get_or_refresh_token ck metadata (invalidate p) = (Inr (bearer, from_cache), p') \<Longrightarrow> \<not> from_cache"
  unfolding get_or_refresh_token_def valid_bearer_def by (auto simp: invalidate_def split: sum.splits)

text \<open>The expiry of an identity token is its \<^verbatim>\<open>exp\<close> claim, whatever its header and its signature are.\<close>

lemma jwt_exp_read:
  assumes "46 \<notin> set header" "46 \<notin> set p" "jr_b64url_decode jr p = Some bs" "jr_json jr bs = Some (PDict kvs)"
    "map_of kvs (lit ''exp'') = Some (PInt n)" "is_i64 n" "jr_from_timestamp jr n = Some t"
  shows "parse_jwt_exp jr now (header @ 46 # p @ 46 # signature) = t"
  using assms by (simp add: parse_jwt_exp_def decode_exp_from_payload_def split_on_line)

text \<open>A probe that is abandoned stores nothing, so the next call starts another one at once.\<close>

lemma abandoned_refresh_restarts:
  assumes "cache_reachable (snapshot_code f) s" "ch_task s i = Refreshing t0"
  shows "\<exists>u. (cache_step (snapshot_code f))\<^sup>*\<^sup>* s u \<and> ch_task u i = Refreshing (ch_now s) \<and> ch_now u = ch_now s \<and> ch_value u = ch_value s"
proof -
  let ?s = "release i AtRest s"
  have stale: "\<not> servable (snapshot_code f) (ch_now s) (ch_value s)" using snapshots.single_refresh[OF assms] by blast
  have first: "cache_step (snapshot_code f) s ?s" using assms(2) by (intro cache_step.abandon_lock) simp
  obtain w where w: "(cache_step (snapshot_code f))\<^sup>*\<^sup>* ?s w" "ch_task w i = Holding" "ch_now w = ch_now s" "ch_value w = ch_value s"
    using snapshots.run_miss[of ?s i f "ch_now s"] stale by auto
  then obtain u where "(cache_step (snapshot_code f))\<^sup>*\<^sup>* w u" "ch_task u i = Refreshing (ch_now s)" "ch_now u = ch_now s" "ch_value u = ch_value s"
    using snapshots.run_refresh[of w i f "ch_now s" "ch_now s"] stale by auto
  then show ?thesis using first w(1) by (meson converse_rtranclp_into_rtranclp rtranclp_trans)
qed

section \<open>Properties\<close>

text \<open>Overlapping calls share one fetch of an access token, and of the identity token.\<close>

lemma token_single_fetch:
  assumes "cache_reachable token_code s" "ch_task s i = Refreshing t0"
  shows "\<not> servable token_code (ch_now s) (ch_value s) \<and> (\<forall>j. holds (ch_task s j) \<longrightarrow> j = i)"
  using assms by (rule tokens.single_refresh)

lemma id_token_single_fetch:
  assumes "cache_reachable (id_token_code jr) s" "ch_task s i = Refreshing t0"
  shows "\<not> servable (id_token_code jr) (ch_now s) (ch_value s) \<and> (\<forall>j. holds (ch_task s j) \<longrightarrow> j = i)"
  using assms by (rule identity.single_refresh)

text \<open>C21: However many callers poll the public status route, and however their calls overlap, the dependencies are
  probed at most once per ten seconds: of the probes whose result was stored, fewer than \<open>d / 10 + 1\<close> started
  in any period of \<open>d\<close> seconds, on a clock that does not go back.\<close>

theorem status_probes_bounded:
  assumes "cache_reachable (snapshot_code to_rfc3339) s" "0 < d"
  shows "of_nat (length (filter (\<lambda>t. a \<le> t \<and> t < a + d) (ch_log s))) < d / 10 + 1"
  using snapshots.refreshes_spaced[OF assms(1) _ assms(2), of a] by (simp add: SNAPSHOT_TTL_def)

definition sample_probe :: status_response where
  "sample_probe =
     (let up = \<lparr>ds_status = lit ''ok'', ds_latency_ms = 1\<rparr>
      in \<lparr>sr_status = lit ''ok'', sr_postgres = up, sr_gcs = up, sr_workers = up, sr_checked_at = []\<rparr>)"

definition sample_polled :: "(unit, cached_snapshot) cache_state" where
  "sample_polled =
     (let v = stamped (\<lambda>_. []) 0 sample_probe
      in \<lparr>ch_task = (\<lambda>_. AtRest)(0 := Served v False), ch_writer = None, ch_value = Some v, ch_now = 0, ch_log = [0]\<rparr>)"

lemma sample_polled_reachable: "cache_reachable (snapshot_code (\<lambda>_. [])) sample_polled"
proof -
  let ?k = "snapshot_code (\<lambda>_. [])"
  let ?s = "empty_cache 0 :: (unit, cached_snapshot) cache_state"
  let ?h = "(move 0 Holding (move 0 Queued ?s))\<lparr>ch_writer := Some 0\<rparr>"
  let ?r = "move 0 (Refreshing 0) (move 0 Missed ?h)"
  have "cache_step ?k ?s (move 0 Queued ?s)" by (rule cache_step.miss) (simp_all add: empty_cache_def servable_def)
  moreover have "cache_step ?k (move 0 Queued ?s) ?h" by (rule cache_step.acquire) (simp_all add: empty_cache_def)
  moreover have "cache_step ?k ?h (move 0 Missed ?h)" by (rule cache_step.late_miss) (simp_all add: empty_cache_def servable_def)
  moreover have "cache_step ?k (move 0 Missed ?h) ?r"
    using cache_step.begin_refresh[of "move 0 Missed ?h" 0 ?k] by (simp add: empty_cache_def)
  moreover have "cache_step ?k ?r sample_polled"
    using cache_step.stored[of ?r 0 0 ?k sample_probe "stamped (\<lambda>_. []) 0 sample_probe"]
    by (simp add: sample_polled_def empty_cache_def snapshot_code_def Let_def)
  ultimately show ?thesis by (meson cache_reachable.start cache_reachable.step)
qed

theorem status_probes_bounded_witness:
  "of_nat (length (filter (\<lambda>t. 0 \<le> t \<and> t < 0 + 5) (ch_log sample_polled))) < (5::rat) / 10 + 1"
  by (rule status_probes_bounded[OF sample_polled_reachable]) simp

end
