(* ===== verification/Gateway_Conversations.thy ===== *)
theory Gateway_Conversations
  imports Gateway_Auth Gateway_Cache Conversation_Repository
begin

text \<open>
  The conversation history of the gateway (\<^verbatim>\<open>gateway/src/handlers/conversations.rs\<close>) with the two
  modules it calls for the transcripts, \<^verbatim>\<open>gateway/src/gcs/sign.rs\<close> and \<^verbatim>\<open>gateway/src/gcs/delete.rs\<close>. The
  tables are those the workers write. An identifier in them is the text of a UUID, and the gateway
  compares it with the text of the UUID it holds.

  Inputs: the statements that fail and the column \<^verbatim>\<open>updated_at\<close> (a \<open>conv_call\<close>), and the services of
  Google (a \<open>'g storage\<close>): the tokens, the signing call and the deletion of an object, which acts
  on a state of type \<open>'g\<close>. Rows with equal \<^verbatim>\<open>updated_at\<close> come in any order from the database; the model
  takes one. Log lines are left out.
\<close>

section \<open>Errors and inputs\<close>

datatype api_error =
    InvalidRequestError
  | AuthorRequiredError
  | ConversationNotFound
  | ConversationReferencedByTicket
  | UpstreamUnavailableError
  | CostConfigUnavailable

fun api_error_status :: "api_error \<Rightarrow> nat \<times> pystr" where
  "api_error_status InvalidRequestError = (400, lit ''invalid_request'')"
| "api_error_status AuthorRequiredError = (403, lit ''author_required'')"
| "api_error_status ConversationNotFound = (404, lit ''conversation_not_found'')"
| "api_error_status ConversationReferencedByTicket = (409, lit ''conversation_referenced_by_ticket'')"
| "api_error_status UpstreamUnavailableError = (503, lit ''upstream_unavailable'')"
| "api_error_status CostConfigUnavailable = (503, lit ''cost_config_unavailable'')"

datatype gcs_delete_error = DeleteTokenFailed | DeleteStatus nat | DeleteTimeout | DeleteNetwork

datatype sign_error = SignTokenFailed | SignBlob403 | SignBlob429 | SignBlob5xx | SignTimeout | SignNetwork

text \<open>What the signing call makes of a request: no answer, or a status and the body; a body that cannot be read may have timed out.\<close>

datatype blob_body = BodyTimeout | BodyBad | SignedBlob pystr

record conv_call =
  cc_query_ok :: bool
  cc_begin_ok :: bool
  cc_lookup_ok :: bool
  cc_delete_ok :: bool
  cc_commit_ok :: bool
  cc_now :: rat
  cc_updated_at :: "pystr \<Rightarrow> int"

record 'g storage =
  so_bucket :: pystr
  so_sa_email :: pystr
  so_token :: "token_error + pystr \<times> bool"
  so_fresh_token :: "token_error + pystr \<times> bool"
  so_sign_blob :: "pystr \<Rightarrow> pystr \<Rightarrow> pystr \<Rightarrow> token_error + nat \<times> blob_body"
  so_sha256_hex :: "bytes \<Rightarrow> pystr"
  so_b64_encode :: "bytes \<Rightarrow> pystr"
  so_b64_decode :: "pystr \<Rightarrow> bytes option"
  so_date :: "rat \<Rightarrow> pystr"
  so_datetime :: "rat \<Rightarrow> pystr"
  so_delete :: "pystr \<Rightarrow> pystr \<Rightarrow> 'g \<Rightarrow> (token_error + nat) \<times> 'g"


section \<open>Signed addresses\<close>

definition SIGNED_URL_TTL_SECONDS :: nat where
  "SIGNED_URL_TTL_SECONDS = 300"

fun sign_error_of :: "token_error \<Rightarrow> sign_error" where
  "sign_error_of TokenTimeout = SignTimeout"
| "sign_error_of TokenNetwork = SignNetwork"
| "sign_error_of FetchFailed = SignTokenFailed"

definition hex_digit :: "nat \<Rightarrow> nat" where
  "hex_digit n = (if n < 10 then 48 + n else 87 + n)"

definition hex_encode :: "bytes \<Rightarrow> pystr" where
  "hex_encode bs = concat (map (\<lambda>b. [hex_digit (b div 16), hex_digit (b mod 16)]) bs)"

text \<open>\<^verbatim>\<open>str::replace\<close> of one character by a string.\<close>

definition str_replace_char :: "nat \<Rightarrow> pystr \<Rightarrow> pystr \<Rightarrow> pystr" where
  "str_replace_char c r s = concat (map (\<lambda>x. if x = c then r else [x]) s)"

definition build_string_to_sign :: "'g storage \<Rightarrow> pystr \<Rightarrow> rat \<Rightarrow> pystr \<times> pystr" where
  "build_string_to_sign so object now =
     (let datetime = so_datetime so now;
          date = so_date so now;
          scope = date @ lit ''/auto/storage/goog4_request'';
          cred_encoded = str_replace_char 64 (lit ''%40'') (str_replace_char 47 (lit ''%2F'') (so_sa_email so @ lit ''/'' @ scope));
          host = so_bucket so @ lit ''.storage.googleapis.com'';
          qs = lit ''X-Goog-Algorithm=GOOG4-RSA-SHA256&X-Goog-Credential='' @ cred_encoded @ lit ''&X-Goog-Date='' @ datetime @
               lit ''&X-Goog-Expires='' @ digits_of SIGNED_URL_TTL_SECONDS @ lit ''&X-Goog-SignedHeaders=host'';
          canonical = lit ''GET'' @ [10] @ lit ''/'' @ object @ [10] @ qs @ [10] @ lit ''host:'' @ host @ [10, 10] @ lit ''host'' @ [10] @
               lit ''UNSIGNED-PAYLOAD'';
          cr_hash = so_sha256_hex so (utf8 canonical)
      in (qs, lit ''GOOG4-RSA-SHA256'' @ [10] @ datetime @ [10] @ scope @ [10] @ cr_hash))"

definition parse_sign_blob_response :: "'g storage \<Rightarrow> nat \<times> blob_body \<Rightarrow> sign_error + pystr" where
  "parse_sign_blob_response so resp =
     (case resp of (status, body) \<Rightarrow>
        if status = 200
        then (case body of
                BodyTimeout \<Rightarrow> Inl SignTimeout
              | BodyBad \<Rightarrow> Inl SignBlob5xx
              | SignedBlob blob \<Rightarrow>
                  (case so_b64_decode so blob of None \<Rightarrow> Inl SignBlob5xx | Some sig_bytes \<Rightarrow> Inr (hex_encode sig_bytes)))
        else if status = 403 then Inl SignBlob403
        else if status = 429 then Inl SignBlob429
        else Inl SignBlob5xx)"

definition send_blob :: "'g storage \<Rightarrow> pystr \<Rightarrow> pystr \<Rightarrow> pystr \<Rightarrow> sign_error + nat \<times> blob_body" where
  "send_blob so iam_url token payload =
     (case so_sign_blob so iam_url token payload of Inl e \<Rightarrow> Inl (sign_error_of e) | Inr resp \<Rightarrow> Inr resp)"

definition call_sign_blob :: "'g storage \<Rightarrow> pystr \<Rightarrow> pystr \<Rightarrow> sign_error + pystr" where
  "call_sign_blob so iam_url payload =
     (case so_token so of
        Inl e \<Rightarrow> Inl (sign_error_of e)
      | Inr (token, from_cache) \<Rightarrow>
          (case send_blob so iam_url token payload of
             Inl e \<Rightarrow> Inl e
           | Inr resp \<Rightarrow>
               if fst resp = 401 \<and> from_cache
               then (case so_fresh_token so of
                       Inl e \<Rightarrow> Inl (sign_error_of e)
                     | Inr (fresh_token, _) \<Rightarrow>
                         (case send_blob so iam_url fresh_token payload of
                            Inl e \<Rightarrow> Inl e
                          | Inr retry_resp \<Rightarrow> parse_sign_blob_response so retry_resp))
               else parse_sign_blob_response so resp))"

definition sign_get :: "'g storage \<Rightarrow> pystr \<Rightarrow> rat \<Rightarrow> sign_error + pystr" where
  "sign_get so object now =
     (let iam_url = lit ''https://iamcredentials.googleapis.com/v1/projects/-/serviceAccounts/'' @ so_sa_email so @ lit '':signBlob'';
          (qs, sts) = build_string_to_sign so object now;
          payload_b64 = so_b64_encode so (utf8 sts)
      in case call_sign_blob so iam_url payload_b64 of
           Inl e \<Rightarrow> Inl e
         | Inr sig_hex \<Rightarrow>
             Inr (lit ''https://'' @ so_bucket so @ lit ''.storage.googleapis.com'' @ lit ''/'' @ object @ lit ''?'' @ qs @
                  lit ''&X-Goog-Signature='' @ sig_hex))"

section \<open>Deleting an object\<close>

definition encode_object_path :: "pystr \<Rightarrow> pystr" where
  "encode_object_path object_path = concat (map encode_byte (utf8 object_path))"

fun delete_error_of :: "token_error \<Rightarrow> gcs_delete_error" where
  "delete_error_of TokenTimeout = DeleteTimeout"
| "delete_error_of TokenNetwork = DeleteNetwork"
| "delete_error_of FetchFailed = DeleteTokenFailed"

definition classify_delete_status :: "nat \<Rightarrow> gcs_delete_error + unit" where
  "classify_delete_status status = (if status = 200 \<or> status = 204 \<or> status = 404 then Inr () else Inl (DeleteStatus status))"

definition object_url :: "pystr \<Rightarrow> pystr \<Rightarrow> pystr" where
  "object_url bucket object_path =
     lit ''https://storage.googleapis.com'' @ lit ''/storage/v1/b/'' @ bucket @ lit ''/o/'' @ encode_object_path object_path"

definition delete_object :: "'g storage \<Rightarrow> pystr \<Rightarrow> 'g \<Rightarrow> (gcs_delete_error + unit) \<times> 'g" where
  "delete_object so object_path g =
     (case so_token so of
        Inl e \<Rightarrow> (Inl (delete_error_of e), g)
      | Inr (token, _) \<Rightarrow>
          (case so_delete so (object_url (so_bucket so) object_path) token g of
             (Inl e, g') \<Rightarrow> (Inl (delete_error_of e), g')
           | (Inr status, g') \<Rightarrow> (classify_delete_status status, g')))"


section \<open>The handlers\<close>

definition MAX_CONVERSATIONS :: nat where
  "MAX_CONVERSATIONS = 50"

definition MAX_MESSAGES :: nat where
  "MAX_MESSAGES = 500"

definition MAX_TITLE_CHARS :: nat where
  "MAX_TITLE_CHARS = 60"

definition caller_moderates_all :: "anon_identity \<Rightarrow> bool" where
  "caller_moderates_all identity \<longleftrightarrow> ai_tier identity = Author"

record conversation_summary =
  cs_id :: pystr
  cs_created_at :: int
  cs_updated_at :: int
  cs_message_count :: int
  cs_title :: pystr
  cs_has_ticket :: bool

definition truncate_title :: "pystr \<Rightarrow> pystr" where
  "truncate_title content =
     (let head = take MAX_TITLE_CHARS content
      in if drop MAX_TITLE_CHARS content \<noteq> [] then head @ [8230] else head)"

definition first_user_message :: "db \<Rightarrow> pystr \<Rightarrow> pystr option" where
  "first_user_message d c =
     (case sort_key mr_ordinal (filter (\<lambda>m. mr_conversation_id m = c \<and> mr_role m = User) (db_messages d)) of
        [] \<Rightarrow> None
      | m # _ \<Rightarrow> Some (mr_content m))"

definition has_ticket :: "db \<Rightarrow> pystr \<Rightarrow> bool" where
  "has_ticket d c \<longleftrightarrow> list_ex (\<lambda>t. tk_conversation_id t = c) (db_tickets d)"

definition summary_of :: "conv_call \<Rightarrow> db \<Rightarrow> conversation_row \<Rightarrow> conversation_summary" where
  "summary_of call d r =
     \<lparr>cs_id = cv_id r, cs_created_at = cv_created_at r, cs_updated_at = cc_updated_at call (cv_id r),
      cs_message_count = cv_message_count r,
      cs_title = (case first_user_message d (cv_id r) of None \<Rightarrow> [] | Some m \<Rightarrow> truncate_title m),
      cs_has_ticket = has_ticket d (cv_id r)\<rparr>"

definition list_conversations :: "gateway_env \<Rightarrow> conv_call \<Rightarrow> anon_identity \<Rightarrow> db \<Rightarrow> api_error + conversation_summary list" where
  "list_conversations env call identity d =
     (if \<not> ge_db_pool env then Inl UpstreamUnavailableError
      else if \<not> cc_query_ok call then Inl UpstreamUnavailableError
      else Inr (map (summary_of call d)
                 (take MAX_CONVERSATIONS
                   (rev (sort_key (\<lambda>r. cc_updated_at call (cv_id r))
                     (filter (\<lambda>r. cv_user_id r = ge_uuid_str env (ai_user_id identity)) (db_conversations d)))))))"

text \<open>The turns of a conversation in order; the join with the conversations keeps those of the caller's own.\<close>

definition fetch_messages_for_caller :: "gateway_env \<Rightarrow> conv_call \<Rightarrow> pystr \<Rightarrow> anon_identity \<Rightarrow> db \<Rightarrow> message_row list option" where
  "fetch_messages_for_caller env call c identity d =
     (if \<not> cc_query_ok call then None
      else if caller_moderates_all identity
      then Some (take MAX_MESSAGES (sort_key mr_ordinal (filter (\<lambda>m. mr_conversation_id m = c) (db_messages d))))
      else Some (take MAX_MESSAGES (sort_key mr_ordinal
             (filter (\<lambda>m. mr_conversation_id m = c \<and> owns d (ge_uuid_str env (ai_user_id identity)) c) (db_messages d)))))"

definition conversation_messages :: "gateway_env \<Rightarrow> conv_call \<Rightarrow> anon_identity \<Rightarrow> uuid \<Rightarrow> db \<Rightarrow> api_error + (role \<times> int \<times> pystr) list" where
  "conversation_messages env call identity conversation_id d =
     (if \<not> ge_db_pool env then Inl UpstreamUnavailableError
      else (case fetch_messages_for_caller env call (ge_uuid_str env conversation_id) identity d of
              None \<Rightarrow> Inl UpstreamUnavailableError
            | Some messages \<Rightarrow>
                if messages = [] then Inl ConversationNotFound
                else Inr (map (\<lambda>m. (mr_role m, mr_ordinal m, mr_content m)) messages)))"

definition fetch_gcs_uri_for_caller :: "gateway_env \<Rightarrow> conv_call \<Rightarrow> pystr \<Rightarrow> anon_identity \<Rightarrow> db \<Rightarrow> pystr option option" where
  "fetch_gcs_uri_for_caller env call c identity d =
     (if \<not> cc_query_ok call then None
      else Some (map_option cv_gcs_uri
             (if caller_moderates_all identity then List.find (\<lambda>r. cv_id r = c) (db_conversations d)
              else List.find (\<lambda>r. cv_id r = c \<and> cv_user_id r = ge_uuid_str env (ai_user_id identity)) (db_conversations d))))"

definition gcs_uri_to_object_path :: "pystr \<Rightarrow> pystr \<Rightarrow> pystr option" where
  "gcs_uri_to_object_path uri bucket = strip_prefix uri (lit ''gs://'' @ bucket @ lit ''/'')"

definition signed_url :: "gateway_env \<Rightarrow> conv_call \<Rightarrow> 'g storage \<Rightarrow> anon_identity \<Rightarrow> uuid \<Rightarrow> db \<Rightarrow> api_error + pystr \<times> rat" where
  "signed_url env call so identity conversation_id d =
     (if \<not> ge_db_pool env then Inl UpstreamUnavailableError
      else (case fetch_gcs_uri_for_caller env call (ge_uuid_str env conversation_id) identity d of
              None \<Rightarrow> Inl UpstreamUnavailableError
            | Some None \<Rightarrow> Inl ConversationNotFound
            | Some (Some uri) \<Rightarrow>
                (case gcs_uri_to_object_path uri (so_bucket so) of
                   None \<Rightarrow> Inl UpstreamUnavailableError
                 | Some object \<Rightarrow>
                     (case sign_get so object (cc_now call) of
                        Inl _ \<Rightarrow> Inl UpstreamUnavailableError
                      | Inr url \<Rightarrow> Inr (url, cc_now call + of_nat SIGNED_URL_TTL_SECONDS)))))"

text \<open>The row of a conversation the caller owns, with whether a ticket refers to it.\<close>

definition owned_conversation :: "gateway_env \<Rightarrow> pystr \<Rightarrow> anon_identity \<Rightarrow> db \<Rightarrow> (pystr \<times> bool) option" where
  "owned_conversation env c identity d =
     map_option (\<lambda>r. (cv_gcs_uri r, has_ticket d (cv_id r)))
       (List.find (\<lambda>r. cv_id r = c \<and> cv_user_id r = ge_uuid_str env (ai_user_id identity)) (db_conversations d))"

text \<open>The statement with what the foreign keys make of it: messages go, log rows lose the reference, a ticket refuses.\<close>

definition delete_conversation_row :: "pystr \<Rightarrow> db \<Rightarrow> db option" where
  "delete_conversation_row c d =
     (if has_ticket d c then None
      else Some (d\<lparr>db_conversations := filter (\<lambda>r. cv_id r \<noteq> c) (db_conversations d),
                   db_messages := filter (\<lambda>m. mr_conversation_id m \<noteq> c) (db_messages d),
                   db_query_log := map (\<lambda>q. if ql_conversation_id q = Some c then q\<lparr>ql_conversation_id := None\<rparr> else q) (db_query_log d)\<rparr>))"

definition delete_conversation ::
  "gateway_env \<Rightarrow> conv_call \<Rightarrow> 'g storage \<Rightarrow> anon_identity \<Rightarrow> uuid \<Rightarrow> db \<Rightarrow> 'g \<Rightarrow> (api_error + unit) \<times> db \<times> 'g" where
  "delete_conversation env call so identity conversation_id d g =
     (let c = ge_uuid_str env conversation_id in
      if \<not> ge_db_pool env \<or> \<not> cc_begin_ok call \<or> \<not> cc_lookup_ok call then (Inl UpstreamUnavailableError, d, g)
      else (case owned_conversation env c identity d of
              None \<Rightarrow> (Inl ConversationNotFound, d, g)
            | Some (uri, ticketed) \<Rightarrow>
                if ticketed then (Inl ConversationReferencedByTicket, d, g)
                else (case (if cc_delete_ok call then delete_conversation_row c d else None) of
                        None \<Rightarrow> (Inl UpstreamUnavailableError, d, g)
                      | Some d' \<Rightarrow>
                          (case gcs_uri_to_object_path uri (so_bucket so) of
                             None \<Rightarrow> (Inl UpstreamUnavailableError, d, g)
                           | Some object_path \<Rightarrow>
                               (case delete_object so object_path g of
                                  (Inl _, g') \<Rightarrow> (Inl UpstreamUnavailableError, d, g')
                                | (Inr _, g') \<Rightarrow>
                                    if cc_commit_ok call then (Inr (), d', g') else (Inl UpstreamUnavailableError, d, g'))))))"

section \<open>One caller, one view\<close>

text \<open>The four routes as one function, and the part of the tables that belongs to a user.\<close>

datatype conv_request = ListConversations | Messages uuid | SignedUrl uuid | DeleteConversation uuid

datatype conv_response =
    Listed "conversation_summary list"
  | Turns "(role \<times> int \<times> pystr) list"
  | Signed pystr rat
  | Deleted
  | Failed api_error

definition serve_conversation ::
  "gateway_env \<Rightarrow> conv_call \<Rightarrow> 'g storage \<Rightarrow> anon_identity \<Rightarrow> conv_request \<Rightarrow> db \<Rightarrow> 'g \<Rightarrow> conv_response \<times> db \<times> 'g" where
  "serve_conversation env call so identity req d g =
     (case req of
        ListConversations \<Rightarrow> (case list_conversations env call identity d of Inl e \<Rightarrow> Failed e | Inr cs \<Rightarrow> Listed cs, d, g)
      | Messages c \<Rightarrow> (case conversation_messages env call identity c d of Inl e \<Rightarrow> Failed e | Inr ms \<Rightarrow> Turns ms, d, g)
      | SignedUrl c \<Rightarrow> (case signed_url env call so identity c d of Inl e \<Rightarrow> Failed e | Inr (u, t) \<Rightarrow> Signed u t, d, g)
      | DeleteConversation c \<Rightarrow>
          (case delete_conversation env call so identity c d g of
             (Inl e, d', g') \<Rightarrow> (Failed e, d', g')
           | (Inr _, d', g') \<Rightarrow> (Deleted, d', g')))"

definition own_view :: "pystr \<Rightarrow> db \<Rightarrow> db" where
  "own_view uid d =
     \<lparr>db_users = [], db_conversations = filter (\<lambda>r. cv_user_id r = uid) (db_conversations d),
      db_messages = filter (\<lambda>m. owns d uid (mr_conversation_id m)) (db_messages d),
      db_tickets = filter (\<lambda>t. owns d uid (tk_conversation_id t)) (db_tickets d), db_query_log = []\<rparr>"

lemma find_filter: "List.find (\<lambda>x. P x \<and> Q x) (filter Q xs) = List.find (\<lambda>x. P x \<and> Q x) xs"
  by (induct xs) auto

lemma owns_own_view [simp]: "owns (own_view uid d) uid c \<longleftrightarrow> owns d uid c"
  by (auto simp: own_view_def owns_def)

lemma messages_own_view:
  assumes "owns d uid c"
  shows "filter (\<lambda>m. mr_conversation_id m = c \<and> P m) (db_messages (own_view uid d)) =
         filter (\<lambda>m. mr_conversation_id m = c \<and> P m) (db_messages d)"
  using assms by (auto simp: own_view_def intro!: filter_cong)

lemma has_ticket_own_view: "owns d uid c \<Longrightarrow> has_ticket (own_view uid d) c = has_ticket d c"
  by (auto simp: own_view_def has_ticket_def list_ex_iff)

lemma summary_own_view: "owns d uid (cv_id r) \<Longrightarrow> summary_of call (own_view uid d) r = summary_of call d r"
  by (simp add: summary_of_def first_user_message_def messages_own_view has_ticket_own_view)

lemma owns_of_row: "r \<in> set (db_conversations d) \<Longrightarrow> owns d (cv_user_id r) (cv_id r)"
  by (auto simp: owns_def)

lemma list_own_view:
  "list_conversations env call identity (own_view (ge_uuid_str env (ai_user_id identity)) d) = list_conversations env call identity d"
proof -
  let ?uid = "ge_uuid_str env (ai_user_id identity)"
  let ?rows = "take MAX_CONVERSATIONS (rev (sort_key (\<lambda>r. cc_updated_at call (cv_id r))
    (filter (\<lambda>r. cv_user_id r = ?uid) (db_conversations d))))"
  have "map (summary_of call (own_view ?uid d)) ?rows = map (summary_of call d) ?rows"
  proof (rule map_cong[OF refl])
    fix r
    assume "r \<in> set ?rows"
    then have "r \<in> set (db_conversations d)" "cv_user_id r = ?uid"
      by (auto dest!: in_set_takeD)
    then show "summary_of call (own_view ?uid d) r = summary_of call d r"
      using owns_of_row by (intro summary_own_view) fastforce
  qed
  then show ?thesis
    by (simp add: list_conversations_def own_view_def)
qed

lemma messages_answer_own_view:
  assumes "ai_tier identity \<noteq> Author"
  shows "conversation_messages env call identity c (own_view (ge_uuid_str env (ai_user_id identity)) d) =
         conversation_messages env call identity c d"
proof (cases "owns d (ge_uuid_str env (ai_user_id identity)) (ge_uuid_str env c)")
  case True
  with assms messages_own_view[OF True, of "\<lambda>_. True"] show ?thesis
    by (simp add: conversation_messages_def fetch_messages_for_caller_def caller_moderates_all_def)
next
  case False
  with assms show ?thesis
    by (simp add: conversation_messages_def fetch_messages_for_caller_def caller_moderates_all_def)
qed

lemma signed_own_view:
  assumes "ai_tier identity \<noteq> Author"
  shows "signed_url env call so identity c (own_view (ge_uuid_str env (ai_user_id identity)) d) = signed_url env call so identity c d"
  using assms
  by (simp add: signed_url_def fetch_gcs_uri_for_caller_def caller_moderates_all_def own_view_def find_filter)

lemma owned_own_view:
  "owned_conversation env c identity (own_view (ge_uuid_str env (ai_user_id identity)) d) = owned_conversation env c identity d"
proof -
  let ?uid = "ge_uuid_str env (ai_user_id identity)"
  have "has_ticket (own_view ?uid d) (cv_id r) = has_ticket d (cv_id r)"
    if "List.find (\<lambda>r. cv_id r = c \<and> cv_user_id r = ?uid) (db_conversations d) = Some r" for r
  proof -
    from that have "r \<in> set (db_conversations d)" "cv_user_id r = ?uid"
      by (auto simp: find_Some_iff)
    with owns_of_row[of r d] show ?thesis
      by (intro has_ticket_own_view) simp
  qed
  moreover have "List.find (\<lambda>r. cv_id r = c \<and> cv_user_id r = ?uid) (db_conversations (own_view ?uid d)) =
      List.find (\<lambda>r. cv_id r = c \<and> cv_user_id r = ?uid) (db_conversations d)"
    by (simp add: own_view_def find_filter)
  ultimately show ?thesis
    by (auto simp: owned_conversation_def intro!: map_option_cong)
qed

lemma owned_conversation_Some:
  assumes "owned_conversation env c identity d = Some (uri, ticketed)"
  shows "\<exists>r\<in>set (db_conversations d). cv_id r = c \<and> cv_user_id r = ge_uuid_str env (ai_user_id identity) \<and> cv_gcs_uri r = uri"
    and "ticketed = has_ticket d c"
  using assms by (auto simp: owned_conversation_def find_Some_iff)

lemma delete_own_view:
  "(case delete_conversation env call so identity c (own_view (ge_uuid_str env (ai_user_id identity)) d) g of (res, _, g') \<Rightarrow> (res, g')) =
   (case delete_conversation env call so identity c d g of (res, _, g') \<Rightarrow> (res, g'))"
proof (cases "owned_conversation env (ge_uuid_str env c) identity d")
  case None
  then show ?thesis by (simp add: delete_conversation_def owned_own_view Let_def)
next
  case (Some p)
  obtain uri ticketed where p: "p = (uri, ticketed)" by fastforce
  let ?d = "own_view (ge_uuid_str env (ai_user_id identity)) d"
  have "has_ticket ?d (ge_uuid_str env c) = has_ticket d (ge_uuid_str env c)"
    using owned_conversation_Some(2)[OF Some[unfolded p]] owned_conversation_Some(2)[of env "ge_uuid_str env c" identity ?d uri ticketed]
      Some p by (simp add: owned_own_view)
  with Some p show ?thesis
    by (simp add: delete_conversation_def owned_own_view delete_conversation_row_def Let_def split: option.splits sum.splits prod.splits)
qed

text \<open>C15: A caller learns and touches nothing of others through the conversation routes: for every caller who is not an author, and for an author who
  lists or deletes, the answer and the effect on the stored transcripts are those the tables would give if they held the caller's own conversations,
  turns and tickets only.\<close>

theorem conversations_noninterference:
  assumes "ai_tier identity \<noteq> Author \<or> req \<in> {ListConversations, DeleteConversation c}"
  shows "(case serve_conversation env call so identity req d g of (resp, _, g') \<Rightarrow> (resp, g')) =
         (case serve_conversation env call so identity req (own_view (ge_uuid_str env (ai_user_id identity)) d) g of (resp, _, g') \<Rightarrow> (resp, g'))"
proof (cases req)
  case (DeleteConversation c)
  then show ?thesis
    using delete_own_view[of env call so identity c d g]
    by (simp add: serve_conversation_def split: prod.splits sum.splits)
qed (use assms in \<open>auto simp: serve_conversation_def list_own_view messages_answer_own_view signed_own_view\<close>)


section \<open>Deletion\<close>

lemma delete_conversation_row_tables:
  assumes "delete_conversation_row c d = Some d'" "wf_db d"
  shows "wf_db d'" "\<not> has_conversation d' c" "messages_of d' c = []"
    "c' \<noteq> c \<Longrightarrow> find_conversation d' c' = find_conversation d c' \<and> messages_of d' c' = messages_of d c'"
    "db_tickets d' = db_tickets d"
proof -
  have d': "d' = d\<lparr>db_conversations := filter (\<lambda>r. cv_id r \<noteq> c) (db_conversations d),
      db_messages := filter (\<lambda>m. mr_conversation_id m \<noteq> c) (db_messages d),
      db_query_log := map (\<lambda>q. if ql_conversation_id q = Some c then q\<lparr>ql_conversation_id := None\<rparr> else q) (db_query_log d)\<rparr>"
    and no: "\<not> has_ticket d c"
    using assms(1) by (simp_all add: delete_conversation_row_def split: if_splits)
  have conv: "has_conversation d' x \<longleftrightarrow> has_conversation d x \<and> x \<noteq> c" for x
    by (auto simp: d' has_conversation_def)
  have user: "has_user d' x \<longleftrightarrow> has_user d x" for x
    by (simp add: d' has_user_def)
  show "\<not> has_conversation d' c" "messages_of d' c = []" "db_tickets d' = db_tickets d"
    by (simp_all add: conv messages_of_def) (simp_all add: d')
  have find: "List.find (\<lambda>r. cv_id r = c') (filter (\<lambda>r. cv_id r \<noteq> c) xs) = List.find (\<lambda>r. cv_id r = c') xs" if "c' \<noteq> c" for xs
    using that by (induct xs) auto
  show "c' \<noteq> c \<Longrightarrow> find_conversation d' c' = find_conversation d c' \<and> messages_of d' c' = messages_of d c'"
    by (auto simp: d' find_conversation_def find messages_of_def intro!: filter_cong)
  have "wf_users d'" "wf_conversations d'"
    using assms(2) by (auto simp: wf_db_def wf_users_def wf_conversations_def user distinct_map_filter) (auto simp: d' distinct_map_filter)
  moreover have "wf_messages d'" "wf_tickets d'"
    using assms(2) no
    by (auto simp: wf_db_def wf_messages_def wf_tickets_def conv has_ticket_def list_ex_iff) (auto simp: d' distinct_map_filter)
  moreover have "map ql_request_id (db_query_log d') = map ql_request_id (db_query_log d)"
    by (simp add: d')
  then have "wf_query_log d'"
    using assms(2) by (auto simp: wf_db_def wf_query_log_def conv user) (auto simp: d' split: if_splits)
  ultimately show "wf_db d'"
    by (simp add: wf_db_def)
qed

text \<open>
  What is relied on of the storage service: an answer 200, 204 or 404 to the deletion of an object
  means that it is gone, and no other object goes with it. \<open>objs g\<close> are the names of the objects.
\<close>

definition storage_ok :: "'g storage \<Rightarrow> ('g \<Rightarrow> pystr set) \<Rightarrow> bool" where
  "storage_ok so objs \<longleftrightarrow>
     (\<forall>k token g r g'. so_delete so (object_url (so_bucket so) k) token g = (r, g') \<longrightarrow>
        (r \<in> {Inr 200, Inr 204, Inr 404} \<longrightarrow> k \<notin> objs g') \<and> objs g - {k} \<subseteq> objs g')"

lemma delete_object_gone:
  assumes "storage_ok so objs" "delete_object so k g = (res, g')"
  shows "objs g - {k} \<subseteq> objs g'" "res = Inr () \<Longrightarrow> k \<notin> objs g'"
proof -
  have "objs g - {k} \<subseteq> objs g' \<and> (res = Inr () \<longrightarrow> k \<notin> objs g')"
  proof (cases "so_token so")
    case (Inl e)
    with assms(2) show ?thesis by (auto simp: delete_object_def)
  next
    case (Inr t)
    obtain r g1 where r: "so_delete so (object_url (so_bucket so) k) (fst t) g = (r, g1)" by fastforce
    have "(r \<in> {Inr 200, Inr 204, Inr 404} \<longrightarrow> k \<notin> objs g1) \<and> objs g - {k} \<subseteq> objs g1"
      using assms(1) r unfolding storage_ok_def by blast
    with assms(2) Inr r show ?thesis
      by (cases t; cases r) (auto simp: delete_object_def classify_delete_status_def split: if_splits)
  qed
  then show "objs g - {k} \<subseteq> objs g'" "res = Inr () \<Longrightarrow> k \<notin> objs g'" by auto
qed

lemma delete_conversation_cases:
  assumes "delete_conversation env call so identity conversation_id d g = (res, d', g')"
  obtains (kept) e where "res = Inl e" "d' = d"
  | (gone) r k where "res = Inr ()" "r \<in> set (db_conversations d)" "cv_id r = ge_uuid_str env conversation_id"
      "cv_user_id r = ge_uuid_str env (ai_user_id identity)" "\<not> has_ticket d (ge_uuid_str env conversation_id)"
      "delete_conversation_row (ge_uuid_str env conversation_id) d = Some d'"
      "gcs_uri_to_object_path (cv_gcs_uri r) (so_bucket so) = Some k" "delete_object so k g = (Inr (), g')"
proof (cases res)
  case (Inl e)
  with assms have "d' = d"
    by (auto simp: delete_conversation_def Let_def split: if_splits option.splits sum.splits prod.splits)
  with Inl show thesis by (rule kept)
next
  case (Inr u)
  with assms obtain uri k where o: "owned_conversation env (ge_uuid_str env conversation_id) identity d = Some (uri, False)"
    and del: "delete_conversation_row (ge_uuid_str env conversation_id) d = Some d'"
    and k: "gcs_uri_to_object_path uri (so_bucket so) = Some k" "delete_object so k g = (Inr (), g')"
    by (auto simp: delete_conversation_def Let_def split: if_splits option.splits sum.splits prod.splits)
  from owned_conversation_Some[OF o] obtain r where "r \<in> set (db_conversations d)" "cv_id r = ge_uuid_str env conversation_id"
    "cv_user_id r = ge_uuid_str env (ai_user_id identity)" "cv_gcs_uri r = uri" "\<not> has_ticket d (ge_uuid_str env conversation_id)"
    by auto
  with Inr del k show thesis by (intro gone) auto
qed

text \<open>C16: A deletion is either complete or leaves the tables alone: when it is acknowledged, the caller owned the conversation and no ticket referred to it,
  its row, its turns and its stored transcript are gone, every other conversation, turn and transcript and all tickets are untouched and the
  constraints of the schema still hold; with any other answer the tables are as before. Relied on of the storage service: an answer
  200, 204 or 404 means the object is gone, and only that one.\<close>

theorem delete_conversation_effect:
  assumes "delete_conversation env call so identity conversation_id d g = (res, d', g')" "wf_db d" "storage_ok so objs"
  shows "(case res of
            Inl _ \<Rightarrow> d' = d
          | Inr _ \<Rightarrow> let c = ge_uuid_str env conversation_id in
              \<exists>r k. r \<in> set (db_conversations d) \<and> cv_id r = c \<and> cv_user_id r = ge_uuid_str env (ai_user_id identity) \<and> \<not> has_ticket d c \<and>
                \<not> has_conversation d' c \<and> messages_of d' c = [] \<and>
                gcs_uri_to_object_path (cv_gcs_uri r) (so_bucket so) = Some k \<and> k \<notin> objs g' \<and> objs g - {k} \<subseteq> objs g' \<and>
                (\<forall>c'. c' \<noteq> c \<longrightarrow> find_conversation d' c' = find_conversation d c' \<and> messages_of d' c' = messages_of d c') \<and>
                db_tickets d' = db_tickets d \<and> wf_db d')"
  using assms(1)
proof (cases rule: delete_conversation_cases)
  case (gone r k)
  note tables = delete_conversation_row_tables[OF gone(6) assms(2)]
  note obj = delete_object_gone[OF assms(3) gone(8)]
  have "\<exists>r k. r \<in> set (db_conversations d) \<and> cv_id r = ge_uuid_str env conversation_id \<and>
      cv_user_id r = ge_uuid_str env (ai_user_id identity) \<and>
      gcs_uri_to_object_path (cv_gcs_uri r) (so_bucket so) = Some k \<and> k \<notin> objs g' \<and> objs g - {k} \<subseteq> objs g'"
    using gone obj by blast
  with gone(1,5) tables show ?thesis
    unfolding Let_def by (simp only: sum.case) blast
qed simp

text \<open>
  The documentation calls the deletion of the row and of the transcript atomic. A commit that fails
  after the object was deleted keeps the row, whose transcript is then lost.
\<close>

lemma delete_not_atomic:
  assumes "ge_db_pool env" "cc_begin_ok call" "cc_lookup_ok call" "cc_delete_ok call" "\<not> cc_commit_ok call"
    and "owned_conversation env (ge_uuid_str env conversation_id) identity d = Some (uri, False)"
    and "gcs_uri_to_object_path uri (so_bucket so) = Some k" "delete_object so k g = (Inr (), g')" "storage_ok so objs"
  shows "delete_conversation env call so identity conversation_id d g = (Inl UpstreamUnavailableError, d, g')" "k \<notin> objs g'"
  using assms delete_object_gone(2)[OF assms(9,8)] owned_conversation_Some(2)[OF assms(6)]
  by (simp_all add: delete_conversation_def delete_conversation_row_def Let_def)

section \<open>Encoded object names\<close>

text \<open>What the server makes of the encoded segment.\<close>

definition unhex :: "nat \<Rightarrow> nat" where
  "unhex c = (if c < 58 then c - 48 else c - 55)"

fun percent_decode :: "pystr \<Rightarrow> bytes" where
  "percent_decode [] = []"
| "percent_decode (c # cs) =
     (if c = 37 then (case cs of a # b # rest \<Rightarrow> (unhex a * 16 + unhex b) # percent_decode rest | _ \<Rightarrow> [])
      else c # percent_decode cs)"

lemma unhex_hex_upper: "n < 16 \<Longrightarrow> unhex (hex_upper n) = n"
  by (auto simp: unhex_def hex_upper_def)

text \<open>An object name is one path segment that decodes to its bytes: no slash, question mark or number sign of it reaches the address.\<close>

lemma encoded_name_decodes:
  assumes "\<forall>b\<in>set (utf8 name). b < 256"
  shows "percent_decode (encode_object_path name) = utf8 name"
    "\<forall>c\<in>set (encode_object_path name). unreserved c \<or> c = 37"
proof -
  have "percent_decode (concat (map encode_byte bs)) = bs" if "\<forall>b\<in>set bs. b < 256" for bs
    using that
  proof (induct bs)
    case (Cons b bs)
    then have "b div 16 < 16" by auto
    with Cons show ?case
      by (simp add: encode_byte_def unhex_hex_upper unreserved_def)
  qed simp
  with assms show "percent_decode (encode_object_path name) = utf8 name"
    by (simp add: encode_object_path_def)
  have "unreserved c \<or> c = 37" if "b < 256" "c \<in> set (encode_byte b)" for b c
  proof -
    have "b div 16 < 16" "b mod 16 < 16" using that(1) by auto
    then have "unreserved (hex_upper (b div 16))" "unreserved (hex_upper (b mod 16))"
      by (auto simp: unreserved_def hex_upper_def)
    with that(2) show ?thesis by (auto simp: encode_byte_def split: if_splits)
  qed
  with assms show "\<forall>c\<in>set (encode_object_path name). unreserved c \<or> c = 37"
    by (auto simp: encode_object_path_def)
qed

lemma encode_plain:
  assumes "37 \<notin> set (encode_object_path name)"
  shows "encode_object_path name = name"
proof -
  have bytes: "\<forall>b\<in>set (utf8 name). unreserved b"
    using assms by (auto simp: encode_object_path_def encode_byte_def split: if_splits)
  then have "encode_object_path name = concat (map (\<lambda>b. [b]) (utf8 name))"
    unfolding encode_object_path_def by (intro arg_cong[of _ _ concat] map_cong) (auto simp: encode_byte_def)
  moreover have "\<forall>c\<in>set name. c < 128"
  proof
    fix c
    assume "c \<in> set name"
    then have "set (utf8_cp c) \<subseteq> set (utf8 name)" by (auto simp: utf8_def)
    with bytes have "unreserved (hd (utf8_cp c))"
      using utf8_cp_length(1)[of c] by (cases "utf8_cp c") auto
    then show "c < 128" by (auto simp: utf8_cp_def unreserved_def split: if_splits)
  qed
  ultimately show ?thesis by (simp add: utf8_ascii)
qed

section \<open>Witnesses\<close>

text \<open>Two users with a conversation each, and a bucket that holds or has lost the object of the first.\<close>

definition two_conversations :: db where
  "two_conversations =
     \<lparr>db_users = [(digits_of 7, lit ''member''), (digits_of 8, lit ''member'')],
      db_conversations =
        [\<lparr>cv_id = digits_of 5, cv_user_id = digits_of 7, cv_gcs_uri = lit ''gs://b/5.md'', cv_created_at = 100, cv_message_count = 1\<rparr>,
         \<lparr>cv_id = digits_of 6, cv_user_id = digits_of 8, cv_gcs_uri = lit ''gs://b/6.md'', cv_created_at = 100, cv_message_count = 1\<rparr>],
      db_messages =
        [\<lparr>mr_conversation_id = digits_of 5, mr_role = User, mr_ordinal = 0, mr_content = lit ''a'', mr_token_count = 1, mr_created_at = 100\<rparr>,
         \<lparr>mr_conversation_id = digits_of 6, mr_role = User, mr_ordinal = 0, mr_content = lit ''b'', mr_token_count = 1, mr_created_at = 100\<rparr>],
      db_tickets = [], db_query_log = []\<rparr>"

definition one_object :: "bool storage" where
  "one_object = \<lparr>so_bucket = lit ''b'', so_sa_email = [], so_token = Inr ([], False), so_fresh_token = Inr ([], False),
     so_sign_blob = (\<lambda>_ _ _. Inr (200, SignedBlob [])), so_sha256_hex = id, so_b64_encode = id, so_b64_decode = Some,
     so_date = (\<lambda>_. []), so_datetime = (\<lambda>_. []),
     so_delete = (\<lambda>url token g. if url = object_url (lit ''b'') (lit ''5.md'') then (Inr 204, False) else (Inr 403, g))\<rparr>"

definition sample_conv_call :: conv_call where
  "sample_conv_call = \<lparr>cc_query_ok = True, cc_begin_ok = True, cc_lookup_ok = True, cc_delete_ok = True, cc_commit_ok = True,
     cc_now = 1000, cc_updated_at = (\<lambda>_. 100)\<rparr>"

definition sample_identity :: anon_identity where
  "sample_identity = \<lparr>ai_user_id = 7, ai_tier = Member, ai_fingerprint = None\<rparr>"

lemma sample_fields_conv [simp]:
  "ge_uuid_str gw_sample_env = digits_of" "ge_db_pool gw_sample_env" "ai_user_id sample_identity = 7" "ai_tier sample_identity = Member"
  "cc_query_ok sample_conv_call" "cc_begin_ok sample_conv_call" "cc_lookup_ok sample_conv_call" "cc_delete_ok sample_conv_call"
  "cc_commit_ok sample_conv_call" "so_bucket one_object = lit ''b''"
  by (simp_all add: gw_sample_env_def sample_identity_def sample_conv_call_def one_object_def)

lemma encode_sample: "encode_object_path (lit ''5.md'') = lit ''5.md''"
  by (simp add: encode_object_path_def lit_def utf8_ascii encode_byte_def unreserved_def)

lemma one_object_ok: "storage_ok one_object (\<lambda>g. if g then {lit ''5.md''} else {})"
proof -
  have "k = lit ''5.md''" if "object_url (lit ''b'') k = object_url (lit ''b'') (lit ''5.md'')" for k
  proof -
    have enc: "encode_object_path k = lit ''5.md''"
      using that by (simp add: object_url_def encode_sample)
    then have "37 \<notin> set (encode_object_path k)"
      by (simp add: lit_def)
    from encode_plain[OF this] enc show ?thesis by simp
  qed
  then show ?thesis
    by (auto simp: storage_ok_def one_object_def)
qed

lemma two_conversations_wf: "wf_db two_conversations"
  by (simp add: two_conversations_def wf_defs has_user_def has_conversation_def PG_INT_MAX_def)

lemma sample_delete:
  "delete_conversation gw_sample_env sample_conv_call one_object sample_identity 5 two_conversations True =
     (Inr (), the (delete_conversation_row (digits_of 5) two_conversations), False)"
proof -
  have "owned_conversation gw_sample_env (digits_of 5) sample_identity two_conversations = Some (lit ''gs://b/5.md'', False)"
    by (simp add: owned_conversation_def two_conversations_def has_ticket_def)
  moreover have "gcs_uri_to_object_path (lit ''gs://b/5.md'') (lit ''b'') = Some (lit ''5.md'')"
    by (simp add: gcs_uri_to_object_path_def strip_prefix_def py_startswith_def lit_def)
  moreover have "delete_object one_object (lit ''5.md'') True = (Inr (), False)"
    by (simp add: delete_object_def one_object_def classify_delete_status_def)
  moreover have "\<not> has_ticket two_conversations (digits_of 5)"
    by (simp add: has_ticket_def two_conversations_def)
  ultimately show ?thesis
    by (simp add: delete_conversation_def delete_conversation_row_def Let_def)
qed

theorem delete_conversation_effect_witness:
  "(Inr () :: api_error + unit) = fst (delete_conversation gw_sample_env sample_conv_call one_object sample_identity 5 two_conversations True) \<and>
   \<not> has_conversation (the (delete_conversation_row (digits_of 5) two_conversations)) (digits_of 5) \<and>
   find_conversation (the (delete_conversation_row (digits_of 5) two_conversations)) (digits_of 6) =
     find_conversation two_conversations (digits_of 6)"
  using delete_conversation_effect[OF sample_delete two_conversations_wf one_object_ok]
  by (auto simp: sample_delete Let_def)

theorem conversations_noninterference_witness:
  "fst (serve_conversation gw_sample_env sample_conv_call one_object sample_identity (Messages 6) two_conversations True) =
   fst (serve_conversation gw_sample_env sample_conv_call one_object sample_identity (Messages 6) (own_view (digits_of 7) two_conversations) True)"
  using conversations_noninterference[of sample_identity "Messages 6" 0 gw_sample_env sample_conv_call one_object two_conversations True]
  by (auto split: prod.splits)

end
