(* ===== verification/Gateway_Proxy.thy ===== *)
theory Gateway_Proxy
  imports Gateway_Auth Gateway_Cache Conversation_Repository
begin

text \<open>
  The routes of the gateway that call the workers: \<^verbatim>\<open>gateway/src/handlers/chat.rs\<close>,
  \<^verbatim>\<open>chat_stream.rs\<close>, \<^verbatim>\<open>report_contradiction.rs\<close> and what they share, \<^verbatim>\<open>workers_proxy.rs\<close>. A handler gives its
  response and the requests it sent. The JSON decoder, the identity token and the workers' answer are
  fields of a \<open>proxy_env\<close>; a decoded document is a \<open>pyval\<close>, and a number that JSON writes without a fraction
  is a \<open>PInt\<close>. The body limit of the router, the timings and the log lines are left out.
\<close>

section \<open>Calls to the workers\<close>

text \<open>A transport error carries the two answers the mapping asks for.\<close>

datatype reqwest_error = ReqwestError (is_connect: bool) (is_timeout: bool)

text \<open>An answer is a status and the chunks of its body; \<open>None\<close> is a chunk that could not be read.\<close>

datatype upstream = UpstreamResponse nat "bytes option list"

record worker_request =
  wr_path :: pystr
  wr_headers :: "(pystr \<times> pystr) list"
  wr_body :: payload

record proxy_env =
  px_decode :: "bytes \<Rightarrow> pyval option"
  px_id_token :: "token_error + pystr"
  px_send :: "worker_request \<Rightarrow> reqwest_error + upstream"

datatype proxy_response =
    ErrorBody nat pystr pystr
  | Passthrough pystr bytes
  | Relay pystr "bytes option list"

definition MAX_UPSTREAM_BODY :: nat where
  "MAX_UPSTREAM_BODY = 262144"

fun read_capped :: "bytes \<Rightarrow> bytes option list \<Rightarrow> bytes option" where
  "read_capped acc [] = Some acc"
| "read_capped acc (None # rest) = None"
| "read_capped acc (Some chunk # rest) =
     (if length acc + length chunk > MAX_UPSTREAM_BODY then None else read_capped (acc @ chunk) rest)"

definition read_capped_body :: "bytes option list \<Rightarrow> bytes option" where
  "read_capped_body chunks = read_capped [] chunks"

definition map_reqwest_error :: "reqwest_error \<Rightarrow> pystr \<Rightarrow> proxy_response" where
  "map_reqwest_error err request_id =
     (if is_connect err then ErrorBody 503 (lit ''upstream_unavailable'') request_id
      else if is_timeout err then ErrorBody 504 (lit ''upstream_timeout'') request_id
      else ErrorBody 503 (lit ''upstream_unavailable'') request_id)"

definition handle_workers_response :: "upstream \<Rightarrow> pystr \<Rightarrow> proxy_response" where
  "handle_workers_response resp request_id =
     (case resp of UpstreamResponse status chunks \<Rightarrow>
        if \<not> is_success_status status then ErrorBody 502 (lit ''upstream_error'') request_id
        else (case read_capped_body chunks of
                None \<Rightarrow> ErrorBody 502 (lit ''upstream_error'') request_id
              | Some bs \<Rightarrow> Passthrough request_id bs))"

text \<open>The headers every call carries.\<close>

definition worker_headers :: "gateway_env \<Rightarrow> anon_identity \<Rightarrow> pystr \<Rightarrow> pystr \<Rightarrow> (pystr \<times> pystr) list" where
  "worker_headers env identity request_id id_token =
     [(lit ''content-type'', lit ''application/json''), (lit ''x-request-id'', request_id),
      (lit ''x-user-tier'', as_str (ai_tier identity)), (lit ''x-user-id'', ge_uuid_str env (ai_user_id identity)),
      (lit ''authorization'', lit ''Bearer '' @ id_token)]"


section \<open>Chat\<close>

definition MAX_QUERY_BYTES_chat :: nat where
  "MAX_QUERY_BYTES_chat = 4096"

record validated_chat =
  vc_query :: pystr
  vc_conversation_id :: "pystr option"

text \<open>\<open>None\<close> is the error \<^verbatim>\<open>invalid_request\<close>, the only one.\<close>

definition chat_conversation_id :: "gateway_env \<Rightarrow> pyval option \<Rightarrow> pystr option option" where
  "chat_conversation_id env v =
     (case v of
        None \<Rightarrow> Some None
      | Some PNone \<Rightarrow> Some None
      | Some (PStr s) \<Rightarrow> map_option (\<lambda>u. Some (ge_uuid_str env u)) (ge_parse_uuid env s)
      | Some _ \<Rightarrow> None)"

text \<open>The streaming module has the same text of this function.\<close>

definition parse_and_validate :: "gateway_env \<Rightarrow> proxy_env \<Rightarrow> bytes \<Rightarrow> validated_chat option" where
  "parse_and_validate env px body =
     (case px_decode px body of
        None \<Rightarrow> None
      | Some v \<Rightarrow>
          (case json_get v (lit ''query'') of
             Some (PStr query) \<Rightarrow>
               if query = [] \<or> length (utf8 query) > MAX_QUERY_BYTES_chat then None
               else (case chat_conversation_id env (json_get v (lit ''conversation_id'')) of
                       None \<Rightarrow> None
                     | Some conversation_id \<Rightarrow> Some \<lparr>vc_query = query, vc_conversation_id = conversation_id\<rparr>)
           | _ \<Rightarrow> None))"

definition chat_body :: "validated_chat \<Rightarrow> pystr \<Rightarrow> payload" where
  "chat_body req request_id =
     [(lit ''query'', PStr (vc_query req)),
      (lit ''conversation_id'', case vc_conversation_id req of None \<Rightarrow> PNone | Some c \<Rightarrow> PStr c),
      (lit ''request_id'', PStr request_id)]"

definition forward_chat :: "gateway_env \<Rightarrow> proxy_env \<Rightarrow> pystr \<Rightarrow> validated_chat \<Rightarrow> anon_identity \<Rightarrow> proxy_response \<times> worker_request list" where
  "forward_chat env px request_id req identity =
     (case px_id_token px of
        Inl e \<Rightarrow> (ErrorBody 503 (lit ''upstream_unavailable'') request_id, [])
      | Inr id_token \<Rightarrow>
          let wr = \<lparr>wr_path = lit ''/v1/generate'', wr_headers = worker_headers env identity request_id id_token,
                    wr_body = chat_body req request_id\<rparr>
          in (case px_send px wr of
                Inl e \<Rightarrow> map_reqwest_error e request_id
              | Inr resp \<Rightarrow> handle_workers_response resp request_id, [wr]))"

definition chat :: "gateway_env \<Rightarrow> proxy_env \<Rightarrow> pystr \<Rightarrow> anon_identity \<Rightarrow> bytes \<Rightarrow> proxy_response \<times> worker_request list" where
  "chat env px request_id identity body =
     (case parse_and_validate env px body of
        None \<Rightarrow> (ErrorBody 400 (lit ''invalid_request'') request_id, [])
      | Some validated \<Rightarrow> forward_chat env px request_id validated identity)"

definition chat_stream :: "gateway_env \<Rightarrow> proxy_env \<Rightarrow> pystr \<Rightarrow> anon_identity \<Rightarrow> bytes \<Rightarrow> proxy_response \<times> worker_request list" where
  "chat_stream env px request_id identity body =
     (case parse_and_validate env px body of
        None \<Rightarrow> (ErrorBody 400 (lit ''invalid_request'') request_id, [])
      | Some validated \<Rightarrow>
          (case px_id_token px of
             Inl e \<Rightarrow> (ErrorBody 503 (lit ''upstream_unavailable'') request_id, [])
           | Inr id_token \<Rightarrow>
               let wr = \<lparr>wr_path = lit ''/v1/generate/stream'', wr_headers = worker_headers env identity request_id id_token,
                         wr_body = chat_body validated request_id\<rparr>
               in (case px_send px wr of
                     Inl e \<Rightarrow> map_reqwest_error e request_id
                   | Inr (UpstreamResponse status chunks) \<Rightarrow>
                       if \<not> is_success_status status then ErrorBody 502 (lit ''upstream_error'') request_id
                       else Relay request_id chunks, [wr])))"

section \<open>Reports of contradictions\<close>

definition MAX_CLAIM_BYTES :: nat where
  "MAX_CLAIM_BYTES = 4096"

definition MAX_CITATIONS :: nat where
  "MAX_CITATIONS = 50"

definition MAX_CHUNK_ORDS :: nat where
  "MAX_CHUNK_ORDS = 200"

record validated_report =
  vr_claim :: pystr
  vr_conversation_id :: pystr
  vr_citations :: "pyval list option"
  vr_force :: bool

text \<open>\<^verbatim>\<open>as_i64\<close> of a number, and the test for a negative one.\<close>

definition ord_ok :: "pyval \<Rightarrow> bool" where
  "ord_ok v = (case v of PInt i \<Rightarrow> i < 2 ^ 63 \<and> 0 \<le> i | _ \<Rightarrow> False)"

definition citation_ok :: "pyval \<Rightarrow> bool" where
  "citation_ok citation =
     (case json_get citation (lit ''source_path'') of
        Some (PStr source_path) \<Rightarrow>
          source_path \<noteq> [] \<and>
          (case json_get citation (lit ''chunk_ords'') of
             Some (PList ords) \<Rightarrow> length ords \<le> MAX_CHUNK_ORDS \<and> list_all ord_ok ords
           | _ \<Rightarrow> False)
      | _ \<Rightarrow> False)"

definition validate_citations :: "pyval list \<Rightarrow> bool" where
  "validate_citations arr = list_all citation_ok arr"

definition report_citations :: "pyval option \<Rightarrow> pyval list option option" where
  "report_citations v =
     (case v of
        None \<Rightarrow> Some None
      | Some PNone \<Rightarrow> Some None
      | Some (PList arr) \<Rightarrow> if length arr > MAX_CITATIONS \<or> \<not> validate_citations arr then None else Some (Some arr)
      | Some _ \<Rightarrow> None)"

definition report_force :: "pyval option \<Rightarrow> bool option" where
  "report_force v =
     (case v of
        None \<Rightarrow> Some False
      | Some PNone \<Rightarrow> Some False
      | Some (PBool b) \<Rightarrow> Some b
      | Some _ \<Rightarrow> None)"

definition parse_report :: "gateway_env \<Rightarrow> proxy_env \<Rightarrow> bytes \<Rightarrow> validated_report option" where
  "parse_report env px body =
     (case px_decode px body of
        None \<Rightarrow> None
      | Some v \<Rightarrow>
          (case json_get v (lit ''claim'') of
             Some (PStr claim) \<Rightarrow>
               if claim = [] \<or> length (utf8 claim) > MAX_CLAIM_BYTES then None
               else (case json_get v (lit ''conversation_id'') of
                       Some (PStr s) \<Rightarrow>
                         (case ge_parse_uuid env s of
                            None \<Rightarrow> None
                          | Some u \<Rightarrow>
                              (case report_citations (json_get v (lit ''citations'')) of
                                 None \<Rightarrow> None
                               | Some citations \<Rightarrow>
                                   (case report_force (json_get v (lit ''force'')) of
                                      None \<Rightarrow> None
                                    | Some force \<Rightarrow>
                                        Some \<lparr>vr_claim = claim, vr_conversation_id = ge_uuid_str env u, vr_citations = citations, vr_force = force\<rparr>)))
                     | _ \<Rightarrow> None)
           | _ \<Rightarrow> None))"

definition build_workers_body :: "validated_report \<Rightarrow> pystr \<Rightarrow> payload" where
  "build_workers_body req request_id =
     [(lit ''claim'', PStr (vr_claim req)), (lit ''conversation_id'', PStr (vr_conversation_id req)),
      (lit ''request_id'', PStr request_id), (lit ''force'', PBool (vr_force req))] @
     (case vr_citations req of None \<Rightarrow> [] | Some cits \<Rightarrow> [(lit ''citations'', PList cits)])"

text \<open>\<open>None\<close> is a database error, or an identifier that does not parse.\<close>

definition caller_owns_conversation :: "gateway_env \<Rightarrow> bool \<Rightarrow> pystr \<Rightarrow> uuid \<Rightarrow> db \<Rightarrow> bool option" where
  "caller_owns_conversation env query_ok conversation_id caller d =
     (case ge_parse_uuid env conversation_id of
        None \<Rightarrow> None
      | Some conv_uuid \<Rightarrow>
          if \<not> query_ok then None
          else Some (case find_conversation d (ge_uuid_str env conv_uuid) of
                       None \<Rightarrow> False
                     | Some r \<Rightarrow> cv_user_id r = ge_uuid_str env caller))"

definition forward_report :: "gateway_env \<Rightarrow> proxy_env \<Rightarrow> pystr \<Rightarrow> validated_report \<Rightarrow> anon_identity \<Rightarrow> proxy_response \<times> worker_request list" where
  "forward_report env px request_id req identity =
     (case px_id_token px of
        Inl e \<Rightarrow> (ErrorBody 503 (lit ''upstream_unavailable'') request_id, [])
      | Inr id_token \<Rightarrow>
          let wr = \<lparr>wr_path = lit ''/v1/verify-contradiction'', wr_headers = worker_headers env identity request_id id_token,
                    wr_body = build_workers_body req request_id\<rparr>
          in (case px_send px wr of
                Inl e \<Rightarrow> map_reqwest_error e request_id
              | Inr resp \<Rightarrow> handle_workers_response resp request_id, [wr]))"

definition report_contradiction ::
  "gateway_env \<Rightarrow> proxy_env \<Rightarrow> bool \<Rightarrow> pystr \<Rightarrow> anon_identity \<Rightarrow> bytes \<Rightarrow> db \<Rightarrow> proxy_response \<times> worker_request list" where
  "report_contradiction env px query_ok request_id identity body d =
     (case parse_report env px body of
        None \<Rightarrow> (ErrorBody 400 (lit ''invalid_request'') request_id, [])
      | Some validated \<Rightarrow>
          if \<not> ge_db_pool env then (ErrorBody 503 (lit ''upstream_unavailable'') request_id, [])
          else (case caller_owns_conversation env query_ok (vr_conversation_id validated) (ai_user_id identity) d of
                  Some True \<Rightarrow> forward_report env px request_id validated identity
                | Some False \<Rightarrow> (ErrorBody 404 (lit ''conversation_not_found'') request_id, [])
                | None \<Rightarrow> (ErrorBody 503 (lit ''upstream_unavailable'') request_id, [])))"


section \<open>The size of an answer\<close>

lemma read_capped_iff:
  assumes "length acc \<le> MAX_UPSTREAM_BODY"
  shows "read_capped acc chunks = Some bs \<longleftrightarrow>
    None \<notin> set chunks \<and> bs = acc @ concat (map the chunks) \<and> length bs \<le> MAX_UPSTREAM_BODY"
  using assms
proof (induct acc chunks rule: read_capped.induct)
  case (3 acc chunk rest)
  have "length acc + length chunk \<le> length (acc @ chunk @ concat (map the rest))" by simp
  with 3 show ?case
    by (cases "length acc + length chunk > MAX_UPSTREAM_BODY") auto
qed auto

lemma read_capped_body_iff:
  "read_capped_body chunks = Some bs \<longleftrightarrow>
    None \<notin> set chunks \<and> bs = concat (map the chunks) \<and> length bs \<le> MAX_UPSTREAM_BODY"
  by (simp add: read_capped_body_def read_capped_iff)

lemma ex_upstream: "(\<exists>r. P r) \<longleftrightarrow> (\<exists>status chunks. P (UpstreamResponse status chunks))"
  by (metis upstream.exhaust)

lemma handle_workers_passthrough:
  "handle_workers_response (UpstreamResponse status chunks) request_id = Passthrough rid bs \<longleftrightarrow>
    rid = request_id \<and> is_success_status status \<and> read_capped_body chunks = Some bs"
  by (auto simp: handle_workers_response_def split: option.splits)

text \<open>What a chat passes on is the workers' answer byte for byte and at most 256 KiB of it: the answer is passed through exactly when the
  request is valid, a token was got, the workers answered with a success and their whole body could be read and is within the limit.\<close>

theorem chat_passthrough_exact:
  "fst (chat env px request_id identity body) = Passthrough rid bs \<longleftrightarrow>
     rid = request_id \<and>
     (\<exists>req id_token status chunks. parse_and_validate env px body = Some req \<and> px_id_token px = Inr id_token \<and>
        px_send px \<lparr>wr_path = lit ''/v1/generate'', wr_headers = worker_headers env identity request_id id_token,
          wr_body = chat_body req request_id\<rparr> = Inr (UpstreamResponse status chunks) \<and>
        200 \<le> status \<and> status \<le> 299 \<and> None \<notin> set chunks \<and> bs = concat (map the chunks) \<and> length bs \<le> 262144)"
proof -
  have "fst (chat env px request_id identity body) = Passthrough rid bs \<longleftrightarrow>
     (\<exists>req id_token resp. parse_and_validate env px body = Some req \<and> px_id_token px = Inr id_token \<and>
        px_send px \<lparr>wr_path = lit ''/v1/generate'', wr_headers = worker_headers env identity request_id id_token,
          wr_body = chat_body req request_id\<rparr> = Inr resp \<and> handle_workers_response resp request_id = Passthrough rid bs)"
    by (auto simp: chat_def forward_chat_def map_reqwest_error_def Let_def split: option.splits sum.splits if_splits)
  also have "\<dots> \<longleftrightarrow> rid = request_id \<and>
     (\<exists>req id_token status chunks. parse_and_validate env px body = Some req \<and> px_id_token px = Inr id_token \<and>
        px_send px \<lparr>wr_path = lit ''/v1/generate'', wr_headers = worker_headers env identity request_id id_token,
          wr_body = chat_body req request_id\<rparr> = Inr (UpstreamResponse status chunks) \<and>
        is_success_status status \<and> read_capped_body chunks = Some bs)"
    by (auto simp: ex_upstream handle_workers_passthrough)
  finally show ?thesis
    by (simp add: is_success_status_def read_capped_body_iff MAX_UPSTREAM_BODY_def)
qed

section \<open>The gateway and the workers agree\<close>

text \<open>What is relied on of the crates: a UUID is written in its hyphenated lower-case form, and a decoded string is valid Unicode.\<close>

definition uuid_format_ok :: "gateway_env \<Rightarrow> bool" where
  "uuid_format_ok env \<longleftrightarrow> (\<forall>u. uuid_shape (ge_uuid_str env u))"

definition decoder_ok :: "proxy_env \<Rightarrow> bool" where
  "decoder_ok px \<longleftrightarrow> (\<forall>body v k s. px_decode px body = Some v \<longrightarrow> json_get v k = Some (PStr s) \<longrightarrow> py_encode s \<noteq> None)"

lemma chat_sent:
  assumes "wr \<in> set (snd (chat env px request_id identity body)) \<union> set (snd (chat_stream env px request_id identity body))"
  shows "\<exists>req id_token. parse_and_validate env px body = Some req \<and>
    wr_headers wr = worker_headers env identity request_id id_token \<and> wr_body wr = chat_body req request_id"
  using assms
  by (auto simp: chat_def chat_stream_def forward_chat_def Let_def split: option.splits sum.splits)

lemma parse_and_validate_Some:
  assumes "parse_and_validate env px body = Some req"
  shows "\<exists>v. px_decode px body = Some v \<and> json_get v (lit ''query'') = Some (PStr (vc_query req)) \<and>
      chat_conversation_id env (json_get v (lit ''conversation_id'')) = Some (vc_conversation_id req)"
    and "vc_query req \<noteq> []" "length (utf8 (vc_query req)) \<le> 4096"
  using assms
  by (auto simp: parse_and_validate_def MAX_QUERY_BYTES_chat_def split: option.splits pyval.splits if_splits)

lemma chat_conversation_id_text:
  "chat_conversation_id env v = Some (Some c) \<Longrightarrow> \<exists>u. c = ge_uuid_str env u"
  by (auto simp: chat_conversation_id_def split: option.splits pyval.splits)

lemma worker_headers_identity [simp]:
  "map_of (worker_headers env identity request_id id_token) (lit ''x-user-id'') = Some (ge_uuid_str env (ai_user_id identity))"
  "map_of (worker_headers env identity request_id id_token) (lit ''x-user-tier'') = Some (as_str (ai_tier identity))"
  by (simp_all add: worker_headers_def)

lemma chat_body_fields [simp]:
  "map_of (chat_body req request_id) (lit ''query'') = Some (PStr (vc_query req))"
  "map_of (chat_body req request_id) (lit ''request_id'') = Some (PStr request_id)"
  "map_of (chat_body req request_id) (lit ''conversation_id'') =
     Some (case vc_conversation_id req of None \<Rightarrow> PNone | Some c \<Rightarrow> PStr c)"
  by (simp_all add: chat_body_def)

definition internal_tier :: "user_tier \<Rightarrow> pystr" where
  "internal_tier t = (case t of Anonymous \<Rightarrow> lit ''anonymous'' | Member \<Rightarrow> lit ''members'' | Author \<Rightarrow> lit ''author_only'')"

lemma contract_tier [simp]: "CONTRACT_TIER_TO_INTERNAL (as_str t) = Some (internal_tier t)"
  by (cases t) (simp_all add: CONTRACT_TIER_TO_INTERNAL_def internal_tier_def)

lemma chat_request_parsed:
  assumes "parse_and_validate env px body = Some req" "uuid_format_ok env" "uuid_shape request_id" "decoder_ok px"
  shows "parse_request (chat_body req request_id) (map_of (worker_headers env identity request_id id_token)) =
    Inr \<lparr>rq_query = vc_query req, rq_conversation_id = vc_conversation_id req, rq_user_id = ge_uuid_str env (ai_user_id identity),
      rq_user_tier = internal_tier (ai_tier identity), rq_request_id = request_id\<rparr>"
proof -
  obtain v where v: "px_decode px body = Some v" "json_get v (lit ''query'') = Some (PStr (vc_query req))"
    "chat_conversation_id env (json_get v (lit ''conversation_id'')) = Some (vc_conversation_id req)"
    using parse_and_validate_Some(1)[OF assms(1)] by blast
  let ?uid = "ge_uuid_str env (ai_user_id identity)"
  have uid: "is_valid_uuid ?uid" "is_valid_uuid request_id"
    using assms(2,3) by (simp_all add: uuid_format_ok_def is_valid_uuid_def)
  have conv: "conversation_field (chat_body req request_id) = Some (vc_conversation_id req)"
  proof (cases "vc_conversation_id req")
    case (Some c)
    with v(3) obtain u where "c = ge_uuid_str env u"
      using chat_conversation_id_text[of env] by metis
    then have "is_valid_uuid c"
      using assms(2) by (simp add: uuid_format_ok_def is_valid_uuid_def)
    with Some show ?thesis by (simp add: conversation_field_def)
  qed (simp add: conversation_field_def)
  have query: "py_encode (vc_query req) \<noteq> None"
    using v(1,2) assms(4) by (auto simp: decoder_ok_def)
  have "internal_tier (ai_tier identity) \<in> USER_TIERS"
    by (rule tier_internal[OF contract_tier])
  then show ?thesis
    using uid is_valid_uuid_encodes[OF uid(1)] conv query parse_and_validate_Some(2,3)[OF assms(1)] is_valid_uuid_nonempty[OF uid(1)]
      tier_nonempty[OF contract_tier, of "ai_tier identity"]
    by (simp add: parse_request_def parse_body_Inr validate_str_iff validate_tier_iff validate_query_iff QUERY_MAX_BYTES_def)
qed

text \<open>C17: The workers accept every request the gateway sends for a chat, streamed or not, and read in it what the gateway knows: the caller's identifier and
  tier, the gateway's own request identifier, and the question of the body. No check of the gateway is weaker than the one the workers repeat, so the
  caller never sees the failure of a request that the gateway let through. Relied on: UUIDs are written in hyphenated lower case and decoded
  strings are valid Unicode.\<close>

theorem chat_accepted_by_workers:
  assumes "wr \<in> set (snd (chat env px request_id identity body)) \<union> set (snd (chat_stream env px request_id identity body))"
    and "uuid_format_ok env" "uuid_shape request_id" "decoder_ok px"
  shows "\<exists>r v. parse_request (wr_body wr) (map_of (wr_headers wr)) = Inr r \<and>
    rq_user_id r = ge_uuid_str env (ai_user_id identity) \<and> rq_user_tier r = internal_tier (ai_tier identity) \<and>
    rq_request_id r = request_id \<and> px_decode px body = Some v \<and> json_get v (lit ''query'') = Some (PStr (rq_query r))"
proof -
  obtain req id_token where req: "parse_and_validate env px body = Some req"
    and wr: "wr_headers wr = worker_headers env identity request_id id_token" "wr_body wr = chat_body req request_id"
    using chat_sent[OF assms(1)] by blast
  from parse_and_validate_Some(1)[OF req] chat_request_parsed[OF req assms(2-4), of identity id_token] wr show ?thesis
    by force
qed

definition proxy_sample :: proxy_env where
  "proxy_sample = \<lparr>px_decode = (\<lambda>_. Some (PDict [(lit ''query'', PStr (lit ''who''))])), px_id_token = Inr (lit ''t''),
     px_send = (\<lambda>_. Inr (UpstreamResponse 200 [Some [123, 125]]))\<rparr>"

definition proxy_sample_env :: gateway_env where
  "proxy_sample_env = gw_sample_env\<lparr>ge_uuid_str := (\<lambda>_. sample_uuid)\<rparr>"

lemma sample_uuid_shape: "uuid_shape sample_uuid"
  by code_simp

lemma proxy_sample_decoder: "decoder_ok proxy_sample"
  by (auto simp: decoder_ok_def proxy_sample_def py_encode_def lit_def is_surrogate_def split: if_splits)

lemma proxy_sample_format: "uuid_format_ok proxy_sample_env"
  by (simp add: uuid_format_ok_def proxy_sample_env_def sample_uuid_shape)

definition sample_worker_request :: "anon_identity \<Rightarrow> worker_request" where
  "sample_worker_request identity = \<lparr>wr_path = lit ''/v1/generate'',
     wr_headers = worker_headers proxy_sample_env identity sample_uuid (lit ''t''),
     wr_body = chat_body \<lparr>vc_query = lit ''who'', vc_conversation_id = None\<rparr> sample_uuid\<rparr>"

lemma proxy_sample_valid:
  "parse_and_validate proxy_sample_env proxy_sample [] = Some \<lparr>vc_query = lit ''who'', vc_conversation_id = None\<rparr>"
  by (simp add: parse_and_validate_def proxy_sample_def chat_conversation_id_def MAX_QUERY_BYTES_chat_def) (simp add: lit_def utf8_ascii)

lemma proxy_sample_chat:
  "chat proxy_sample_env proxy_sample sample_uuid identity [] = (Passthrough sample_uuid [123, 125], [sample_worker_request identity])"
  by (simp add: chat_def forward_chat_def sample_worker_request_def proxy_sample_valid Let_def)
    (simp add: proxy_sample_def handle_workers_response_def is_success_status_def read_capped_body_def MAX_UPSTREAM_BODY_def)

theorem chat_accepted_by_workers_witness:
  "\<exists>r v. parse_request (wr_body (sample_worker_request \<lparr>ai_user_id = 7, ai_tier = Member, ai_fingerprint = None\<rparr>))
       (map_of (wr_headers (sample_worker_request \<lparr>ai_user_id = 7, ai_tier = Member, ai_fingerprint = None\<rparr>))) = Inr r \<and>
     rq_user_id r = sample_uuid \<and> rq_user_tier r = lit ''members'' \<and> rq_request_id r = sample_uuid \<and>
     px_decode proxy_sample [] = Some v \<and> json_get v (lit ''query'') = Some (PStr (rq_query r))"
  using chat_accepted_by_workers[OF _ proxy_sample_format sample_uuid_shape proxy_sample_decoder,
      of "sample_worker_request \<lparr>ai_user_id = 7, ai_tier = Member, ai_fingerprint = None\<rparr>"
        "\<lparr>ai_user_id = 7, ai_tier = Member, ai_fingerprint = None\<rparr>" "[]"]
  by (simp add: proxy_sample_chat internal_tier_def) (simp add: proxy_sample_env_def)


section \<open>Reports are about own conversations\<close>

text \<open>What is forwarded names a conversation of the caller, and carries the caller's identity.\<close>

lemma report_only_own:
  assumes "wr \<in> set (snd (report_contradiction env px query_ok request_id identity body d))"
    and "\<forall>u. ge_parse_uuid env (ge_uuid_str env u) = Some u"
  shows "\<exists>c. map_of (wr_body wr) (lit ''conversation_id'') = Some (PStr c) \<and> owns d (ge_uuid_str env (ai_user_id identity)) c \<and>
    map_of (wr_headers wr) (lit ''x-user-id'') = Some (ge_uuid_str env (ai_user_id identity))"
proof -
  obtain req where req: "parse_report env px body = Some req"
    and own: "caller_owns_conversation env query_ok (vr_conversation_id req) (ai_user_id identity) d = Some True"
    and fwd: "wr \<in> set (snd (forward_report env px request_id req identity))"
    using assms(1) by (auto simp: report_contradiction_def split: option.splits if_splits bool.splits)
  obtain u where u: "vr_conversation_id req = ge_uuid_str env u"
    using req by (auto simp: parse_report_def split: option.splits pyval.splits if_splits)
  then obtain r where "find_conversation d (ge_uuid_str env u) = Some r" "cv_user_id r = ge_uuid_str env (ai_user_id identity)"
    using own assms(2) by (auto simp: caller_owns_conversation_def split: if_splits option.splits)
  then have "owns d (ge_uuid_str env (ai_user_id identity)) (ge_uuid_str env u)"
    using find_conversation_Some by (fastforce simp: owns_def)
  with fwd u show ?thesis
    by (auto simp: forward_report_def build_workers_body_def Let_def split: sum.splits option.splits)
qed

end
