(* ===== verification/Gateway_Pool.thy ===== *)
theory Gateway_Pool
  imports Gateway_Cache
begin

text \<open>
  The database pool of the gateway (\<^verbatim>\<open>gateway/src/lib.rs\<close>: \<^verbatim>\<open>init_sql_pool\<close>, \<^verbatim>\<open>spawn_sql_token_refresher\<close> and
  the boot part of \<^verbatim>\<open>run\<close>). The password of the pool is an access token; a background task renews it every half hour.
  The state is the token provider and the password new connections use. Inputs: the clock and the metadata
  server at each call, whether the address of the database parses, and whether the database accepts a password.
\<close>

section \<open>Definitions\<close>

definition SQL_CONNECTION_MAX_LIFETIME_SECS :: rat where
  "SQL_CONNECTION_MAX_LIFETIME_SECS = 45 * 60"

definition REFRESH_PERIOD :: rat where
  "REFRESH_PERIOD = 30 * 60"

datatype boot_error = MetadataTokenFailed token_error | CloudSqlAuthFailed

record sql_state =
  sq_provider :: token_provider
  sq_password :: pystr

definition init_sql_pool ::
  "call_clock \<Rightarrow> (pystr \<Rightarrow> pyval http_answer) \<Rightarrow> bool \<Rightarrow> (pystr \<Rightarrow> bool) \<Rightarrow> token_provider \<Rightarrow> boot_error + sql_state" where
  "init_sql_pool ck metadata url_ok connects p =
     (case get_or_refresh_token ck metadata p of
        (Inl e, _) \<Rightarrow> Inl (MetadataTokenFailed e)
      | (Inr (initial_token, _), p') \<Rightarrow>
          if \<not> url_ok then Inl CloudSqlAuthFailed
          else if connects initial_token then Inr \<lparr>sq_provider = p', sq_password = initial_token\<rparr>
          else Inl CloudSqlAuthFailed)"

text \<open>One round of the refresher; a failed fetch leaves the password as it was.\<close>

definition refresh_tick :: "bool \<Rightarrow> call_clock \<times> (pystr \<Rightarrow> pyval http_answer) \<Rightarrow> sql_state \<Rightarrow> sql_state" where
  "refresh_tick url_ok tick st =
     (case tick of (ck, metadata) \<Rightarrow>
        (case get_or_refresh_token ck metadata (sq_provider st) of
           (Inr (token, _), p') \<Rightarrow> st\<lparr>sq_provider := p', sq_password := (if url_ok then token else sq_password st)\<rparr>
         | (Inl e, p') \<Rightarrow> st\<lparr>sq_provider := p'\<rparr>))"

definition spawn_sql_token_refresher ::
  "bool \<Rightarrow> (call_clock \<times> (pystr \<Rightarrow> pyval http_answer)) list \<Rightarrow> sql_state \<Rightarrow> sql_state" where
  "spawn_sql_token_refresher url_ok ticks st = fold (refresh_tick url_ok) ticks st"

text \<open>The instants of the refresher's rounds, from the instant it is spawned.\<close>

definition tick_at :: "rat \<Rightarrow> nat \<Rightarrow> rat" where
  "tick_at spawned n = spawned + REFRESH_PERIOD * (of_nat n + 1)"

text \<open>\<^verbatim>\<open>before_acquire\<close>: whether an idle connection of that age is handed out again.\<close>

definition before_acquire :: "rat \<Rightarrow> bool" where
  "before_acquire age \<longleftrightarrow> age < SQL_CONNECTION_MAX_LIFETIME_SECS - 60"

definition boot_sql :: "call_clock \<Rightarrow> (pystr \<Rightarrow> pyval http_answer) \<Rightarrow> bool \<Rightarrow> (pystr \<Rightarrow> bool) \<Rightarrow> boot_error + sql_state" where
  "boot_sql ck metadata url_ok connects = init_sql_pool ck metadata url_ok connects for_cloud_sql"

text \<open>When the token that is the password stops being accepted.\<close>

definition password_expiry :: "sql_state \<Rightarrow> rat option" where
  "password_expiry st =
     (case tp_cache (sq_provider st) of
        Some c \<Rightarrow> if gt_bearer c = sq_password st then Some (gt_expires_at c) else None
      | None \<Rightarrow> None)"

section \<open>Lemmas\<close>

text \<open>The password of the pool is always the bearer of the cached token.\<close>

definition password_cached :: "sql_state \<Rightarrow> bool" where
  "password_cached st \<longleftrightarrow> (\<exists>c. tp_cache (sq_provider st) = Some c \<and> gt_bearer c = sq_password st)"

lemma token_call_caches:
  "get_or_refresh_token ck metadata p = (Inr (bearer, b), p') \<Longrightarrow> \<exists>c. tp_cache p' = Some c \<and> gt_bearer c = bearer"
  unfolding get_or_refresh_token_def valid_bearer_def by (auto split: option.splits if_splits sum.splits)

lemma token_call_failure: "get_or_refresh_token ck metadata p = (Inl e, p') \<Longrightarrow> p' = p"
  unfolding get_or_refresh_token_def by (auto split: option.splits sum.splits)

lemma init_sql_pool_cached: "init_sql_pool ck metadata url_ok connects p = Inr st \<Longrightarrow> password_cached st"
  unfolding init_sql_pool_def password_cached_def
  by (auto split: prod.splits sum.splits if_splits dest: token_call_caches)

lemma refresh_tick_cached: "password_cached st \<Longrightarrow> password_cached (refresh_tick True tick st)"
  unfolding refresh_tick_def
  by (auto simp: password_cached_def split: prod.splits sum.splits dest: token_call_caches token_call_failure)

lemma refresher_cached:
  assumes "password_cached st"
  shows "password_cached (spawn_sql_token_refresher True ticks st)"
  using assms unfolding spawn_sql_token_refresher_def
  by (induction ticks arbitrary: st) (auto intro: refresh_tick_cached)

lemma password_cached_expiry:
  "password_cached st \<Longrightarrow> tp_cache (sq_provider st) = Some c \<Longrightarrow> password_expiry st = Some (gt_expires_at c)"
  by (auto simp: password_cached_def password_expiry_def)

text \<open>A round whose call succeeds leaves a password that lives for more than a minute from the look at the clock, when
  the tokens the server hands out do.\<close>

lemma refresh_tick_fresh:
  assumes "get_or_refresh_token ck metadata (sq_provider st) = (Inr (token, b), p')" "kk_read ck \<le> kk_recheck ck" "kk_recheck ck \<le> kk_end ck"
    "\<And>c. token_of_answer (kk_end ck) (metadata (metadata_url (sq_provider st))) = Inr c \<Longrightarrow> kk_end ck + 60 < gt_expires_at c"
  shows "\<exists>t. password_expiry (refresh_tick True (ck, metadata) st) = Some t \<and> kk_read ck + 60 < t"
proof (cases b)
  case True
  with cached_bearer_valid[of ck metadata "sq_provider st" token p'] assms(1,2) show ?thesis
    by (auto simp: refresh_tick_def password_expiry_def)
next
  case False
  with token_call_fetched[of ck metadata "sq_provider st" token p'] assms(1) obtain c where
    c: "token_of_answer (kk_end ck) (metadata (metadata_url (sq_provider st))) = Inr c" "gt_bearer c = token" "tp_cache p' = Some c" by auto
  from assms(4)[OF c(1)] show ?thesis using assms(1-3) c by (auto simp: refresh_tick_def password_expiry_def)
qed

text \<open>The first round meets a cached token that is still valid, and keeps it: when the token of the boot lives for
  between 31 and 60 minutes, the password is expired before the second round.\<close>

definition at_instant :: "rat \<Rightarrow> call_clock" where
  "at_instant t = \<lparr>kk_read = t, kk_recheck = t, kk_start = t, kk_end = t\<rparr>"

definition gives :: "pystr \<Rightarrow> int \<Rightarrow> pystr \<Rightarrow> pyval http_answer" where
  "gives bearer lifetime url =
     Answer 200 (Some (PDict [(lit ''access_token'', PStr bearer), (lit ''expires_in'', PInt lifetime)]))"

lemma lit_fields_distinct: "lit ''access_token'' \<noteq> lit ''expires_in''"
  by (simp add: lit_def)

lemma token_of_gives:
  "is_i64 lifetime \<Longrightarrow> token_of_answer now (gives bearer lifetime url) = Inr \<lparr>gt_bearer = bearer, gt_expires_at = now + of_int lifetime\<rparr>"
  using lit_fields_distinct
  by (simp add: token_of_answer_def gives_def field_once_def token_fields_def is_success_status_def)

lemma boot_sql_gives:
  assumes "is_i64 lifetime" "connects bearer"
  shows "boot_sql (at_instant t) (gives bearer lifetime) True connects =
    Inr \<lparr>sq_provider = for_cloud_sql\<lparr>tp_cache := Some \<lparr>gt_bearer = bearer, gt_expires_at = t + of_int lifetime\<rparr>\<rparr>, sq_password = bearer\<rparr>"
  using assms token_of_gives[OF assms(1)]
  by (simp add: boot_sql_def init_sql_pool_def get_or_refresh_token_def valid_bearer_def fetch_gw_token_def at_instant_def
      for_cloud_sql_def with_base_url_def)

lemma sql_password_expires:
  assumes "boot_sql (at_instant 0) (gives bearer lifetime) True connects = Inr st" "connects bearer" "1860 < lifetime" "lifetime < 3600"
  shows "password_expiry (spawn_sql_token_refresher True [(at_instant (tick_at 0 0), metadata)] st) = Some (of_int lifetime)"
    "of_int lifetime < tick_at 0 1"
proof -
  have st: "st = \<lparr>sq_provider = for_cloud_sql\<lparr>tp_cache := Some \<lparr>gt_bearer = bearer, gt_expires_at = of_int lifetime\<rparr>\<rparr>, sq_password = bearer\<rparr>"
    using boot_sql_gives[of lifetime connects bearer 0] assms by (simp add: is_i64_def)
  have "(1800::rat) < of_int lifetime - 60" using assms(3) by linarith
  then show "password_expiry (spawn_sql_token_refresher True [(at_instant (tick_at 0 0), metadata)] st) = Some (of_int lifetime)"
    by (simp add: st spawn_sql_token_refresher_def refresh_tick_def get_or_refresh_token_def valid_bearer_def at_instant_def
        tick_at_def REFRESH_PERIOD_def REFRESH_AHEAD_SECS_def password_expiry_def)
  show "of_int lifetime < tick_at 0 1" using assms(4) by (simp add: tick_at_def REFRESH_PERIOD_def)
qed

end
