(* ===== verification/Gateway_Status.thy ===== *)
theory Gateway_Status
  imports Gateway_Proxy
begin

text \<open>
  The health routes of the gateway: \<^verbatim>\<open>gateway/src/handlers/status.rs\<close>, \<^verbatim>\<open>health.rs\<close> and \<^verbatim>\<open>wake.rs\<close>, and the
  header of \<^verbatim>\<open>gateway/src/middleware/timing.rs\<close>. The state is the three token caches and the snapshot cache.
  The three probes run side by side; they share no cache, so one after the other is the same.

  Inputs (a \<open>probe_inputs\<close>): the configuration, the answers of the database, of the metadata server, of the storage
  service, of the workers and of the Cloud Run API, and when each arrives. Instants are seconds. A probe gives \<open>None\<close> when it
  has not finished at its deadline; it has then stored a token only if the token had arrived. Log lines are left out.
\<close>

section \<open>Inputs and state\<close>

record probe_inputs =
  pr_t0 :: rat
  pr_db_pool :: bool
  pr_select_ok :: bool
  pr_select_at :: rat
  pr_metadata :: "pystr \<Rightarrow> pyval http_answer"
  pr_identity :: "pystr \<Rightarrow> pystr \<Rightarrow> pystr http_answer"
  pr_jwt :: jwt_reader
  pr_gcs_clock :: call_clock
  pr_id_clock :: call_clock
  pr_run_clock :: call_clock
  pr_gcs_get :: "pystr \<Rightarrow> pystr \<Rightarrow> unit http_answer"
  pr_gcs_at :: rat
  pr_health_get :: "pystr \<Rightarrow> pystr \<Rightarrow> unit http_answer"
  pr_health_at :: rat
  pr_service_get :: "pystr \<Rightarrow> pystr \<Rightarrow> pyval http_answer"
  pr_service_at :: rat
  pr_gcs_bucket :: pystr
  pr_workers_url :: pystr
  pr_cloud_run_service_url :: pystr

record app_caches =
  ac_gcs_token_provider :: token_provider
  ac_workers_id_token_provider :: id_token_provider
  ac_run_token_provider :: token_provider

section \<open>The probes\<close>

definition PROBE_TIMEOUT :: rat where
  "PROBE_TIMEOUT = 2"

definition WORKERS_HEALTH_PROBE_TIMEOUT :: rat where
  "WORKERS_HEALTH_PROBE_TIMEOUT = 1"

definition deadline :: "probe_inputs \<Rightarrow> rat" where
  "deadline inp = pr_t0 inp + PROBE_TIMEOUT"

definition probe_elapsed_ms :: "rat \<Rightarrow> rat \<Rightarrow> nat" where
  "probe_elapsed_ms t0 t = min (nat \<lfloor>(t - t0) * 1000\<rfloor>) 18446744073709551615"

definition is_2xx :: "'b http_answer \<Rightarrow> bool" where
  "is_2xx ans = (case ans of NoAnswer _ \<Rightarrow> False | Answer status _ \<Rightarrow> is_success_status status)"

text \<open>When a token call returns.\<close>

definition token_ready_at :: "call_clock \<Rightarrow> gw_token option \<Rightarrow> rat" where
  "token_ready_at ck cache =
     (if valid_bearer (kk_read ck) cache \<noteq> None then kk_read ck
      else if valid_bearer (kk_recheck ck) cache \<noteq> None then kk_recheck ck
      else kk_end ck)"

definition probe_with_timeout :: "dep_status option \<Rightarrow> dep_status" where
  "probe_with_timeout fut =
     (case fut of Some result \<Rightarrow> result | None \<Rightarrow> \<lparr>ds_status = lit ''down'', ds_latency_ms = nat \<lfloor>PROBE_TIMEOUT * 1000\<rfloor>\<rparr>)"

definition probe_postgres :: "probe_inputs \<Rightarrow> dep_status option" where
  "probe_postgres inp =
     (if \<not> pr_db_pool inp then Some \<lparr>ds_status = lit ''down'', ds_latency_ms = 0\<rparr>
      else if deadline inp < pr_select_at inp then None
      else Some \<lparr>ds_status = (if pr_select_ok inp then lit ''ok'' else lit ''down''), ds_latency_ms = probe_elapsed_ms (pr_t0 inp) (pr_select_at inp)\<rparr>)"

definition probe_http_endpoint :: "unit http_answer \<Rightarrow> rat \<Rightarrow> rat \<Rightarrow> dep_status" where
  "probe_http_endpoint ans t0 t =
     \<lparr>ds_status = (if is_2xx ans then lit ''ok'' else lit ''down''), ds_latency_ms = probe_elapsed_ms t0 t\<rparr>"

definition gcs_probe_url :: "probe_inputs \<Rightarrow> pystr" where
  "gcs_probe_url inp = lit ''https://storage.googleapis.com/storage/v1/b/'' @ pr_gcs_bucket inp @ lit ''/o?maxResults=1''"

definition probe_gcs :: "probe_inputs \<Rightarrow> token_provider \<Rightarrow> dep_status option \<times> token_provider" where
  "probe_gcs inp p =
     (let ready = token_ready_at (pr_gcs_clock inp) (tp_cache p)
      in if deadline inp < ready then (None, p)
         else (case get_or_refresh_token (pr_gcs_clock inp) (pr_metadata inp) p of
                 (Inl e, p') \<Rightarrow> (Some \<lparr>ds_status = lit ''down'', ds_latency_ms = probe_elapsed_ms (pr_t0 inp) ready\<rparr>, p')
               | (Inr (bearer, _), p') \<Rightarrow>
                   (if deadline inp < pr_gcs_at inp then None
                    else Some (probe_http_endpoint (pr_gcs_get inp (gcs_probe_url inp) bearer) (pr_t0 inp) (pr_gcs_at inp)), p')))"

text \<open>The ping gives whether the workers serve and when that was known.\<close>

definition workers_health_serving :: "probe_inputs \<Rightarrow> id_token_provider \<Rightarrow> (bool \<times> rat) option \<times> id_token_provider" where
  "workers_health_serving inp p =
     (let ready = token_ready_at (pr_id_clock inp) (ip_cache p)
      in if deadline inp < ready then (None, p)
         else (case fetch_workers_id_token (pr_jwt inp) (pr_id_clock inp) (pr_identity inp) p of
                 (Inl e, p') \<Rightarrow> (Some (False, ready), p')
               | (Inr bearer, p') \<Rightarrow>
                   let url = rstrip_by (\<lambda>c. c = 47) (pr_workers_url inp) @ lit ''/health'';
                       give_up = ready + WORKERS_HEALTH_PROBE_TIMEOUT
                   in if pr_health_at inp \<le> give_up
                      then (if deadline inp < pr_health_at inp then None
                            else Some (is_2xx (pr_health_get inp url bearer), pr_health_at inp), p')
                      else (if deadline inp < give_up then None else Some (False, give_up), p')))"

fun as_str_json :: "pyval \<Rightarrow> pystr option" where
  "as_str_json (PStr s) = Some s"
| "as_str_json _ = None"

fun as_array :: "pyval \<Rightarrow> pyval list option" where
  "as_array (PList xs) = Some xs"
| "as_array _ = None"

definition is_ready_condition :: "pyval \<Rightarrow> bool" where
  "is_ready_condition c \<longleftrightarrow> Option.bind (json_get c (lit ''type'')) as_str_json = Some (lit ''Ready'')"

definition ready_condition_state :: "pyval \<Rightarrow> pystr option" where
  "ready_condition_state service =
     (let from_array = Option.bind (Option.bind (json_get service (lit ''conditions'')) as_array) (List.find is_ready_condition);
          condition = (case from_array of
                         Some c \<Rightarrow> Some c
                       | None \<Rightarrow> (case json_get service (lit ''terminalCondition'') of
                                    Some c \<Rightarrow> if is_ready_condition c then Some c else None
                                  | None \<Rightarrow> None))
      in Option.bind condition (\<lambda>c. Option.bind (json_get c (lit ''state'')) as_str_json))"

definition workers_status_from_ready :: "pyval \<Rightarrow> pystr" where
  "workers_status_from_ready service =
     (if ready_condition_state service = Some (lit ''CONDITION_SUCCEEDED'') then lit ''dormant'' else lit ''down'')"

definition fetch_cloud_run_service :: "probe_inputs \<Rightarrow> pystr \<Rightarrow> pyval option" where
  "fetch_cloud_run_service inp bearer =
     (case pr_service_get inp (pr_cloud_run_service_url inp) bearer of
        NoAnswer _ \<Rightarrow> None
      | Answer status body \<Rightarrow> if is_success_status status then body else None)"

definition workers_ready_status :: "probe_inputs \<Rightarrow> token_provider \<Rightarrow> (pystr \<times> rat) option \<times> token_provider" where
  "workers_ready_status inp p =
     (let ready = token_ready_at (pr_run_clock inp) (tp_cache p)
      in if deadline inp < ready then (None, p)
         else (case get_or_refresh_token (pr_run_clock inp) (pr_metadata inp) p of
                 (Inl e, p') \<Rightarrow> (Some (lit ''down'', ready), p')
               | (Inr (bearer, _), p') \<Rightarrow>
                   (if deadline inp < pr_service_at inp then None
                    else Some (case fetch_cloud_run_service inp bearer of
                                 None \<Rightarrow> lit ''down''
                               | Some body \<Rightarrow> workers_status_from_ready body, pr_service_at inp), p')))"

definition probe_workers :: "probe_inputs \<Rightarrow> app_caches \<Rightarrow> dep_status option \<times> app_caches" where
  "probe_workers inp c =
     (case workers_health_serving inp (ac_workers_id_token_provider c) of
        (None, p) \<Rightarrow> (None, c\<lparr>ac_workers_id_token_provider := p\<rparr>)
      | (Some (serving, t), p) \<Rightarrow>
          let c = c\<lparr>ac_workers_id_token_provider := p\<rparr>
          in if serving then (Some \<lparr>ds_status = lit ''ok'', ds_latency_ms = probe_elapsed_ms (pr_t0 inp) t\<rparr>, c)
             else (case workers_ready_status inp (ac_run_token_provider c) of
                     (res, q) \<Rightarrow>
                       (map_option (\<lambda>(status, t). \<lparr>ds_status = status, ds_latency_ms = probe_elapsed_ms (pr_t0 inp) t\<rparr>) res,
                        c\<lparr>ac_run_token_provider := q\<rparr>)))"

definition is_healthy :: "dep_status \<Rightarrow> bool" where
  "is_healthy dep \<longleftrightarrow> ds_status dep = lit ''ok'' \<or> ds_status dep = lit ''dormant''"

definition aggregate_status :: "dep_status \<Rightarrow> dep_status \<Rightarrow> dep_status \<Rightarrow> pystr" where
  "aggregate_status postgres gcs workers =
     (if is_healthy postgres \<and> is_healthy gcs \<and> is_healthy workers then lit ''ok'' else lit ''degraded'')"

definition run_probes :: "probe_inputs \<Rightarrow> app_caches \<Rightarrow> status_response \<times> app_caches" where
  "run_probes inp c =
     (let postgres = probe_with_timeout (probe_postgres inp);
          (gcs_fut, p) = probe_gcs inp (ac_gcs_token_provider c);
          gcs = probe_with_timeout gcs_fut;
          (workers_fut, c') = probe_workers inp (c\<lparr>ac_gcs_token_provider := p\<rparr>);
          workers = probe_with_timeout workers_fut
      in (\<lparr>sr_status = aggregate_status postgres gcs workers, sr_postgres = postgres, sr_gcs = gcs, sr_workers = workers,
           sr_checked_at = []\<rparr>, c'))"

definition status_route ::
  "(rat \<Rightarrow> pystr) \<Rightarrow> call_clock \<Rightarrow> probe_inputs \<Rightarrow> cached_snapshot option \<times> app_caches
    \<Rightarrow> status_response \<times> cached_snapshot option \<times> app_caches" where
  "status_route to_rfc3339 ck inp st = get_or_refresh_snapshot to_rfc3339 ck (run_probes inp) st"

text \<open>A sequence of calls of the route, each with its clock and its inputs.\<close>

fun serve_status ::
  "(rat \<Rightarrow> pystr) \<Rightarrow> (call_clock \<times> probe_inputs) list \<Rightarrow> cached_snapshot option \<times> app_caches
    \<Rightarrow> (call_clock \<times> status_response) list" where
  "serve_status to_rfc3339 [] st = []"
| "serve_status to_rfc3339 ((ck, inp) # calls) st =
     (case status_route to_rfc3339 ck inp st of
        (r, st') \<Rightarrow> (ck, r) # serve_status to_rfc3339 calls st')"

section \<open>Liveness and waking\<close>

definition healthz_probe :: "probe_inputs \<Rightarrow> id_token_provider \<Rightarrow> pystr \<times> id_token_provider" where
  "healthz_probe inp p =
     (case fetch_workers_id_token (pr_jwt inp) (pr_id_clock inp) (pr_identity inp) p of
        (Inl e, p') \<Rightarrow> (lit ''degraded'', p')
      | (Inr id_token, p') \<Rightarrow>
          (if is_2xx (pr_health_get inp (pr_workers_url inp @ lit ''/health'') id_token) then lit ''ok'' else lit ''degraded'', p'))"

definition gateway_healthz :: "pystr \<Rightarrow> probe_inputs \<Rightarrow> id_token_provider \<Rightarrow> (pystr \<times> pystr) \<times> id_token_provider" where
  "gateway_healthz version inp p = (case healthz_probe inp p of (status, p') \<Rightarrow> ((status, version), p'))"

definition WAKE_TIMEOUT :: rat where
  "WAKE_TIMEOUT = 90"

text \<open>An answer that arrives after the timeout of the call is a transport error.\<close>

datatype wake_response = NoContent | WakeError nat pystr pystr

definition wake :: "probe_inputs \<Rightarrow> pystr \<Rightarrow> id_token_provider \<Rightarrow> wake_response \<times> id_token_provider" where
  "wake inp request_id p =
     (case fetch_workers_id_token (pr_jwt inp) (pr_id_clock inp) (pr_identity inp) p of
        (Inl e, p') \<Rightarrow> (WakeError 503 (lit ''upstream_unavailable'') request_id, p')
      | (Inr id_token, p') \<Rightarrow>
          (if pr_health_at inp - token_ready_at (pr_id_clock inp) (ip_cache p) \<le> WAKE_TIMEOUT
              \<and> is_2xx (pr_health_get inp (pr_workers_url inp @ lit ''/health'') id_token)
           then NoContent else WakeError 503 (lit ''upstream_unavailable'') request_id, p'))"

section \<open>The overhead header\<close>

definition U64_MAX :: nat where
  "U64_MAX = 18446744073709551615"

text \<open>Durations are nanoseconds; the slot is zero until the handler writes it.\<close>

definition set_duration :: "nat \<Rightarrow> nat" where
  "set_duration nanos = min nanos U64_MAX"

definition overhead_header :: "nat \<Rightarrow> nat option \<Rightarrow> nat" where
  "overhead_header taken workers_call =
     (let workers = (case workers_call of None \<Rightarrow> 0 | Some d \<Rightarrow> set_duration d);
          overhead = taken - workers
      in min (overhead div 1000000) U64_MAX)"

section \<open>Lemmas\<close>

lemma status_words [simp]:
  "lit ''ok'' \<noteq> lit ''down''" "lit ''down'' \<noteq> lit ''ok''" "lit ''dormant'' \<noteq> lit ''down''" "lit ''down'' \<noteq> lit ''dormant''"
  "lit ''ok'' \<noteq> lit ''degraded''" "lit ''degraded'' \<noteq> lit ''ok''"
  by (simp_all add: lit_def)

text \<open>What an answer of the route may say: its time, the closed lists of words, latencies within the timeout, and a summary
  that is good exactly when nothing is down.\<close>

definition word_ok :: "pystr list \<Rightarrow> dep_status \<Rightarrow> bool" where
  "word_ok words d \<longleftrightarrow> ds_status d \<in> set words \<and> ds_latency_ms d \<le> 2000"

definition sound_at :: "(rat \<Rightarrow> pystr) \<Rightarrow> rat \<Rightarrow> status_response \<Rightarrow> bool" where
  "sound_at to_rfc3339 t r \<longleftrightarrow>
     sr_checked_at r = to_rfc3339 t
   \<and> word_ok [lit ''ok'', lit ''down''] (sr_postgres r) \<and> word_ok [lit ''ok'', lit ''down''] (sr_gcs r)
   \<and> word_ok [lit ''ok'', lit ''dormant'', lit ''down''] (sr_workers r)
   \<and> sr_status r = (if \<exists>d\<in>{sr_postgres r, sr_gcs r, sr_workers r}. ds_status d = lit ''down'' then lit ''degraded'' else lit ''ok'')"

lemma elapsed_in_time: "t \<le> deadline inp \<Longrightarrow> probe_elapsed_ms (pr_t0 inp) t \<le> 2000"
proof -
  assume "t \<le> deadline inp"
  then have "(t - pr_t0 inp) * 1000 \<le> of_int 2000" by (simp add: deadline_def PROBE_TIMEOUT_def)
  then have "\<lfloor>(t - pr_t0 inp) * 1000\<rfloor> \<le> 2000" by (metis floor_mono floor_of_int)
  then have "nat \<lfloor>(t - pr_t0 inp) * 1000\<rfloor> \<le> 2000" by (simp only: nat_le_iff of_nat_numeral)
  then show ?thesis unfolding probe_elapsed_ms_def by (rule min.coboundedI1)
qed

lemma word_ok_timeout: "lit ''down'' \<in> set words \<Longrightarrow> (\<And>d. fut = Some d \<Longrightarrow> word_ok words d) \<Longrightarrow> word_ok words (probe_with_timeout fut)"
  by (auto simp: probe_with_timeout_def word_ok_def PROBE_TIMEOUT_def split: option.splits)

lemma probe_postgres_words: "probe_postgres inp = Some d \<Longrightarrow> word_ok [lit ''ok'', lit ''down''] d"
  by (auto simp: probe_postgres_def word_ok_def elapsed_in_time not_less split: if_splits)

lemma probe_gcs_words: "probe_gcs inp p = (Some d, p') \<Longrightarrow> word_ok [lit ''ok'', lit ''down''] d"
  by (auto simp: probe_gcs_def word_ok_def probe_http_endpoint_def elapsed_in_time not_less Let_def split: if_splits prod.splits sum.splits)

lemma serving_in_time: "workers_health_serving inp p = (Some (b, t), p') \<Longrightarrow> t \<le> deadline inp"
  by (auto simp: workers_health_serving_def not_less Let_def split: if_splits prod.splits sum.splits)

lemma ready_in_time:
  "workers_ready_status inp p = (Some (w, t), p') \<Longrightarrow> t \<le> deadline inp \<and> w \<in> {lit ''dormant'', lit ''down''}"
  by (auto simp: workers_ready_status_def workers_status_from_ready_def not_less Let_def split: if_splits prod.splits sum.splits option.splits)

lemma probe_workers_words: "probe_workers inp c = (Some d, c') \<Longrightarrow> word_ok [lit ''ok'', lit ''dormant'', lit ''down''] d"
  by (auto simp: probe_workers_def word_ok_def Let_def elapsed_in_time dest!: serving_in_time ready_in_time
      split: if_splits prod.splits option.splits)

lemma aggregate_down:
  assumes "word_ok [lit ''ok'', lit ''down''] p" "word_ok [lit ''ok'', lit ''down''] g" "word_ok [lit ''ok'', lit ''dormant'', lit ''down''] w"
  shows "aggregate_status p g w = (if \<exists>d\<in>{p, g, w}. ds_status d = lit ''down'' then lit ''degraded'' else lit ''ok'')"
  using assms by (auto simp: aggregate_status_def is_healthy_def word_ok_def)

lemma run_probes_sound:
  "sound_at to_rfc3339 t ((fst (run_probes inp c))\<lparr>sr_checked_at := to_rfc3339 t\<rparr>)"
proof -
  obtain gf p where g: "probe_gcs inp (ac_gcs_token_provider c) = (gf, p)" by (rule prod.exhaust)
  obtain wf c' where w: "probe_workers inp (c\<lparr>ac_gcs_token_provider := p\<rparr>) = (wf, c')" by (rule prod.exhaust)
  have "word_ok [lit ''ok'', lit ''down''] (probe_with_timeout (probe_postgres inp))"
    by (rule word_ok_timeout) (auto dest: probe_postgres_words)
  moreover have "word_ok [lit ''ok'', lit ''down''] (probe_with_timeout gf)"
    using g by (intro word_ok_timeout) (auto dest: probe_gcs_words)
  moreover have "word_ok [lit ''ok'', lit ''dormant'', lit ''down''] (probe_with_timeout wf)"
    using w by (intro word_ok_timeout) (auto dest: probe_workers_words)
  ultimately show ?thesis using aggregate_down by (simp add: run_probes_def g w sound_at_def Let_def)
qed

definition snapshot_sound :: "(rat \<Rightarrow> pystr) \<Rightarrow> cached_snapshot option \<Rightarrow> bool" where
  "snapshot_sound to_rfc3339 guard \<longleftrightarrow> (\<forall>v. guard = Some v \<longrightarrow> sound_at to_rfc3339 (hs_checked_at v) (hs_snapshot v))"

definition clock_runs :: "call_clock \<Rightarrow> bool" where
  "clock_runs ck \<longleftrightarrow> kk_read ck \<le> kk_recheck ck \<and> kk_recheck ck \<le> kk_start ck \<and> kk_start ck \<le> kk_end ck"

definition recent_and_sound :: "(rat \<Rightarrow> pystr) \<Rightarrow> call_clock \<Rightarrow> status_response \<Rightarrow> bool" where
  "recent_and_sound to_rfc3339 ck r \<longleftrightarrow> (\<exists>t. kk_read ck - 10 < t \<and> t \<le> kk_start ck \<and> sound_at to_rfc3339 t r)"

lemma fresh_snapshot_sound:
  assumes "fresh_snapshot now guard = Some r" "snapshot_sound to_rfc3339 guard" "kk_read ck \<le> now" "now \<le> kk_start ck"
  shows "recent_and_sound to_rfc3339 ck r"
  using assms unfolding fresh_snapshot_def snapshot_sound_def recent_and_sound_def is_fresh_def SNAPSHOT_TTL_def
  by (auto split: option.splits if_splits intro!: exI[of _ "hs_checked_at (the guard)"])

lemma status_route_sound:
  assumes "status_route to_rfc3339 ck inp (guard, c) = (r, guard', c')" "clock_runs ck" "snapshot_sound to_rfc3339 guard"
  shows "recent_and_sound to_rfc3339 ck r \<and> snapshot_sound to_rfc3339 guard'"
proof (cases "fresh_snapshot (kk_read ck) guard")
  case (Some v)
  then show ?thesis using assms fresh_snapshot_sound[OF Some assms(3)]
    by (auto simp: status_route_def get_or_refresh_snapshot_def clock_runs_def)
next
  case none: None
  show ?thesis
  proof (cases "fresh_snapshot (kk_recheck ck) guard")
    case (Some v)
    then show ?thesis using none assms fresh_snapshot_sound[OF Some assms(3)]
      by (auto simp: status_route_def get_or_refresh_snapshot_def clock_runs_def)
  next
    case None
    have r: "r = (fst (run_probes inp c))\<lparr>sr_checked_at := to_rfc3339 (kk_start ck)\<rparr>"
      "guard' = Some (stamped to_rfc3339 (kk_start ck) (fst (run_probes inp c)))"
      using None none assms(1) by (auto simp: status_route_def get_or_refresh_snapshot_def stamped_def Let_def split: prod.splits)
    moreover have "kk_read ck - 10 < kk_start ck" using assms(2) by (simp add: clock_runs_def)
    ultimately show ?thesis using run_probes_sound[of to_rfc3339 "kk_start ck" inp c]
      by (auto simp: recent_and_sound_def snapshot_sound_def stamped_def)
  qed
qed

text \<open>Workers that were woken are healthy: the two routes send the same request under the same token. The overhead never exceeds the
  time the whole request took, and it is that time when the workers were not called.\<close>

lemma woken_is_healthy: "wake inp request_id p = (NoContent, p') \<Longrightarrow> gateway_healthz version inp p = ((lit ''ok'', version), p')"
  by (auto simp: wake_def gateway_healthz_def healthz_probe_def split: prod.splits sum.splits if_splits)

lemma overhead_bounded: "overhead_header taken workers_call \<le> taken div 1000000"
  by (auto simp: overhead_header_def Let_def intro!: min.coboundedI1 div_le_mono)

lemma overhead_without_workers: "taken div 1000000 \<le> U64_MAX \<Longrightarrow> overhead_header taken None = taken div 1000000"
  by (simp add: overhead_header_def)

section \<open>Properties\<close>

text \<open>What the public status route says is sound and recent, in any sequence of calls from an empty cache: every answer
  carries the time of a probe run less than ten seconds before the call, a summary that is good exactly when no
  dependency is down, words from the closed lists, and latencies within the two seconds a probe is given.\<close>

theorem status_answers_sound:
  assumes "\<forall>(ck, inp)\<in>set calls. clock_runs ck"
  shows "\<forall>(ck, r)\<in>set (serve_status to_rfc3339 calls (None, c)). recent_and_sound to_rfc3339 ck r"
proof -
  have "\<forall>(ck, r)\<in>set (serve_status to_rfc3339 calls (guard, c)). recent_and_sound to_rfc3339 ck r"
    if "snapshot_sound to_rfc3339 guard" for guard using that assms
  proof (induction calls arbitrary: guard c)
    case (Cons call calls)
    obtain ck inp where "call = (ck, inp)" by (rule prod.exhaust)
    moreover obtain r guard' c' where "status_route to_rfc3339 ck inp (guard, c) = (r, guard', c')" by (rule prod_cases3)
    ultimately show ?case using Cons status_route_sound[of to_rfc3339 ck inp guard c r guard' c'] by fastforce
  qed simp
  from this[of None] show ?thesis by (simp add: snapshot_sound_def)
qed

definition sample_probe_inputs :: probe_inputs where
  "sample_probe_inputs =
     (let ck = \<lparr>kk_read = 0, kk_recheck = 0, kk_start = 0, kk_end = 1 / 2\<rparr>
      in \<lparr>pr_t0 = 0, pr_db_pool = True, pr_select_ok = True, pr_select_at = 1 / 100, pr_metadata = (\<lambda>_. NoAnswer True),
          pr_identity = (\<lambda>_ _. NoAnswer True), pr_jwt = \<lparr>jr_b64url_decode = (\<lambda>_. None), jr_json = (\<lambda>_. None), jr_from_timestamp = (\<lambda>_. None)\<rparr>,
          pr_gcs_clock = ck, pr_id_clock = ck, pr_run_clock = ck, pr_gcs_get = (\<lambda>_ _. NoAnswer False), pr_gcs_at = 1,
          pr_health_get = (\<lambda>_ _. NoAnswer False), pr_health_at = 1, pr_service_get = (\<lambda>_ _. NoAnswer False), pr_service_at = 1,
          pr_gcs_bucket = [], pr_workers_url = [], pr_cloud_run_service_url = []\<rparr>)"

definition sample_caches :: app_caches where
  "sample_caches =
     \<lparr>ac_gcs_token_provider = for_gcs_signing, ac_workers_id_token_provider = with_audience [], ac_run_token_provider = for_cloud_run\<rparr>"

theorem status_answers_sound_witness:
  "\<forall>(ck, r)\<in>set (serve_status (\<lambda>_. []) [(pr_gcs_clock sample_probe_inputs, sample_probe_inputs), (pr_gcs_clock sample_probe_inputs, sample_probe_inputs)]
      (None, sample_caches)). recent_and_sound (\<lambda>_. []) ck r"
  by (rule status_answers_sound) (simp add: clock_runs_def sample_probe_inputs_def Let_def)

end
