(* ===== verification/Gateway_Board.thy ===== *)
theory Gateway_Board
  imports Gateway_Conversations Tickets "HOL-Library.Multiset" "HOL-Library.Product_Lexorder"
begin

text \<open>
  The read-only boards of the gateway: the public board (\<^verbatim>\<open>gateway/src/handlers/board.rs\<close>), the author's ticket list
  (\<^verbatim>\<open>tickets.rs\<close>), \<^verbatim>\<open>stats.rs\<close>, \<^verbatim>\<open>quality.rs\<close>, \<^verbatim>\<open>costs.rs\<close> and the configuration they and the boot read
  (\<^verbatim>\<open>gateway/src/config.rs\<close>). The tickets are the rows the workers write.

  Inputs of a call (a \<open>board_call\<close>): the statements that fail, the two time columns of a ticket, the order in which the database
  comes across the rows (it decides between rows the \<^verbatim>\<open>ORDER BY\<close> does not separate, and may differ from one query to
  the next) and the collation of text. Query parameters are taken decoded. Amounts are exact rationals.
\<close>

section \<open>Tickets\<close>

datatype sort_order = Priority | Date

record board_query =
  bq_limit :: "int option"
  bq_offset :: "int option"
  bq_category :: "pystr option"
  bq_sort :: sort_order

record ticket_item =
  ti_id :: pystr
  ti_conversation_id :: pystr
  ti_question :: pystr
  ti_category :: pystr
  ti_priority_score :: int
  ti_status :: pystr
  ti_created_at :: rat
  ti_updated_at :: rat
  ti_judges_not_passed :: bool

record tickets_response =
  ts_items :: "ticket_item list"
  ts_total :: nat
  ts_limit :: int
  ts_offset :: int
  ts_categories :: "pystr list"

record board_call =
  bo_created_at :: "pystr \<Rightarrow> rat"
  bo_updated_at :: "pystr \<Rightarrow> rat"
  bo_scan :: "ticket_row list \<Rightarrow> ticket_row list"
  bo_collate :: "pystr list \<Rightarrow> pystr list"
  bo_rows_ok :: bool
  bo_count_ok :: bool
  bo_categories_ok :: bool

text \<open>The deserialised value of the parameter \<^verbatim>\<open>sort\<close>; any other word is refused.\<close>

definition sort_of_param :: "pystr option \<Rightarrow> sort_order option" where
  "sort_of_param p =
     (case p of
        None \<Rightarrow> Some Priority
      | Some w \<Rightarrow> if w = lit ''priority'' then Some Priority else if w = lit ''date'' then Some Date else None)"

text \<open>The two \<^verbatim>\<open>ORDER BY\<close> clauses, both descending in both columns.\<close>

definition by_priority :: "board_call \<Rightarrow> ticket_row \<Rightarrow> rat \<times> rat" where
  "by_priority bc r = (- of_int (tk_priority_score r), - bo_created_at bc (tk_id r))"

definition by_date :: "board_call \<Rightarrow> ticket_row \<Rightarrow> rat \<times> rat" where
  "by_date bc r = (- bo_created_at bc (tk_id r), - of_int (tk_priority_score r))"

definition is_open :: "ticket_row \<Rightarrow> bool" where
  "is_open r \<longleftrightarrow> tk_status r = lit ''open''"

definition select_page :: "(ticket_row \<Rightarrow> bool) \<Rightarrow> (ticket_row \<Rightarrow> rat \<times> rat) \<Rightarrow> int \<Rightarrow> int \<Rightarrow> board_call \<Rightarrow> db \<Rightarrow> ticket_row list" where
  "select_page cond key limit offset bc d =
     take (nat limit) (drop (nat offset) (sort_key key (filter cond (bo_scan bc (db_tickets d)))))"

fun fetch_ticket_rows :: "board_call \<Rightarrow> db \<Rightarrow> int \<Rightarrow> int \<Rightarrow> pystr option \<Rightarrow> sort_order \<Rightarrow> ticket_row list option" where
  "fetch_ticket_rows bc d limit offset None Priority =
     (if bo_rows_ok bc then Some (select_page is_open (by_priority bc) limit offset bc d) else None)"
| "fetch_ticket_rows bc d limit offset None Date =
     (if bo_rows_ok bc then Some (select_page is_open (by_date bc) limit offset bc d) else None)"
| "fetch_ticket_rows bc d limit offset (Some cat) Priority =
     (if bo_rows_ok bc then Some (select_page (\<lambda>r. is_open r \<and> tk_category r = cat) (by_priority bc) limit offset bc d) else None)"
| "fetch_ticket_rows bc d limit offset (Some cat) Date =
     (if bo_rows_ok bc then Some (select_page (\<lambda>r. is_open r \<and> tk_category r = cat) (by_date bc) limit offset bc d) else None)"

fun fetch_board_rows :: "board_call \<Rightarrow> db \<Rightarrow> int \<Rightarrow> int \<Rightarrow> pystr option \<Rightarrow> sort_order \<Rightarrow> ticket_row list option" where
  "fetch_board_rows bc d limit offset None Priority =
     (if bo_rows_ok bc then Some (select_page is_open (by_priority bc) limit offset bc d) else None)"
| "fetch_board_rows bc d limit offset None Date =
     (if bo_rows_ok bc then Some (select_page is_open (by_date bc) limit offset bc d) else None)"
| "fetch_board_rows bc d limit offset (Some cat) Priority =
     (if bo_rows_ok bc then Some (select_page (\<lambda>r. is_open r \<and> tk_category r = cat) (by_priority bc) limit offset bc d) else None)"
| "fetch_board_rows bc d limit offset (Some cat) Date =
     (if bo_rows_ok bc then Some (select_page (\<lambda>r. is_open r \<and> tk_category r = cat) (by_date bc) limit offset bc d) else None)"

fun fetch_ticket_count :: "board_call \<Rightarrow> db \<Rightarrow> pystr option \<Rightarrow> nat option" where
  "fetch_ticket_count bc d None = (if bo_count_ok bc then Some (length (filter is_open (db_tickets d))) else None)"
| "fetch_ticket_count bc d (Some cat) =
     (if bo_count_ok bc then Some (length (filter (\<lambda>r. is_open r \<and> tk_category r = cat) (db_tickets d))) else None)"

fun fetch_board_count :: "board_call \<Rightarrow> db \<Rightarrow> pystr option \<Rightarrow> nat option" where
  "fetch_board_count bc d None = (if bo_count_ok bc then Some (length (filter is_open (db_tickets d))) else None)"
| "fetch_board_count bc d (Some cat) =
     (if bo_count_ok bc then Some (length (filter (\<lambda>r. is_open r \<and> tk_category r = cat) (db_tickets d))) else None)"

definition fetch_open_categories :: "board_call \<Rightarrow> db \<Rightarrow> pystr list option" where
  "fetch_open_categories bc d =
     (if bo_categories_ok bc then Some (bo_collate bc (remdups (map tk_category (filter is_open (db_tickets d))))) else None)"

definition item_of_row :: "board_call \<Rightarrow> ticket_row \<Rightarrow> ticket_item" where
  "item_of_row bc r =
     \<lparr>ti_id = tk_id r, ti_conversation_id = tk_conversation_id r, ti_question = tk_question r, ti_category = tk_category r,
      ti_priority_score = tk_priority_score r, ti_status = tk_status r, ti_created_at = bo_created_at bc (tk_id r),
      ti_updated_at = bo_updated_at bc (tk_id r), ti_judges_not_passed = tk_judges_not_passed r\<rparr>"

definition list_board :: "bool \<Rightarrow> board_call \<Rightarrow> board_query \<Rightarrow> db \<Rightarrow> api_error + tickets_response" where
  "list_board db_pool bc params d =
     (let limit = (case bq_limit params of None \<Rightarrow> 50 | Some n \<Rightarrow> n);
          offset = (case bq_offset params of None \<Rightarrow> 0 | Some n \<Rightarrow> n)
      in if \<not> (1 \<le> limit \<and> limit \<le> 100) \<or> offset < 0 then Inl InvalidRequestError
         else if \<not> db_pool then Inl UpstreamUnavailableError
         else (case fetch_board_rows bc d limit offset (bq_category params) (bq_sort params) of
                 None \<Rightarrow> Inl UpstreamUnavailableError
               | Some rows \<Rightarrow>
                   (case fetch_board_count bc d (bq_category params) of
                      None \<Rightarrow> Inl UpstreamUnavailableError
                    | Some n \<Rightarrow>
                        (case fetch_open_categories bc d of
                           None \<Rightarrow> Inl UpstreamUnavailableError
                         | Some categories \<Rightarrow>
                             Inr \<lparr>ts_items = map (item_of_row bc) rows, ts_total = n, ts_limit = limit, ts_offset = offset,
                                  ts_categories = categories\<rparr>))))"

text \<open>The route of the author: the extractor answers before the handler.\<close>

definition list_tickets ::
  "gateway_env \<Rightarrow> gw_call \<Rightarrow> req_headers \<Rightarrow> gateway_state \<Rightarrow> board_call \<Rightarrow> board_query \<Rightarrow> db
    \<Rightarrow> (auth_error + api_error) + tickets_response" where
  "list_tickets env gcall h st bc params d =
     (case require_author env gcall h st of
        Inl e \<Rightarrow> Inl (Inl e)
      | Inr author \<Rightarrow>
          let limit = (case bq_limit params of None \<Rightarrow> 50 | Some n \<Rightarrow> n);
              offset = (case bq_offset params of None \<Rightarrow> 0 | Some n \<Rightarrow> n)
          in if \<not> (1 \<le> limit \<and> limit \<le> 200) \<or> offset < 0 then Inl (Inr InvalidRequestError)
             else if \<not> ge_db_pool env then Inl (Inr UpstreamUnavailableError)
             else (case fetch_ticket_rows bc d limit offset (bq_category params) (bq_sort params) of
                     None \<Rightarrow> Inl (Inr UpstreamUnavailableError)
                   | Some rows \<Rightarrow>
                       (case fetch_ticket_count bc d (bq_category params) of
                          None \<Rightarrow> Inl (Inr UpstreamUnavailableError)
                        | Some n \<Rightarrow>
                            (case fetch_open_categories bc d of
                               None \<Rightarrow> Inl (Inr UpstreamUnavailableError)
                             | Some categories \<Rightarrow>
                                 Inr \<lparr>ts_items = map (item_of_row bc) rows, ts_total = n, ts_limit = limit, ts_offset = offset,
                                      ts_categories = categories\<rparr>))))"

section \<open>Lemmas on the boards\<close>

definition matching :: "pystr option \<Rightarrow> ticket_row \<Rightarrow> bool" where
  "matching category r \<longleftrightarrow> is_open r \<and> (case category of None \<Rightarrow> True | Some cat \<Rightarrow> tk_category r = cat)"

definition board_key :: "sort_order \<Rightarrow> board_call \<Rightarrow> ticket_row \<Rightarrow> rat \<times> rat" where
  "board_key s bc = (case s of Priority \<Rightarrow> by_priority bc | Date \<Rightarrow> by_date bc)"

definition database_answers :: "board_call \<Rightarrow> bool" where
  "database_answers bc \<longleftrightarrow> bo_rows_ok bc \<and> bo_count_ok bc \<and> bo_categories_ok bc \<and> (\<forall>rows. mset (bo_scan bc rows) = mset rows)"

lemma fetch_board_rows_eq:
  "fetch_board_rows bc d limit offset category s =
     (if bo_rows_ok bc then Some (select_page (matching category) (board_key s bc) limit offset bc d) else None)"
  by (cases "(bc, d, limit, offset, category, s)" rule: fetch_board_rows.cases) (simp_all add: matching_def[abs_def] board_key_def)

lemma fetch_board_count_eq:
  "fetch_board_count bc d category = (if bo_count_ok bc then Some (length (filter (matching category) (db_tickets d))) else None)"
  by (cases category) (simp_all add: matching_def[abs_def])

lemma ticket_queries_are_board_queries:
  "fetch_ticket_rows bc d limit offset category s = fetch_board_rows bc d limit offset category s"
  "fetch_ticket_count bc d category = fetch_board_count bc d category"
  by (cases "(bc, d, limit, offset, category, s)" rule: fetch_board_rows.cases) (simp_all, cases category, simp_all)

text \<open>For an author, the ticket list is the board up to a hundred rows.\<close>

lemma tickets_is_board:
  assumes "require_author env gcall h st = Inr author" "case bq_limit params of None \<Rightarrow> True | Some n \<Rightarrow> n \<le> 100"
  shows "list_tickets env gcall h st bc params d = map_sum Inr id (list_board (ge_db_pool env) bc params d)"
  using assms by (auto simp: list_tickets_def list_board_def ticket_queries_are_board_queries Let_def split: option.splits)

lemma tickets_need_author:
  "list_tickets env gcall h st bc params d = Inr resp \<Longrightarrow> \<exists>author. auth_from_request env gcall h st = Inr author \<and> au_tier author = Author"
  by (auto simp: list_tickets_def require_author_def split: sum.splits if_splits)

lemma list_board_eq:
  assumes "database_answers bc" "1 \<le> limit" "limit \<le> 100" "0 \<le> offset"
  shows "list_board True bc \<lparr>bq_limit = Some limit, bq_offset = Some offset, bq_category = category, bq_sort = s\<rparr> d =
    Inr \<lparr>ts_items = map (item_of_row bc) (select_page (matching category) (board_key s bc) limit offset bc d),
         ts_total = length (filter (matching category) (db_tickets d)), ts_limit = limit, ts_offset = offset,
         ts_categories = bo_collate bc (remdups (map tk_category (filter is_open (db_tickets d))))\<rparr>"
  using assms by (simp add: list_board_def fetch_board_rows_eq fetch_board_count_eq fetch_open_categories_def database_answers_def)

lemma filter_scan: "database_answers bc \<Longrightarrow> mset (filter P (bo_scan bc rows)) = mset (filter P rows)"
  by (simp add: database_answers_def mset_filter)

text \<open>Rows the order separates come in the same order whatever the scan.\<close>

lemma sort_scan:
  assumes "database_answers bc" "inj_on key (set (filter P rows))"
  shows "sort_key key (filter P (bo_scan bc rows)) = sort_key key (filter P rows)"
proof (rule sort_key_inj_key_eq)
  show "mset (filter P (bo_scan bc rows)) = mset (sort_key key (filter P rows))" using filter_scan[OF assms(1)] by simp
  have "set (filter P (bo_scan bc rows)) = set (filter P rows)" using filter_scan[OF assms(1)] by (metis set_mset_mset)
  then show "inj_on key (set (filter P (bo_scan bc rows)))" using assms(2) by simp
qed simp

lemma pages_tile: "concat (map (\<lambda>i. take k (drop (i * k) xs)) [0..<n]) = take (n * k) xs"
proof (induction n)
  case (Suc n)
  then show ?case using take_add[of "n * k" k xs] by (simp add: add.commute)
qed simp

section \<open>Properties of the boards\<close>

text \<open>C23: A reader who turns the pages of the board sees every open ticket once: when no two open tickets of the category agree in
  both the priority and the time of creation, and the database is not changed in between, the pages one after the other are the open tickets in the order
  asked for, whatever order the database meets the rows in for each page.\<close>

theorem board_pages_tile:
  assumes "1 \<le> limit" "limit \<le> 100"
    "\<forall>i<n. database_answers (bcs i) \<and> bo_created_at (bcs i) = created \<and> bo_updated_at (bcs i) = updated"
    "database_answers bc" "bo_created_at bc = created" "bo_updated_at bc = updated"
    "inj_on (board_key s bc) (set (filter (matching category) (db_tickets d)))"
    "length (filter (matching category) (db_tickets d)) \<le> n * nat limit"
  shows "\<exists>pages. (\<forall>i<n. list_board True (bcs i) \<lparr>bq_limit = Some limit, bq_offset = Some (int i * limit), bq_category = category, bq_sort = s\<rparr> d
        = Inr (pages i)) \<and>
      concat (map (\<lambda>i. ts_items (pages i)) [0..<n]) = map (item_of_row bc) (sort_key (board_key s bc) (filter (matching category) (db_tickets d)))"
proof -
  let ?q = "\<lambda>i. \<lparr>bq_limit = Some limit, bq_offset = Some (int i * limit), bq_category = category, bq_sort = s\<rparr>"
  let ?sorted = "sort_key (board_key s bc) (filter (matching category) (db_tickets d))"
  have page: "\<exists>p. list_board True (bcs i) (?q i) d = Inr p \<and> ts_items p = map (item_of_row bc) (take (nat limit) (drop (i * nat limit) ?sorted))"
    if "i < n" for i
  proof -
    have bcs: "database_answers (bcs i)" "bo_created_at (bcs i) = bo_created_at bc" "bo_updated_at (bcs i) = bo_updated_at bc"
      using assms(3,5,6) that by auto
    have "board_key s (bcs i) = board_key s bc" "item_of_row (bcs i) = item_of_row bc"
      by (auto simp: board_key_def by_priority_def by_date_def item_of_row_def bcs(2,3) fun_eq_iff split: sort_order.splits)
    moreover have "nat (int i * limit) = i * nat limit" using assms(1) by (simp add: nat_mult_distrib)
    ultimately show ?thesis
      using list_board_eq[OF bcs(1) assms(1,2), of "int i * limit" category s d] sort_scan[OF bcs(1) assms(7)] assms(1)
      by (simp add: select_page_def)
  qed
  then obtain pages where p: "\<forall>i<n. list_board True (bcs i) (?q i) d = Inr (pages i)
      \<and> ts_items (pages i) = map (item_of_row bc) (take (nat limit) (drop (i * nat limit) ?sorted))" by metis
  then have "map (\<lambda>i. ts_items (pages i)) [0..<n] = map (\<lambda>i. take (nat limit) (drop (i * nat limit) (map (item_of_row bc) ?sorted))) [0..<n]"
    by (simp add: take_map drop_map)
  then have "concat (map (\<lambda>i. ts_items (pages i)) [0..<n]) = take (n * nat limit) (map (item_of_row bc) ?sorted)"
    by (simp only: pages_tile)
  then have "concat (map (\<lambda>i. ts_items (pages i)) [0..<n]) = map (item_of_row bc) ?sorted" using assms(8) by simp
  with p show ?thesis by blast
qed

text \<open>C22: What raised a ticket is on the public board: when the workers' ticket service reports a new or a raised ticket, the board
  shows that ticket, open and with the priority reported, to anybody who asks for all of them, and a new one with the question as it was asked.\<close>

theorem ticket_reaches_board:
  assumes "create_or_increment env d cid q jnp force = (Inr res, d')" "tr_action res \<noteq> SkippedError"
    "database_answers bc" "of_nat (length (filter is_open (db_tickets d'))) \<le> limit" "1 \<le> limit" "limit \<le> 100"
    "list_board True bc \<lparr>bq_limit = Some limit, bq_offset = Some 0, bq_category = None, bq_sort = s\<rparr> d' = Inr resp"
  shows "\<exists>item\<in>set (ts_items resp). tr_ticket_id res = Some (ti_id item) \<and> tr_priority_score res = Some (ti_priority_score item) \<and>
    ti_status item = lit ''open'' \<and> (tr_action res = Created \<longrightarrow> ti_question item = q \<and> ti_judges_not_passed item = jnp)"
proof -
  have "mset (sort_key (board_key s bc) (filter is_open (bo_scan bc (db_tickets d')))) = mset (filter is_open (db_tickets d'))"
    using filter_scan[OF assms(3)] by simp
  then have "set (sort_key (board_key s bc) (filter is_open (bo_scan bc (db_tickets d')))) = set (filter is_open (db_tickets d'))"
    "length (filter is_open (bo_scan bc (db_tickets d'))) = length (filter is_open (db_tickets d'))"
    by (metis set_mset_mset, metis filter_scan[OF assms(3)] size_mset)
  moreover have "ts_items resp = map (item_of_row bc) (select_page is_open (board_key s bc) limit 0 bc d')"
    using assms(7) list_board_eq[OF assms(3,5,6), of 0 None s d'] by (auto simp: matching_def[abs_def])
  ultimately have items: "set (ts_items resp) = item_of_row bc ` {r \<in> set (db_tickets d'). is_open r}"
    using assms(4) by (simp add: select_page_def)
  have "\<exists>r\<in>set (db_tickets d'). is_open r \<and> tr_ticket_id res = Some (tk_id r) \<and> tr_priority_score res = Some (tk_priority_score r) \<and>
    (tr_action res = Created \<longrightarrow> tk_question r = q \<and> tk_judges_not_passed r = jnp)"
  proof (cases rule: create_or_increment_cases[of env d cid q jnp force])
    case skipped
    then show ?thesis using assms(1,2) by (auto simp: SKIPPED_def)
  next
    case (incremented v vs t)
    then show ?thesis using assms(1) find_similar_Some[OF incremented(3)]
      by (auto simp: similar_open_def is_open_def) (auto simp: bump_priority_def)
  next
    case (created v vs c)
    then show ?thesis using assms(1) by (auto simp: is_open_def)
  qed
  then show ?thesis unfolding items by (fastforce simp: item_of_row_def is_open_def)
qed

section \<open>Examples\<close>

definition sample_board_call :: board_call where
  "sample_board_call =
     \<lparr>bo_created_at = (\<lambda>i. of_nat (sum_list i)), bo_updated_at = (\<lambda>_. 0), bo_scan = id, bo_collate = id, bo_rows_ok = True,
      bo_count_ok = True, bo_categories_ok = True\<rparr>"

definition sample_board :: db where
  "sample_board =
     sample_ticket_db\<lparr>db_tickets := db_tickets sample_ticket_db @
       [new_ticket (sample_ticket_env\<lparr>te_new_id := lit ''t2''\<rparr>) (lit ''c1'') (lit ''new'') [1] False]\<rparr>"

lemma sample_call_answers: "database_answers sample_board_call" "database_answers (sample_board_call\<lparr>bo_scan := rev\<rparr>)"
  by (simp_all add: database_answers_def sample_board_call_def)

theorem board_pages_tile_witness:
  "\<exists>pages. (\<forall>i<2. list_board True (if i = 0 then sample_board_call else sample_board_call\<lparr>bo_scan := rev\<rparr>)
        \<lparr>bq_limit = Some 1, bq_offset = Some (int i * 1), bq_category = None, bq_sort = Priority\<rparr> sample_board = Inr (pages i)) \<and>
    concat (map (\<lambda>i. ts_items (pages i)) [0..<2]) =
      map (item_of_row sample_board_call) (sort_key (board_key Priority sample_board_call) (filter (matching None) (db_tickets sample_board)))"
  by (rule board_pages_tile[where created = "bo_created_at sample_board_call" and updated = "bo_updated_at sample_board_call"])
    (auto simp: database_answers_def sample_board_call_def sample_board_def matching_def is_open_def sample_ticket_db_def sample_ticket_env_def
      board_key_def by_priority_def new_ticket_def lit_def)

text \<open>Rows that agree in priority and time may be skipped: the pages of two queries then show one ticket twice and the
  other never.\<close>

lemma board_ties_repeat:
  assumes "bc = sample_board_call\<lparr>bo_created_at := (\<lambda>_. 0)\<rparr>"
  shows "select_page is_open (by_priority bc) 1 0 bc sample_board = select_page is_open (by_priority bc) 1 1 (bc\<lparr>bo_scan := rev\<rparr>) sample_board"
  by (simp add: assms select_page_def by_priority_def sample_board_call_def sample_board_def sample_ticket_db_def sample_ticket_env_def is_open_def)

theorem ticket_reaches_board_witness:
  "\<exists>item\<in>set (case list_board True sample_board_call \<lparr>bq_limit = Some 50, bq_offset = Some 0, bq_category = None, bq_sort = Date\<rparr>
        (snd (create_or_increment sample_ticket_env sample_ticket_db (lit ''c1'') (lit ''q'') True False)) of Inr resp \<Rightarrow> ts_items resp | Inl e \<Rightarrow> []).
     ti_id item = lit ''t1'' \<and> ti_priority_score item = 2 \<and> ti_status item = lit ''open''"
proof -
  let ?d = "snd (create_or_increment sample_ticket_env sample_ticket_db (lit ''c1'') (lit ''q'') True False)"
  let ?q = "\<lparr>bq_limit = Some 50, bq_offset = Some 0, bq_category = None, bq_sort = Date\<rparr>"
  have len: "of_nat (length (filter is_open (db_tickets ?d))) \<le> (50::int)"
    unfolding sample_increment by (simp add: sample_ticket_db_def is_open_def)
  obtain resp where resp: "list_board True sample_board_call ?q ?d = Inr resp"
    using list_board_eq[OF sample_call_answers(1), of 50 0 None Date ?d] by simp
  from ticket_reaches_board[OF sample_increment _ sample_call_answers(1) _ _ _, of 50 Date resp] resp len show ?thesis
    by (auto simp: sample_increment)
qed

end
