(* ===== verification/Gateway_Metrics.thy ===== *)
theory Gateway_Metrics
  imports Gateway_Conversations Eval_Run "HOL-Library.Multiset"
begin

text \<open>
  The public figures of the gateway, \<^verbatim>\<open>gateway/src/handlers/stats.rs\<close>, \<^verbatim>\<open>quality.rs\<close> and \<^verbatim>\<open>costs.rs\<close>, and the configuration of
  \<^verbatim>\<open>gateway/src/config.rs\<close>. The conversations, messages and log rows are those of the workers, the evaluation
  rows those of the evaluation runner. Amounts are exact rationals where the source has binary floating point.

  Inputs: the statements that fail, the size of the database, the time columns, the order in which rows are met, the
  driver's decoding of a stored figure (\<open>None\<close> is a decoding error, which fails the query), the environment and the parser of
  floating point numerals.
\<close>

section \<open>Conversation count\<close>

definition stats :: "bool \<Rightarrow> bool \<Rightarrow> db \<Rightarrow> api_error + nat" where
  "stats db_pool query_ok d =
     (if \<not> db_pool then Inl UpstreamUnavailableError
      else if \<not> query_ok then Inl UpstreamUnavailableError
      else Inr (length (db_conversations d)))"

section \<open>Quality\<close>

record quality_call =
  qc_pool :: bool
  qc_query_ok :: bool
  qc_instant :: "pystr \<Rightarrow> rat"
  qc_scan :: "(pystr \<times> eval_run_row) list \<Rightarrow> (pystr \<times> eval_run_row) list"
  qc_decode :: "figure \<Rightarrow> rat option"

record quality_metrics =
  qm_faithfulness :: rat
  qm_answer_relevancy :: rat
  qm_context_precision :: rat
  qm_context_recall :: rat
  qm_golden_set_version :: pystr
  qm_finished_at :: rat

datatype quality_response = Metrics quality_metrics | NoData

definition latest_live :: "quality_call \<Rightarrow> eval_db \<Rightarrow> eval_run_row option" where
  "latest_live qc edb =
     (case sort_key (\<lambda>r. - qc_instant qc (ev_finished_at r)) (map snd (filter (\<lambda>p. ev_runner_mode (snd p) = lit ''live'') (qc_scan qc (ed_rows edb)))) of
        [] \<Rightarrow> None | r # _ \<Rightarrow> Some r)"

definition decode_row :: "quality_call \<Rightarrow> eval_run_row \<Rightarrow> quality_metrics option" where
  "decode_row qc r =
     (case (qc_decode qc (ev_faithfulness r), qc_decode qc (ev_answer_relevancy r), qc_decode qc (ev_context_precision r),
            qc_decode qc (ev_context_recall r)) of
        (Some f, Some a, Some p, Some c) \<Rightarrow>
          Some \<lparr>qm_faithfulness = f, qm_answer_relevancy = a, qm_context_precision = p, qm_context_recall = c,
                qm_golden_set_version = ev_golden_set_version r, qm_finished_at = qc_instant qc (ev_finished_at r)\<rparr>
      | _ \<Rightarrow> None)"

definition quality :: "quality_call \<Rightarrow> eval_db \<Rightarrow> api_error + quality_response" where
  "quality qc edb =
     (if \<not> qc_pool qc then Inl UpstreamUnavailableError
      else if \<not> qc_query_ok qc then Inl UpstreamUnavailableError
      else (case latest_live qc edb of
              None \<Rightarrow> Inr NoData
            | Some r \<Rightarrow> (case decode_row qc r of None \<Rightarrow> Inl UpstreamUnavailableError | Some m \<Rightarrow> Inr (Metrics m))))"

section \<open>Costs\<close>

record cost_tariffs =
  ct_postgres_instance_eur :: rat
  ct_postgres_storage_per_gb_eur :: rat
  ct_gcs_storage_per_gb_eur :: rat
  ct_workers_per_request_eur :: rat

record volumes =
  vo_database_size_bytes :: int
  vo_conversation_bytes_stored :: int
  vo_request_count_30d :: int

record costs =
  co_postgres_eur :: rat
  co_gcs_eur :: rat
  co_workers_eur :: rat
  co_total_eur :: rat

definition BYTES_PER_GB :: rat where
  "BYTES_PER_GB = 1000000000"

text \<open>\<^verbatim>\<open>f64::round\<close>: to the nearest whole number, a half away from zero.\<close>

definition f64_round :: "rat \<Rightarrow> int" where
  "f64_round q = (if 0 \<le> q then \<lfloor>q + 1 / 2\<rfloor> else \<lceil>q - 1 / 2\<rceil>)"

definition round_to_cents :: "rat \<Rightarrow> rat" where
  "round_to_cents amount = of_int (f64_round (amount * 100)) / 100"

definition estimate_costs :: "cost_tariffs \<Rightarrow> volumes \<Rightarrow> costs" where
  "estimate_costs tariffs vol =
     (let database_size_gb = of_int (vo_database_size_bytes vol) / BYTES_PER_GB;
          conversation_gb = of_int (vo_conversation_bytes_stored vol) / BYTES_PER_GB;
          postgres_eur = round_to_cents (ct_postgres_instance_eur tariffs + database_size_gb * ct_postgres_storage_per_gb_eur tariffs);
          gcs_eur = round_to_cents (conversation_gb * ct_gcs_storage_per_gb_eur tariffs);
          workers_eur = round_to_cents (of_int (vo_request_count_30d vol) * ct_workers_per_request_eur tariffs);
          total_eur = round_to_cents (postgres_eur + gcs_eur + workers_eur)
      in \<lparr>co_postgres_eur = postgres_eur, co_gcs_eur = gcs_eur, co_workers_eur = workers_eur, co_total_eur = total_eur\<rparr>)"

record cost_call =
  cq_pool :: bool
  cq_query_ok :: bool
  cq_database_size :: int
  cq_logged_at :: "pystr \<Rightarrow> rat"
  cq_now :: rat

text \<open>The one query: the size, the bytes of all messages and the requests of the last thirty days.\<close>

definition read_volumes :: "cost_call \<Rightarrow> db \<Rightarrow> volumes" where
  "read_volumes cq d =
     \<lparr>vo_database_size_bytes = cq_database_size cq,
      vo_conversation_bytes_stored = int (sum_list (map (\<lambda>m. length (utf8 (mr_content m))) (db_messages d))),
      vo_request_count_30d =
        int (length (filter (\<lambda>r. cq_now cq - 30 * 24 * 60 * 60 \<le> cq_logged_at cq (ql_request_id r)) (db_query_log d)))\<rparr>"

definition costs_route :: "cost_tariffs option \<Rightarrow> cost_call \<Rightarrow> db \<Rightarrow> api_error + costs" where
  "costs_route cost_tariffs cq d =
     (case cost_tariffs of
        None \<Rightarrow> Inl CostConfigUnavailable
      | Some tariffs \<Rightarrow>
          if \<not> cq_pool cq then Inl UpstreamUnavailableError
          else if \<not> cq_query_ok cq then Inl UpstreamUnavailableError
          else Inr (estimate_costs tariffs (read_volumes cq d)))"

section \<open>Configuration\<close>

datatype config_error = VarRequired pystr | NotANumber pystr | NotFiniteNonNegative pystr

text \<open>A parsed numeral is a finite number, or an infinity or no number.\<close>

datatype float = Finite rat | NonFinite

type_synonym environ = "pystr \<Rightarrow> pystr option"

definition read_tariff_var :: "(pystr \<Rightarrow> float option) \<Rightarrow> environ \<Rightarrow> pystr \<Rightarrow> config_error + rat" where
  "read_tariff_var parse_f64 var name =
     (case var name of
        None \<Rightarrow> Inl (VarRequired name)
      | Some raw \<Rightarrow>
          (case parse_f64 raw of
             None \<Rightarrow> Inl (NotANumber name)
           | Some NonFinite \<Rightarrow> Inl (NotFiniteNonNegative name)
           | Some (Finite v) \<Rightarrow> if 0 \<le> v then Inr v else Inl (NotFiniteNonNegative name)))"

definition TARIFF_VARS :: "pystr list" where
  "TARIFF_VARS =
     [lit ''COST_POSTGRES_INSTANCE_EUR'', lit ''COST_POSTGRES_STORAGE_PER_GB_EUR'', lit ''COST_GCS_STORAGE_PER_GB_EUR'',
      lit ''COST_WORKERS_PER_REQUEST_EUR'']"

definition tariffs_from_env :: "(pystr \<Rightarrow> float option) \<Rightarrow> environ \<Rightarrow> config_error + cost_tariffs" where
  "tariffs_from_env parse_f64 var =
     (case read_tariff_var parse_f64 var (lit ''COST_POSTGRES_INSTANCE_EUR'') of Inl e \<Rightarrow> Inl e | Inr instance_eur \<Rightarrow>
     (case read_tariff_var parse_f64 var (lit ''COST_POSTGRES_STORAGE_PER_GB_EUR'') of Inl e \<Rightarrow> Inl e | Inr storage_eur \<Rightarrow>
     (case read_tariff_var parse_f64 var (lit ''COST_GCS_STORAGE_PER_GB_EUR'') of Inl e \<Rightarrow> Inl e | Inr gcs_eur \<Rightarrow>
     (case read_tariff_var parse_f64 var (lit ''COST_WORKERS_PER_REQUEST_EUR'') of Inl e \<Rightarrow> Inl e | Inr request_eur \<Rightarrow>
        Inr \<lparr>ct_postgres_instance_eur = instance_eur, ct_postgres_storage_per_gb_eur = storage_eur,
             ct_gcs_storage_per_gb_eur = gcs_eur, ct_workers_per_request_eur = request_eur\<rparr>))))"

definition from_env_optional :: "(pystr \<Rightarrow> float option) \<Rightarrow> environ \<Rightarrow> config_error + cost_tariffs option" where
  "from_env_optional parse_f64 var =
     (let present_count = length (filter (\<lambda>v. var v \<noteq> None) TARIFF_VARS)
      in if present_count = 0 then Inr None else map_sum id Some (tariffs_from_env parse_f64 var))"

record gateway_config =
  cf_bind_addr :: pystr
  cf_workers_url :: pystr
  cf_database_url :: pystr
  cf_jwt_ed25519_public_key_pem :: pystr
  cf_jwt_ed25519_private_key_pem :: pystr
  cf_jwt_kid :: pystr
  cf_connect_timeout_ms :: nat
  cf_request_timeout_ms :: nat
  cf_gcs_signing_sa_email :: pystr
  cf_gcs_bucket :: pystr
  cf_cloud_run_service_url :: pystr
  cf_cost_tariffs :: "cost_tariffs option"

text \<open>\<^verbatim>\<open>str::parse::<u64>\<close>: digits, after an optional plus sign.\<close>

definition parse_u64 :: "pystr \<Rightarrow> nat option" where
  "parse_u64 s =
     (let digits = (if take 1 s = [43] then drop 1 s else s)
      in if digits \<noteq> [] \<and> list_all (\<lambda>c. 48 \<le> c \<and> c \<le> 57) digits \<and> num_of_digits digits \<le> 18446744073709551615
         then Some (num_of_digits digits) else None)"

definition required :: "environ \<Rightarrow> pystr \<Rightarrow> config_error + pystr" where
  "required var name = (case var name of None \<Rightarrow> Inl (VarRequired name) | Some v \<Rightarrow> Inr v)"

definition or_default :: "'a \<Rightarrow> 'a option \<Rightarrow> 'a" where
  "or_default x v = (case v of None \<Rightarrow> x | Some y \<Rightarrow> y)"

definition config_from_env :: "(pystr \<Rightarrow> float option) \<Rightarrow> environ \<Rightarrow> config_error + gateway_config" where
  "config_from_env parse_f64 var =
     (case required var (lit ''WORKERS_URL'') of Inl e \<Rightarrow> Inl e | Inr workers_url \<Rightarrow>
     (case required var (lit ''DATABASE_URL'') of Inl e \<Rightarrow> Inl e | Inr database_url \<Rightarrow>
     (case required var (lit ''JWT_ED25519_PUBLIC_KEY_PEM'') of Inl e \<Rightarrow> Inl e | Inr public_pem \<Rightarrow>
     (case required var (lit ''JWT_ED25519_PRIVATE_KEY_PEM'') of Inl e \<Rightarrow> Inl e | Inr private_pem \<Rightarrow>
     (case required var (lit ''GCS_SIGNING_SA_EMAIL'') of Inl e \<Rightarrow> Inl e | Inr sa_email \<Rightarrow>
     (case required var (lit ''GCS_BUCKET'') of Inl e \<Rightarrow> Inl e | Inr bucket \<Rightarrow>
     (case required var (lit ''CLOUD_RUN_SERVICE_URL'') of Inl e \<Rightarrow> Inl e | Inr service_url \<Rightarrow>
     (case from_env_optional parse_f64 var of Inl e \<Rightarrow> Inl e | Inr tariffs \<Rightarrow>
        Inr \<lparr>cf_bind_addr = or_default (lit ''0.0.0.0:8080'') (var (lit ''BIND_ADDR'')), cf_workers_url = workers_url,
             cf_database_url = database_url, cf_jwt_ed25519_public_key_pem = public_pem,
             cf_jwt_ed25519_private_key_pem = private_pem, cf_jwt_kid = or_default (lit ''default'') (var (lit ''JWT_KID'')),
             cf_connect_timeout_ms = or_default 5000 (Option.bind (var (lit ''CONNECT_TIMEOUT_MS'')) parse_u64),
             cf_request_timeout_ms = or_default 35000 (Option.bind (var (lit ''REQUEST_TIMEOUT_MS'')) parse_u64),
             cf_gcs_signing_sa_email = sa_email, cf_gcs_bucket = bucket, cf_cloud_run_service_url = service_url,
             cf_cost_tariffs = tariffs\<rparr>))))))))"

section \<open>Lemmas\<close>

lemma f64_round_int [simp]: "f64_round (of_int n) = n"
  by (simp add: f64_round_def) linarith

lemma f64_round_close: "\<bar>of_int (f64_round q) - q\<bar> \<le> 1 / 2"
proof (cases "0 \<le> q")
  case True
  then have "f64_round q = \<lfloor>q + 1 / 2\<rfloor>" by (simp add: f64_round_def)
  then show ?thesis using floor_correct[of "q + 1 / 2"] by linarith
next
  case False
  then have "f64_round q = \<lceil>q - 1 / 2\<rceil>" by (simp add: f64_round_def)
  then show ?thesis using ceiling_correct[of "q - 1 / 2"] by linarith
qed

lemma f64_round_nonneg: "0 \<le> q \<Longrightarrow> 0 \<le> f64_round q"
  by (simp add: f64_round_def)

lemma round_to_cents_close: "\<bar>round_to_cents q - q\<bar> \<le> 1 / 200"
  using f64_round_close[of "q * 100"] unfolding round_to_cents_def by (simp add: abs_if split: if_splits)

lemma round_to_cents_sum:
  "round_to_cents (round_to_cents a + round_to_cents b + round_to_cents c) = round_to_cents a + round_to_cents b + round_to_cents c"
proof -
  let ?n = "f64_round (a * 100) + f64_round (b * 100) + f64_round (c * 100)"
  have "(round_to_cents a + round_to_cents b + round_to_cents c) * 100 = of_int ?n" by (simp add: round_to_cents_def field_simps)
  then have "round_to_cents (round_to_cents a + round_to_cents b + round_to_cents c) = of_int ?n / 100"
    unfolding round_to_cents_def[of "round_to_cents a + round_to_cents b + round_to_cents c"] by (simp only: f64_round_int)
  then show ?thesis by (simp add: round_to_cents_def add_divide_distrib)
qed

text \<open>The lines of a cost estimate add up to its total, which is within a cent and a half of the exact amount.\<close>

lemma costs_add_up:
  "co_total_eur (estimate_costs t v) = co_postgres_eur (estimate_costs t v) + co_gcs_eur (estimate_costs t v) + co_workers_eur (estimate_costs t v)"
  by (simp add: estimate_costs_def Let_def round_to_cents_sum)

lemma costs_close:
  "\<bar>co_total_eur (estimate_costs t v) - (ct_postgres_instance_eur t
     + of_int (vo_database_size_bytes v) / 1000000000 * ct_postgres_storage_per_gb_eur t
     + of_int (vo_conversation_bytes_stored v) / 1000000000 * ct_gcs_storage_per_gb_eur t
     + of_int (vo_request_count_30d v) * ct_workers_per_request_eur t)\<bar> \<le> 3 / 200"
proof -
  let ?p = "ct_postgres_instance_eur t + of_int (vo_database_size_bytes v) / 1000000000 * ct_postgres_storage_per_gb_eur t"
  let ?g = "of_int (vo_conversation_bytes_stored v) / 1000000000 * ct_gcs_storage_per_gb_eur t"
  let ?w = "of_int (vo_request_count_30d v) * ct_workers_per_request_eur t"
  have "co_total_eur (estimate_costs t v) = round_to_cents ?p + round_to_cents ?g + round_to_cents ?w"
    by (simp add: estimate_costs_def Let_def round_to_cents_sum BYTES_PER_GB_def)
  then show ?thesis using round_to_cents_close[of ?p] round_to_cents_close[of ?g] round_to_cents_close[of ?w] by linarith
qed

text \<open>A tariff set is read as a whole: absent when no variable is set, complete when all four are numbers, and an error otherwise.\<close>

definition tariff_valid :: "(pystr \<Rightarrow> float option) \<Rightarrow> environ \<Rightarrow> pystr \<Rightarrow> bool" where
  "tariff_valid parse_f64 var name \<longleftrightarrow> (\<exists>raw v. var name = Some raw \<and> parse_f64 raw = Some (Finite v) \<and> 0 \<le> v)"

lemma read_tariff_ok: "(\<exists>v. read_tariff_var parse_f64 var name = Inr v) \<longleftrightarrow> tariff_valid parse_f64 var name"
  by (auto simp: read_tariff_var_def tariff_valid_def split: option.splits float.splits)

lemma tariffs_ok: "(\<exists>t. tariffs_from_env parse_f64 var = Inr t) \<longleftrightarrow> list_all (tariff_valid parse_f64 var) TARIFF_VARS"
  unfolding tariffs_from_env_def TARIFF_VARS_def list.pred_inject read_tariff_ok[symmetric] by (auto split: sum.splits)

lemma from_env_optional_ok:
  "(\<exists>t. from_env_optional parse_f64 var = Inr t) \<longleftrightarrow>
     (\<forall>v\<in>set TARIFF_VARS. var v = None) \<or> list_all (tariff_valid parse_f64 var) TARIFF_VARS"
proof -
  have "(\<exists>t. map_sum id Some r = Inr t) \<longleftrightarrow> (\<exists>t. r = Inr t)" for r :: "config_error + cost_tariffs" by (cases r) auto
  moreover have "filter (\<lambda>v. var v \<noteq> None) TARIFF_VARS = [] \<longleftrightarrow> (\<forall>v\<in>set TARIFF_VARS. var v = None)" by (simp add: filter_empty_conv)
  ultimately show ?thesis using tariffs_ok[of parse_f64 var] by (auto simp: from_env_optional_def Let_def)
qed

text \<open>The gateway starts exactly when the seven required variables are there and the tariffs are absent or complete.\<close>

definition REQUIRED_VARS :: "pystr list" where
  "REQUIRED_VARS =
     [lit ''WORKERS_URL'', lit ''DATABASE_URL'', lit ''JWT_ED25519_PUBLIC_KEY_PEM'', lit ''JWT_ED25519_PRIVATE_KEY_PEM'',
      lit ''GCS_SIGNING_SA_EMAIL'', lit ''GCS_BUCKET'', lit ''CLOUD_RUN_SERVICE_URL'']"

lemma required_ok: "(\<exists>v. required var name = Inr v) \<longleftrightarrow> var name \<noteq> None"
  by (auto simp: required_def split: option.splits)

lemma config_ok_iff:
  "(\<exists>c. config_from_env parse_f64 var = Inr c) \<longleftrightarrow>
     list_all (\<lambda>v. var v \<noteq> None) REQUIRED_VARS
     \<and> ((\<forall>v\<in>set TARIFF_VARS. var v = None) \<or> list_all (tariff_valid parse_f64 var) TARIFF_VARS)"
  unfolding config_from_env_def REQUIRED_VARS_def list.pred_inject required_ok[symmetric] from_env_optional_ok[symmetric]
  by (auto split: sum.splits)

text \<open>The first row of a sorted result.\<close>

lemma sort_key_first:
  assumes "mset xs = mset (ys @ [r])" "\<forall>y\<in>set ys. f r < f y"
  shows "\<exists>rest. sort_key f xs = r # rest"
proof (cases "sort_key f xs")
  case Nil
  then show ?thesis using assms(1) by (metis append_is_Nil_conv list.distinct(1) mset_sort mset_zero_iff)
next
  case (Cons z zs)
  have s: "set (sort_key f xs) = insert r (set ys)" using assms(1) by (metis Un_insert_right append_Nil2 list.simps(15) mset_sort set_append set_empty2 set_mset_mset sup_bot.right_neutral)
  have "sorted (map f (sort_key f xs))" by simp
  then have "f z \<le> f r" using s Cons by auto
  then have "z = r" using s Cons assms(2) by fastforce
  with Cons show ?thesis by blast
qed

text \<open>The quality route shows the run the evaluation stored last, or fails when the driver cannot decode one of its figures.\<close>

lemma persisted_rows: "persist_eval_run env run_id row edb = (Inr rid, edb') \<Longrightarrow> ed_rows edb' = ed_rows edb @ [(run_id, row)]"
  by (auto simp: persist_eval_run_def insert_run_def close_handles_def Let_def split: option.splits sum.splits)

lemma latest_live_last:
  assumes "ed_rows edb = rows @ [(run_id, row)]" "ev_runner_mode row = lit ''live''" "\<And>xs. mset (qc_scan qc xs) = mset xs"
    "\<forall>(i, r)\<in>set rows. ev_runner_mode r = lit ''live'' \<longrightarrow> qc_instant qc (ev_finished_at r) < qc_instant qc (ev_finished_at row)"
  shows "latest_live qc edb = Some row"
proof -
  let ?live = "\<lambda>p. ev_runner_mode (snd p) = lit ''live''"
  let ?older = "map snd (filter ?live rows)"
  have "mset (filter ?live (qc_scan qc (ed_rows edb))) = mset (filter ?live (rows @ [(run_id, row)]))"
    using assms(3) by (simp add: mset_filter assms(1))
  then have "mset (map snd (filter ?live (qc_scan qc (ed_rows edb)))) = mset (?older @ [row])"
    using assms(2) by (simp add: mset_map[symmetric] del: mset_map) (simp add: mset_map)
  moreover have "\<forall>r\<in>set ?older. - qc_instant qc (ev_finished_at row) < - qc_instant qc (ev_finished_at r)" using assms(4) by auto
  ultimately obtain rest where
    "sort_key (\<lambda>r. - qc_instant qc (ev_finished_at r)) (map snd (filter ?live (qc_scan qc (ed_rows edb)))) = row # rest"
    using sort_key_first[where f = "\<lambda>r. - qc_instant qc (ev_finished_at r)"] by blast
  then show ?thesis by (simp add: latest_live_def)
qed

section \<open>Properties\<close>


text \<open>A run with a figure that is no number is stored like any other, and hides every older one.\<close>

lemma nan_run_hides_quality:
  assumes "persist_eval_run env run_id row edb = (Inr rid, edb')" "ev_runner_mode row = lit ''live''"
    "\<And>xs. mset (qc_scan qc xs) = mset xs" "ev_faithfulness row = NaN" "qc_decode qc NaN = None"
    "\<forall>(i, r)\<in>set (ed_rows edb). ev_runner_mode r = lit ''live'' \<longrightarrow> qc_instant qc (ev_finished_at r) < qc_instant qc (ev_finished_at row)"
  shows "quality qc edb' = Inl UpstreamUnavailableError"
  using latest_live_last[OF persisted_rows[OF assms(1)] assms(2,3,6)] assms(4,5) by (simp add: quality_def decode_row_def)

definition sample_quality_call :: quality_call where
  "sample_quality_call =
     \<lparr>qc_pool = True, qc_query_ok = True, qc_instant = (\<lambda>s. of_nat (length s)), qc_scan = rev,
      qc_decode = (\<lambda>f. case f of Num q \<Rightarrow> Some q | NaN \<Rightarrow> None)\<rparr>"

definition sample_quality_run :: "pystr \<Rightarrow> figure \<Rightarrow> eval_run_row" where
  "sample_quality_run finished figure_value =
     \<lparr>ev_git_sha = [], ev_runner_mode = lit ''live'', ev_golden_set_version = lit ''v1'', ev_faithfulness = figure_value,
      ev_answer_relevancy = Num 1, ev_context_precision = Num 1, ev_context_recall = Num (1 / 2), ev_entries_total = 1, ev_entries_ok = 1,
      ev_entries_errors = 0, ev_started_at = [], ev_finished_at = finished\<rparr>"


end
