(* ===== verification/Spec2Isabelle.thy ===== *)
theory Spec2Isabelle
  imports Stream_Router Conversation_Router Contradiction Ingest Health Token_Provider Drive_Listing Drive_Client Export_Helpers
    Eval_Run Seed_Corpus Startup Gateway_Login Gateway_Conversations Gateway_Proxy
    Gateway_Pool Gateway_Status Gateway_Board Gateway_Metrics
begin

text \<open>
  \<^bold>\<open>What this library verifies.\<close>
  Archiviste Nocilia answers questions about a body of lore.  Four Python programs and a gateway in Rust make it up, and each is modelled here.
  The \<^emph>\<open>workers\<close> (\<open>src/workers/src/archiviste_workers\<close>, called \<open>workers\<close> below) are an asynchronous web service behind a gateway: they
  classify a question, retrieve chunks of the lore, filter them by the tier of the user, ask a language model, persist the turn and log
  it.  The \<^emph>\<open>ingestion\<close> (\<open>workers/ingest\<close>) fills the document tables from Markdown files.  The \<^emph>\<open>export\<close> (\<open>src/scripts/gdrive_export\<close>) keeps those
  files in step with a Google Drive folder.  The \<^emph>\<open>evaluation\<close> (\<open>src/eval\<close>) asks the workers the questions of a golden set and
  decides whether a change may pass.  The export writes what the ingestion reads, the ingestion writes what the retrieval of the workers
  searches, and the evaluation is a client of the workers.  The \<^emph>\<open>gateway\<close> (\<open>src/gateway/src\<close>, called \<open>gateway\<close> below) is what a browser talks to: it keeps
  accounts and sessions, decides who a caller is, passes questions on to the workers with that identity, and shows and deletes conversations.

  \<^bold>\<open>How the code is modelled.\<close>
  Data keeps the shape of the source: a dataclass or Pydantic model is a record, an enumeration or a tagged value a datatype, a string a list of
  code points (so that lengths, slices and patterns count what Python counts), a JSON document a \<open>pyval\<close>, a dictionary whose order is
  visible an association list.  A function of the source is a function of its inputs and of the state it changes; one that raises
  returns a sum whose left side is the exception, so each handler and early return is a branch.  Where a sequence of calls changes a file
  tree or counters before an exception, as in the export, the operations are actions: functions from a state to a result and the state
  left behind.  Calls that overlap, as around the lock of the token, are a step relation.  Every definition is a top-level one and
  computes on concrete inputs.  What is not in the repository (the language model, the embedding API, the storage service, PostgreSQL's failures, the
  Drive API, Pillow, YAML, the JSON decoder, git, the clock, drawn identifiers, digests and the large Unicode tables) is an argument or a
  field of an environment record; where a theorem relies on documented behaviour of it, that is a named hypothesis, and the witness
  of the theorem instantiates it.

  \<^bold>\<open>The theories.\<close>

  \<^item> \<open>Prelude\<close>: strings and their methods, UTF-8, decimal numerals, JSON values, dictionaries.  \<open>Json_Access\<close>: reading a decoded document.
    \<open>Paths\<close> and \<open>Lore_Files\<close>: paths, the file tree, actions on it and what they keep.

  \<^item> Components of the workers, in the order a request meets them.
    \<open>Requests\<close> (\<open>generate/models.py\<close>, \<open>generate/router.py\<close>): validation of headers and body.
    \<open>Database\<close>, \<open>Conversation_Repository\<close> (\<open>conversation/repository.py\<close>): the tables with their constraints and the statements on them.
    \<open>Memory_Window\<close> (\<open>generate/memory.py\<close>): the prior turns that fit the budget.
    \<open>Prompting\<close> (\<open>generate/prompt.py\<close>, \<open>generate/injection_filter.py\<close>), \<open>Intent\<close> (\<open>services/intent.py\<close>), \<open>Llm\<close> (\<open>services/llm.py\<close>): prompts,
    classification, model calls and streams.
    \<open>Acl\<close> (\<open>services/acl.py\<close>): the tier filter.
    \<open>Answer_Parser\<close> (\<open>generate/parser.py\<close>), \<open>Pricing\<close> (\<open>generate/pricing.py\<close>): citations, follow-ups, cost.
    \<open>Tickets\<close> (\<open>services/ticket_service.py\<close>, \<open>services/query_log.py\<close>): deduplicated tickets and the log row.
    \<open>Pipeline\<close> (\<open>generate/_pipeline.py\<close> and the internal clients), \<open>Generate_Router\<close>, \<open>Sse\<close> and \<open>Stream_Router\<close> (\<open>generate/router.py\<close>,
    \<open>generate/stream_router.py\<close>): the two routes that answer.
    \<open>Datetime\<close>, \<open>Gcs_Storage\<close> (\<open>conversation/gcs_storage.py\<close>) and \<open>Conversation_Router\<close> (\<open>conversation/router.py\<close>): the transcript of a conversation.
    \<open>Embedder\<close> (\<open>embedder.py\<close>) and \<open>Retrieval\<close> (\<open>retrieve\<close>): vectors and the top-k search.
    \<open>Judge\<close> and \<open>Contradiction\<close> (\<open>contradiction\<close>): the panel of judges that verifies a reported contradiction.
    \<open>Token_Provider\<close> (\<open>auth_metadata/token.py\<close>), \<open>Health\<close> (\<open>routers/health.py\<close>), \<open>Startup\<close> (\<open>main.py\<close>, \<open>db.py\<close>): tokens, probes, start-up and shutdown.

  \<^item> The ingestion.  \<open>Frontmatter\<close> (\<open>ingest/frontmatter.py\<close>, \<open>ingest/normalize.py\<close>) and \<open>Ingest\<close> (the rest of \<open>ingest\<close>): parsing a file, deciding whether it changed,
    replacing its chunks in one transaction, the run and the download of the corpus.

  \<^item> The export.  \<open>Slug\<close>, \<open>Sheet_Renderer\<close>, \<open>Slide_Renderer\<close>, \<open>Docs_Renderer\<close>, \<open>Images\<close>: names, the three renderers and the pictures.
    \<open>Sync_State\<close> (\<open>state.py\<close> and the frontmatter of \<open>sync.py\<close>), \<open>Drive_Sync\<close> (\<open>sync.py\<close>): the saved state and a whole run over it.
    \<open>Drive_Listing\<close> and \<open>Drive_Client\<close> (\<open>drive_client.py\<close>, \<open>auth.py\<close>, \<open>__main__.py\<close>): the listing, the other calls and the command.
    \<open>Export_Helpers\<close>: two modules a run does not call.

  \<^item> The evaluation.  \<open>Evaluation\<close> (\<open>ragas_runner.py\<close>, \<open>gates.py\<close>, the retries of \<open>clients.py\<close>): entries, metrics, gates, exit code.
    \<open>Eval_Clients\<close> (\<open>clients.py\<close>), \<open>Oidc\<close> (\<open>oidc.py\<close>), \<open>Eval_Run\<close> (\<open>loader.py\<close>, \<open>run_writer.py\<close>, \<open>baseline_skip.py\<close>, \<open>persist.py\<close>, the judge of \<open>metrics.py\<close>):
    what surrounds it.  \<open>Seed_Corpus\<close> (\<open>seed_test_corpus.py\<close>): its offline corpus.

  \<^item> The gateway.  \<open>Gateway_Throttle\<close> (\<open>auth/throttle.rs\<close>): the login throttle.  \<open>Gateway_Auth\<close> (the rest of \<open>auth\<close>, \<open>routes/me.rs\<close>, the identity middleware of
    \<open>lib.rs\<close>): user and session rows, tokens, cookies, the identity of a request.  \<open>Gateway_Login\<close> (\<open>routes/auth.rs\<close>): sign-up, login, logout and the states they
    reach.  \<open>Gateway_Conversations\<close> (\<open>handlers/conversations.rs\<close>, \<open>gcs\<close>): the conversation history over the tables of the workers.  \<open>Gateway_Proxy\<close>
    (\<open>handlers/chat.rs\<close>, \<open>chat_stream.rs\<close>, \<open>report_contradiction.rs\<close>, \<open>workers_proxy.rs\<close>): the calls to the workers.
    \<open>Gateway_Cache\<close> (\<open>auth_metadata\<close>, \<open>health_cache.rs\<close>): the caches of tokens and of the status, alone and under overlapping calls.  \<open>Gateway_Pool\<close>
    (\<open>lib.rs\<close>): the password of the database pool and its renewal.  \<open>Gateway_Status\<close> (\<open>handlers/status.rs\<close>, \<open>health.rs\<close>, \<open>wake.rs\<close>,
    \<open>middleware/timing.rs\<close>): the probes.  \<open>Gateway_Board\<close> (\<open>handlers/board.rs\<close>, \<open>tickets.rs\<close>): the ticket boards.  \<open>Gateway_Metrics\<close> (\<open>handlers/stats.rs\<close>,
    \<open>quality.rs\<close>, \<open>costs.rs\<close>, \<open>config.rs\<close>): the public figures and the configuration.

  \<^bold>\<open>Interfaces.\<close>
  Six contracts between components are locales, each interpreted on the definitions of this library: \<open>tail_reader\<close> (what the memory window
  needs of the repository's reader of a conversation's tail), \<open>embedder\<close> (what the callers need of both embedders), \<open>sync_invariant\<close> (what every
  step of an export run must keep, interpreted for a dry run and for the entries of the state), \<open>gw_invariant\<close> (what every request to the gateway's account
  routes keeps, interpreted for the constraints of the tables, for revoked sessions and for the set of authors), \<open>refreshing_cache\<close> (what the locking of the gateway's caches needs of a cached value, interpreted for the access
  token, the identity token and the status snapshot) and its extension \<open>timed_cache\<close> (a value that lives for a fixed time, interpreted for the snapshot).

  \<^bold>\<open>What the theorems show.\<close>

  \<^item> Confidentiality: the filter shows exactly the chunks of the tiers a user may read, chunks that are blocked do not influence the
    prompt, the mode or the answer's sources, a panel only sees readable sources and its reason quotes none of them at length, a memory window
    holds the owner's turns only, and a run file of the evaluation holds no secret.  Lore that is not public reaches a chat only behind a live session of the gateway, a logout is
    final, nobody is promoted to author by a request, the conversation routes answer from the caller's own rows, and a password is guessed at most five times in a
    window.

  \<^item> No lost or invented data: an append to a transcript keeps every earlier generation, an acknowledged message is in the transcript, the
    tables keep their invariants over any sequence of requests, an ingested file is stored exactly and a second run changes nothing, a file that
    vanishes from the Drive is archived and never forgotten, a dry run writes nothing, seeding twice is seeding once.

  \<^item> Functional correctness: the memory window is the longest one the budget allows, the search returns the k nearest chunks in order, citations, costs,
    tickets, verdicts, frontmatters and renderings are characterised, and the streaming route has the effects of the blocking one.  The cookie of a login
    authenticates as the account whose password was given, the throttle answers what the window of failures says, the workers accept every chat request the gateway sends, and a
    deletion of a conversation removes row, turns and transcript or leaves the tables alone.  What raised a ticket is on the public board, whose pages show every open
    ticket once; the public quality figures are those of the last evaluation that was stored; and what the status route says is sound and at most ten seconds old.

  \<^item> Progress and termination: the listing of a finite folder tree is complete once the fuel is large enough, a workers service that recovers within four
    attempts is reached, what the start-up opened is released by the shutdown, and at most one token request is in flight.  However
    many callers poll it, the status route probes the dependencies at most once per ten seconds.

  \<^item> Round trips: a frontmatter, an exported file, a table of a sheet and the saved state read back as they were written.

  Each theory also has lemmas that show where the code departs from its comments.

  \<^bold>\<open>Bounds and fuel.\<close>
  Only the listing of a Drive folder uses fuel, because the depth of the tree and the number of pages are the API's: its theorem says that some
  amount suffices for every finite tree and that more changes nothing.  All other loops are structural or have a termination proof (retries by the
  attempts that are left, batches, scans and replacements by the length of the text).  The gateway's clocks are rational numbers of seconds; its failure
  counter, 32 bits wide in the code, is a natural number, which five failures per window keep small.  Its caches are studied on a clock that does
  not go back, with any number of calls in flight.

  \<^bold>\<open>Simplifications.\<close>
  A Python float is a rational number, so rounding errors of binary floats are outside the model; decimal rounding that the code asks for is
  modelled.  Not-a-number appears where the evaluation can meet it.  The keys of JSON and YAML mappings are strings.  Log lines are not
  modelled, nor are the texts of exceptions; logged decisions that other code reads (the rows of the query log) are.  A transaction is atomic: a statement that
  is refused, or a failure from outside, leaves the tables as they were.

  \<^bold>\<open>Not modelled.\<close>
  The tokenizer and the text splitter (calls of third-party libraries, inputs here), the construction of HTTP clients and the logging configuration, the
  download of the golden set (one library call), the browser front end, the router of the gateway with its response headers and body limits,
  the decoding of query strings, the construction of its shared state, the indexes and roles of the migrations, and the deployment descriptions.
\<close>

section \<open>A passing evaluation\<close>


definition sample_inputs :: run_inputs where
  "sample_inputs =
     \<lparr>ri_live = False, ri_workers_url = lit ''http://localhost:8000'', ri_golden = [], ri_loads = (\<lambda>_. None), ri_lower = id,
      ri_fetch_token = (\<lambda>_. None), ri_health = Response 200 None, ri_baseline = NotGiven,
      ri_clients = \<lparr>cl_search = (\<lambda>_ _. Inr []), cl_generate = (\<lambda>_ _. Inr ([], []))\<rparr>, ri_uuids = digits_of, ri_judge = (\<lambda>_. []),
      ri_persist = False, ri_insert_ok = False,
      ri_repo = \<lparr>gt_head_subject = Inr [], gt_merge_base = Inr [], gt_head_parent = Inr [], gt_diff_names = (\<lambda>_. Inr [])\<rparr>\<rparr>"



section \<open>From the session to the lore\<close>

lemma visible_tier_needed:
  assumes "c \<in> set (visible (filter_chunks_by_tier cs (internal_tier t)))"
  shows "ch_access_tier c = lit ''public'' \<or> t \<noteq> Anonymous" "ch_access_tier c = lit ''author_only'' \<Longrightarrow> t = Author"
  using assms by (cases t; auto simp: visible_filter internal_tier_def tier_simps)+


definition lore_for_members :: "chunk list" where
  "lore_for_members = [\<lparr>ch_source_path = lit ''a.md'', ch_ord = 0, ch_text = lit ''t'', ch_score = 1/2, ch_access_tier = lit ''members''\<rparr>]"

definition member_identity :: anon_identity where
  "member_identity = \<lparr>ai_user_id = 7, ai_tier = Member, ai_fingerprint = None\<rparr>"

lemma member_authenticated:
  "auth_from_request proxy_sample_env (sample_call 2000 5) (cookie_headers ''h.p.s'') (sample_logged_in [9, 10]) =
     Inr \<lparr>au_user_id = 7, au_tier = Member, au_sid = 9\<rparr>"
proof -
  have same: "jwt_verify proxy_sample_env = jwt_verify gw_sample_env" "ge_parse_uuid proxy_sample_env = ge_parse_uuid gw_sample_env"
    "ge_db_pool proxy_sample_env = ge_db_pool gw_sample_env"
    by (simp_all add: jwt_verify_def fun_eq_iff proxy_sample_env_def)
  have "auth_from_request proxy_sample_env (sample_call 2000 5) (cookie_headers ''h.p.s'') (sample_logged_in [9, 10]) =
      auth_from_request gw_sample_env (sample_call 2000 5) (cookie_headers ''h.p.s'') (sample_logged_in [9, 10])"
    unfolding auth_from_request_def same by (rule refl)
  then show ?thesis by (simp add: sample_first)
qed

lemma member_resolved:
  "resolve_identity proxy_sample_env (sample_call 2000 5) (cookie_headers ''h.p.s'') (sample_logged_in [9, 10]) = Some (member_identity, None)"
  by (simp add: resolve_identity_def try_authenticate_agrees member_authenticated member_identity_def)

lemma member_request:
  "parse_request (wr_body (sample_worker_request member_identity)) (map_of (wr_headers (sample_worker_request member_identity))) =
     Inr \<lparr>rq_query = lit ''who'', rq_conversation_id = None, rq_user_id = sample_uuid, rq_user_tier = lit ''members'', rq_request_id = sample_uuid\<rparr>"
  using chat_request_parsed[OF proxy_sample_valid proxy_sample_format sample_uuid_shape proxy_sample_decoder, of member_identity "lit ''t''"]
  by (simp add: sample_worker_request_def member_identity_def internal_tier_def proxy_sample_env_def)


end
